(* ===== verification/Pex_Prelude.thy ===== *)
theory Pex_Prelude
  imports Complex_Main "HOL-Library.Char_ord" "HOL-Library.Sublist"
begin

text \<open>
  Shared vocabulary of the development: Python strings, Python values, results, timestamps, and
  the fact collections the component theories draw on.

  \<^item> A Python \<open>str\<close> is a \<open>string\<close>, a list of characters with code points below 256. Length,
    indexing and slicing count code points, as Python does. \<open>lower\<close> and \<open>casefold\<close> are Python's on
    this range, except that U+00B5 stays itself under \<open>casefold\<close> (its image lies outside).
    A literal of the source with a code point above 255 has no counterpart here.
  \<^item> A fallible computation has type \<open>'a result\<close>: \<open>Inl\<close> carries the message of the exception
    the code raises.
  \<^item> A JSON-like value (a \<open>dict[str, Any]\<close> payload) is a \<open>pyval\<close>; an association list keeps the
    insertion order of a \<open>dict\<close>, whose keys are distinct. Floats are rationals.
  \<^item> A \<open>datetime\<close> is a wall-clock reading in microseconds, with an offset from UTC when it is
    timezone-aware.
\<close>

named_theorems py_str_simps "facts on the Python string operations"
named_theorems enum_facts "value tables of the string enumerations"
named_theorems guard_facts "conditions under which a check of the code lets its input through"

type_synonym 'a result = "string + 'a"

section \<open>Results\<close>

definition bind_result :: "'a result \<Rightarrow> ('a \<Rightarrow> 'b result) \<Rightarrow> 'b result" where
  "bind_result r f = (case r of Inl e \<Rightarrow> Inl e | Inr x \<Rightarrow> f x)"

definition require :: "bool \<Rightarrow> string \<Rightarrow> unit result" where
  "require ok msg = (if ok then Inr () else Inl msg)"

definition succeeds :: "'a result \<Rightarrow> bool" where
  "succeeds r = (case r of Inl _ \<Rightarrow> False | Inr _ \<Rightarrow> True)"

lemma bind_result_simps [simp]:
  "bind_result (Inl e) f = Inl e"
  "bind_result (Inr x) f = f x"
  by (simp_all add: bind_result_def)

lemma bind_result_Inr_iff:
  "bind_result r f = Inr y \<longleftrightarrow> (\<exists>x. r = Inr x \<and> f x = Inr y)"
  by (cases r) simp_all

lemma require_Inr_iff [simp]: "require ok msg = Inr u \<longleftrightarrow> ok"
  by (simp add: require_def)

lemma require_True [simp]: "require True msg = Inr ()"
  by (simp add: require_def)

lemma require_False [simp]: "require False msg = Inl msg"
  by (simp add: require_def)

lemma succeeds_simps [simp]: "succeeds (Inl e) = False" "succeeds (Inr x) = True"
  by (simp_all add: succeeds_def)

lemma succeeds_iff: "succeeds r \<longleftrightarrow> (\<exists>x. r = Inr x)"
  by (cases r) simp_all

text \<open>A sequence of checks: the first one that fails gives the message.\<close>

fun first_failure :: "(bool \<times> string) list \<Rightarrow> unit result" where
  "first_failure [] = Inr ()"
| "first_failure ((bad, msg) # cs) = (if bad then Inl msg else first_failure cs)"

lemma first_failure_Inr_iff [simp]:
  "first_failure cs = Inr u \<longleftrightarrow> (\<forall>c \<in> set cs. \<not> fst c)"
  by (induction cs rule: first_failure.induct) auto

lemma succeeds_first_failure [simp]: "succeeds (first_failure cs) \<longleftrightarrow> (\<forall>c \<in> set cs. \<not> fst c)"
  by (induction cs rule: first_failure.induct) auto

declare first_failure.simps(2) [simp del]

lemma first_failure_known [simp]:
  "first_failure ((False, msg) # cs) = first_failure cs"
  "first_failure ((True, msg) # cs) = Inl msg"
  by (simp_all add: first_failure.simps)

fun map_result :: "('a \<Rightarrow> 'b result) \<Rightarrow> 'a list \<Rightarrow> 'b list result" where
  "map_result f [] = Inr []"
| "map_result f (x # xs) =
     bind_result (f x) (\<lambda>y. bind_result (map_result f xs) (\<lambda>ys. Inr (y # ys)))"

lemma map_result_Inr_length: "map_result f xs = Inr ys \<Longrightarrow> length ys = length xs"
  by (induction xs arbitrary: ys) (auto simp: bind_result_Inr_iff)

lemma map_result_Inr_nth:
  "map_result f xs = Inr ys \<Longrightarrow> i < length xs \<Longrightarrow> f (xs ! i) = Inr (ys ! i)"
proof (induction xs arbitrary: ys i)
  case (Cons x xs)
  then show ?case by (cases i) (auto simp: bind_result_Inr_iff)
qed simp

section \<open>Characters\<close>

abbreviation code :: "char \<Rightarrow> nat" where
  "code c \<equiv> of_char c"

definition is_space :: "char \<Rightarrow> bool" where
  "is_space c = (code c \<in> {9, 10, 11, 12, 13, 28, 29, 30, 31, 32, 133, 160})"

definition is_upper_ascii :: "char \<Rightarrow> bool" where
  "is_upper_ascii c = (65 \<le> code c \<and> code c \<le> 90)"

definition is_lower_ascii :: "char \<Rightarrow> bool" where
  "is_lower_ascii c = (97 \<le> code c \<and> code c \<le> 122)"

definition is_digit_ascii :: "char \<Rightarrow> bool" where
  "is_digit_ascii c = (48 \<le> code c \<and> code c \<le> 57)"

definition is_alpha_ascii :: "char \<Rightarrow> bool" where
  "is_alpha_ascii c = (is_upper_ascii c \<or> is_lower_ascii c)"

definition is_alnum_ascii :: "char \<Rightarrow> bool" where
  "is_alnum_ascii c = (is_alpha_ascii c \<or> is_digit_ascii c)"

text \<open>\<open>\\w\<close> of the regular expressions: letters, digits and the underscore.\<close>

definition is_word_char :: "char \<Rightarrow> bool" where
  "is_word_char c =
     (is_alnum_ascii c \<or> code c = 95 \<or>
      code c \<in> {170, 178, 179, 181, 185, 186, 188, 189, 190} \<or>
      (192 \<le> code c \<and> code c \<noteq> 215 \<and> code c \<noteq> 247))"

text \<open>A control character in the sense of the code's checks \<open>ord(char) < 0x20 or ord(char) == 0x7F\<close>.\<close>

definition is_control :: "char \<Rightarrow> bool" where
  "is_control c = (code c < 32 \<or> code c = 127)"

definition lower_char :: "char \<Rightarrow> char" where
  "lower_char c =
     (if is_upper_ascii c \<or> (192 \<le> code c \<and> code c \<le> 222 \<and> code c \<noteq> 215)
      then char_of (code c + 32) else c)"

text \<open>\<open>str.translate\<close> with a table that maps the capital ASCII letters to the small ones.\<close>

definition ascii_lower_char :: "char \<Rightarrow> char" where
  "ascii_lower_char c = (if is_upper_ascii c then char_of (code c + 32) else c)"

definition casefold_char :: "char \<Rightarrow> string" where
  "casefold_char c = (if code c = 223 then ''ss'' else [lower_char c])"

section \<open>Strings\<close>

definition lower :: "string \<Rightarrow> string" where
  "lower s = map lower_char s"

definition ascii_lower :: "string \<Rightarrow> string" where
  "ascii_lower s = map ascii_lower_char s"

definition casefold :: "string \<Rightarrow> string" where
  "casefold s = concat (map casefold_char s)"

definition lstrip :: "string \<Rightarrow> string" where
  "lstrip s = dropWhile is_space s"

definition rstrip_where :: "(char \<Rightarrow> bool) \<Rightarrow> string \<Rightarrow> string" where
  "rstrip_where p s = rev (dropWhile p (rev s))"

definition strip_where :: "(char \<Rightarrow> bool) \<Rightarrow> string \<Rightarrow> string" where
  "strip_where p s = rstrip_where p (dropWhile p s)"

definition strip :: "string \<Rightarrow> string" where
  "strip s = strip_where is_space s"

definition starts_with :: "string \<Rightarrow> string \<Rightarrow> bool" where
  "starts_with p s = (take (length p) s = p)"

definition ends_with :: "string \<Rightarrow> string \<Rightarrow> bool" where
  "ends_with p s = starts_with (rev p) (rev s)"

text \<open>\<open>needle in s\<close>.\<close>

fun contains :: "string \<Rightarrow> string \<Rightarrow> bool" where
  "contains p [] = (p = [])"
| "contains p (c # s) = (starts_with p (c # s) \<or> contains p s)"

definition replace_char :: "char \<Rightarrow> char \<Rightarrow> string \<Rightarrow> string" where
  "replace_char a b s = map (\<lambda>c. if c = a then b else c) s"

text \<open>\<open>s.split(sep)\<close> with a one-character separator: never empty.\<close>

fun split_char :: "char \<Rightarrow> string \<Rightarrow> string list" where
  "split_char d [] = [[]]"
| "split_char d (c # s) =
     (if c = d then [] # split_char d s
      else (case split_char d s of [] \<Rightarrow> [[c]] | p # ps \<Rightarrow> (c # p) # ps))"

text \<open>\<open>s.split(sep, 1)[0]\<close> and \<open>s.rsplit(sep, 1)[-1]\<close>.\<close>

definition before_char :: "char \<Rightarrow> string \<Rightarrow> string" where
  "before_char d s = takeWhile (\<lambda>c. c \<noteq> d) s"

definition after_last :: "char \<Rightarrow> string \<Rightarrow> string" where
  "after_last d s = rev (takeWhile (\<lambda>c. c \<noteq> d) (rev s))"

text \<open>\<open>s.split()\<close>: the maximal runs of non-space characters.\<close>

function split_ws :: "string \<Rightarrow> string list" where
  "split_ws s =
     (case lstrip s of [] \<Rightarrow> []
      | c # t \<Rightarrow> takeWhile (\<lambda>x. \<not> is_space x) (c # t)
                 # split_ws (dropWhile (\<lambda>x. \<not> is_space x) (c # t)))"
  by pat_completeness auto
termination
proof (relation "measure length")
  fix s c t
  assume h: "lstrip s = c # t"
  then have c: "\<not> is_space c"
    by (metis hd_dropWhile list.distinct(1) list.sel(1) lstrip_def)
  have "length (dropWhile (\<lambda>x. \<not> is_space x) (c # t)) \<le> length t"
    using c by (simp add: length_dropWhile_le)
  moreover have "length (c # t) \<le> length s"
    by (metis h length_dropWhile_le lstrip_def)
  ultimately show "(dropWhile (\<lambda>x. \<not> is_space x) (c # t), s) \<in> measure length"
    by simp
qed simp

declare split_ws.simps [simp del]

fun join :: "string \<Rightarrow> string list \<Rightarrow> string" where
  "join sep [] = []"
| "join sep [x] = x"
| "join sep (x # y # ys) = x @ sep @ join sep (y # ys)"

text \<open>\<open>s.replace(old, new)\<close> for a non-empty \<open>old\<close>: leftmost, without overlaps.\<close>

function replace_all :: "string \<Rightarrow> string \<Rightarrow> string \<Rightarrow> string" where
  "replace_all old new [] = []"
| "replace_all old new (c # s) =
     (if old \<noteq> [] \<and> starts_with old (c # s)
      then new @ replace_all old new (drop (length old) (c # s))
      else c # replace_all old new s)"
  by pat_completeness auto
termination
  by (relation "measure (\<lambda>(old, new, s). length s)") auto

definition remove_prefix :: "string \<Rightarrow> string \<Rightarrow> string" where
  "remove_prefix p s = (if starts_with p s then drop (length p) s else s)"

fun decimal :: "nat \<Rightarrow> string" where
  "decimal n =
     (if n < 10 then [char_of (48 + n)] else decimal (n div 10) @ [char_of (48 + n mod 10)])"

declare decimal.simps [simp del]

definition decimal_int :: "int \<Rightarrow> string" where
  "decimal_int i = (if i < 0 then CHR ''-'' # decimal (nat (- i)) else decimal (nat i))"

subsection \<open>Facts on strings\<close>

lemma lower_Nil [simp]: "lower [] = []"
  and lower_Cons [simp]: "lower (c # s) = lower_char c # lower s"
  and lower_append [simp]: "lower (s @ t) = lower s @ lower t"
  and length_lower [simp]: "length (lower s) = length s"
  by (simp_all add: lower_def)

lemma casefold_Nil [simp]: "casefold [] = []"
  and casefold_Cons [simp]: "casefold (c # s) = casefold_char c @ casefold s"
  and casefold_append [simp]: "casefold (s @ t) = casefold s @ casefold t"
  by (simp_all add: casefold_def)

lemma ascii_lower_Nil [simp]: "ascii_lower [] = []"
  and ascii_lower_Cons [simp]: "ascii_lower (c # s) = ascii_lower_char c # ascii_lower s"
  and ascii_lower_append [simp]: "ascii_lower (s @ t) = ascii_lower s @ ascii_lower t"
  and length_ascii_lower [simp]: "length (ascii_lower s) = length s"
  by (simp_all add: ascii_lower_def)

lemma ascii_lower_char_idem [simp]: "ascii_lower_char (ascii_lower_char c) = ascii_lower_char c"
  by (auto simp: ascii_lower_char_def is_upper_ascii_def of_char_of)

lemma ascii_lower_idem [simp]: "ascii_lower (ascii_lower s) = ascii_lower s"
  by (induction s) simp_all

lemma replace_char_Nil [simp]: "replace_char a b [] = []"
  and replace_char_Cons [simp]:
    "replace_char a b (c # s) = (if c = a then b else c) # replace_char a b s"
  and replace_char_append [simp]:
    "replace_char a b (s @ t) = replace_char a b s @ replace_char a b t"
  and length_replace_char [simp]: "length (replace_char a b s) = length s"
  by (simp_all add: replace_char_def)

lemma replace_char_eq_Nil [simp]: "replace_char a b s = [] \<longleftrightarrow> s = []"
  by (cases s) simp_all

lemma replace_char_notin: "a \<noteq> b \<Longrightarrow> a \<notin> set (replace_char a b s)"
  by (auto simp: replace_char_def)

lemma replace_char_id: "a \<notin> set s \<Longrightarrow> replace_char a b s = s"
  by (induction s) auto

lemma starts_with_Nil [simp]: "starts_with [] s"
  by (simp add: starts_with_def)

lemma starts_with_Cons [simp]:
  "starts_with (a # p) s \<longleftrightarrow> (case s of [] \<Rightarrow> False | c # t \<Rightarrow> a = c \<and> starts_with p t)"
  by (cases s) (auto simp: starts_with_def)

lemma starts_with_append [simp]: "starts_with p (p @ s)"
  by (simp add: starts_with_def)

lemma starts_with_iff: "starts_with p s \<longleftrightarrow> (\<exists>t. s = p @ t)"
  by (auto simp: starts_with_def) (metis append_take_drop_id)

lemma ends_with_iff: "ends_with p s \<longleftrightarrow> (\<exists>t. s = t @ p)"
  unfolding ends_with_def starts_with_iff by (metis rev_append rev_rev_ident)

lemma contains_iff: "contains p s \<longleftrightarrow> (\<exists>a b. s = a @ p @ b)"
proof (induction s)
  case (Cons c s)
  have "(\<exists>a b. c # s = a @ p @ b) \<longleftrightarrow> starts_with p (c # s) \<or> (\<exists>a b. s = a @ p @ b)"
    unfolding starts_with_iff by (metis append_Cons append_Nil append_eq_Cons_conv)
  with Cons.IH show ?case by simp
qed simp

lemma split_char_not_Nil [simp]: "split_char d s \<noteq> []"
  by (induction s) (auto split: list.split)

lemma join_split_char: "join [d] (split_char d s) = s"
proof (induction s)
  case (Cons c s)
  obtain p ps where p: "split_char d s = p # ps"
    by (cases "split_char d s") simp_all
  with Cons.IH show ?case by (cases ps) auto
qed simp

lemma split_char_notin: "p \<in> set (split_char d s) \<Longrightarrow> d \<notin> set p"
proof (induction s arbitrary: p)
  case (Cons c s)
  then show ?case by (cases "split_char d s") (auto split: if_splits)
qed simp

lemma split_char_subset: "p \<in> set (split_char d s) \<Longrightarrow> set p \<subseteq> set s"
proof (induction s arbitrary: p)
  case (Cons c s)
  then show ?case by (cases "split_char d s") (fastforce split: if_splits)+
qed simp

lemma split_char_id: "d \<notin> set s \<Longrightarrow> split_char d s = [s]"
  by (induction s) auto

lemma split_char_append: "d \<notin> set s \<Longrightarrow> split_char d (s @ d # t) = s # split_char d t"
  by (induction s) auto

lemma split_char_join:
  "cs \<noteq> [] \<Longrightarrow> \<forall>c \<in> set cs. d \<notin> set c \<Longrightarrow> split_char d (join [d] cs) = cs"
  by (induction cs rule: induct_list012) (auto simp: split_char_id split_char_append)

lemma replace_char_join:
  "\<forall>c \<in> set cs. a \<notin> set c \<Longrightarrow> replace_char a b (join [a] cs) = join [b] cs"
  by (induction cs rule: induct_list012) (auto simp: replace_char_id)

lemma ascii_lower_join: "ascii_lower (join sep cs) = join (ascii_lower sep) (map ascii_lower cs)"
  by (induction cs rule: induct_list012) auto

lemma set_join_subset: "set (join sep cs) \<subseteq> set sep \<union> (\<Union>c \<in> set cs. set c)"
  by (induction cs rule: induct_list012) auto

lemma strip_fixed: "t = [] \<or> (\<not> is_space (hd t) \<and> \<not> is_space (last t)) \<Longrightarrow> strip t = t"
proof (cases "t = []")
  case False
  assume "t = [] \<or> (\<not> is_space (hd t) \<and> \<not> is_space (last t))"
  with False have "dropWhile is_space t = t" "dropWhile is_space (rev t) = rev t"
    by (simp_all add: dropWhile_eq_self_iff hd_rev)
  then show ?thesis by (simp add: strip_def strip_where_def rstrip_where_def)
qed (simp add: strip_def strip_where_def rstrip_where_def)

lemma strip_ends: "strip s = [] \<or> (\<not> is_space (hd (strip s)) \<and> \<not> is_space (last (strip s)))"
proof (cases "strip s = []")
  case False
  let ?t = "dropWhile is_space s"
  obtain u where u: "?t = strip s @ u"
    unfolding strip_def strip_where_def rstrip_where_def
    by (metis rev_append rev_rev_ident takeWhile_dropWhile_id)
  with False have "?t \<noteq> []" by simp
  then have "\<not> is_space (hd ?t)" by (rule hd_dropWhile)
  moreover have "hd ?t = hd (strip s)" using False by (simp add: u)
  moreover have "\<not> is_space (last (strip s))"
    using False by (simp add: strip_def strip_where_def rstrip_where_def last_rev hd_dropWhile del: set_dropWhileD)
  ultimately show ?thesis by simp
qed simp

lemma strip_idem [simp]: "strip (strip s) = strip s"
  using strip_ends strip_fixed by blast

lemma set_strip: "set (strip s) \<subseteq> set s"
  by (auto simp: strip_def strip_where_def rstrip_where_def dest!: set_dropWhileD)

lemma before_char_Nil [simp]: "before_char d [] = []"
  and before_char_Cons [simp]:
    "before_char d (c # s) = (if c = d then [] else c # before_char d s)"
  by (simp_all add: before_char_def)

lemma before_char_id: "d \<notin> set s \<Longrightarrow> before_char d s = s"
  by (induction s) auto

section \<open>Python values\<close>

datatype pyval =
    PNone
  | PBool bool
  | PInt int
  | PFloat rat
  | PStr string
  | PList "pyval list"
  | PDict "(string \<times> pyval) list"

text \<open>\<open>bool(v)\<close>.\<close>

fun truthy :: "pyval \<Rightarrow> bool" where
  "truthy PNone = False"
| "truthy (PBool b) = b"
| "truthy (PInt i) = (i \<noteq> 0)"
| "truthy (PFloat q) = (q \<noteq> 0)"
| "truthy (PStr s) = (s \<noteq> [])"
| "truthy (PList vs) = (vs \<noteq> [])"
| "truthy (PDict kvs) = (kvs \<noteq> [])"

text \<open>\<open>d.get(key)\<close>, with \<open>None\<close> for a missing key.\<close>

definition dict_get :: "(string \<times> pyval) list \<Rightarrow> string \<Rightarrow> pyval" where
  "dict_get d k = (case map_of d k of None \<Rightarrow> PNone | Some v \<Rightarrow> v)"

definition dict_keys :: "(string \<times> pyval) list \<Rightarrow> string list" where
  "dict_keys d = map fst d"

text \<open>\<open>d if isinstance(d, dict) else {}\<close>.\<close>

fun dict_or_empty :: "pyval \<Rightarrow> (string \<times> pyval) list" where
  "dict_or_empty (PDict d) = d"
| "dict_or_empty _ = []"

fun as_string :: "pyval \<Rightarrow> string option" where
  "as_string (PStr s) = Some s"
| "as_string _ = None"

text \<open>\<open>type(v) is int\<close>: a \<open>bool\<close> is not accepted.\<close>

fun as_int :: "pyval \<Rightarrow> int option" where
  "as_int (PInt i) = Some i"
| "as_int _ = None"

lemma dict_get_Nil [simp]: "dict_get [] k = PNone"
  and dict_get_Cons [simp]: "dict_get ((k', v) # d) k = (if k = k' then v else dict_get d k)"
  by (simp_all add: dict_get_def)

lemma as_int_iff: "as_int v = Some i \<longleftrightarrow> v = PInt i"
  by (cases v) simp_all

lemma as_string_iff: "as_string v = Some s \<longleftrightarrow> v = PStr s"
  by (cases v) simp_all

section \<open>Timestamps\<close>

datatype datetime = Naive (wall: int) | Aware (wall: int) (utc_offset: int)

text \<open>
  \<open>_as_utc\<close>: a naive reading is taken as UTC, an aware one is converted. The result is the
  instant in microseconds. The calendar's range (years 1 to 9999) is not modelled.
\<close>

fun as_utc :: "datetime \<Rightarrow> int" where
  "as_utc (Naive t) = t"
| "as_utc (Aware t off) = t - off"

fun is_aware :: "datetime \<Rightarrow> bool" where
  "is_aware (Naive t) = False"
| "is_aware (Aware t off) = True"

text \<open>\<open>value + timedelta(seconds=n)\<close> keeps the timezone.\<close>

fun add_seconds :: "datetime \<Rightarrow> int \<Rightarrow> datetime" where
  "add_seconds (Naive t) n = Naive (t + n * 1000000)"
| "add_seconds (Aware t off) n = Aware (t + n * 1000000) off"

lemma as_utc_add_seconds [simp]: "as_utc (add_seconds t n) = as_utc t + n * 1000000"
  by (cases t) simp_all

end
