(* ===== verification/Char_Evaluation.thy ===== *)
theory Char_Evaluation
  imports Pex_Prelude
begin

text \<open>
  Evaluation of the character classes on the bits of a character. The definitions of
  \<open>Pex_Prelude\<close> compare code points, which symbolic evaluation turns into unary numbers; the
  equations below are decision trees on the eight bits, so that \<open>code_simp\<close> can run the pattern
  matcher and the string functions on the commands and paths of the examples.
\<close>

lemma is_space_code [code]:
  "is_space (Char b0 b1 b2 b3 b4 b5 b6 b7) =
     (if b7 then \<not> b6 \<and> (if b5 then \<not> b4 \<and> (\<not> b3 \<and> (\<not> b2
       \<and> (\<not> b1 \<and> (\<not> b0)))) else \<not> b4 \<and> (\<not> b3 \<and> (b2
       \<and> (\<not> b1 \<and> b0)))) else \<not> b6 \<and> (if b5 then (\<not> b4 \<and>
       (\<not> b3 \<and> (\<not> b2 \<and> (\<not> b1 \<and> (\<not> b0))))) else if b4 then b3
       \<and> b2 else b3 \<and> (if b2 then \<not> b1 else b1 \<or> b0)))"
  by (cases b0; cases b1; cases b2; cases b3; cases b4; cases b5; cases b6; cases b7)
    (simp_all add: is_space_def)

lemma is_upper_ascii_code [code]:
  "is_upper_ascii (Char b0 b1 b2 b3 b4 b5 b6 b7) =
     (\<not> b7 \<and> (b6 \<and> (\<not> b5 \<and> (if b4 then \<not> b3 \<or> (\<not> b2
       \<and> (\<not> b1 \<or> (\<not> b0))) else b3 \<or> (b2 \<or> (b1 \<or> b0))))))"
  by (cases b0; cases b1; cases b2; cases b3; cases b4; cases b5; cases b6; cases b7)
    (simp_all add: is_upper_ascii_def)

lemma is_lower_ascii_code [code]:
  "is_lower_ascii (Char b0 b1 b2 b3 b4 b5 b6 b7) =
     (\<not> b7 \<and> (b6 \<and> (b5 \<and> (if b4 then \<not> b3 \<or> (\<not> b2 \<and>
       (\<not> b1 \<or> (\<not> b0))) else b3 \<or> (b2 \<or> (b1 \<or> b0))))))"
  by (cases b0; cases b1; cases b2; cases b3; cases b4; cases b5; cases b6; cases b7)
    (simp_all add: is_lower_ascii_def)

lemma is_digit_ascii_code [code]:
  "is_digit_ascii (Char b0 b1 b2 b3 b4 b5 b6 b7) =
     (\<not> b7 \<and> (\<not> b6 \<and> (b5 \<and> (b4 \<and> (\<not> b3 \<or> (\<not> b2
       \<and> (\<not> b1)))))))"
  by (cases b0; cases b1; cases b2; cases b3; cases b4; cases b5; cases b6; cases b7)
    (simp_all add: is_digit_ascii_def)

lemma is_word_char_code [code]:
  "is_word_char (Char b0 b1 b2 b3 b4 b5 b6 b7) =
     (if b7 then (if b6 then \<not> b4 \<or> (b3 \<or> (\<not> b2 \<or> (\<not> b1 \<or> (\<not>
       b0)))) else b5 \<and> (if b4 then if b3 then (if b2 then (\<not> b1 \<or> (\<not> b0))
       else if b1 then \<not> b0 else b0) else if b2 then \<not> b1 \<and> b0 else b1 else b3
       \<and> (\<not> b2 \<and> (b1 \<and> (\<not> b0))))) else if b6 then if b5 then (if b4
       then \<not> b3 \<or> (\<not> b2 \<and> (\<not> b1 \<or> (\<not> b0))) else b3 \<or> (b2
       \<or> (b1 \<or> b0))) else if b4 then \<not> b3 \<or> (if b2 then b1 \<and> b0 else
       \<not> b1 \<or> (\<not> b0)) else b3 \<or> (b2 \<or> (b1 \<or> b0)) else b5 \<and> (b4
       \<and> (\<not> b3 \<or> (\<not> b2 \<and> (\<not> b1)))))"
  by (cases b0; cases b1; cases b2; cases b3; cases b4; cases b5; cases b6; cases b7)
    (simp_all add: is_word_char_def is_alnum_ascii_def is_alpha_ascii_def is_upper_ascii_def is_lower_ascii_def is_digit_ascii_def)

lemma is_control_code [code]:
  "is_control (Char b0 b1 b2 b3 b4 b5 b6 b7) =
     (\<not> b7 \<and> (if b6 then b5 \<and> (b4 \<and> (b3 \<and> (b2 \<and> (b1 \<and> b0))))
       else \<not> b5))"
  by (cases b0; cases b1; cases b2; cases b3; cases b4; cases b5; cases b6; cases b7)
    (simp_all add: is_control_def)

lemma lower_char_code [code]:
  "lower_char (Char b0 b1 b2 b3 b4 b5 b6 b7) =
     (if if b7 then b6 \<and> (\<not> b5 \<and> (\<not> b4 \<or> (\<not> b2 \<or> (\<not> b1
       \<or> (\<not> b0))))) else b6 \<and> (\<not> b5 \<and> (if b4 then \<not> b3 \<or>
       (\<not> b2 \<and> (\<not> b1 \<or> (\<not> b0))) else b3 \<or> (b2 \<or> (b1 \<or> b0))))
       then Char b0 b1 b2 b3 b4 True b6 b7 else Char b0 b1 b2 b3 b4 b5 b6 b7)"
  by (rule of_char_eq_iff [where 'a = nat, THEN iffD1], cases b0; cases b1; cases b2; cases b3; cases b4; cases b5; cases b6; cases b7)
    (simp_all add: lower_char_def is_upper_ascii_def of_char_of)

lemma ascii_lower_char_code [code]:
  "ascii_lower_char (Char b0 b1 b2 b3 b4 b5 b6 b7) =
     (if \<not> b7 \<and> (b6 \<and> (\<not> b5 \<and> (if b4 then \<not> b3 \<or> (\<not> b2
       \<and> (\<not> b1 \<or> (\<not> b0))) else b3 \<or> (b2 \<or> (b1 \<or> b0))))) then Char
       b0 b1 b2 b3 b4 True b6 b7 else Char b0 b1 b2 b3 b4 b5 b6 b7)"
  by (rule of_char_eq_iff [where 'a = nat, THEN iffD1], cases b0; cases b1; cases b2; cases b3; cases b4; cases b5; cases b6; cases b7)
    (simp_all add: ascii_lower_char_def is_upper_ascii_def of_char_of)

end
