(* ===== verification/Py_Regex.thy ===== *)
theory Py_Regex
  imports Char_Evaluation
begin

text \<open>
  The part of Python's \<open>re\<close> module the code uses, as an executable backtracking matcher.
  A match state holds the text already read (reversed), the text still to read and the named
  groups captured so far. \<open>matches r st\<close> lists the states in which the pattern can leave the
  matcher, in the order in which Python's engine tries them: the first element is the match Python
  reports. The pattern of a group, a bounded repetition or a case-insensitive literal is built
  from the constructors by the definitions below.
\<close>

section \<open>Patterns\<close>

datatype rx =
    REps
  | RChr "char \<Rightarrow> bool"
  | RSeq rx rx
  | RAlt rx rx
  | RStar rx
  | RLazy rx
  | RBol
  | REol
  | RWordB
  | RNot rx
  | RGroup string rx
  | RBehind "char \<Rightarrow> bool"

record rstate =
  consumed :: string
  rest :: string
  groups :: "(string \<times> string) list"

definition at_word_boundary :: "rstate \<Rightarrow> bool" where
  "at_word_boundary st =
     ((case consumed st of [] \<Rightarrow> False | c # _ \<Rightarrow> is_word_char c)
      \<noteq> (case rest st of [] \<Rightarrow> False | c # _ \<Rightarrow> is_word_char c))"

text \<open>\<open>$\<close> without \<open>MULTILINE\<close>: at the end, or before a final newline.\<close>

definition at_end :: "rstate \<Rightarrow> bool" where
  "at_end st = (rest st = [] \<or> rest st = [CHR 0x0A])"

definition read_between :: "rstate \<Rightarrow> rstate \<Rightarrow> string" where
  "read_between st st' = take (length (rest st) - length (rest st')) (rest st)"

function matches :: "rx \<Rightarrow> rstate \<Rightarrow> rstate list" where
  "matches REps st = [st]"
| "matches (RChr p) st =
     (case rest st of [] \<Rightarrow> []
      | c # s \<Rightarrow> if p c then [st\<lparr>consumed := c # consumed st, rest := s\<rparr>] else [])"
| "matches (RSeq a b) st = concat (map (\<lambda>st'. matches b st') (matches a st))"
| "matches (RAlt a b) st = matches a st @ matches b st"
| "matches (RStar a) st =
     concat (map (\<lambda>st'. if length (rest st') < length (rest st) then matches (RStar a) st' else [])
               (matches a st)) @ [st]"
| "matches (RLazy a) st =
     st # concat (map (\<lambda>st'. if length (rest st') < length (rest st) then matches (RLazy a) st' else [])
               (matches a st))"
| "matches RBol st = (if consumed st = [] then [st] else [])"
| "matches REol st = (if at_end st then [st] else [])"
| "matches RWordB st = (if at_word_boundary st then [st] else [])"
| "matches (RNot a) st = (if matches a st = [] then [st] else [])"
| "matches (RGroup n a) st =
     map (\<lambda>st'. st'\<lparr>groups := (n, read_between st st') # groups st'\<rparr>) (matches a st)"
| "matches (RBehind p) st =
     (case consumed st of [] \<Rightarrow> [] | c # _ \<Rightarrow> if p c then [st] else [])"
  by pat_completeness auto
termination
  by (relation "measures [\<lambda>(r, st). size r, \<lambda>(r, st). length (rest st)]") auto

text \<open>The equations of the two repetitions call themselves under a test: they are unfolded by hand.\<close>

lemmas matches_star = matches.simps(5)
lemmas matches_lazy = matches.simps(6)
declare matches.simps(5) [simp del] matches.simps(6) [simp del]

section \<open>Derived patterns\<close>

definition rchar :: "char \<Rightarrow> rx" where
  "rchar c = RChr (\<lambda>x. x = c)"

definition rchar_ci :: "char \<Rightarrow> rx" where
  "rchar_ci c = RChr (\<lambda>x. lower_char x = lower_char c)"

definition rset :: "string \<Rightarrow> rx" where
  "rset cs = RChr (\<lambda>x. x \<in> set cs)"

definition rnotset :: "string \<Rightarrow> rx" where
  "rnotset cs = RChr (\<lambda>x. x \<notin> set cs)"

definition rlit :: "string \<Rightarrow> rx" where
  "rlit s = foldr (\<lambda>c r. RSeq (rchar c) r) s REps"

definition rlit_ci :: "string \<Rightarrow> rx" where
  "rlit_ci s = foldr (\<lambda>c r. RSeq (rchar_ci c) r) s REps"

definition rseq :: "rx list \<Rightarrow> rx" where
  "rseq rs = foldr RSeq rs REps"

fun ralt :: "rx list \<Rightarrow> rx" where
  "ralt [] = RNot REps"
| "ralt [r] = r"
| "ralt (r # rs) = RAlt r (ralt rs)"

definition ropt :: "rx \<Rightarrow> rx" where
  "ropt r = RAlt r REps"

definition rplus :: "rx \<Rightarrow> rx" where
  "rplus r = RSeq r (RStar r)"

fun rtimes :: "nat \<Rightarrow> rx \<Rightarrow> rx" where
  "rtimes 0 r = REps"
| "rtimes (Suc n) r = RSeq r (rtimes n r)"

fun rupto :: "nat \<Rightarrow> rx \<Rightarrow> rx" where
  "rupto 0 r = REps"
| "rupto (Suc n) r = RAlt (RSeq r (rupto n r)) REps"

text \<open>\<open>r{n,}\<close>.\<close>

definition ratleast :: "nat \<Rightarrow> rx \<Rightarrow> rx" where
  "ratleast n r = RSeq (rtimes n r) (RStar r)"

text \<open>\<open>^\<close> with \<open>MULTILINE\<close>.\<close>

definition rline_start :: rx where
  "rline_start = RAlt RBol (RBehind (\<lambda>c. c = CHR 0x0A))"

definition rdot :: rx where
  "rdot = RChr (\<lambda>c. code c \<noteq> 10)"

definition rspace :: rx where
  "rspace = RChr is_space"

definition rnonspace :: rx where
  "rnonspace = RChr (\<lambda>c. \<not> is_space c)"

definition rdigit :: rx where
  "rdigit = RChr is_digit_ascii"

section \<open>The entry points of \<open>re\<close>\<close>

definition start_state :: "string \<Rightarrow> string \<Rightarrow> rstate" where
  "start_state pre s = \<lparr>consumed = pre, rest = s, groups = []\<rparr>"

definition rx_match :: "rx \<Rightarrow> string \<Rightarrow> rstate option" where
  "rx_match r s = (case matches r (start_state [] s) of [] \<Rightarrow> None | st # _ \<Rightarrow> Some st)"

definition rx_fullmatch :: "rx \<Rightarrow> string \<Rightarrow> rstate option" where
  "rx_fullmatch r s = find (\<lambda>st. rest st = []) (matches r (start_state [] s))"

text \<open>Leftmost search: the text before the match, and the state after it.\<close>

fun search_from :: "rx \<Rightarrow> string \<Rightarrow> string \<Rightarrow> (string \<times> string \<times> rstate) option" where
  "search_from r pre s =
     (case matches r (start_state pre s) of
        st # _ \<Rightarrow> Some (pre, s, st)
      | [] \<Rightarrow> (case s of [] \<Rightarrow> None | c # t \<Rightarrow> search_from r (c # pre) t))"

declare search_from.simps [simp del]

definition rx_search :: "rx \<Rightarrow> string \<Rightarrow> (string \<times> string \<times> rstate) option" where
  "rx_search r s = search_from r [] s"

definition rx_found :: "rx \<Rightarrow> string \<Rightarrow> bool" where
  "rx_found r s = (rx_search r s \<noteq> None)"

definition rx_matches :: "rx \<Rightarrow> string \<Rightarrow> bool" where
  "rx_matches r s = (rx_match r s \<noteq> None)"

definition rx_fullmatches :: "rx \<Rightarrow> string \<Rightarrow> bool" where
  "rx_fullmatches r s = (rx_fullmatch r s \<noteq> None)"

definition group_of :: "rstate \<Rightarrow> string \<Rightarrow> string option" where
  "group_of st n = map_of (groups st) n"

section \<open>Facts on the matcher\<close>

text \<open>The matcher reads forward: the text read and the text left always make up the input.\<close>

lemma matches_star_cases:
  assumes "st' \<in> set (matches (RStar a) st)"
  obtains "st' = st"
  | st1 where "st1 \<in> set (matches a st)" "length (rest st1) < length (rest st)"
      "st' \<in> set (matches (RStar a) st1)"
  using assms by (subst (asm) matches_star) (auto split: if_splits)

lemma matches_lazy_cases:
  assumes "st' \<in> set (matches (RLazy a) st)"
  obtains "st' = st"
  | st1 where "st1 \<in> set (matches a st)" "length (rest st1) < length (rest st)"
      "st' \<in> set (matches (RLazy a) st1)"
  using assms by (subst (asm) matches_lazy) (auto split: if_splits)

lemma matches_text:
  "st' \<in> set (matches r st) \<Longrightarrow> rev (consumed st') @ rest st' = rev (consumed st) @ rest st"
proof (induction r st arbitrary: st' rule: matches.induct)
  case (2 p st)
  then show ?case by (auto split: list.splits if_splits)
next
  case (5 a st)
  from "5.prems" show ?case by (rule matches_star_cases) (use "5.IH" in auto)
next
  case (6 a st)
  from "6.prems" show ?case by (rule matches_lazy_cases) (use "6.IH" in auto)
qed (auto split: if_splits list.splits)

lemma matches_length: "st' \<in> set (matches r st) \<Longrightarrow> length (rest st') \<le> length (rest st)"
proof (induction r st arbitrary: st' rule: matches.induct)
  case (2 p st)
  then show ?case by (cases "rest st") (auto split: if_splits)
next
  case (3 a b st)
  then obtain st1 where "st1 \<in> set (matches a st)" "st' \<in> set (matches b st1)" by auto
  with "3.IH" show ?case by (meson le_trans)
next
  case (5 a st)
  from "5.prems" show ?case
    by (rule matches_star_cases) (use "5.IH" in \<open>auto dest: le_trans less_imp_le\<close>)
next
  case (6 a st)
  from "6.prems" show ?case
    by (rule matches_lazy_cases) (use "6.IH" in \<open>auto dest: le_trans less_imp_le\<close>)
qed (auto split: if_splits list.splits)

lemma all_splits_Cons:
  "(\<forall>a b. c # s = a @ b \<longrightarrow> P a b) \<longleftrightarrow> P [] (c # s) \<and> (\<forall>a b. s = a @ b \<longrightarrow> P (c # a) b)"
  by (auto simp: Cons_eq_append_conv)

lemma search_from_None_iff:
  "search_from r pre s = None \<longleftrightarrow>
     (\<forall>a b. s = a @ b \<longrightarrow> matches r (start_state (rev a @ pre) b) = [])"
proof (induction s arbitrary: pre)
  case Nil
  then show ?case by (subst search_from.simps) (auto split: list.split)
next
  case (Cons c s)
  have "search_from r pre (c # s) = None \<longleftrightarrow>
      matches r (start_state pre (c # s)) = [] \<and> search_from r (c # pre) s = None"
    by (subst search_from.simps) (simp split: list.split)
  also have "\<dots> \<longleftrightarrow> (\<forall>a b. c # s = a @ b \<longrightarrow> matches r (start_state (rev a @ pre) b) = [])"
    unfolding all_splits_Cons Cons.IH by simp
  finally show ?case .
qed

lemma rx_found_iff:
  "rx_found r s \<longleftrightarrow> (\<exists>a b. s = a @ b \<and> matches r (start_state (rev a) b) \<noteq> [])"
  unfolding rx_found_def rx_search_def search_from_None_iff by auto

lemma rx_found_RAlt [simp]: "rx_found (RAlt a b) s \<longleftrightarrow> rx_found a s \<or> rx_found b s"
  unfolding rx_found_iff by auto

lemma rx_found_RChr [simp]: "rx_found (RChr p) s \<longleftrightarrow> (\<exists>c \<in> set s. p c)"
proof
  assume "rx_found (RChr p) s"
  then obtain a b where s: "s = a @ b" and m: "matches (RChr p) (start_state (rev a) b) \<noteq> []"
    unfolding rx_found_iff by blast
  from m show "\<exists>c \<in> set s. p c"
    by (cases b) (auto simp: s start_state_def split: if_splits)
next
  assume "\<exists>c \<in> set s. p c"
  then obtain c a b where "s = a @ c # b" "p c" by (metis split_list)
  then show "rx_found (RChr p) s"
    unfolding rx_found_iff by (intro exI [of _ a] exI [of _ "c # b"]) (simp add: start_state_def)
qed

lemma matches_rlit:
  "matches (rlit p) st =
     (if starts_with p (rest st)
      then [st\<lparr>consumed := rev p @ consumed st, rest := drop (length p) (rest st)\<rparr>] else [])"
proof (induction p arbitrary: st)
  case Nil
  then show ?case by (simp add: rlit_def)
next
  case (Cons c p)
  show ?case
  proof (cases "rest st")
    case Nil
    then show ?thesis by (simp add: rlit_def rchar_def)
  next
    case (Cons d t)
    then show ?thesis
      using Cons.IH [of "st\<lparr>consumed := d # consumed st, rest := t\<rparr>"]
      by (auto simp: rlit_def rchar_def)
  qed
qed

lemma rx_found_rlit [simp]: "rx_found (rlit p) s \<longleftrightarrow> contains p s"
proof -
  have "rx_found (rlit p) s \<longleftrightarrow> (\<exists>a b. s = a @ b \<and> starts_with p b)"
    by (auto simp: rx_found_iff matches_rlit start_state_def)
  also have "\<dots> \<longleftrightarrow> contains p s"
    unfolding contains_iff starts_with_iff by blast
  finally show ?thesis .
qed

text \<open>An anchored pattern can only be found at the start.\<close>

lemma rx_found_anchored: "rx_found (RSeq RBol r) s \<longleftrightarrow> rx_matches r s"
proof -
  have "matches (RSeq RBol r) (start_state (rev a) b) \<noteq> [] \<longleftrightarrow>
      a = [] \<and> matches r (start_state [] b) \<noteq> []" for a b
    by (auto simp: start_state_def)
  then show ?thesis
    by (auto simp: rx_found_iff rx_matches_def rx_match_def split: list.splits)
qed

section \<open>Substitution\<close>

text \<open>
  \<open>pattern.sub(replacement, s)\<close> for a pattern that never matches the empty string: the leftmost
  match is replaced, and the scan goes on behind it.
\<close>

function sub_from :: "rx \<Rightarrow> string \<Rightarrow> string \<Rightarrow> string \<Rightarrow> string" where
  "sub_from r new pre s =
     (case matches r (start_state pre s) of
        st # _ \<Rightarrow>
          if length (rest st) < length s then new @ sub_from r new (consumed st) (rest st)
          else (case s of [] \<Rightarrow> [] | c # t \<Rightarrow> c # sub_from r new (c # pre) t)
      | [] \<Rightarrow> (case s of [] \<Rightarrow> [] | c # t \<Rightarrow> c # sub_from r new (c # pre) t))"
  by pat_completeness auto
termination
  by (relation "measure (\<lambda>(r, new, pre, s). length s)") auto

declare sub_from.simps [simp del]

definition rx_sub :: "rx \<Rightarrow> string \<Rightarrow> string \<Rightarrow> string" where
  "rx_sub r new s = sub_from r new [] s"

lemma sub_from_unfound: "search_from r pre s = None \<Longrightarrow> sub_from r new pre s = s"
proof (induction s arbitrary: pre)
  case Nil
  then show ?case
    by (subst sub_from.simps) (auto simp: search_from.simps [of r pre "[]"] split: list.splits)
next
  case (Cons c s)
  have "matches r (start_state pre (c # s)) = []"
    using Cons.prems by (subst (asm) search_from.simps) (auto split: list.splits)
  moreover have "search_from r (c # pre) s = None"
    using Cons.prems calculation by (subst (asm) search_from.simps) simp
  ultimately show ?case
    using Cons.IH [of "c # pre"] by (subst sub_from.simps) simp
qed

lemma rx_sub_unfound: "\<not> rx_found r s \<Longrightarrow> rx_sub r new s = s"
  by (simp add: rx_found_def rx_search_def rx_sub_def sub_from_unfound del: not_None_eq)

section \<open>Splitting and listing\<close>

text \<open>
  \<open>pattern.split(s)\<close> and \<open>pattern.findall(s)\<close> (for a pattern without groups), for a pattern that
  never matches the empty string. \<open>acc\<close> is the current piece, reversed.
\<close>

function split_from :: "rx \<Rightarrow> string \<Rightarrow> string \<Rightarrow> string \<Rightarrow> string list" where
  "split_from r acc pre s =
     (case matches r (start_state pre s) of
        st # _ \<Rightarrow>
          if length (rest st) < length s then rev acc # split_from r [] (consumed st) (rest st)
          else (case s of [] \<Rightarrow> [rev acc] | c # t \<Rightarrow> split_from r (c # acc) (c # pre) t)
      | [] \<Rightarrow> (case s of [] \<Rightarrow> [rev acc] | c # t \<Rightarrow> split_from r (c # acc) (c # pre) t))"
  by pat_completeness auto
termination
  by (relation "measure (\<lambda>(r, acc, pre, s). length s)") auto

declare split_from.simps [simp del]

definition rx_split :: "rx \<Rightarrow> string \<Rightarrow> string list" where
  "rx_split r s = split_from r [] [] s"

function findall_from :: "rx \<Rightarrow> string \<Rightarrow> string \<Rightarrow> string list" where
  "findall_from r pre s =
     (case matches r (start_state pre s) of
        st # _ \<Rightarrow>
          if length (rest st) < length s
          then take (length s - length (rest st)) s # findall_from r (consumed st) (rest st)
          else (case s of [] \<Rightarrow> [] | c # t \<Rightarrow> findall_from r (c # pre) t)
      | [] \<Rightarrow> (case s of [] \<Rightarrow> [] | c # t \<Rightarrow> findall_from r (c # pre) t))"
  by pat_completeness auto
termination
  by (relation "measure (\<lambda>(r, pre, s). length s)") auto

declare findall_from.simps [simp del]

definition rx_findall :: "rx \<Rightarrow> string \<Rightarrow> string list" where
  "rx_findall r s = findall_from r [] s"

text \<open>The text of a match found by \<open>rx_search\<close>: \<open>match.group(0)\<close>.\<close>

definition match_text :: "string \<times> string \<times> rstate \<Rightarrow> string" where
  "match_text m = (case m of (pre, s, st) \<Rightarrow> take (length s - length (rest st)) s)"

end
