(* ===== verification/Test_Invocation.thy ===== *)
theory Test_Invocation
  imports Py_Regex "HOL-Library.Multiset"
begin

text \<open>
  \<open>packages/protocol/src/pex_protocol/verification.py\<close>, first half: the classifiers that decide
  whether an observed command line is one direct \<open>pytest\<close> or \<open>python -m unittest\<close> run, and
  whether it covers the full suite. The chain is: reject shell composition, tokenise with
  \<open>shlex\<close>, strip a recognised launcher (\<open>uv run\<close>, \<open>poetry run\<close>, \<open>python -m\<close>), scan the
  arguments, build the frozen \<open>PytestInvocation\<close> or \<open>UnittestInvocation\<close> under its validators.
  \<open>Inl\<close> is the pydantic \<open>ValidationError\<close> of that last step; \<open>Inr None\<close> is the code's \<open>None\<close>.
\<close>

section \<open>Shell syntax\<close>

abbreviation squote :: char where "squote \<equiv> CHR 0x27"
abbreviation dquote :: char where "dquote \<equiv> CHR 0x22"
abbreviation backslash :: char where "backslash \<equiv> CHR 0x5C"
abbreviation backtick :: char where "backtick \<equiv> CHR 0x60"

definition composing_chars :: string where
  "composing_chars = '';&|<>'' @ [CHR 0x0D, CHR 0x0A] @ ''()''"

text \<open>The scan's state: the open quote, and whether the previous character escaped this one.\<close>

fun shell_syntax_from :: "char option \<Rightarrow> bool \<Rightarrow> string \<Rightarrow> bool" where
  "shell_syntax_from quote escaped [] = (quote \<noteq> None)"
| "shell_syntax_from quote escaped (c # s) =
     (if quote \<noteq> Some squote \<and> starts_with ''$('' (c # s) then True
      else if quote \<noteq> Some squote \<and> c = backtick then True
      else if escaped then shell_syntax_from quote False s
      else if quote = Some squote then
        shell_syntax_from (if c = squote then None else quote) False s
      else if c = backslash \<and> quote = Some dquote then shell_syntax_from quote True s
      else if c \<in> {squote, dquote} then
        shell_syntax_from
          (if quote = Some c then None else if quote = None then Some c else quote) False s
      else if quote = None \<and> c \<in> set composing_chars then True
      else shell_syntax_from quote False s)"

definition command_has_shell_syntax :: "string \<Rightarrow> bool" where
  "command_has_shell_syntax command = shell_syntax_from None False command"

section \<open>Tokens\<close>

text \<open>
  \<open>shlex.split(command, posix=False)\<close>: whitespace separates words; a quote that opens a word ends
  it at the closing quote, both quotes kept; a quote inside a word is an ordinary character.
\<close>

datatype shlex_state = LexBlank | LexWord | LexQuote char

definition shlex_space :: "char \<Rightarrow> bool" where
  "shlex_space c = (c \<in> {CHR '' '', CHR 0x09, CHR 0x0D, CHR 0x0A})"

fun shlex_from :: "shlex_state \<Rightarrow> string \<Rightarrow> string \<Rightarrow> string list result" where
  "shlex_from LexBlank tok [] = Inr []"
| "shlex_from LexBlank tok (c # s) =
     (if shlex_space c then shlex_from LexBlank [] s
      else if c \<in> {squote, dquote} then shlex_from (LexQuote c) [c] s
      else shlex_from LexWord [c] s)"
| "shlex_from LexWord tok [] = Inr [tok]"
| "shlex_from LexWord tok (c # s) =
     (if shlex_space c
      then bind_result (shlex_from LexBlank [] s) (\<lambda>toks. Inr (tok # toks))
      else shlex_from LexWord (tok @ [c]) s)"
| "shlex_from (LexQuote q) tok [] = Inl ''No closing quotation''"
| "shlex_from (LexQuote q) tok (c # s) =
     (if c = q
      then bind_result (shlex_from LexBlank [] s) (\<lambda>toks. Inr ((tok @ [c]) # toks))
      else shlex_from (LexQuote q) (tok @ [c]) s)"

definition shlex_split :: "string \<Rightarrow> string list result" where
  "shlex_split s = shlex_from LexBlank [] s"

definition unquote_token :: "string \<Rightarrow> string" where
  "unquote_token token =
     (if 2 \<le> length token \<and> hd token = last token \<and> hd token \<in> {squote, dquote}
      then butlast (tl token) else token)"

definition bad_token :: "string \<Rightarrow> bool" where
  "bad_token item = (item = [] \<or> 4096 < length item)"

definition command_tokens :: "string \<Rightarrow> string list option" where
  "command_tokens command =
     (if strip command = [] \<or> 16384 < length command \<or> command_has_shell_syntax command
      then None
      else (case shlex_split command of
              Inl _ \<Rightarrow> None
            | Inr toks \<Rightarrow>
                (let tokens = map unquote_token toks
                 in if tokens = [] \<or> (\<exists>item \<in> set tokens. bad_token item) then None
                    else Some tokens)))"

section \<open>Launchers\<close>

definition executable_name :: "string \<Rightarrow> string" where
  "executable_name token =
     casefold (after_last (CHR ''/'') (replace_char backslash (CHR ''/'') token))"

text \<open>\<open>_PYTHON_RUNNER\<close>.\<close>

definition python_runner :: rx where
  "python_runner =
     rseq [RBol,
       RAlt (rseq [rlit_ci ''python'',
                   ropt (rseq [rplus rdigit, RStar (RSeq (rchar (CHR ''.'')) (rplus rdigit))])])
            (rlit_ci ''py''),
       ropt (rlit_ci ''.exe''), REol]"

definition is_python_runner :: "string \<Rightarrow> bool" where
  "is_python_runner executable = rx_fullmatches python_runner executable"

definition pytest_executables :: "string list" where
  "pytest_executables = [''pytest'', ''pytest.exe'', ''py.test'', ''py.test.exe'']"

definition uv_executables :: "string list" where
  "uv_executables = [''uv'', ''uv.exe'']"

definition wrapper_executables :: "string list" where
  "wrapper_executables =
     [''uv'', ''uv.exe'', ''poetry'', ''poetry.exe'', ''pipenv'', ''pipenv.exe'']"

definition uv_safe_boolean_flags :: "string list" where
  "uv_safe_boolean_flags = [''--frozen'', ''--locked'', ''--no-sync'']"

definition uv_scope_invalidating_boolean_flags :: "string list" where
  "uv_scope_invalidating_boolean_flags = [''--active'', ''--isolated'', ''--no-project'']"

definition uv_scope_invalidating_value_flags :: "string list" where
  "uv_scope_invalidating_value_flags =
     [''--directory'', ''--env-file'', ''--index'', ''--project'', ''--python'', ''--with'']"

text \<open>
  The loop over the flags of \<open>uv run\<close>. The result holds the first scope-invalidating flag and
  the arguments from which the child command starts; \<open>None\<close> when the boundary is not clear.
\<close>

fun uv_run_flags :: "string option \<Rightarrow> string list \<Rightarrow> (string option \<times> string list) option" where
  "uv_run_flags invalidating [] = Some (invalidating, [])"
| "uv_run_flags invalidating (token # argv) =
     (if \<not> starts_with ''-'' token then Some (invalidating, token # argv)
      else
        let flag = before_char (CHR ''='') token;
            marked = (case invalidating of None \<Rightarrow> Some (''uv run '' @ flag) | Some f \<Rightarrow> Some f)
        in if flag = ''--'' then Some (invalidating, argv)
           else if flag \<in> set uv_safe_boolean_flags then uv_run_flags invalidating argv
           else if flag \<in> set uv_scope_invalidating_boolean_flags then uv_run_flags marked argv
           else if flag \<in> set uv_scope_invalidating_value_flags then
             (if CHR ''='' \<in> set token then uv_run_flags marked argv
              else (case argv of [] \<Rightarrow> None | _ # argv' \<Rightarrow> uv_run_flags marked argv'))
           else None)"

lemma uv_run_flags_length:
  "uv_run_flags iv argv = Some (iv', argv') \<Longrightarrow> length argv' \<le> length argv"
proof (induction iv argv arbitrary: iv' argv' rule: uv_run_flags.induct)
  case (2 invalidating token argv)
  then show ?case
    by (fastforce simp: Let_def split: if_splits option.splits list.splits)
qed simp

text \<open>\<open>_UnwrappedArgv\<close>: the test runner's own arguments, and the wrapper flag that voids their scope.\<close>

type_synonym unwrapped_argv = "string list \<times> string option"

definition attach_flag :: "string option \<Rightarrow> unwrapped_argv \<Rightarrow> unwrapped_argv" where
  "attach_flag invalidating child =
     (if invalidating \<noteq> None \<and> snd child = None then (fst child, invalidating) else child)"

text \<open>
  The two unwrapping functions differ in the executables that are the runner itself and in the
  modname name that follows \<open>-m\<close>; the recursion is shared.
\<close>

function launcher_arguments :: "string list \<Rightarrow> string \<Rightarrow> string list \<Rightarrow> unwrapped_argv option" where
  "launcher_arguments exes modname [] = None"
| "launcher_arguments exes modname (arg0 # argv) =
     (let executable = executable_name arg0
      in if executable \<in> set exes then Some (argv, None)
         else if is_python_runner executable then
           (case argv of
              m # name # args \<Rightarrow>
                if m = ''-m'' \<and> casefold name = modname then Some (args, None) else None
            | _ \<Rightarrow> None)
         else if executable \<in> set wrapper_executables then
           (case argv of
              run # arg2 # args \<Rightarrow>
                if casefold run \<noteq> ''run'' then None
                else if executable \<in> set uv_executables then
                  (case uv_run_flags None (arg2 # args) of
                     None \<Rightarrow> None
                   | Some (invalidating, child) \<Rightarrow>
                       map_option (attach_flag invalidating)
                         (launcher_arguments exes modname child))
                else launcher_arguments exes modname (if arg2 = ''--'' then args else arg2 # args)
            | _ \<Rightarrow> None)
         else None)"
  by pat_completeness auto
termination
proof (relation "measure (\<lambda>(exes, modname, argv). length argv)")
  fix exes modname arg0 argv run x arg2 args f and invalidating :: "string option" and child
  assume "argv = run # x" "x = arg2 # args" "uv_run_flags None (arg2 # args) = Some f"
    "(invalidating, child) = f"
  then have "length child \<le> length (arg2 # args)" by (metis uv_run_flags_length)
  then show "((exes, modname, child), (exes, modname, arg0 # argv)) \<in> measure (\<lambda>(exes, modname, argv). length argv)"
    using \<open>argv = run # x\<close> \<open>x = arg2 # args\<close> by simp
qed auto

definition pytest_arguments :: "string list \<Rightarrow> unwrapped_argv option" where
  "pytest_arguments argv = launcher_arguments pytest_executables ''pytest'' argv"

definition unittest_arguments :: "string list \<Rightarrow> unwrapped_argv option" where
  "unittest_arguments argv = launcher_arguments [] ''unittest'' argv"

section \<open>Invocations\<close>

datatype invocation_scope = FULL_SUITE | TARGETED

record pytest_invocation =
  argv :: "string list"
  scope :: invocation_scope
  selectors :: "string list"
  relative_targets :: "string list"
  selection_flags :: "string list"

text \<open>Field constraints shared by the tuples of both models.\<close>

definition bounded_items :: "string list \<Rightarrow> bool" where
  "bounded_items items = (length items \<le> 128 \<and> (\<forall>x \<in> set items. \<not> bad_token x))"

text \<open>\<open>PytestInvocation\<close>: the field constraints and \<open>validate_scope\<close>.\<close>

definition valid_pytest_invocation :: "pytest_invocation \<Rightarrow> bool" where
  "valid_pytest_invocation i =
     (argv i \<noteq> [] \<and> bounded_items (argv i) \<and> bounded_items (selectors i) \<and>
      bounded_items (relative_targets i) \<and> bounded_items (selection_flags i) \<and>
      mset (selectors i) = mset (relative_targets i) + mset (selection_flags i) \<and>
      (scope i = FULL_SUITE \<longrightarrow> selectors i = []) \<and>
      (scope i = TARGETED \<longrightarrow> selectors i \<noteq> []))"

definition targeted_flags :: "string list" where
  "targeted_flags =
     [''--deselect'', ''--failed-first'', ''--ff'', ''--ignore'', ''--ignore-glob'', ''--keyword'',
      ''--last-failed'', ''--lf'', ''--markexpr'', ''--new-first'', ''--nf'', ''--stepwise'',
      ''--stepwise-skip'', ''--sw'', ''-k'', ''-m'']"

definition rejected_modes :: "string list" where
  "rejected_modes =
     [''--co'', ''--collect-only'', ''--collectonly'', ''--fixtures'', ''--fixtures-per-test'',
      ''--funcargs'', ''--help'', ''--markers'', ''--setup-only'', ''--setup-plan'',
      ''--trace-config'', ''--version'', ''-h'']"

definition safe_value_flags :: "string list" where
  "safe_value_flags =
     [''--basetemp'', ''--capture'', ''--code-highlight'', ''--color'', ''--cov'', ''--cov-config'',
      ''--cov-report'', ''--dist'', ''--durations'', ''--durations-min'', ''--html'',
      ''--import-mode'', ''--junit-prefix'', ''--junitxml'', ''--log-cli-date-format'',
      ''--log-cli-format'', ''--log-cli-level'', ''--log-date-format'', ''--log-file'',
      ''--log-file-date-format'', ''--log-file-format'', ''--log-file-level'', ''--log-format'',
      ''--log-level'', ''--maxfail'', ''--show-capture'', ''--tb'', ''--timeout'', ''--verbosity'',
      ''-w'', ''-n'', ''-r'']"

definition safe_boolean_flags :: "string list" where
  "safe_boolean_flags =
     [''--cache-clear'', ''--continue-on-collection-errors'', ''--cov-append'', ''--cov-branch'',
      ''--cov-context'', ''--disable-warnings'', ''--exitfirst'', ''--full-trace'',
      ''--keep-duplicates'', ''--no-cov'', ''--no-header'', ''--no-summary'', ''--pastebin'',
      ''--quiet'', ''--runxfail'', ''--setup-show'', ''--strict-config'', ''--strict-markers'',
      ''--verbose'', ''-q'', ''-s'', ''-v'', ''-x'']"

text \<open>A scan's outcome: the selectors, the relative targets and the selection flags it met.\<close>

type_synonym scan = "string list \<times> string list \<times> string list"

definition slashes :: "string \<Rightarrow> string" where
  "slashes token = replace_char backslash (CHR ''/'') token"

definition scan_target :: "string \<Rightarrow> scan \<Rightarrow> scan" where
  "scan_target token sc =
     (case sc of (sel, tgt, flg) \<Rightarrow> (token # sel, slashes token # tgt, flg))"

definition scan_flags :: "string list \<Rightarrow> scan \<Rightarrow> scan" where
  "scan_flags tokens sc = (case sc of (sel, tgt, flg) \<Rightarrow> (tokens @ sel, tgt, tokens @ flg))"

definition flag_name :: "string \<Rightarrow> string" where
  "flag_name token = before_char (CHR ''='') (casefold token)"

definition selects_by_flag :: "string \<Rightarrow> bool" where
  "selects_by_flag token =
     (flag_name token \<in> set targeted_flags \<or>
      ((starts_with ''-k'' (casefold token) \<or> starts_with ''-m'' (casefold token))
       \<and> 2 < length token))"

definition safe_switch :: "string \<Rightarrow> bool" where
  "safe_switch token =
     (casefold token \<in> set safe_boolean_flags \<or>
      (starts_with ''-'' (casefold token) \<and> 2 < length (casefold token) \<and>
       set (tl (casefold token)) \<subseteq> set ''qsvx''))"

fun scan_pytest :: "bool \<Rightarrow> string list \<Rightarrow> scan option" where
  "scan_pytest positional [] = Some ([], [], [])"
| "scan_pytest True (token # args) = map_option (scan_target token) (scan_pytest True args)"
| "scan_pytest False (token # args) =
     (if token = ''--'' then scan_pytest True args
      else if selects_by_flag token then
        (if CHR ''='' \<notin> set token \<and> flag_name token \<in> set [''-k'', ''-m'', ''--keyword'', ''--markexpr'']
         then (case args of
                 [] \<Rightarrow> None
               | v # args' \<Rightarrow> map_option (scan_flags [token, v]) (scan_pytest False args'))
         else map_option (scan_flags [token]) (scan_pytest False args))
      else if flag_name token \<in> set safe_value_flags then
        (if CHR ''='' \<in> set token \<or> (flag_name token = ''-r'' \<and> 2 < length token)
         then scan_pytest False args
         else (case args of [] \<Rightarrow> None | _ # args' \<Rightarrow> scan_pytest False args'))
      else if safe_switch token then scan_pytest False args
      else if starts_with ''-'' token then map_option (scan_flags [token]) (scan_pytest False args)
      else map_option (scan_target token) (scan_pytest False args))"

text \<open>The arguments that make the run list, help or collect instead of testing.\<close>

definition pytest_rejected :: "string list \<Rightarrow> bool" where
  "pytest_rejected args =
     ((\<exists>a \<in> set args. casefold (before_char (CHR ''='') a) \<in> set rejected_modes) \<or>
      (\<exists>a \<in> set args. starts_with ''@'' a))"

definition append_void_flag :: "string option \<Rightarrow> scan \<Rightarrow> scan" where
  "append_void_flag void sc =
     (case void of
        None \<Rightarrow> sc
      | Some f \<Rightarrow> (case sc of (sel, tgt, flg) \<Rightarrow> (sel @ [f], tgt, flg @ [f])))"

definition build_pytest_invocation :: "string list \<Rightarrow> scan \<Rightarrow> pytest_invocation" where
  "build_pytest_invocation args sc =
     (case sc of (sel, tgt, flg) \<Rightarrow>
        \<lparr>argv = args, scope = (if sel \<noteq> [] then TARGETED else FULL_SUITE),
         selectors = sel, relative_targets = tgt, selection_flags = flg\<rparr>)"

definition classify_pytest_argv :: "string list \<Rightarrow> pytest_invocation option result" where
  "classify_pytest_argv args0 =
     (if args0 = [] \<or> (\<exists>a \<in> set args0. bad_token a) then Inr None
      else case pytest_arguments args0 of
        None \<Rightarrow> Inr None
      | Some (args, void) \<Rightarrow>
          (if pytest_rejected args then Inr None
           else case scan_pytest False args of
             None \<Rightarrow> Inr None
           | Some sc \<Rightarrow>
               (let i = build_pytest_invocation args0 (append_void_flag void sc)
                in if valid_pytest_invocation i then Inr (Some i) else Inl ''ValidationError'')))"

section \<open>The literal PowerShell wrapper\<close>

definition powershell_executables :: "string list" where
  "powershell_executables = [''powershell'', ''powershell.exe'', ''pwsh'', ''pwsh.exe'']"

definition powershell_literal_command :: rx where
  "powershell_literal_command =
     rseq [RBol, RStar rspace,
       RGroup ''executable''
         (RAlt (rseq [rchar dquote, RStar (rnotset [dquote, CHR 0x0D, CHR 0x0A]), rchar dquote])
               (rplus (RChr (\<lambda>c. \<not> is_space c \<and> c \<noteq> squote \<and> c \<noteq> dquote)))),
       rplus rspace, rlit_ci ''-Command'', rplus rspace, rchar squote,
       RGroup ''payload'' (rplus (rnotset [squote, CHR 0x0D, CHR 0x0A])), rchar squote,
       RStar rspace, REol]"

definition powershell_literal_forbidden :: string where
  "powershell_literal_forbidden = ''$@,#{}'' @ [backtick]"

definition powershell_command_payload :: "string \<Rightarrow> string list \<Rightarrow> string list option" where
  "powershell_command_payload command args =
     (case rx_fullmatch powershell_literal_command command of
        None \<Rightarrow> None
      | Some m \<Rightarrow>
          (case (args, group_of m ''payload'', group_of m ''executable'') of
             ([exe, flag, body], Some payload, Some executable) \<Rightarrow>
               (if executable_name exe \<notin> set powershell_executables \<or> casefold flag \<noteq> ''-command''
                   \<or> body \<noteq> payload \<or> hd payload \<in> {squote, dquote}
                   \<or> (\<exists>c \<in> set payload. c \<in> set powershell_literal_forbidden)
                   \<or> (\<exists>c \<in> set executable. c \<in> set powershell_literal_forbidden)
                then None else command_tokens payload)
           | _ \<Rightarrow> None))"

definition classify_pytest_invocation :: "string option \<Rightarrow> pytest_invocation option result" where
  "classify_pytest_invocation command =
     (let cmd = (case command of None \<Rightarrow> [] | Some c \<Rightarrow> c)
      in case command_tokens cmd of
           None \<Rightarrow> Inr None
         | Some tokens \<Rightarrow>
             bind_result (classify_pytest_argv tokens) (\<lambda>direct.
               case direct of
                 Some i \<Rightarrow> Inr (Some i)
               | None \<Rightarrow>
                   (case powershell_command_payload cmd tokens of
                      None \<Rightarrow> Inr None
                    | Some wrapped \<Rightarrow> classify_pytest_argv wrapped)))"

section \<open>Unittest\<close>

record unittest_invocation =
  uargv :: "string list"
  uscope :: invocation_scope
  urelative_targets :: "string list"
  uselection_flags :: "string list"

definition valid_unittest_invocation :: "unittest_invocation \<Rightarrow> bool" where
  "valid_unittest_invocation i =
     (3 \<le> length (uargv i) \<and> bounded_items (uargv i) \<and> bounded_items (urelative_targets i) \<and>
      bounded_items (uselection_flags i) \<and>
      (uscope i = FULL_SUITE \<longrightarrow> urelative_targets i = [] \<and> uselection_flags i = []) \<and>
      (uscope i = TARGETED \<longrightarrow> urelative_targets i \<noteq> [] \<or> uselection_flags i \<noteq> []))"

definition unittest_selecting_flags :: "string list" where
  "unittest_selecting_flags =
     [''-k'', ''--start-directory'', ''-s'', ''--pattern'', ''-p'', ''--top-level-directory'', ''-t'']"

definition unittest_neutral_flags :: "string list" where
  "unittest_neutral_flags =
     [''-v'', ''--verbose'', ''-q'', ''--quiet'', ''-f'', ''--failfast'', ''-c'', ''--catch'', ''-b'',
      ''--buffer'']"

text \<open>The targets and the selection flags, in the order met.\<close>

fun scan_unittest :: "string list \<Rightarrow> (string list \<times> string list) option" where
  "scan_unittest [] = Some ([], [])"
| "scan_unittest (token # args) =
     (if casefold token \<in> set [''-h'', ''--help'', ''--locals''] then None
      else if flag_name token \<in> set unittest_selecting_flags then
        (if CHR ''='' \<notin> set token
         then (case args of
                 [] \<Rightarrow> None
               | v # args' \<Rightarrow> map_option (\<lambda>(t, f). (t, token # v # f)) (scan_unittest args'))
         else map_option (\<lambda>(t, f). (t, token # f)) (scan_unittest args))
      else if casefold token \<in> set unittest_neutral_flags then scan_unittest args
      else if token = ''discover'' then map_option (\<lambda>(t, f). (t, token # f)) (scan_unittest args)
      else if starts_with ''-'' token then map_option (\<lambda>(t, f). (t, token # f)) (scan_unittest args)
      else map_option (\<lambda>(t, f). (slashes token # t, f)) (scan_unittest args))"

definition build_unittest_invocation ::
    "string list \<Rightarrow> string option \<Rightarrow> string list \<times> string list \<Rightarrow> unittest_invocation" where
  "build_unittest_invocation args void sc =
     (case sc of (tgt, flg0) \<Rightarrow>
        (let flg = (case void of None \<Rightarrow> flg0 | Some f \<Rightarrow> flg0 @ [f])
         in \<lparr>uargv = args, uscope = (if tgt \<noteq> [] \<or> flg \<noteq> [] then TARGETED else FULL_SUITE),
             urelative_targets = tgt, uselection_flags = flg\<rparr>))"

definition classify_unittest_argv :: "string list \<Rightarrow> unittest_invocation option result" where
  "classify_unittest_argv args0 =
     (if args0 = [] \<or> (\<exists>a \<in> set args0. bad_token a) then Inr None
      else case unittest_arguments args0 of
        None \<Rightarrow> Inr None
      | Some (args, void) \<Rightarrow>
          (if \<exists>a \<in> set args. starts_with ''@'' a then Inr None
           else case scan_unittest args of
             None \<Rightarrow> Inr None
           | Some sc \<Rightarrow>
               (let i = build_unittest_invocation args0 void sc
                in if valid_unittest_invocation i then Inr (Some i) else Inl ''ValidationError'')))"

definition classify_unittest_invocation :: "string option \<Rightarrow> unittest_invocation option result" where
  "classify_unittest_invocation command =
     (let cmd = (case command of None \<Rightarrow> [] | Some c \<Rightarrow> c)
      in case command_tokens cmd of
           None \<Rightarrow> Inr None
         | Some tokens \<Rightarrow>
             bind_result (classify_unittest_argv tokens) (\<lambda>direct.
               case direct of
                 Some i \<Rightarrow> Inr (Some i)
               | None \<Rightarrow>
                   (case powershell_command_payload cmd tokens of
                      None \<Rightarrow> Inr None
                    | Some wrapped \<Rightarrow> classify_unittest_argv wrapped)))"

section \<open>Shell quoting\<close>

text \<open>
  The quoting state of a POSIX-like shell after reading a prefix: which quote is open, and whether
  a backslash inside double quotes escapes the next character. It refers to no rejection rule.
\<close>

fun quote_step :: "char option \<times> bool \<Rightarrow> char \<Rightarrow> char option \<times> bool" where
  "quote_step (q, True) c = (q, False)"
| "quote_step (None, False) c = (if c \<in> {squote, dquote} then Some c else None, False)"
| "quote_step (Some q, False) c =
     (if c = q then (None, False)
      else if q = dquote \<and> c = backslash then (Some q, True) else (Some q, False))"

definition quote_state :: "string \<Rightarrow> char option \<times> bool" where
  "quote_state s = foldl quote_step (None, False) s"

definition quoting_ok :: "char option \<times> bool \<Rightarrow> bool" where
  "quoting_ok st = ((fst st = None \<or> fst st = Some squote \<or> fst st = Some dquote) \<and>
                    (snd st \<longrightarrow> fst st = Some dquote))"

lemma quoting_ok_step: "quoting_ok st \<Longrightarrow> quoting_ok (quote_step st c)"
  by (cases "(st, c)" rule: quote_step.cases) (auto simp: quoting_ok_def)

lemma shell_syntax_from_append:
  "quoting_ok st \<Longrightarrow> \<not> shell_syntax_from (fst st) (snd st) (a @ b) \<Longrightarrow>
   \<not> shell_syntax_from (fst (foldl quote_step st a)) (snd (foldl quote_step st a)) b"
proof (induction a arbitrary: st)
  case (Cons c a)
  have step: "\<not> shell_syntax_from (fst (quote_step st c)) (snd (quote_step st c)) (a @ b)"
    using Cons.prems
    by (cases "(st, c)" rule: quote_step.cases) (auto simp: quoting_ok_def split: if_splits)
  show ?case
    using Cons.IH [OF quoting_ok_step [OF Cons.prems(1)] step] by simp
qed simp

lemma accepted_prefix:
  assumes "\<not> command_has_shell_syntax (a @ b)"
  shows "\<not> shell_syntax_from (fst (quote_state a)) (snd (quote_state a)) b"
  using shell_syntax_from_append [of "(None, False)" a b] assms
  by (simp add: command_has_shell_syntax_def quote_state_def quoting_ok_def)

section \<open>Tokens of plain words\<close>

definition plain_word :: "string \<Rightarrow> bool" where
  "plain_word w = (w \<noteq> [] \<and> hd w \<notin> {squote, dquote} \<and> (\<forall>c \<in> set w. \<not> shlex_space c))"

lemma shlex_space_blank [simp]: "shlex_space (CHR '' '')"
  by (simp add: shlex_space_def)

lemma shlex_word_end:
  "\<forall>c \<in> set w. \<not> shlex_space c \<Longrightarrow> shlex_from LexWord tok w = Inr [tok @ w]"
  by (induction w arbitrary: tok) auto

lemma shlex_word_more:
  "\<forall>c \<in> set w. \<not> shlex_space c \<Longrightarrow>
   shlex_from LexWord tok (w @ '' '' @ s) =
     bind_result (shlex_from LexBlank [] s) (\<lambda>toks. Inr ((tok @ w) # toks))"
  by (induction w arbitrary: tok) auto

lemma shlex_split_join: "\<forall>w \<in> set ws. plain_word w \<Longrightarrow> shlex_split (join '' '' ws) = Inr ws"
proof (induction ws rule: induct_list012)
  case 1
  then show ?case by (simp add: shlex_split_def)
next
  case (2 w)
  then obtain c w' where "w = c # w'" by (cases w) (auto simp: plain_word_def)
  with 2 show ?case by (simp add: shlex_split_def plain_word_def shlex_word_end)
next
  case (3 w v ws)
  then obtain c w' where w: "w = c # w'" by (cases w) (auto simp: plain_word_def)
  from 3 have "shlex_from LexBlank [] (join '' '' (v # ws)) = Inr (v # ws)"
    by (simp add: shlex_split_def)
  with 3 show ?case
    using shlex_word_more [of w' "[c]" "join '' '' (v # ws)"]
    by (simp add: w shlex_split_def plain_word_def)
qed

section \<open>What a full-suite classification means\<close>

text \<open>
  Argument lists that select nothing: known switches, known value flags with their value, and at
  most a final \<open>--\<close>. The relation does not mention the scan.
\<close>

inductive selects_nothing :: "string list \<Rightarrow> bool" where
  no_arguments: "selects_nothing []"
| end_of_options: "selects_nothing [''--'']"
| switch: "safe_switch t \<Longrightarrow> \<not> selects_by_flag t \<Longrightarrow> flag_name t \<notin> set safe_value_flags \<Longrightarrow>
     selects_nothing ts \<Longrightarrow> selects_nothing (t # ts)"
| inline_value: "flag_name t \<in> set safe_value_flags \<Longrightarrow> \<not> selects_by_flag t \<Longrightarrow>
     CHR ''='' \<in> set t \<or> (flag_name t = ''-r'' \<and> 2 < length t) \<Longrightarrow>
     selects_nothing ts \<Longrightarrow> selects_nothing (t # ts)"
| separate_value: "flag_name t \<in> set safe_value_flags \<Longrightarrow> \<not> selects_by_flag t \<Longrightarrow>
     \<not> (CHR ''='' \<in> set t \<or> (flag_name t = ''-r'' \<and> 2 < length t)) \<Longrightarrow>
     selects_nothing ts \<Longrightarrow> selects_nothing (t # v # ts)"

inductive_cases selects_nothing_ConsE: "selects_nothing (t # ts)"

lemma fst_scan_target [simp]: "fst (scan_target t sc) \<noteq> []"
  and fst_scan_flags [simp]: "fst (scan_flags (t # ts) sc) \<noteq> []"
  by (cases sc; simp add: scan_target_def scan_flags_def)+

lemma scan_positional_empty: "scan_pytest True args = Some sc \<Longrightarrow> fst sc = [] \<longleftrightarrow> args = []"
  by (cases args) auto

lemma dashes_are_no_flag:
  "\<not> selects_by_flag ''--''" "\<not> safe_switch ''--''" "flag_name ''--'' \<notin> set safe_value_flags"
  by code_simp+

lemma scan_empty_selects_nothing:
  "scan_pytest False args = Some sc \<Longrightarrow> fst sc = [] \<Longrightarrow> selects_nothing args"
proof (induction False args arbitrary: sc rule: scan_pytest.induct)
  case 1
  show ?case by (rule selects_nothing.intros)
next
  case (3 token args)
  show ?case
  proof (cases "token = ''--''")
    case True
    with "3.prems" have "args = []" by (auto dest: scan_positional_empty)
    with True show ?thesis by (simp add: selects_nothing.intros)
  next
    case False
    with "3.prems" have no_select: "\<not> selects_by_flag token"
      by (auto split: if_splits list.splits)
    show ?thesis
    proof (cases "flag_name token \<in> set safe_value_flags")
      case True
      show ?thesis
      proof (cases "CHR ''='' \<in> set token \<or> (flag_name token = ''-r'' \<and> 2 < length token)")
        case True
        with 3 False no_select \<open>flag_name token \<in> set safe_value_flags\<close> show ?thesis
          by (auto intro!: selects_nothing.inline_value)
      next
        case sep: False
        with "3.prems" False no_select \<open>flag_name token \<in> set safe_value_flags\<close>
        obtain v args' where args: "args = v # args'" and "scan_pytest False args' = Some sc"
          by (auto split: list.splits if_splits)
        then have "selects_nothing args'"
          using "3.hyps"(5) [OF False no_select \<open>flag_name token \<in> set safe_value_flags\<close> sep args]
            "3.prems"(2) by blast
        with args sep no_select \<open>flag_name token \<in> set safe_value_flags\<close> show ?thesis
          by (auto intro: selects_nothing.separate_value)
      qed
    next
      case no_value: False
      with "3.prems" False no_select have "safe_switch token"
        by (auto split: if_splits)
      with 3 False no_select no_value show ?thesis
        by (auto intro!: selects_nothing.switch)
    qed
  qed
qed simp

lemma selects_nothing_scan: "selects_nothing args \<Longrightarrow> scan_pytest False args = Some ([], [], [])"
proof (induction rule: selects_nothing.induct)
  case (switch t ts)
  then have "t \<noteq> ''--''" using dashes_are_no_flag by auto
  with switch show ?case by simp
next
  case (inline_value t ts)
  then have "t \<noteq> ''--''" using dashes_are_no_flag by auto
  with inline_value show ?case by auto
next
  case (separate_value t ts v)
  then have "t \<noteq> ''--''" using dashes_are_no_flag by auto
  with separate_value show ?case by auto
qed simp_all

lemma classify_pytest_argv_Some:
  assumes "classify_pytest_argv args0 = Inr (Some i)"
  obtains args void sc where "pytest_arguments args0 = Some (args, void)" "\<not> pytest_rejected args"
    "scan_pytest False args = Some sc" "i = build_pytest_invocation args0 (append_void_flag void sc)"
    "valid_pytest_invocation i"
  using assms by (auto simp: classify_pytest_argv_def Let_def split: if_splits option.splits)

lemma scope_build [simp]:
  "scope (build_pytest_invocation args0 sc) = FULL_SUITE \<longleftrightarrow> fst sc = []"
  by (simp add: build_pytest_invocation_def split: prod.split)

lemma argv_build [simp]: "argv (build_pytest_invocation args0 sc) = args0"
  by (simp add: build_pytest_invocation_def split: prod.split)

lemma fst_append_void_flag [simp]:
  "fst (append_void_flag void sc) = [] \<longleftrightarrow> void = None \<and> fst sc = []"
  by (cases sc) (simp add: append_void_flag_def split: option.split)

lemma full_suite_iff:
  assumes "classify_pytest_argv args0 = Inr (Some i)"
  shows "scope i = FULL_SUITE \<longleftrightarrow>
    (\<exists>args. pytest_arguments args0 = Some (args, None) \<and> selects_nothing args)"
proof -
  obtain args void sc where c: "pytest_arguments args0 = Some (args, void)"
    "scan_pytest False args = Some sc" "i = build_pytest_invocation args0 (append_void_flag void sc)"
    using assms by (rule classify_pytest_argv_Some)
  then have "scope i = FULL_SUITE \<longleftrightarrow> void = None \<and> fst sc = []" by simp
  also have "fst sc = [] \<longleftrightarrow> selects_nothing args"
  proof
    assume "selects_nothing args"
    then have "scan_pytest False args = Some ([], [], [])" by (rule selects_nothing_scan)
    with c(2) show "fst sc = []" by auto
  qed (rule scan_empty_selects_nothing [OF c(2)])
  finally show ?thesis using c(1) by auto
qed

section \<open>When the validators let the classification through\<close>

lemma uv_run_flags_marks:
  "uv_run_flags iv args = Some (Some f, rest') \<Longrightarrow> iv = Some f \<or>
   (\<exists>g \<in> set (uv_scope_invalidating_boolean_flags @ uv_scope_invalidating_value_flags).
      f = ''uv run '' @ g)"
proof (induction iv args rule: uv_run_flags.induct)
  case (2 iv token args)
  then show ?case by (fastforce simp: Let_def split: if_splits option.splits list.splits)
qed simp

lemma uv_run_flags_subset:
  "uv_run_flags iv args = Some (iv', rest') \<Longrightarrow> set rest' \<subseteq> set args"
proof (induction iv args arbitrary: iv' rest' rule: uv_run_flags.induct)
  case (2 iv token args)
  then show ?case by (fastforce simp: Let_def split: if_splits option.splits list.splits)
qed simp

lemma snd_attach_flag:
  "snd (attach_flag iv child) = Some f \<Longrightarrow> snd child = Some f \<or> iv = Some f"
  and fst_attach_flag [simp]: "fst (attach_flag iv child) = fst child"
  by (auto simp: attach_flag_def split: if_splits)

lemma launcher_arguments_shape:
  "launcher_arguments exes modname args0 = Some (args, void) \<Longrightarrow>
   length args < length args0 \<and> set args \<subseteq> set args0 \<and>
   (\<forall>f. void = Some f \<longrightarrow> \<not> bad_token f)"
proof (induction exes modname args0 arbitrary: args void rule: launcher_arguments.induct)
  case (2 exes modname arg0 rest0)
  have marks: "\<not> bad_token (''uv run '' @ g)"
    if "g \<in> set (uv_scope_invalidating_boolean_flags @ uv_scope_invalidating_value_flags)" for g
    using that by (auto simp: bad_token_def uv_scope_invalidating_boolean_flags_def
        uv_scope_invalidating_value_flags_def)
  consider (direct) "executable_name arg0 \<in> set exes"
    | (python) "executable_name arg0 \<notin> set exes" "is_python_runner (executable_name arg0)"
    | (wrapper) "executable_name arg0 \<notin> set exes" "\<not> is_python_runner (executable_name arg0)"
    by blast
  then show ?case
  proof cases
    case wrapper
    with "2.prems" obtain run arg2 tail where
      w: "executable_name arg0 \<in> set wrapper_executables" "rest0 = run # arg2 # tail"
        "casefold run = ''run''"
      by (auto simp: Let_def split: if_splits list.splits)
    show ?thesis
    proof (cases "executable_name arg0 \<in> set uv_executables")
      case True
      with "2.prems" wrapper w obtain iv child sub where
        u: "uv_run_flags None (arg2 # tail) = Some (iv, child)"
          "launcher_arguments exes modname child = Some sub" "(args, void) = attach_flag iv sub"
        by (auto simp: Let_def split: if_splits option.splits)
      have sub: "launcher_arguments exes modname child = Some (fst sub, snd sub)"
        using u(2) by simp
      have IH: "length (fst sub) < length child \<and> set (fst sub) \<subseteq> set child \<and>
          (\<forall>f. snd sub = Some f \<longrightarrow> \<not> bad_token f)"
        using "2.IH"(1) [OF refl wrapper(1,2) w(1,2) refl _ True u(1) refl sub] w(3) by simp
      have a: "args = fst sub" using u(3) by (metis fst_attach_flag fst_conv)
      have "\<not> bad_token f" if "void = Some f" for f
        using that u(3) IH snd_attach_flag [of iv sub f] uv_run_flags_marks [of None "arg2 # tail" f child]
          marks u(1) by (metis option.distinct(1) snd_conv)
      with IH a uv_run_flags_length [OF u(1)] uv_run_flags_subset [OF u(1)] w(2) show ?thesis
        by auto
    next
      case False
      with "2.prems" wrapper w have
        "launcher_arguments exes modname (if arg2 = ''--'' then tail else arg2 # tail) = Some (args, void)"
        by (simp add: Let_def)
      from "2.IH"(2) [OF refl wrapper(1,2) w(1,2) refl _ False this] w show ?thesis
        by (auto split: if_splits)
    qed
  qed (use "2.prems" in \<open>auto simp: Let_def split: if_splits list.splits\<close>)
qed simp

lemma slashes_bad_token [simp]: "bad_token (slashes t) = bad_token t"
  by (simp add: bad_token_def slashes_def)

text \<open>
  What a scan collects: the selectors are the raw targets and the flags together, and the reported
  targets are the raw ones with their backslashes turned into slashes.
\<close>

definition scan_fits :: "string list \<Rightarrow> scan \<Rightarrow> bool" where
  "scan_fits args sc =
     (case sc of (sel, tgt, flg) \<Rightarrow>
        length sel \<le> length args \<and> set sel \<subseteq> set args \<and>
        (\<exists>raw. tgt = map slashes raw \<and> mset sel = mset raw + mset flg))"

lemma scan_fits_weaken: "scan_fits args sc \<Longrightarrow> scan_fits (t # args) sc"
  by (auto simp: scan_fits_def)

lemma scan_fits_weaken2: "scan_fits args sc \<Longrightarrow> scan_fits (t # v # args) sc"
  by (rule scan_fits_weaken) (rule scan_fits_weaken)

lemma scan_fits_target: "scan_fits args sc \<Longrightarrow> scan_fits (t # args) (scan_target t sc)"
  by (auto simp: scan_fits_def scan_target_def intro: exI [of _ "t # raw" for raw])

lemma scan_fits_flag: "scan_fits args sc \<Longrightarrow> scan_fits (t # args) (scan_flags [t] sc)"
  by (auto simp: scan_fits_def scan_flags_def)

lemma scan_fits_flags: "scan_fits args sc \<Longrightarrow> scan_fits (t # v # args) (scan_flags [t, v] sc)"
  by (auto simp: scan_fits_def scan_flags_def)

lemmas scan_fits_intros = scan_fits_target scan_fits_flag scan_fits_flags scan_fits_weaken

lemma scan_pytest_fits: "scan_pytest positional args = Some sc \<Longrightarrow> scan_fits args sc"
proof (induction positional args arbitrary: sc rule: scan_pytest.induct)
  case (1 positional)
  then show ?case by (auto simp: scan_fits_def)
next
  case (2 token args)
  then show ?case by (auto intro: scan_fits_intros simp del: prod.exhaust_sel)
next
  case (3 token args)
  show ?case
  proof (cases "token = ''--''")
    case True
    with 3 show ?thesis by (auto intro: scan_fits_weaken)
  next
    case no_dashes: False
    show ?thesis
    proof (cases "selects_by_flag token")
      case True
      with no_dashes 3 show ?thesis
        by (auto intro: scan_fits_intros split: if_splits list.splits)
    next
      case no_select: False
      obtain sel tgt flg where sc: "sc = (sel, tgt, flg)" by (cases sc)
      show ?thesis
      proof (cases "flag_name token \<in> set safe_value_flags")
        case True
        with no_dashes no_select sc 3 show ?thesis
          by (auto intro: scan_fits_weaken scan_fits_weaken2 split: if_splits list.splits)
      next
        case False
        with no_dashes no_select 3 show ?thesis
          by (auto intro: scan_fits_intros split: if_splits)
      qed
    qed
  qed
qed

lemma slashes_mset_iff:
  "mset (map slashes raw) = mset raw \<longleftrightarrow> (\<forall>t \<in> set raw. backslash \<notin> set t)"
proof
  assume "mset (map slashes raw) = mset raw"
  then have "set raw = slashes ` set raw" by (metis set_map set_mset_mset)
  moreover have "\<forall>t. backslash \<notin> set (slashes t)"
    by (simp add: slashes_def replace_char_notin)
  ultimately show "\<forall>t \<in> set raw. backslash \<notin> set t" by (metis imageE)
next
  assume "\<forall>t \<in> set raw. backslash \<notin> set t"
  then have "map slashes raw = raw"
    by (induction raw) (simp_all add: slashes_def replace_char_id)
  then show "mset (map slashes raw) = mset raw" by simp
qed

lemma build_valid_iff:
  assumes fits: "scan_fits args (sel, tgt, flg)" and shape: "length args < length args0"
    "set args \<subseteq> set args0" "\<forall>f. void = Some f \<longrightarrow> \<not> bad_token f"
    and ok: "\<forall>a \<in> set args0. \<not> bad_token a"
  shows "valid_pytest_invocation
      (build_pytest_invocation args0 (append_void_flag void (sel, tgt, flg))) \<longleftrightarrow>
    length args0 \<le> 128 \<and> (\<forall>t \<in># mset sel - mset flg. backslash \<notin> set t)"
proof -
  obtain raw where raw: "tgt = map slashes raw" "mset sel = mset raw + mset flg"
    and sel: "length sel \<le> length args" "set sel \<subseteq> set args"
    using fits by (auto simp: scan_fits_def)
  have members: "set raw \<union> set flg = set sel"
    by (metis raw(2) set_mset_mset set_mset_union)
  have len: "length sel = length raw + length flg"
    by (metis mset_append raw(2) size_mset length_append)
  have diff: "mset sel - mset flg = mset raw" by (simp add: raw(2))
  have items: "\<not> bad_token x" if "x \<in> set raw \<union> set flg" for x
    using that members sel(2) shape(2) ok by blast
  define void_list where "void_list = (case void of None \<Rightarrow> [] | Some f \<Rightarrow> [f])"
  have void: "append_void_flag void (sel, tgt, flg) = (sel @ void_list, tgt, flg @ void_list)"
    by (auto simp: append_void_flag_def void_list_def split: option.split)
  have vl: "length void_list \<le> 1" "\<forall>x \<in> set void_list. \<not> bad_token x"
    using shape(3) by (auto simp: void_list_def split: option.split)
  have eq: "mset (sel @ void_list) = mset tgt + mset (flg @ void_list) \<longleftrightarrow>
      mset (map slashes raw) = mset raw"
    using raw by (auto simp: ac_simps)
  have bounded: "bounded_items (sel @ void_list) \<and> bounded_items tgt \<and> bounded_items (flg @ void_list)"
    if "length args0 \<le> 128"
    using that sel(1) shape(1) len vl items members raw(1)
    by (auto simp: bounded_items_def)
  show ?thesis
    unfolding void build_pytest_invocation_def valid_pytest_invocation_def diff
    using bounded eq ok shape(1) slashes_mset_iff [of raw]
    by (auto simp: bounded_items_def)
qed

lemma classify_pytest_argv_recognised:
  assumes ok: "\<forall>a \<in> set args0. \<not> bad_token a"
    and p: "pytest_arguments args0 = Some (args, void)" "\<not> pytest_rejected args"
      "scan_pytest False args = Some (sel, tgt, flg)"
  shows "classify_pytest_argv args0 =
    (if length args0 \<le> 128 \<and> (\<forall>t \<in># mset sel - mset flg. backslash \<notin> set t)
     then Inr (Some (build_pytest_invocation args0 (append_void_flag void (sel, tgt, flg))))
     else Inl ''ValidationError'')"
proof -
  have shape: "length args < length args0 \<and> set args \<subseteq> set args0 \<and>
      (\<forall>f. void = Some f \<longrightarrow> \<not> bad_token f)"
    using p(1) unfolding pytest_arguments_def by (rule launcher_arguments_shape)
  then have "args0 \<noteq> []" by auto
  with shape build_valid_iff [OF scan_pytest_fits [OF p(3)], of args0 void] ok p show ?thesis
    by (simp add: classify_pytest_argv_def Let_def)
qed

lemma quoting_ok_state: "quoting_ok (quote_state s)"
proof -
  have "quoting_ok st \<Longrightarrow> quoting_ok (foldl quote_step st s)" for st
    by (induction s arbitrary: st) (simp_all add: quoting_ok_step)
  then show ?thesis by (simp add: quote_state_def quoting_ok_def)
qed

lemma accepted_char:
  assumes "\<not> command_has_shell_syntax (a @ c # b)"
  shows "fst (quote_state a) \<noteq> Some squote \<Longrightarrow> c \<noteq> backtick \<and> \<not> starts_with ''$('' (c # b)"
    and "fst (quote_state a) = None \<Longrightarrow> c \<notin> set composing_chars"
  using accepted_prefix [OF assms] quoting_ok_state [of a]
  by (auto simp: quoting_ok_def composing_chars_def split: if_splits)

lemma accepted_balanced: "\<not> command_has_shell_syntax s \<Longrightarrow> fst (quote_state s) = None"
  using accepted_prefix [of s "[]"] by simp

lemma command_tokens_accepts:
  "command_tokens cmd = Some tokens \<Longrightarrow>
   \<not> command_has_shell_syntax cmd \<and> length cmd \<le> 16384 \<and> tokens \<noteq> [] \<and>
   (\<forall>t \<in> set tokens. \<not> bad_token t)"
  by (auto simp: command_tokens_def Let_def split: if_splits sum.splits)

lemma command_tokens_empty: "command_tokens [] = None"
  by (simp add: command_tokens_def strip_def strip_where_def rstrip_where_def)

section \<open>The contract of a test-runner classifier\<close>

text \<open>
  The bridge and the supervisor use either classifier in the same way: they hand it an observed
  command and rely on the classification being well formed and coming from one direct command.
\<close>

locale test_runner =
  fixes classify_argv :: "string list \<Rightarrow> 'i option result"
    and classify_command :: "string option \<Rightarrow> 'i option result"
    and well_formed :: "'i \<Rightarrow> bool"
  assumes argv_well_formed: "classify_argv args = Inr (Some i) \<Longrightarrow> well_formed i"
    and command_cases: "classify_command command = Inr (Some i) \<Longrightarrow>
      \<exists>cmd tokens args. command = Some cmd \<and> command_tokens cmd = Some tokens \<and>
        (args = tokens \<or> powershell_command_payload cmd tokens = Some args) \<and>
        classify_argv args = Inr (Some i)"
begin

lemma command_well_formed: "classify_command command = Inr (Some i) \<Longrightarrow> well_formed i"
  using command_cases argv_well_formed by blast

lemma command_accepted:
  assumes "classify_command (Some cmd) = Inr (Some i)"
  shows "\<not> command_has_shell_syntax cmd \<and> length cmd \<le> 16384"
  using command_cases [OF assms] command_tokens_accepts by blast

lemma missing_command: "classify_command None \<noteq> Inr (Some i)"
  using command_cases by blast

end

interpretation pytest: test_runner classify_pytest_argv classify_pytest_invocation valid_pytest_invocation
proof
  show "classify_pytest_argv args = Inr (Some i) \<Longrightarrow> valid_pytest_invocation i" for args i
    by (erule classify_pytest_argv_Some)
  fix command i
  assume "classify_pytest_invocation command = Inr (Some i)"
  then show "\<exists>cmd tokens args. command = Some cmd \<and> command_tokens cmd = Some tokens \<and>
      (args = tokens \<or> powershell_command_payload cmd tokens = Some args) \<and>
      classify_pytest_argv args = Inr (Some i)"
    using command_tokens_empty
    by (cases command)
      (auto simp: classify_pytest_invocation_def Let_def bind_result_Inr_iff split: option.splits)
qed

interpretation unittest: test_runner classify_unittest_argv classify_unittest_invocation valid_unittest_invocation
proof
  show "classify_unittest_argv args = Inr (Some i) \<Longrightarrow> valid_unittest_invocation i" for args i
    by (auto simp: classify_unittest_argv_def Let_def split: if_splits option.splits)
  fix command i
  assume "classify_unittest_invocation command = Inr (Some i)"
  then show "\<exists>cmd tokens args. command = Some cmd \<and> command_tokens cmd = Some tokens \<and>
      (args = tokens \<or> powershell_command_payload cmd tokens = Some args) \<and>
      classify_unittest_argv args = Inr (Some i)"
    using command_tokens_empty
    by (cases command)
      (auto simp: classify_unittest_invocation_def Let_def bind_result_Inr_iff split: option.splits)
qed

section \<open>Properties\<close>



text \<open>A classified pytest run is credited with the full suite exactly when a
  recognised launcher was stripped without a flag that reselects the interpreter, environment or
  directory, and the arguments left are switches and value flags that select no subset.\<close>

lemma full_suite_selects_nothing:
  assumes "classify_pytest_argv args0 = Inr (Some i)"
  shows "scope i = FULL_SUITE \<longleftrightarrow>
    (\<exists>args. pytest_arguments args0 = Some (args, None) \<and> selects_nothing args)"
  using assms by (rule full_suite_iff)

lemma full_suite_selects_nothing_example:
  "\<exists>i. classify_pytest_argv [''uv'', ''run'', ''--project'', ''p'', ''pytest''] = Inr (Some i) \<and>
       scope i \<noteq> FULL_SUITE \<and>
       \<not> (\<exists>args. pytest_arguments [''uv'', ''run'', ''--project'', ''p'', ''pytest''] = Some (args, None)
               \<and> selects_nothing args)"
proof -
  let ?i = "\<lparr>argv = [''uv'', ''run'', ''--project'', ''p'', ''pytest''], scope = TARGETED,
    selectors = [''uv run --project''], relative_targets = [],
    selection_flags = [''uv run --project'']\<rparr>"
  have c: "classify_pytest_argv [''uv'', ''run'', ''--project'', ''p'', ''pytest''] = Inr (Some ?i)"
    by code_simp
  then show ?thesis using full_suite_selects_nothing [OF c] by (intro exI [of _ ?i]) simp
qed

text \<open>Property C39. Once the launcher is stripped and the arguments are scanned, classification has
  exactly one failure: it raises the validation error if and only if the command has more than 128
  arguments or some positional target contains a backslash; otherwise it returns the classification.\<close>

theorem pytest_validation_error_iff:
  assumes "\<forall>a \<in> set args0. \<not> bad_token a"
    and "pytest_arguments args0 = Some (args, void)" and "\<not> pytest_rejected args"
    and "scan_pytest False args = Some (sel, tgt, flg)"
  shows "classify_pytest_argv args0 =
    (if length args0 \<le> 128 \<and> (\<forall>t \<in># mset sel - mset flg. backslash \<notin> set t)
     then Inr (Some (build_pytest_invocation args0 (append_void_flag void (sel, tgt, flg))))
     else Inl ''ValidationError'')"
  using assms by (rule classify_pytest_argv_recognised)

theorem pytest_validation_error_iff_witness:
  "classify_pytest_argv [''pytest'', ''tests'' @ [backslash] @ ''test_a.py''] = Inl ''ValidationError''"
proof -
  let ?t = "''tests'' @ [backslash] @ ''test_a.py''"
  have h: "\<forall>a \<in> set [''pytest'', ?t]. \<not> bad_token a" by (simp add: bad_token_def)
  have p: "pytest_arguments [''pytest'', ?t] = Some ([?t], None)" by code_simp
  have r: "\<not> pytest_rejected [?t]" by code_simp
  have s: "scan_pytest False [?t] = Some ([?t], [slashes ?t], [])" by code_simp
  from pytest_validation_error_iff [OF h p r s] show ?thesis by simp
qed

text \<open>Joining plain words with blanks and tokenising the line gives the words back,
  provided the line is short enough and free of shell syntax.\<close>

lemma tokens_of_plain_words:
  assumes "ws \<noteq> []" and "\<forall>w \<in> set ws. plain_word w \<and> unquote_token w = w \<and> \<not> bad_token w"
    and "length (join '' '' ws) \<le> 16384" and "\<not> command_has_shell_syntax (join '' '' ws)"
    and "strip (join '' '' ws) \<noteq> []"
  shows "command_tokens (join '' '' ws) = Some ws"
proof -
  have "map unquote_token ws = ws" using assms(2) by (simp add: map_idI)
  then show ?thesis
    using assms shlex_split_join [of ws] by (auto simp: command_tokens_def Let_def)
qed

lemma tokens_of_plain_words_example:
  "command_tokens ''uv run pytest -q'' = Some [''uv'', ''run'', ''pytest'', ''-q'']"
proof -
  let ?ws = "[''uv'', ''run'', ''pytest'', ''-q'']"
  have "\<forall>w \<in> set ?ws. plain_word w \<and> unquote_token w = w \<and> \<not> bad_token w"
    by (simp add: plain_word_def unquote_token_def bad_token_def shlex_space_def)
  moreover have "length (join '' '' ?ws) \<le> 16384" "\<not> command_has_shell_syntax (join '' '' ?ws)"
    "strip (join '' '' ?ws) \<noteq> []" by code_simp+
  ultimately show ?thesis using tokens_of_plain_words [of ?ws] by simp
qed

lemma scan_unittest_empty:
  "scan_unittest args = Some ([], []) \<longleftrightarrow>
   (\<forall>t \<in> set args. casefold t \<in> set unittest_neutral_flags \<and>
      flag_name t \<notin> set unittest_selecting_flags \<and>
      casefold t \<notin> set [''-h'', ''--help'', ''--locals''])"
  by (induction args rule: scan_unittest.induct) (auto split: list.splits)

text \<open>A classified unittest run is credited with the full suite exactly when no
  wrapper flag voided its scope and every argument is one of the neutral output flags.\<close>

lemma unittest_full_suite_iff:
  assumes "classify_unittest_argv args0 = Inr (Some i)"
  shows "uscope i = FULL_SUITE \<longleftrightarrow>
    (\<exists>args. unittest_arguments args0 = Some (args, None) \<and>
       (\<forall>t \<in> set args. casefold t \<in> set unittest_neutral_flags \<and>
          flag_name t \<notin> set unittest_selecting_flags))"
proof -
  obtain args void tgt flg where c: "unittest_arguments args0 = Some (args, void)"
    "scan_unittest args = Some (tgt, flg)" "i = build_unittest_invocation args0 void (tgt, flg)"
    using assms by (auto simp: classify_unittest_argv_def Let_def split: if_splits option.splits)
  have "uscope i = FULL_SUITE \<longleftrightarrow> void = None \<and> scan_unittest args = Some ([], [])"
    using c(2,3) by (auto simp: build_unittest_invocation_def Let_def split: option.splits)
  also have "\<dots> \<longleftrightarrow> void = None \<and> (\<forall>t \<in> set args. casefold t \<in> set unittest_neutral_flags \<and>
      flag_name t \<notin> set unittest_selecting_flags)"
    unfolding scan_unittest_empty by (auto simp: unittest_neutral_flags_def)
  finally show ?thesis using c(1) by auto
qed

lemma unittest_full_suite_iff_example:
  "\<exists>i. classify_unittest_argv [''python3'', ''-m'', ''unittest'', ''-v''] = Inr (Some i) \<and>
       uscope i = FULL_SUITE"
proof -
  let ?a = "[''python3'', ''-m'', ''unittest'', ''-v'']"
  let ?i = "\<lparr>uargv = ?a, uscope = FULL_SUITE, urelative_targets = [], uselection_flags = []\<rparr>"
  have c: "classify_unittest_argv ?a = Inr (Some ?i)" by code_simp
  have "unittest_arguments ?a = Some ([''-v''], None)" by code_simp
  moreover have "casefold ''-v'' \<in> set unittest_neutral_flags"
    "flag_name ''-v'' \<notin> set unittest_selecting_flags" by code_simp+
  ultimately have "uscope ?i = FULL_SUITE"
    unfolding unittest_full_suite_iff [OF c] by simp
  with c show ?thesis by blast
qed

end
