(* ===== verification/Pex_Enums.thy ===== *)
theory Pex_Enums
  imports Pex_Prelude
begin

text \<open>
  The closed vocabularies of the protocol package (\<open>enums.py\<close>, and the enumerations of
  \<open>actions.py\<close> and \<open>capabilities.py\<close>): each Python \<open>StrEnum\<close> is a datatype, a table of the
  string values and the list of members in declaration order. The contract every \<open>StrEnum\<close>
  gives its clients is the locale \<open>str_enum\<close>; each enumeration interprets it.
\<close>

section \<open>The contract of a \<open>StrEnum\<close>\<close>

text \<open>\<open>E(value)\<close>: the member with this value, or a \<open>ValueError\<close>.\<close>

definition parse_enum :: "('e \<Rightarrow> string) \<Rightarrow> 'e list \<Rightarrow> string \<Rightarrow> 'e result" where
  "parse_enum val_of members s =
     (case find (\<lambda>x. val_of x = s) members of
        Some x \<Rightarrow> Inr x
      | None \<Rightarrow> Inl ''not a valid member'')"

locale str_enum =
  fixes val_of :: "'e \<Rightarrow> string"
    and members :: "'e list"
  assumes complete: "x \<in> set members"
    and distinct_values: "distinct (map val_of members)"
begin

lemma value_eq_iff: "val_of x = val_of y \<longleftrightarrow> x = y"
proof
  assume eq: "val_of x = val_of y"
  have "inj_on val_of (set members)"
    using distinct_values by (simp add: distinct_map)
  then show "x = y" using eq complete by (auto dest: inj_onD)
qed simp

lemma parse_value: "parse_enum val_of members (val_of x) = Inr x"
proof -
  obtain y where y: "find (\<lambda>y. val_of y = val_of x) members = Some y"
    using complete [of x] by (cases "find (\<lambda>y. val_of y = val_of x) members") (auto simp: find_None_iff)
  then have "val_of y = val_of x" by (auto simp: find_Some_iff)
  with y show ?thesis by (simp add: parse_enum_def value_eq_iff)
qed

lemma parse_sound: "parse_enum val_of members s = Inr x \<Longrightarrow> val_of x = s"
  by (auto simp: parse_enum_def find_Some_iff split: option.splits)

lemma parse_fails_iff: "(\<exists>e. parse_enum val_of members s = Inl e) \<longleftrightarrow> (\<forall>x. val_of x \<noteq> s)"
  using complete by (auto simp: parse_enum_def find_None_iff find_Some_iff split: option.splits)

end

section \<open>\<open>HarnessType\<close>\<close>

datatype harness_type =
    HT_CURSOR
  | HT_CODEX
  | HT_CLAUDE_CODE
  | HT_OPENCODE
  | HT_DEVIN
  | HT_GROK_BUILD
  | HT_GROK_BOT
  | HT_PI
  | HT_OMP
  | HT_HERMES
  | HT_PRIME
  | HT_ZCODE
  | HT_KIMI
  | HT_DEEPSEEK
  | HT_QWEN
  | HT_SYNTHETIC
  | HT_UNKNOWN

fun harness_type_value :: "harness_type \<Rightarrow> string" where
  "harness_type_value HT_CURSOR = ''cursor''"
| "harness_type_value HT_CODEX = ''codex''"
| "harness_type_value HT_CLAUDE_CODE = ''claude_code''"
| "harness_type_value HT_OPENCODE = ''opencode''"
| "harness_type_value HT_DEVIN = ''devin''"
| "harness_type_value HT_GROK_BUILD = ''grok_build''"
| "harness_type_value HT_GROK_BOT = ''grok_bot''"
| "harness_type_value HT_PI = ''pi''"
| "harness_type_value HT_OMP = ''omp''"
| "harness_type_value HT_HERMES = ''hermes''"
| "harness_type_value HT_PRIME = ''prime''"
| "harness_type_value HT_ZCODE = ''zcode''"
| "harness_type_value HT_KIMI = ''kimi''"
| "harness_type_value HT_DEEPSEEK = ''deepseek''"
| "harness_type_value HT_QWEN = ''qwen''"
| "harness_type_value HT_SYNTHETIC = ''synthetic''"
| "harness_type_value HT_UNKNOWN = ''unknown''"

definition all_harness_type :: "harness_type list" where
  "all_harness_type =
     [HT_CURSOR,
      HT_CODEX,
      HT_CLAUDE_CODE,
      HT_OPENCODE,
      HT_DEVIN,
      HT_GROK_BUILD,
      HT_GROK_BOT,
      HT_PI,
      HT_OMP,
      HT_HERMES,
      HT_PRIME,
      HT_ZCODE,
      HT_KIMI,
      HT_DEEPSEEK,
      HT_QWEN,
      HT_SYNTHETIC,
      HT_UNKNOWN]"

interpretation harness_type: str_enum harness_type_value all_harness_type
proof
  show "x \<in> set all_harness_type" for x
    by (cases x) (simp_all add: all_harness_type_def)
  show "distinct (map harness_type_value all_harness_type)"
    by (simp add: all_harness_type_def)
qed

section \<open>\<open>SessionStatus\<close>\<close>

datatype session_status =
    SS_DISCOVERED
  | SS_IDLE
  | SS_WORKING
  | SS_BLOCKED
  | SS_NEEDS_DECISION
  | SS_DRIFTING
  | SS_VERIFYING
  | SS_STOPPED
  | SS_ERROR
  | SS_DETACHED

fun session_status_value :: "session_status \<Rightarrow> string" where
  "session_status_value SS_DISCOVERED = ''discovered''"
| "session_status_value SS_IDLE = ''idle''"
| "session_status_value SS_WORKING = ''working''"
| "session_status_value SS_BLOCKED = ''blocked''"
| "session_status_value SS_NEEDS_DECISION = ''needs_decision''"
| "session_status_value SS_DRIFTING = ''drifting''"
| "session_status_value SS_VERIFYING = ''verifying''"
| "session_status_value SS_STOPPED = ''stopped''"
| "session_status_value SS_ERROR = ''error''"
| "session_status_value SS_DETACHED = ''detached''"

definition all_session_status :: "session_status list" where
  "all_session_status =
     [SS_DISCOVERED,
      SS_IDLE,
      SS_WORKING,
      SS_BLOCKED,
      SS_NEEDS_DECISION,
      SS_DRIFTING,
      SS_VERIFYING,
      SS_STOPPED,
      SS_ERROR,
      SS_DETACHED]"

interpretation session_status: str_enum session_status_value all_session_status
proof
  show "x \<in> set all_session_status" for x
    by (cases x) (simp_all add: all_session_status_def)
  show "distinct (map session_status_value all_session_status)"
    by (simp add: all_session_status_def)
qed

section \<open>\<open>EventType\<close>\<close>

datatype event_type =
    ET_SESSION_START
  | ET_SESSION_END
  | ET_MESSAGE_DELTA
  | ET_AGENT_THOUGHT
  | ET_AGENT_RESPONSE
  | ET_TOOL_CALL
  | ET_TOOL_RESULT
  | ET_TOOL_FAILURE
  | ET_FILE_EDIT
  | ET_FILE_READ
  | ET_SHELL
  | ET_PERMISSION_REQUEST
  | ET_STOP
  | ET_COMPACTION
  | ET_USER_PROMPT
  | ET_STATUS
  | ET_TOKEN_USAGE
  | ET_ERROR
  | ET_HEARTBEAT

fun event_type_value :: "event_type \<Rightarrow> string" where
  "event_type_value ET_SESSION_START = ''session_start''"
| "event_type_value ET_SESSION_END = ''session_end''"
| "event_type_value ET_MESSAGE_DELTA = ''message_delta''"
| "event_type_value ET_AGENT_THOUGHT = ''agent_thought''"
| "event_type_value ET_AGENT_RESPONSE = ''agent_response''"
| "event_type_value ET_TOOL_CALL = ''tool_call''"
| "event_type_value ET_TOOL_RESULT = ''tool_result''"
| "event_type_value ET_TOOL_FAILURE = ''tool_failure''"
| "event_type_value ET_FILE_EDIT = ''file_edit''"
| "event_type_value ET_FILE_READ = ''file_read''"
| "event_type_value ET_SHELL = ''shell''"
| "event_type_value ET_PERMISSION_REQUEST = ''permission_request''"
| "event_type_value ET_STOP = ''stop''"
| "event_type_value ET_COMPACTION = ''compaction''"
| "event_type_value ET_USER_PROMPT = ''user_prompt''"
| "event_type_value ET_STATUS = ''status''"
| "event_type_value ET_TOKEN_USAGE = ''token_usage''"
| "event_type_value ET_ERROR = ''error''"
| "event_type_value ET_HEARTBEAT = ''heartbeat''"

definition all_event_type :: "event_type list" where
  "all_event_type =
     [ET_SESSION_START,
      ET_SESSION_END,
      ET_MESSAGE_DELTA,
      ET_AGENT_THOUGHT,
      ET_AGENT_RESPONSE,
      ET_TOOL_CALL,
      ET_TOOL_RESULT,
      ET_TOOL_FAILURE,
      ET_FILE_EDIT,
      ET_FILE_READ,
      ET_SHELL,
      ET_PERMISSION_REQUEST,
      ET_STOP,
      ET_COMPACTION,
      ET_USER_PROMPT,
      ET_STATUS,
      ET_TOKEN_USAGE,
      ET_ERROR,
      ET_HEARTBEAT]"

interpretation event_type: str_enum event_type_value all_event_type
proof
  show "x \<in> set all_event_type" for x
    by (cases x) (simp_all add: all_event_type_def)
  show "distinct (map event_type_value all_event_type)"
    by (simp add: all_event_type_def)
qed

section \<open>\<open>EventPhase\<close>\<close>

datatype event_phase =
    EP_BEFORE
  | EP_AFTER
  | EP_DURING
  | EP_TERMINAL

fun event_phase_value :: "event_phase \<Rightarrow> string" where
  "event_phase_value EP_BEFORE = ''before''"
| "event_phase_value EP_AFTER = ''after''"
| "event_phase_value EP_DURING = ''during''"
| "event_phase_value EP_TERMINAL = ''terminal''"

definition all_event_phase :: "event_phase list" where
  "all_event_phase =
     [EP_BEFORE,
      EP_AFTER,
      EP_DURING,
      EP_TERMINAL]"

interpretation event_phase: str_enum event_phase_value all_event_phase
proof
  show "x \<in> set all_event_phase" for x
    by (cases x) (simp_all add: all_event_phase_def)
  show "distinct (map event_phase_value all_event_phase)"
    by (simp add: all_event_phase_def)
qed

section \<open>\<open>DecisionSource\<close>\<close>

datatype decision_source =
    DSRC_HUMAN
  | DSRC_AGENT
  | DSRC_INFERRED
  | DSRC_PEX

fun decision_source_value :: "decision_source \<Rightarrow> string" where
  "decision_source_value DSRC_HUMAN = ''human''"
| "decision_source_value DSRC_AGENT = ''agent''"
| "decision_source_value DSRC_INFERRED = ''inferred''"
| "decision_source_value DSRC_PEX = ''pex''"

definition all_decision_source :: "decision_source list" where
  "all_decision_source =
     [DSRC_HUMAN,
      DSRC_AGENT,
      DSRC_INFERRED,
      DSRC_PEX]"

interpretation decision_source: str_enum decision_source_value all_decision_source
proof
  show "x \<in> set all_decision_source" for x
    by (cases x) (simp_all add: all_decision_source_def)
  show "distinct (map decision_source_value all_decision_source)"
    by (simp add: all_decision_source_def)
qed

section \<open>\<open>DecisionStatus\<close>\<close>

datatype decision_status =
    DST_ACTIVE
  | DST_SUPERSEDED
  | DST_UNCERTAIN

fun decision_status_value :: "decision_status \<Rightarrow> string" where
  "decision_status_value DST_ACTIVE = ''active''"
| "decision_status_value DST_SUPERSEDED = ''superseded''"
| "decision_status_value DST_UNCERTAIN = ''uncertain''"

definition all_decision_status :: "decision_status list" where
  "all_decision_status =
     [DST_ACTIVE,
      DST_SUPERSEDED,
      DST_UNCERTAIN]"

interpretation decision_status: str_enum decision_status_value all_decision_status
proof
  show "x \<in> set all_decision_status" for x
    by (cases x) (simp_all add: all_decision_status_def)
  show "distinct (map decision_status_value all_decision_status)"
    by (simp add: all_decision_status_def)
qed

section \<open>\<open>ContextKind\<close>\<close>

datatype context_kind =
    CK_FACT
  | CK_DECISION
  | CK_CONSTRAINT
  | CK_ARTIFACT
  | CK_RESULT
  | CK_HYPOTHESIS
  | CK_WARNING
  | CK_CLAIM

fun context_kind_value :: "context_kind \<Rightarrow> string" where
  "context_kind_value CK_FACT = ''fact''"
| "context_kind_value CK_DECISION = ''decision''"
| "context_kind_value CK_CONSTRAINT = ''constraint''"
| "context_kind_value CK_ARTIFACT = ''artifact''"
| "context_kind_value CK_RESULT = ''result''"
| "context_kind_value CK_HYPOTHESIS = ''hypothesis''"
| "context_kind_value CK_WARNING = ''warning''"
| "context_kind_value CK_CLAIM = ''claim''"

definition all_context_kind :: "context_kind list" where
  "all_context_kind =
     [CK_FACT,
      CK_DECISION,
      CK_CONSTRAINT,
      CK_ARTIFACT,
      CK_RESULT,
      CK_HYPOTHESIS,
      CK_WARNING,
      CK_CLAIM]"

interpretation context_kind: str_enum context_kind_value all_context_kind
proof
  show "x \<in> set all_context_kind" for x
    by (cases x) (simp_all add: all_context_kind_def)
  show "distinct (map context_kind_value all_context_kind)"
    by (simp add: all_context_kind_def)
qed

section \<open>\<open>Sensitivity\<close>\<close>

datatype sensitivity =
    SEN_PUBLIC
  | SEN_INTERNAL
  | SEN_SECRET
  | SEN_LOCAL_ONLY

fun sensitivity_value :: "sensitivity \<Rightarrow> string" where
  "sensitivity_value SEN_PUBLIC = ''public''"
| "sensitivity_value SEN_INTERNAL = ''internal''"
| "sensitivity_value SEN_SECRET = ''secret''"
| "sensitivity_value SEN_LOCAL_ONLY = ''local_only''"

definition all_sensitivity :: "sensitivity list" where
  "all_sensitivity =
     [SEN_PUBLIC,
      SEN_INTERNAL,
      SEN_SECRET,
      SEN_LOCAL_ONLY]"

interpretation sensitivity: str_enum sensitivity_value all_sensitivity
proof
  show "x \<in> set all_sensitivity" for x
    by (cases x) (simp_all add: all_sensitivity_def)
  show "distinct (map sensitivity_value all_sensitivity)"
    by (simp add: all_sensitivity_def)
qed

section \<open>\<open>SourceKind\<close>\<close>

datatype source_kind =
    SK_HUMAN
  | SK_HARNESS
  | SK_WORKSPACE
  | SK_TEST
  | SK_GIT
  | SK_PEX

fun source_kind_value :: "source_kind \<Rightarrow> string" where
  "source_kind_value SK_HUMAN = ''human''"
| "source_kind_value SK_HARNESS = ''harness''"
| "source_kind_value SK_WORKSPACE = ''workspace''"
| "source_kind_value SK_TEST = ''test''"
| "source_kind_value SK_GIT = ''git''"
| "source_kind_value SK_PEX = ''pex''"

definition all_source_kind :: "source_kind list" where
  "all_source_kind =
     [SK_HUMAN,
      SK_HARNESS,
      SK_WORKSPACE,
      SK_TEST,
      SK_GIT,
      SK_PEX]"

interpretation source_kind: str_enum source_kind_value all_source_kind
proof
  show "x \<in> set all_source_kind" for x
    by (cases x) (simp_all add: all_source_kind_def)
  show "distinct (map source_kind_value all_source_kind)"
    by (simp add: all_source_kind_def)
qed

section \<open>\<open>AutonomyLevel\<close>\<close>

datatype autonomy_level =
    AL_OBSERVE
  | AL_ASSIST
  | AL_NUDGE
  | AL_MANAGE
  | AL_AUTOPILOT

fun autonomy_level_value :: "autonomy_level \<Rightarrow> string" where
  "autonomy_level_value AL_OBSERVE = ''observe''"
| "autonomy_level_value AL_ASSIST = ''assist''"
| "autonomy_level_value AL_NUDGE = ''nudge''"
| "autonomy_level_value AL_MANAGE = ''manage''"
| "autonomy_level_value AL_AUTOPILOT = ''autopilot''"

definition all_autonomy_level :: "autonomy_level list" where
  "all_autonomy_level =
     [AL_OBSERVE,
      AL_ASSIST,
      AL_NUDGE,
      AL_MANAGE,
      AL_AUTOPILOT]"

interpretation autonomy_level: str_enum autonomy_level_value all_autonomy_level
proof
  show "x \<in> set all_autonomy_level" for x
    by (cases x) (simp_all add: all_autonomy_level_def)
  show "distinct (map autonomy_level_value all_autonomy_level)"
    by (simp add: all_autonomy_level_def)
qed

section \<open>\<open>PolicyVerdict\<close>\<close>

datatype policy_verdict =
    PV_ALLOW
  | PV_DENY
  | PV_ASK_HUMAN

fun policy_verdict_value :: "policy_verdict \<Rightarrow> string" where
  "policy_verdict_value PV_ALLOW = ''allow''"
| "policy_verdict_value PV_DENY = ''deny''"
| "policy_verdict_value PV_ASK_HUMAN = ''ask_human''"

definition all_policy_verdict :: "policy_verdict list" where
  "all_policy_verdict =
     [PV_ALLOW,
      PV_DENY,
      PV_ASK_HUMAN]"

interpretation policy_verdict: str_enum policy_verdict_value all_policy_verdict
proof
  show "x \<in> set all_policy_verdict" for x
    by (cases x) (simp_all add: all_policy_verdict_def)
  show "distinct (map policy_verdict_value all_policy_verdict)"
    by (simp add: all_policy_verdict_def)
qed

section \<open>\<open>Authority\<close>\<close>

datatype authority =
    AUTH_LOCAL_POLICY
  | AUTH_HUMAN
  | AUTH_SUPERVISOR_PROPOSAL

fun authority_value :: "authority \<Rightarrow> string" where
  "authority_value AUTH_LOCAL_POLICY = ''local_policy''"
| "authority_value AUTH_HUMAN = ''human''"
| "authority_value AUTH_SUPERVISOR_PROPOSAL = ''supervisor_proposal''"

definition all_authority :: "authority list" where
  "all_authority =
     [AUTH_LOCAL_POLICY,
      AUTH_HUMAN,
      AUTH_SUPERVISOR_PROPOSAL]"

interpretation authority: str_enum authority_value all_authority
proof
  show "x \<in> set all_authority" for x
    by (cases x) (simp_all add: all_authority_def)
  show "distinct (map authority_value all_authority)"
    by (simp add: all_authority_def)
qed

section \<open>\<open>InterventionType\<close>\<close>

datatype intervention_type =
    IT_NOOP
  | IT_ANNOTATE
  | IT_NOTIFY
  | IT_SEND_NUDGE
  | IT_INJECT_CONTEXT
  | IT_CONTINUE_SESSION
  | IT_REQUEST_VERIFICATION
  | IT_RESPOND_PERMISSION
  | IT_APPLY_OVERLAY
  | IT_REVERT_OVERLAY
  | IT_FRESH_HANDOFF
  | IT_START_AGENT
  | IT_STOP_AGENT
  | IT_FORK_PROBE
  | IT_CLEANUP
  | IT_FOCUS_UI
  | IT_ASK_HUMAN

fun intervention_type_value :: "intervention_type \<Rightarrow> string" where
  "intervention_type_value IT_NOOP = ''NOOP''"
| "intervention_type_value IT_ANNOTATE = ''ANNOTATE''"
| "intervention_type_value IT_NOTIFY = ''NOTIFY''"
| "intervention_type_value IT_SEND_NUDGE = ''SEND_NUDGE''"
| "intervention_type_value IT_INJECT_CONTEXT = ''INJECT_CONTEXT''"
| "intervention_type_value IT_CONTINUE_SESSION = ''CONTINUE_SESSION''"
| "intervention_type_value IT_REQUEST_VERIFICATION = ''REQUEST_VERIFICATION''"
| "intervention_type_value IT_RESPOND_PERMISSION = ''RESPOND_PERMISSION''"
| "intervention_type_value IT_APPLY_OVERLAY = ''APPLY_OVERLAY''"
| "intervention_type_value IT_REVERT_OVERLAY = ''REVERT_OVERLAY''"
| "intervention_type_value IT_FRESH_HANDOFF = ''FRESH_HANDOFF''"
| "intervention_type_value IT_START_AGENT = ''START_AGENT''"
| "intervention_type_value IT_STOP_AGENT = ''STOP_AGENT''"
| "intervention_type_value IT_FORK_PROBE = ''FORK_PROBE''"
| "intervention_type_value IT_CLEANUP = ''CLEANUP''"
| "intervention_type_value IT_FOCUS_UI = ''FOCUS_UI''"
| "intervention_type_value IT_ASK_HUMAN = ''ASK_HUMAN''"

definition all_intervention_type :: "intervention_type list" where
  "all_intervention_type =
     [IT_NOOP,
      IT_ANNOTATE,
      IT_NOTIFY,
      IT_SEND_NUDGE,
      IT_INJECT_CONTEXT,
      IT_CONTINUE_SESSION,
      IT_REQUEST_VERIFICATION,
      IT_RESPOND_PERMISSION,
      IT_APPLY_OVERLAY,
      IT_REVERT_OVERLAY,
      IT_FRESH_HANDOFF,
      IT_START_AGENT,
      IT_STOP_AGENT,
      IT_FORK_PROBE,
      IT_CLEANUP,
      IT_FOCUS_UI,
      IT_ASK_HUMAN]"

interpretation intervention_type: str_enum intervention_type_value all_intervention_type
proof
  show "x \<in> set all_intervention_type" for x
    by (cases x) (simp_all add: all_intervention_type_def)
  show "distinct (map intervention_type_value all_intervention_type)"
    by (simp add: all_intervention_type_def)
qed

section \<open>\<open>RiskLevel\<close>\<close>

datatype risk_level =
    RL_NONE
  | RL_LOW
  | RL_MEDIUM
  | RL_HIGH
  | RL_IRREVERSIBLE

fun risk_level_value :: "risk_level \<Rightarrow> string" where
  "risk_level_value RL_NONE = ''none''"
| "risk_level_value RL_LOW = ''low''"
| "risk_level_value RL_MEDIUM = ''medium''"
| "risk_level_value RL_HIGH = ''high''"
| "risk_level_value RL_IRREVERSIBLE = ''irreversible''"

definition all_risk_level :: "risk_level list" where
  "all_risk_level =
     [RL_NONE,
      RL_LOW,
      RL_MEDIUM,
      RL_HIGH,
      RL_IRREVERSIBLE]"

interpretation risk_level: str_enum risk_level_value all_risk_level
proof
  show "x \<in> set all_risk_level" for x
    by (cases x) (simp_all add: all_risk_level_def)
  show "distinct (map risk_level_value all_risk_level)"
    by (simp add: all_risk_level_def)
qed

section \<open>\<open>ControlGranularity\<close>\<close>

datatype control_granularity =
    CG_EVENT
  | CG_TURN
  | CG_SESSION
  | CG_UI_ONLY

fun control_granularity_value :: "control_granularity \<Rightarrow> string" where
  "control_granularity_value CG_EVENT = ''event''"
| "control_granularity_value CG_TURN = ''turn''"
| "control_granularity_value CG_SESSION = ''session''"
| "control_granularity_value CG_UI_ONLY = ''ui_only''"

definition all_control_granularity :: "control_granularity list" where
  "all_control_granularity =
     [CG_EVENT,
      CG_TURN,
      CG_SESSION,
      CG_UI_ONLY]"

interpretation control_granularity: str_enum control_granularity_value all_control_granularity
proof
  show "x \<in> set all_control_granularity" for x
    by (cases x) (simp_all add: all_control_granularity_def)
  show "distinct (map control_granularity_value all_control_granularity)"
    by (simp add: all_control_granularity_def)
qed

section \<open>\<open>AdapterSupportLabel\<close>\<close>

datatype adapter_support_label =
    ASL_DEEP
  | ASL_STRONG
  | ASL_BASIC
  | ASL_OBSERVE_ONLY
  | ASL_EXPERIMENTAL
  | ASL_UNAVAILABLE

fun adapter_support_label_value :: "adapter_support_label \<Rightarrow> string" where
  "adapter_support_label_value ASL_DEEP = ''deep''"
| "adapter_support_label_value ASL_STRONG = ''strong''"
| "adapter_support_label_value ASL_BASIC = ''basic''"
| "adapter_support_label_value ASL_OBSERVE_ONLY = ''observe_only''"
| "adapter_support_label_value ASL_EXPERIMENTAL = ''experimental''"
| "adapter_support_label_value ASL_UNAVAILABLE = ''unavailable''"

definition all_adapter_support_label :: "adapter_support_label list" where
  "all_adapter_support_label =
     [ASL_DEEP,
      ASL_STRONG,
      ASL_BASIC,
      ASL_OBSERVE_ONLY,
      ASL_EXPERIMENTAL,
      ASL_UNAVAILABLE]"

interpretation adapter_support_label: str_enum adapter_support_label_value all_adapter_support_label
proof
  show "x \<in> set all_adapter_support_label" for x
    by (cases x) (simp_all add: all_adapter_support_label_def)
  show "distinct (map adapter_support_label_value all_adapter_support_label)"
    by (simp add: all_adapter_support_label_def)
qed

section \<open>\<open>PermissionResponseMode\<close>\<close>

datatype permission_response_mode =
    PRM_NONE
  | PRM_INLINE
  | PRM_ASYNC
  | PRM_BOTH

fun permission_response_mode_value :: "permission_response_mode \<Rightarrow> string" where
  "permission_response_mode_value PRM_NONE = ''none''"
| "permission_response_mode_value PRM_INLINE = ''inline''"
| "permission_response_mode_value PRM_ASYNC = ''async''"
| "permission_response_mode_value PRM_BOTH = ''both''"

definition all_permission_response_mode :: "permission_response_mode list" where
  "all_permission_response_mode =
     [PRM_NONE,
      PRM_INLINE,
      PRM_ASYNC,
      PRM_BOTH]"

interpretation permission_response_mode: str_enum permission_response_mode_value all_permission_response_mode
proof
  show "x \<in> set all_permission_response_mode" for x
    by (cases x) (simp_all add: all_permission_response_mode_def)
  show "distinct (map permission_response_mode_value all_permission_response_mode)"
    by (simp add: all_permission_response_mode_def)
qed

section \<open>The orders the code uses\<close>

text \<open>\<open>_RISK_ORDER\<close> of the policy engine ranks the risk levels; the rank makes them a linear order.\<close>

fun risk_rank :: "risk_level \<Rightarrow> nat" where
  "risk_rank RL_NONE = 0"
| "risk_rank RL_LOW = 1"
| "risk_rank RL_MEDIUM = 2"
| "risk_rank RL_HIGH = 3"
| "risk_rank RL_IRREVERSIBLE = 4"

lemma risk_rank_eq_iff [simp]: "risk_rank a = risk_rank b \<longleftrightarrow> a = b"
  by (cases a; cases b) simp_all

instantiation risk_level :: linorder
begin

definition less_eq_risk_level :: "risk_level \<Rightarrow> risk_level \<Rightarrow> bool" where
  "less_eq_risk_level a b = (risk_rank a \<le> risk_rank b)"

definition less_risk_level :: "risk_level \<Rightarrow> risk_level \<Rightarrow> bool" where
  "less_risk_level a b = (risk_rank a < risk_rank b)"

instance
proof
  fix a b c :: risk_level
  show "a < b \<longleftrightarrow> a \<le> b \<and> \<not> b \<le> a"
    by (auto simp: less_eq_risk_level_def less_risk_level_def)
  show "a \<le> a" by (simp add: less_eq_risk_level_def)
  show "a \<le> b \<Longrightarrow> b \<le> c \<Longrightarrow> a \<le> c" by (simp add: less_eq_risk_level_def)
  show "a \<le> b \<Longrightarrow> b \<le> a \<Longrightarrow> a = b"
    by (simp add: less_eq_risk_level_def flip: risk_rank_eq_iff)
  show "a \<le> b \<or> b \<le> a" by (auto simp: less_eq_risk_level_def)
qed

end

end
