(* ===== verification/Canonical_Json.thy ===== *)
theory Canonical_Json
  imports Pex_Prelude "HOL-Library.List_Lexorder"
begin

text \<open>
  \<open>json.dumps(value, sort_keys=True, separators=(",", ":"))\<close>, the text the fingerprints of the
  code are taken from: \<open>json_dumps ascii show_float v\<close>, where \<open>ascii\<close> is the keyword argument
  \<open>ensure_ascii\<close> and \<open>show_float\<close> stands for \<open>float.__repr__\<close>. The lemmas show that the text
  determines the value, up to the order of dictionary keys, when the value contains no float.
\<close>

section \<open>Printing\<close>

definition hex_digit :: "nat \<Rightarrow> char" where
  "hex_digit n = (if n < 10 then char_of (48 + n) else char_of (87 + n))"

definition json_char :: "bool \<Rightarrow> char \<Rightarrow> string" where
  "json_char ascii c =
     (if c = CHR 0x22 then [CHR 0x5C, CHR 0x22]
      else if c = CHR 0x5C then [CHR 0x5C, CHR 0x5C]
      else if c = CHR 0x08 then [CHR 0x5C, CHR ''b'']
      else if c = CHR 0x0C then [CHR 0x5C, CHR ''f'']
      else if c = CHR 0x0A then [CHR 0x5C, CHR ''n'']
      else if c = CHR 0x0D then [CHR 0x5C, CHR ''r'']
      else if c = CHR 0x09 then [CHR 0x5C, CHR ''t'']
      else if code c < 32 \<or> (ascii \<and> 126 < code c)
        then [CHR 0x5C, CHR ''u'', CHR ''0'', CHR ''0'', hex_digit (code c div 16), hex_digit (code c mod 16)]
      else [c])"

definition json_string :: "bool \<Rightarrow> string \<Rightarrow> string" where
  "json_string ascii s = [CHR 0x22] @ concat (map (json_char ascii) s) @ [CHR 0x22]"

fun json_text :: "bool \<Rightarrow> (rat \<Rightarrow> string) \<Rightarrow> pyval \<Rightarrow> string" where
  "json_text ascii show_float PNone = ''null''"
| "json_text ascii show_float (PBool b) = (if b then ''true'' else ''false'')"
| "json_text ascii show_float (PInt i) = decimal_int i"
| "json_text ascii show_float (PFloat q) = show_float q"
| "json_text ascii show_float (PStr s) = json_string ascii s"
| "json_text ascii show_float (PList vs) =
     ''['' @ join '','' (map (json_text ascii show_float) vs) @ '']''"
| "json_text ascii show_float (PDict kvs) =
     ''{'' @ join '','' (map (\<lambda>(k, v). json_string ascii k @ '':'' @ json_text ascii show_float v) kvs)
     @ ''}''"

fun sort_keys :: "pyval \<Rightarrow> pyval" where
  "sort_keys (PList vs) = PList (map sort_keys vs)"
| "sort_keys (PDict kvs) = PDict (sort_key fst (map (\<lambda>(k, v). (k, sort_keys v)) kvs))"
| "sort_keys v = v"

definition json_dumps :: "bool \<Rightarrow> (rat \<Rightarrow> string) \<Rightarrow> pyval \<Rightarrow> string" where
  "json_dumps ascii show_float v = json_text ascii show_float (sort_keys v)"

fun float_free :: "pyval \<Rightarrow> bool" where
  "float_free (PFloat q) = False"
| "float_free (PList vs) = (\<forall>v \<in> set vs. float_free v)"
| "float_free (PDict kvs) = (\<forall>kv \<in> set kvs. float_free (snd kv))"
| "float_free v = True"

section \<open>The text determines the value\<close>

subsection \<open>Strings\<close>

definition escaped :: "bool \<Rightarrow> char \<Rightarrow> bool" where
  "escaped ascii c = (c \<in> {CHR 0x22, CHR 0x5C} \<or> code c < 32 \<or> (ascii \<and> 126 < code c))"

lemma hex_digit_inj: "m < 16 \<Longrightarrow> n < 16 \<Longrightarrow> hex_digit m = hex_digit n \<Longrightarrow> m = n"
proof -
  assume h: "m < 16" "n < 16" "hex_digit m = hex_digit n"
  have "code (hex_digit k) = (if k < 10 then 48 + k else 87 + k)" if "k < 16" for k :: nat
    using that by (simp add: hex_digit_def)
  with h have "(if m < 10 then 48 + m else 87 + m) = (if n < 10 then 48 + n else 87 + n)"
    by metis
  then show ?thesis by (simp split: if_splits)
qed

lemma json_char_not_Nil [simp]: "json_char ascii c \<noteq> []"
  by (simp add: json_char_def)

lemma json_char_no_quote: "hd (json_char ascii c) \<noteq> CHR 0x22"
  by (auto simp: json_char_def)

lemma json_char_prefix:
  assumes "json_char ascii c @ r = json_char ascii c' @ r'"
  shows "c = c' \<and> r = r'"
proof -
  have hex: "code x = code y"
    if "hex_digit (code x div 16) = hex_digit (code y div 16)"
      "hex_digit (code x mod 16) = hex_digit (code y mod 16)" for x y :: char
  proof -
    have "code x < 256" "code y < 256" for x y :: char
      by (rule nat_of_char_less_256)+
    then have "code x div 16 < 16" "code y div 16 < 16" by (simp_all add: less_mult_imp_div_less)
    then have "code x div 16 = code y div 16" "code x mod 16 = code y mod 16"
      using that by (auto intro!: hex_digit_inj)
    then show ?thesis by (metis div_mult_mod_eq)
  qed
  show ?thesis
    using assms hex [of c c'] unfolding json_char_def by (auto split: if_splits)
qed

lemma json_char_append_quote [simp]:
  "json_char ascii c @ x \<noteq> CHR 0x22 # y" "CHR 0x22 # y \<noteq> json_char ascii c @ x"
  using json_char_no_quote [of ascii c] json_char_not_Nil [of ascii c]
  by (cases "json_char ascii c"; simp)+

lemma json_chars_prefix:
  "concat (map (json_char ascii) s) @ CHR 0x22 # r = concat (map (json_char ascii) s') @ CHR 0x22 # r' \<Longrightarrow>
   s = s' \<and> r = r'"
proof (induction s arbitrary: s')
  case Nil
  then show ?case by (cases s') simp_all
next
  case (Cons c s)
  then obtain c' t where s': "s' = c' # t" by (cases s') simp_all
  with Cons.prems have "json_char ascii c @ concat (map (json_char ascii) s) @ CHR 0x22 # r =
    json_char ascii c' @ concat (map (json_char ascii) t) @ CHR 0x22 # r'" by simp
  from json_char_prefix [OF this] Cons.IH s' show ?case by blast
qed

lemma json_string_prefix:
  "json_string ascii s @ r = json_string ascii s' @ r' \<Longrightarrow> s = s' \<and> r = r'"
  using json_chars_prefix [of ascii s r s' r'] by (simp add: json_string_def)

subsection \<open>Numbers\<close>

fun read_decimal :: "string \<Rightarrow> nat" where
  "read_decimal s = foldl (\<lambda>n c. 10 * n + (code c - 48)) 0 s"

lemma decimal_small: "n < 10 \<Longrightarrow> decimal n = [char_of (48 + n)]"
  by (subst decimal.simps) simp

lemma decimal_step: "\<not> n < 10 \<Longrightarrow> decimal n = decimal (n div 10) @ [char_of (48 + n mod 10)]"
  by (subst decimal.simps) simp

lemma read_decimal_decimal: "read_decimal (decimal n) = n"
proof (induction n rule: decimal.induct)
  case (1 n)
  show ?case
  proof (cases "n < 10")
    case True
    then show ?thesis by (simp add: decimal_small of_char_of)
  next
    case False
    have "48 + n mod 10 < 256" by (rule less_trans [of _ 58]) simp_all
    then have "code (char_of (48 + n mod 10) :: char) = 48 + n mod 10" by (simp add: of_char_of)
    with 1 False show ?thesis by (simp add: decimal_step)
  qed
qed

lemma decimal_digits: "x \<in> set (decimal n) \<Longrightarrow> is_digit_ascii x"
proof (induction n rule: decimal.induct)
  case (1 n)
  have "48 + n mod 10 < 58" by simp
  then have "is_digit_ascii (char_of (48 + n mod 10))"
    by (simp add: is_digit_ascii_def of_char_of)
  moreover have "n < 10 \<Longrightarrow> is_digit_ascii (char_of (48 + n))"
    by (simp add: is_digit_ascii_def of_char_of)
  ultimately show ?case
    using 1 by (cases "n < 10") (simp_all add: decimal_small decimal_step, blast)
qed

lemma decimal_not_Nil [simp]: "decimal n \<noteq> []"
  by (subst decimal.simps) simp

definition delimited :: "string \<Rightarrow> bool" where
  "delimited r = (r = [] \<or> hd r \<in> set '',]}'')"

lemma delimited_simps [simp]:
  "delimited []" "delimited (c # r) \<longleftrightarrow> c \<in> set '',]}''"
  by (simp_all add: delimited_def)

lemma decimal_prefix:
  assumes "decimal m @ r = decimal n @ r'" "delimited r" "delimited r'"
  shows "m = n \<and> r = r'"
proof -
  have digits: "takeWhile is_digit_ascii (decimal k @ t) = decimal k" if "delimited t" for k t
  proof -
    have "takeWhile is_digit_ascii t = []"
      using that by (cases t) (auto simp: is_digit_ascii_def)
    moreover have "\<forall>x \<in> set (decimal k). is_digit_ascii x"
      using decimal_digits by blast
    ultimately show ?thesis by (simp add: takeWhile_append2)
  qed
  have "decimal m = decimal n" using assms digits by metis
  then show ?thesis using assms(1) read_decimal_decimal by (metis append_same_eq same_append_eq)
qed

lemma decimal_first: "is_digit_ascii (hd (decimal n))"
  using decimal_digits [of "hd (decimal n)" n] by simp

lemma minus_not_decimal [simp]:
  "CHR ''-'' # s \<noteq> decimal n @ t" "decimal n @ t \<noteq> CHR ''-'' # s"
  using decimal_first [of n] decimal_not_Nil [of n]
  by (cases "decimal n"; simp add: is_digit_ascii_def; auto)+

lemma decimal_int_prefix:
  assumes "decimal_int i @ r = decimal_int j @ r'" "delimited r" "delimited r'"
  shows "i = j \<and> r = r'"
proof (cases "i < 0"; cases "j < 0")
  assume "i < 0" "j < 0"
  with assms decimal_prefix [of "nat (- i)" r "nat (- j)" r'] show ?thesis
    by (simp add: decimal_int_def eq_nat_nat_iff)
next
  assume "\<not> i < 0" "\<not> j < 0"
  with assms decimal_prefix [of "nat i" r "nat j" r'] show ?thesis
    by (simp add: decimal_int_def eq_nat_nat_iff)
qed (use assms in \<open>simp_all add: decimal_int_def\<close>)

lemma decimal_int_first: "hd (decimal_int i) = CHR ''-'' \<or> is_digit_ascii (hd (decimal_int i))"
  using decimal_first by (simp add: decimal_int_def)

lemma decimal_int_not_Nil [simp]: "decimal_int i \<noteq> []"
  by (simp add: decimal_int_def)

subsection \<open>Sequences and values\<close>

text \<open>An item printer is self-delimiting when its text and what follows a delimiter can be told apart.\<close>

definition splits_off :: "('a \<Rightarrow> string) \<Rightarrow> 'a \<Rightarrow> 'a \<Rightarrow> bool" where
  "splits_off f x y =
     (\<forall>r r'. delimited r \<longrightarrow> delimited r' \<longrightarrow> f x @ r = f y @ r' \<longrightarrow> x = y \<and> r = r')"

definition opens :: "('a \<Rightarrow> string) \<Rightarrow> 'a \<Rightarrow> bool" where
  "opens f x = (f x \<noteq> [] \<and> \<not> delimited (f x))"

lemma opens_not_close: "opens f x \<Longrightarrow> c \<in> set '',]}'' \<Longrightarrow> f x @ r \<noteq> c # s"
  by (cases "f x") (auto simp: opens_def)

lemma join_Cons: "join sep (x # xs) = x @ (if xs = [] then [] else sep @ join sep xs)"
  by (cases xs) simp_all

lemma join_prefix:
  assumes "\<forall>x \<in> set xs. \<forall>y \<in> set ys. splits_off f x y" "\<forall>x \<in> set xs \<union> set ys. opens f x"
    and "c \<in> set '']}''"
    and "join '','' (map f xs) @ c # r = join '','' (map f ys) @ c # r'"
  shows "xs = ys \<and> r = r'"
  using assms
proof (induction xs arbitrary: ys)
  case Nil
  then show ?case
    using opens_not_close [of f _ c] by (cases ys) (auto simp: join_Cons dest: sym)
next
  case (Cons x xs)
  show ?case
  proof (cases ys)
    case Nil
    with Cons.prems opens_not_close [of f x c] show ?thesis by (auto simp: join_Cons)
  next
    case ys: (Cons y zs)
    let ?rest = "\<lambda>zs. if zs = [] then [] else '','' @ join '','' (map f zs)"
    have "f x @ (?rest xs @ c # r) = f y @ (?rest zs @ c # r')"
      using Cons.prems(4) ys by (simp add: join_Cons)
    moreover have "delimited (?rest zs @ c # s)" for zs s
      using Cons.prems(3) by auto
    ultimately have eq: "x = y" "?rest xs @ c # r = ?rest zs @ c # r'"
      using Cons.prems(1) ys unfolding splits_off_def by (metis list.set_intros(1))+
    have c: "c \<noteq> CHR '',''" using Cons.prems(3) by auto
    consider "xs = []" "zs = []" | "xs \<noteq> []" "zs \<noteq> []"
      using eq(2) c by (cases xs; cases zs) auto
    then show ?thesis
    proof cases
      case 1
      with eq ys show ?thesis by simp
    next
      case 2
      with eq(2) have "join '','' (map f xs) @ c # r = join '','' (map f zs) @ c # r'" by simp
      with Cons.IH [of zs] Cons.prems(1-3) ys eq(1) show ?thesis by simp
    qed
  qed
qed

abbreviation json_item :: "bool \<Rightarrow> (rat \<Rightarrow> string) \<Rightarrow> string \<times> pyval \<Rightarrow> string" where
  "json_item ascii sf \<equiv> (\<lambda>(k, v). json_string ascii k @ '':'' @ json_text ascii sf v)"

lemma opens_string: "opens (json_item ascii sf) kv" "opens (json_text ascii sf) (PStr s)"
  by (cases kv, simp_all add: opens_def json_string_def)

lemma opens_text: "float_free v \<Longrightarrow> opens (json_text ascii sf) v"
proof (cases v)
  case (PInt i)
  then show ?thesis
    using decimal_int_first [of i] by (auto simp: opens_def delimited_def is_digit_ascii_def)
qed (auto simp: opens_def json_string_def)

text \<open>The first character of a text tells the constructor.\<close>

fun shape :: "pyval \<Rightarrow> nat" where
  "shape PNone = 0" | "shape (PBool b) = (if b then 1 else 2)" | "shape (PInt i) = 3" | "shape (PFloat q) = 4"
| "shape (PStr s) = 5" | "shape (PList vs) = 6" | "shape (PDict kvs) = 7"

definition shape_of_char :: "char \<Rightarrow> nat" where
  "shape_of_char c =
     (if c = CHR ''n'' then 0 else if c = CHR ''t'' then 1 else if c = CHR ''f'' then 2
      else if c = CHR 0x22 then 5 else if c = CHR ''['' then 6 else if c = CHR ''{'' then 7 else 3)"

lemma shape_of_text: "float_free v \<Longrightarrow> shape_of_char (hd (json_text ascii sf v)) = shape v"
proof (cases v)
  case (PInt i)
  then show ?thesis
    using decimal_int_first [of i] by (auto simp: shape_of_char_def is_digit_ascii_def)
qed (auto simp: shape_of_char_def json_string_def)

lemma same_shape:
  assumes "float_free v" "float_free v'" "json_text ascii sf v @ r = json_text ascii sf v' @ r'"
  shows "shape v = shape v'"
proof -
  have "json_text ascii sf v \<noteq> []" "json_text ascii sf v' \<noteq> []"
    using opens_text assms(1,2) by (auto simp: opens_def)
  with assms(3) have "hd (json_text ascii sf v) = hd (json_text ascii sf v')"
    by (metis hd_append2)
  with assms shape_of_text show ?thesis by metis
qed

lemma splits_off_item:
  assumes "splits_off (json_text ascii sf) v v'"
  shows "splits_off (json_item ascii sf) (k, v) (k', v')"
  unfolding splits_off_def
proof (intro allI impI)
  fix r r'
  assume del: "delimited r" "delimited r'"
    and eq: "json_item ascii sf (k, v) @ r = json_item ascii sf (k', v') @ r'"
  from eq have "json_string ascii k @ '':'' @ json_text ascii sf v @ r =
    json_string ascii k' @ '':'' @ json_text ascii sf v' @ r'" by simp
  then have "k = k'" "json_text ascii sf v @ r = json_text ascii sf v' @ r'"
    by (auto dest: json_string_prefix)
  with assms del show "(k, v) = (k', v') \<and> r = r'" unfolding splits_off_def by blast
qed

theorem json_text_splits_off:
  "float_free v \<Longrightarrow> float_free v' \<Longrightarrow> splits_off (json_text ascii sf) v v'"
proof (induction v arbitrary: v')
  case PNone
  then show ?case using same_shape [OF PNone] by (cases v') (force simp: splits_off_def split: if_splits)+
next
  case (PBool b)
  then show ?case using same_shape [OF PBool] by (cases v') (force simp: splits_off_def split: if_splits)+
next
  case (PInt i)
  show ?case unfolding splits_off_def
  proof (intro allI impI)
    fix r r' assume h: "delimited r" "delimited r'" "json_text ascii sf (PInt i) @ r = json_text ascii sf v' @ r'"
    with same_shape [OF PInt h(3)] obtain j where "v' = PInt j" by (cases v') (auto split: if_splits)
    with h decimal_int_prefix [of i r j r'] show "PInt i = v' \<and> r = r'" by simp
  qed
next
  case (PFloat q)
  then show ?case by simp
next
  case (PStr s)
  show ?case unfolding splits_off_def
  proof (intro allI impI)
    fix r r' assume h: "delimited r" "delimited r'" "json_text ascii sf (PStr s) @ r = json_text ascii sf v' @ r'"
    with same_shape [OF PStr h(3)] obtain j where "v' = PStr j" by (cases v') (auto split: if_splits)
    with h json_string_prefix [of ascii s r j r'] show "PStr s = v' \<and> r = r'" by simp
  qed
next
  case (PList vs)
  show ?case unfolding splits_off_def
  proof (intro allI impI)
    fix r r' assume h: "delimited r" "delimited r'" "json_text ascii sf (PList vs) @ r = json_text ascii sf v' @ r'"
    with same_shape [OF PList(2,3) h(3)] obtain ws where v': "v' = PList ws" by (cases v') (auto split: if_splits)
    have "vs = ws \<and> r = r'"
    proof (rule join_prefix [of vs ws "json_text ascii sf" "CHR '']''"])
      show "\<forall>x \<in> set vs. \<forall>y \<in> set ws. splits_off (json_text ascii sf) x y"
        using PList v' by simp
      show "\<forall>x \<in> set vs \<union> set ws. opens (json_text ascii sf) x"
        using PList(2,3) v' opens_text by auto
    qed (use h v' in simp_all)
    with v' show "PList vs = v' \<and> r = r'" by simp
  qed
next
  case (PDict kvs)
  show ?case unfolding splits_off_def
  proof (intro allI impI)
    fix r r' assume h: "delimited r" "delimited r'" "json_text ascii sf (PDict kvs) @ r = json_text ascii sf v' @ r'"
    with same_shape [OF PDict(2,3) h(3)] obtain ws where v': "v' = PDict ws" by (cases v') (auto split: if_splits)
    have "kvs = ws \<and> r = r'"
    proof (rule join_prefix [of kvs ws "json_item ascii sf" "CHR ''}''"])
      have "splits_off (json_text ascii sf) (snd x) (snd y)" if "x \<in> set kvs" "y \<in> set ws" for x y
        using PDict v' that by (cases x) (auto simp: snds.simps)
      then show "\<forall>x \<in> set kvs. \<forall>y \<in> set ws. splits_off (json_item ascii sf) x y"
        using splits_off_item by fastforce
      show "\<forall>x \<in> set kvs \<union> set ws. opens (json_item ascii sf) x" using opens_string(1) by blast
    qed (use h v' in simp_all)
    with v' show "PDict kvs = v' \<and> r = r'" by simp
  qed
qed

lemma float_free_sort_keys: "float_free v \<Longrightarrow> float_free (sort_keys v)"
  by (induction v rule: sort_keys.induct) auto

lemma json_dumps_inj:
  assumes "json_dumps ascii sf v = json_dumps ascii sf w" "float_free v" "float_free w"
  shows "sort_keys v = sort_keys w"
proof -
  have "splits_off (json_text ascii sf) (sort_keys v) (sort_keys w)"
    using assms(2,3) by (intro json_text_splits_off float_free_sort_keys)
  then have "json_text ascii sf (sort_keys v) @ [] = json_text ascii sf (sort_keys w) @ [] \<longrightarrow>
    sort_keys v = sort_keys w" unfolding splits_off_def using delimited_simps(1) by blast
  with assms(1) show ?thesis by (simp add: json_dumps_def)
qed

text \<open>Equal texts agree on every key, whatever the order of the keys was.\<close>

lemma sort_keys_dict:
  assumes "sort_keys (PDict d) = sort_keys (PDict e)" "distinct (map fst d)" "distinct (map fst e)"
  shows "sort_keys (dict_get d k) = sort_keys (dict_get e k)"
proof -
  let ?f = "\<lambda>(k, v). (k, sort_keys v)"
  have get: "sort_keys (dict_get x k) = (case map_of (map ?f x) k of None \<Rightarrow> PNone | Some v \<Rightarrow> v)" for x
    by (induction x) auto
  have dist: "distinct (map fst (map ?f d))" "distinct (map fst (map ?f e))"
    using assms(2,3) by (simp_all add: o_def case_prod_unfold)
  have "set (map ?f d) = set (map ?f e)"
  proof -
    have "sort_key fst (map ?f d) = sort_key fst (map ?f e)" using assms(1) by simp
    then have "set (sort_key fst (map ?f d)) = set (sort_key fst (map ?f e))" by (rule arg_cong)
    then show ?thesis by (simp only: set_sort)
  qed
  then have "map_of (map ?f d) = map_of (map ?f e)"
    using dist map_of_inject_set by blast
  with get show ?thesis by simp
qed

end
