(* ===== verification/Project_Identity.thy ===== *)
theory Project_Identity
  imports Py_Regex Pex_Enums Canonical_Json
begin

text \<open>
  \<open>packages/protocol/src/pex_protocol/project_identity.py\<close> and \<open>project_binding.py\<close>: lexical
  identity of project paths and locators. No definition touches a filesystem. A \<open>ValueError\<close> is
  \<open>Inl\<close> with the code's message. \<open>posixpath.normpath\<close> and \<open>ntpath.normpath\<close> are modelled after
  the portable implementation of Python 3.12. Parameters: the hex digest \<open>digest\<close> (SHA-256 in the
  code) and \<open>urlsplit\<close>, whose result is the record \<open>split_url\<close>.
\<close>

section \<open>Origins and physical proofs\<close>

datatype locator_kind =
  LOCAL_PATH | REMOTE_PATH | REPOSITORY_URI | PROVIDER_WORKSPACE | WORKSPACE_SET | OPAQUE

fun locator_kind_value :: "locator_kind \<Rightarrow> string" where
  "locator_kind_value LOCAL_PATH = ''local_path''"
| "locator_kind_value REMOTE_PATH = ''remote_path''"
| "locator_kind_value REPOSITORY_URI = ''repository_uri''"
| "locator_kind_value PROVIDER_WORKSPACE = ''provider_workspace''"
| "locator_kind_value WORKSPACE_SET = ''workspace_set''"
| "locator_kind_value OPAQUE = ''opaque''"

datatype path_platform = POSIX | WINDOWS

fun path_platform_value :: "path_platform \<Rightarrow> string" where
  "path_platform_value POSIX = ''posix''"
| "path_platform_value WINDOWS = ''windows''"

definition all_locator_kind :: "locator_kind list" where
  "all_locator_kind =
     [LOCAL_PATH, REMOTE_PATH, REPOSITORY_URI, PROVIDER_WORKSPACE, WORKSPACE_SET, OPAQUE]"

definition all_path_platform :: "path_platform list" where
  "all_path_platform = [POSIX, WINDOWS]"

interpretation locator_kind: str_enum locator_kind_value all_locator_kind
proof
  show "x \<in> set all_locator_kind" for x
    by (cases x) (simp_all add: all_locator_kind_def)
  show "distinct (map locator_kind_value all_locator_kind)"
    by (simp add: all_locator_kind_def)
qed

interpretation path_platform: str_enum path_platform_value all_path_platform
proof
  show "x \<in> set all_path_platform" for x
    by (cases x) (simp_all add: all_path_platform_def)
  show "distinct (map path_platform_value all_path_platform)"
    by (simp add: all_path_platform_def)
qed

record project_origin =
  namespace :: string
  host :: string

record physical_proof =
  provider :: string
  volume_id :: string
  object_id :: string

text \<open>\<open>_SAFE_LABEL.fullmatch\<close>: one alphanumeric, then up to 255 of a wider class.\<close>

definition is_safe_label :: "string \<Rightarrow> bool" where
  "is_safe_label s =
     (case s of [] \<Rightarrow> False
      | c # t \<Rightarrow> is_alnum_ascii c \<and> length t \<le> 255 \<and>
                 (\<forall>x \<in> set t. is_alnum_ascii x \<or> x \<in> set ''._:-''))"

definition length_between :: "nat \<Rightarrow> nat \<Rightarrow> string \<Rightarrow> bool" where
  "length_between lo hi s = (lo \<le> length s \<and> length s \<le> hi)"

definition nul :: char where "nul = CHR 0x00"

definition validate_origin :: "project_origin \<Rightarrow> unit result" where
  "validate_origin org =
     first_failure
       [(\<not> length_between 1 256 (namespace org), ''namespace length''),
        (\<not> length_between 1 512 (host org), ''host length''),
        (\<not> is_safe_label (namespace org), ''project origin namespace is invalid''),
        (host org \<noteq> strip (host org) \<or> nul \<in> set (host org), ''project origin host is invalid'')]"

definition canonical_host :: "project_origin \<Rightarrow> string" where
  "canonical_host org =
     (if namespace org = ''repository'' then ascii_lower (host org) else host org)"

definition validate_proof :: "physical_proof \<Rightarrow> unit result" where
  "validate_proof p =
     first_failure
       [(\<not> length_between 1 128 (provider p), ''provider length''),
        (\<not> length_between 1 512 (volume_id p), ''volume_id length''),
        (\<not> length_between 1 512 (object_id p), ''object_id length''),
        (\<not> is_safe_label (provider p), ''physical proof provider is invalid''),
        (\<exists>v \<in> set [volume_id p, object_id p]. v \<noteq> strip v \<or> nul \<in> set v,
           ''physical proof value is invalid'')]"

definition proof_key :: "physical_proof \<Rightarrow> string \<times> string \<times> string" where
  "proof_key p = (provider p, volume_id p, object_id p)"

section \<open>Path normalisation\<close>

abbreviation slash :: char where "slash \<equiv> CHR ''/''"
abbreviation bslash :: char where "bslash \<equiv> CHR 0x5C"

definition is_crlf :: "char \<Rightarrow> bool" where
  "is_crlf c = (c = CHR 0x0D \<or> c = CHR 0x0A)"

definition validate_raw :: "string \<Rightarrow> string \<Rightarrow> unit result" where
  "validate_raw label s =
     require (s \<noteq> [] \<and> length s \<le> 4096 \<and> nul \<notin> set s \<and> s = rstrip_where is_crlf s)
       (label @ '' is invalid'')"

text \<open>
  The component loop of both \<open>normpath\<close> functions, on a stack of kept components (last first);
  \<open>rooted\<close> says that the path has a root, above which \<open>..\<close> cannot climb.
\<close>

fun push_component :: "bool \<Rightarrow> string list \<Rightarrow> string \<Rightarrow> string list" where
  "push_component rooted stack seg =
     (if seg = [] \<or> seg = ''.'' then stack
      else if seg \<noteq> ''..'' then seg # stack
      else (case stack of
              [] \<Rightarrow> if rooted then [] else [''..'']
            | kept # below \<Rightarrow> if kept = ''..'' then ''..'' # stack else below))"

definition normal_components :: "bool \<Rightarrow> string list \<Rightarrow> string list" where
  "normal_components rooted comps = rev (foldl (push_component rooted) [] comps)"

definition posix_root :: "string \<Rightarrow> string" where
  "posix_root path =
     (if \<not> starts_with ''/'' path then []
      else if starts_with ''//'' path \<and> \<not> starts_with ''///'' path then ''//'' else ''/'')"

definition posix_normpath :: "string \<Rightarrow> string" where
  "posix_normpath path =
     (if path = [] then ''.''
      else let top_sep = posix_root path;
               out = top_sep @ join ''/'' (normal_components (top_sep \<noteq> []) (split_char slash path))
           in if out = [] then ''.'' else out)"

text \<open>\<open>ntpath.splitroot\<close> on a path whose separators are already backslashes.\<close>

definition find_from :: "char \<Rightarrow> nat \<Rightarrow> string \<Rightarrow> nat option" where
  "find_from d start s =
     (let gap = length (takeWhile (\<lambda>c. c \<noteq> d) (drop start s))
      in if start + gap < length s then Some (start + gap) else None)"

definition nt_splitroot :: "string \<Rightarrow> string \<times> string \<times> string" where
  "nt_splitroot p =
     (if starts_with [bslash, bslash] p then
        (let start = (if map lower_char (take 8 p) = [bslash, bslash] @ ''?'' @ [bslash] @ ''unc'' @ [bslash]
                      then 8 else 2)
         in case find_from bslash start p of
              None \<Rightarrow> (p, [], [])
            | Some i \<Rightarrow>
                (case find_from bslash (i + 1) p of
                   None \<Rightarrow> (p, [], [])
                 | Some j \<Rightarrow> (take j p, take 1 (drop j p), drop (j + 1) p)))
      else if starts_with [bslash] p then ([], take 1 p, drop 1 p)
      else if take 1 (drop 1 p) = '':'' then
        (if take 1 (drop 2 p) = [bslash] then (take 2 p, take 1 (drop 2 p), drop 3 p)
         else (take 2 p, [], drop 2 p))
      else ([], [], p))"

definition nt_normpath :: "string \<Rightarrow> string" where
  "nt_normpath path =
     (case nt_splitroot (replace_char slash bslash path) of
        (drive, top_sep, tail) \<Rightarrow>
          (let comps = normal_components (top_sep \<noteq> []) (split_char bslash tail)
           in if drive @ top_sep = [] \<and> comps = [] then ''.''
              else drive @ top_sep @ join [bslash] comps))"

section \<open>Canonical paths\<close>

definition canonical_posix_path :: "string \<Rightarrow> string result" where
  "canonical_posix_path raw =
     bind_result (validate_raw ''POSIX project path'' raw) (\<lambda>_.
       if \<not> starts_with ''/'' raw then Inl ''POSIX project path must be absolute''
       else if \<not> starts_with ''/'' (posix_normpath raw)
         then Inl ''POSIX project path normalization escaped its root''
       else Inr (posix_normpath raw))"

definition is_separator :: "char \<Rightarrow> bool" where
  "is_separator c = (c = slash \<or> c = bslash)"

definition drive_absolute :: "string \<Rightarrow> bool" where
  "drive_absolute s =
     (case s of d # k # sep # _ \<Rightarrow> is_alpha_ascii d \<and> k = CHR '':'' \<and> is_separator sep | _ \<Rightarrow> False)"

definition drive_relative :: "string \<Rightarrow> bool" where
  "drive_relative s =
     (case s of
        [d, k] \<Rightarrow> is_alpha_ascii d \<and> k = CHR '':''
      | d # k # x # _ \<Rightarrow> is_alpha_ascii d \<and> k = CHR '':'' \<and> \<not> is_separator x
      | _ \<Rightarrow> False)"

definition device_prefix :: string where
  "device_prefix = [bslash, bslash] @ ''?'' @ [bslash]"

definition device_drive :: rx where
  "device_drive =
     rseq [RBol, rlit device_prefix, RChr is_alpha_ascii, rchar (CHR '':''), rchar bslash]"

definition device_unc :: rx where
  "device_unc =
     rseq [RBol, rlit device_prefix, rlit_ci ''UNC'', rchar bslash, rplus (rnotset [bslash]),
           rchar bslash, rplus (rnotset [bslash])]"

definition nonempty_parts :: "string \<Rightarrow> string list" where
  "nonempty_parts s = filter (\<lambda>p. p \<noteq> []) (split_char bslash s)"

definition dot_segment :: "string \<Rightarrow> bool" where
  "dot_segment part = (part = ''.'' \<or> part = ''..'')"

definition canonical_windows_path :: "string \<Rightarrow> string result" where
  "canonical_windows_path raw =
     bind_result (validate_raw ''Windows project path'' raw) (\<lambda>_.
       let norm = replace_char slash bslash raw;
           device = starts_with device_prefix norm;
           double = starts_with [bslash, bslash] norm;
           parts = nonempty_parts norm;
           checked = (case parts of p # ps \<Rightarrow> if ends_with '':'' p then ps else parts | [] \<Rightarrow> parts);
           canonical = replace_char bslash slash (if device then norm else nt_normpath norm);
           folded = ascii_lower canonical;
           unc_root = ascii_lower (join ''/'' (take 2 parts))
       in bind_result
            (first_failure
              [(device \<and> \<not> (rx_matches device_drive norm \<or> rx_matches device_unc norm),
                  ''Windows device project path is unsupported or incomplete''),
               (drive_relative norm, ''Windows drive-relative project paths are ambiguous''),
               (\<not> (drive_absolute norm \<or> double),
                  ''Windows project path must be drive-absolute or UNC''),
               (double \<and> \<not> device \<and> length parts < 2,
                  ''Windows UNC project path requires server and share''),
               (device \<and> (\<exists>p \<in> set parts. dot_segment p),
                  ''Windows device project path contains an ambiguous dot segment''),
               (\<not> device \<and> (\<exists>p \<in> set checked. \<not> dot_segment p \<and> (ends_with '' '' p \<or> ends_with ''.'' p)),
                  ''Windows project path has an ambiguous trailing dot or space''),
               (double \<and> \<not> device \<and>
                  \<not> starts_with (unc_root @ ''/'') (remove_prefix ''//'' folded) \<and>
                  folded \<noteq> ''//'' @ unc_root,
                  ''Windows UNC project path escaped its share root'')])
            (\<lambda>_. Inr folded))"

definition canonical_absolute_path :: "string \<Rightarrow> (path_platform \<times> string) result" where
  "canonical_absolute_path raw =
     bind_result (validate_raw ''absolute path'' raw) (\<lambda>_.
     bind_result
       (first_failure
         [(raw \<noteq> strip raw, ''absolute path must not have surrounding whitespace''),
          (\<exists>c \<in> set raw. is_control c, ''absolute path must not contain control characters''),
          (\<exists>p \<in> set (split_char slash (replace_char bslash slash raw)). dot_segment p,
             ''absolute path must not contain dot components''),
          (starts_with ''//'' raw, ''absolute path has an ambiguous slash-only UNC prefix'')])
     (\<lambda>_.
       if drive_absolute (replace_char slash bslash raw) \<or> starts_with [bslash, bslash] raw
       then bind_result (canonical_windows_path raw) (\<lambda>p. Inr (WINDOWS, p))
       else if starts_with ''/'' raw
       then bind_result (canonical_posix_path raw) (\<lambda>p. Inr (POSIX, p))
       else Inl ''absolute path must be POSIX-absolute, drive-absolute, or UNC''))"

definition same_absolute_path :: "string option \<Rightarrow> string option \<Rightarrow> bool" where
  "same_absolute_path left right =
     (case (left, right) of
        (Some l, Some r) \<Rightarrow>
          (case (canonical_absolute_path l, canonical_absolute_path r) of
             (Inr a, Inr b) \<Rightarrow> a = b
           | _ \<Rightarrow> False)
      | _ \<Rightarrow> False)"

text \<open>\<open>project_binding.py\<close>.\<close>

definition project_binding_key :: "string \<Rightarrow> string" where
  "project_binding_key v =
     (if \<not> drive_absolute v then v
      else case canonical_absolute_path v of Inl _ \<Rightarrow> v | Inr (_, path) \<Rightarrow> path)"

section \<open>Normal forms\<close>

definition regular :: "string \<Rightarrow> bool" where
  "regular seg = (seg \<noteq> [] \<and> \<not> dot_segment seg)"

lemma push_component_regular:
  "\<forall>x \<in> set stack. regular x \<Longrightarrow> \<forall>x \<in> set (push_component True stack seg). regular x"
  by (cases stack) (auto simp: regular_def dot_segment_def)

lemma push_component_subset: "set (push_component rooted stack seg) \<subseteq> set stack \<union> {seg, ''..''}"
  by (cases stack) auto

lemma foldl_push_regular:
  "\<forall>x \<in> set stack. regular x \<Longrightarrow> \<forall>x \<in> set (foldl (push_component True) stack segs). regular x"
proof (induction segs arbitrary: stack)
  case (Cons seg segs)
  from Cons.IH [OF push_component_regular [OF Cons.prems]] show ?case by simp
qed simp

lemma foldl_push_subset:
  "x \<in> set (foldl (push_component rooted) stack segs) \<Longrightarrow> x \<in> set stack \<or> x \<in> set segs \<or> x = ''..''"
proof (induction segs arbitrary: stack)
  case (Cons seg segs)
  from Cons.IH [of "push_component rooted stack seg"] Cons.prems push_component_subset [of rooted stack seg]
  show ?case by (auto simp del: push_component.simps)
qed simp

lemma normal_components_regular: "x \<in> set (normal_components True segs) \<Longrightarrow> regular x"
  using foldl_push_regular [of "[]" segs] by (simp add: normal_components_def)

lemma normal_components_subset:
  "x \<in> set (normal_components True segs) \<Longrightarrow> x \<in> set segs"
  using foldl_push_subset [of x True "[]" segs] normal_components_regular [of x segs]
  by (auto simp: normal_components_def regular_def dot_segment_def)

lemma foldl_push_id:
  "\<forall>x \<in> set segs. regular x \<Longrightarrow> foldl (push_component rooted) stack segs = rev segs @ stack"
  by (induction segs arbitrary: stack) (auto simp: regular_def dot_segment_def)

lemma normal_components_id: "\<forall>x \<in> set segs. regular x \<Longrightarrow> normal_components rooted segs = segs"
  by (simp add: normal_components_def foldl_push_id)

lemma normal_components_blank: "normal_components rooted [[]] = []"
  by (simp add: normal_components_def)

text \<open>Components of a normal form: regular, without a separator. Splitting the joined list gives
  them back, as far as normalisation can see.\<close>

definition normal_list :: "string list \<Rightarrow> bool" where
  "normal_list cs = (\<forall>c \<in> set cs. regular c \<and> (\<forall>x \<in> set c. \<not> is_separator x))"

lemma normal_components_join:
  assumes "normal_list cs" "is_separator d"
  shows "normal_components rooted (split_char d (join [d] cs)) = cs"
proof (cases cs)
  case Nil
  then show ?thesis by (simp add: normal_components_blank)
next
  case (Cons c cs')
  then have "split_char d (join [d] cs) = cs"
    using assms by (intro split_char_join) (auto simp: normal_list_def)
  with assms show ?thesis by (simp add: normal_components_id normal_list_def)
qed

lemma ascii_lower_char_fix:
  assumes "\<not> is_alpha_ascii x"
  shows "ascii_lower_char c = x \<longleftrightarrow> c = x"
proof (cases "is_upper_ascii c")
  case True
  then have "is_lower_ascii (ascii_lower_char c)"
    by (simp add: ascii_lower_char_def is_upper_ascii_def is_lower_ascii_def of_char_of)
  with True assms show ?thesis by (auto simp: is_alpha_ascii_def)
qed (simp add: ascii_lower_char_def)

lemma not_alpha_marks:
  "\<not> is_alpha_ascii slash" "\<not> is_alpha_ascii bslash" "\<not> is_alpha_ascii (CHR ''.'')"
  "\<not> is_alpha_ascii (CHR '':'')"
  by (simp_all add: is_alpha_ascii_def is_upper_ascii_def is_lower_ascii_def)

lemmas ascii_lower_char_fixes [simp] = not_alpha_marks [THEN ascii_lower_char_fix]
lemmas ascii_lower_char_marks [simp] = ascii_lower_char_fixes [THEN iffD2, OF refl]

lemma ascii_lower_eq_Nil [simp]: "ascii_lower s = [] \<longleftrightarrow> s = []"
  by (cases s) simp_all

lemma dot_segment_ascii_lower [simp]: "dot_segment (ascii_lower s) = dot_segment s"
  by (auto simp: dot_segment_def ascii_lower_def map_eq_Cons_conv)

lemma regular_ascii_lower [simp]: "regular (ascii_lower s) = regular s"
  by (simp add: regular_def)

lemma no_separator_ascii_lower:
  "\<forall>x \<in> set c. \<not> is_separator x \<Longrightarrow> \<forall>x \<in> set (ascii_lower c). \<not> is_separator x"
  by (auto simp: ascii_lower_def is_separator_def)

lemma normal_list_ascii_lower: "normal_list cs \<Longrightarrow> normal_list (map ascii_lower cs)"
  by (auto simp: normal_list_def dest: no_separator_ascii_lower)

text \<open>The two shapes of a canonical local path.\<close>

definition posix_form :: "string list \<Rightarrow> string" where
  "posix_form cs = slash # join ''/'' cs"

definition drive_form :: "char \<Rightarrow> string list \<Rightarrow> string" where
  "drive_form d cs = d # CHR '':'' # slash # join ''/'' cs"

lemma canonical_posix_form:
  assumes "canonical_posix_path raw = Inr p" "\<not> starts_with ''//'' raw"
  shows "\<exists>cs. p = posix_form cs \<and> (\<forall>c \<in> set cs. regular c \<and> slash \<notin> set c)"
proof -
  have p: "p = posix_normpath raw" and raw: "starts_with ''/'' raw" "raw \<noteq> []"
    using assms(1) by (auto simp: canonical_posix_path_def bind_result_Inr_iff split: if_splits)
  let ?cs = "normal_components True (split_char slash raw)"
  have "posix_root raw = ''/''" using raw(1) assms(2) by (simp add: posix_root_def)
  then have "p = posix_form ?cs" using raw(2) p by (simp add: posix_normpath_def posix_form_def)
  moreover have "\<forall>c \<in> set ?cs. regular c \<and> slash \<notin> set c"
    using normal_components_regular normal_components_subset split_char_notin by metis
  ultimately show ?thesis by blast
qed

lemma posix_form_fixed:
  assumes "\<forall>c \<in> set cs. regular c \<and> slash \<notin> set c"
  shows "posix_normpath (posix_form cs) = posix_form cs"
proof -
  have split: "normal_components True (split_char slash (posix_form cs)) = cs"
  proof (cases cs)
    case Nil
    then show ?thesis by (simp add: posix_form_def normal_components_def)
  next
    case (Cons c cs')
    then have "split_char slash (posix_form cs) = [] # cs"
      using assms split_char_join [of cs slash] by (simp add: posix_form_def)
    moreover have "normal_components True ([] # cs) = normal_components True cs"
      by (simp add: normal_components_def)
    ultimately show ?thesis using assms by (simp add: normal_components_id)
  qed
  have "\<not> starts_with ''//'' (posix_form cs)"
  proof (cases cs)
    case (Cons c cs')
    then obtain x c' where "c = x # c'" "x \<noteq> slash"
      using assms by (cases c) (auto simp: regular_def)
    with Cons show ?thesis by (cases cs') (simp_all add: posix_form_def)
  qed (simp add: posix_form_def)
  then have "posix_root (posix_form cs) = ''/''" by (simp add: posix_root_def posix_form_def)
  then show ?thesis using split by (simp add: posix_normpath_def posix_form_def)
qed

lemma canonical_drive_form:
  assumes "canonical_windows_path raw = Inr p" "drive_absolute raw"
  shows "\<exists>d cs. p = drive_form d cs \<and> is_alpha_ascii d \<and> \<not> is_upper_ascii d \<and> normal_list cs \<and>
    map ascii_lower cs = cs"
proof -
  obtain d sep t where raw: "raw = d # CHR '':'' # sep # t" "is_alpha_ascii d" "is_separator sep"
    using assms(2) by (auto simp: drive_absolute_def split: list.splits)
  have d: "d \<noteq> slash" "d \<noteq> bslash"
    using raw(2) by (auto simp: is_alpha_ascii_def is_upper_ascii_def is_lower_ascii_def)
  let ?t = "replace_char slash bslash t"
  let ?cs = "normal_components True (split_char bslash ?t)"
  have norm: "replace_char slash bslash raw = d # CHR '':'' # bslash # ?t"
    using raw(1,3) d by (auto simp: is_separator_def)
  have p: "p = ascii_lower (replace_char bslash slash (nt_normpath (d # CHR '':'' # bslash # ?t)))"
    using assms(1) d unfolding canonical_windows_path_def norm
    by (auto simp: bind_result_Inr_iff Let_def device_prefix_def split: if_splits)
  have again: "replace_char slash bslash (d # CHR '':'' # bslash # ?t) = d # CHR '':'' # bslash # ?t"
    using d replace_char_notin [of slash bslash t] by (intro replace_char_id) simp
  have nt: "nt_normpath (d # CHR '':'' # bslash # ?t) = d # CHR '':'' # bslash # join [bslash] ?cs"
    unfolding nt_normpath_def again using d by (simp add: nt_splitroot_def)
  have no_slash: "slash \<notin> set ?t" by (simp add: replace_char_notin)
  have cs: "normal_list ?cs"
  proof -
    have "slash \<notin> set c \<and> bslash \<notin> set c" if "c \<in> set ?cs" for c
    proof -
      have in_split: "c \<in> set (split_char bslash ?t)" using that by (rule normal_components_subset)
      then have "bslash \<notin> set c" by (rule split_char_notin)
      moreover have "set c \<subseteq> set ?t" using in_split by (rule split_char_subset)
      ultimately show ?thesis using no_slash by blast
    qed
    then show ?thesis
      using normal_components_regular by (auto simp: normal_list_def is_separator_def)
  qed
  then have "replace_char bslash slash (join [bslash] ?cs) = join ''/'' ?cs"
    by (intro replace_char_join) (auto simp: normal_list_def is_separator_def)
  then have "p = drive_form (ascii_lower_char d) (map ascii_lower ?cs)"
    using p nt d by (simp add: drive_form_def ascii_lower_join)
  moreover have "is_alpha_ascii (ascii_lower_char d) \<and> \<not> is_upper_ascii (ascii_lower_char d)"
    using raw(2) by (auto simp: ascii_lower_char_def is_alpha_ascii_def is_upper_ascii_def is_lower_ascii_def)
  moreover have "map ascii_lower (map ascii_lower ?cs) = map ascii_lower ?cs"
    by (simp add: o_def)
  ultimately show ?thesis using normal_list_ascii_lower [OF cs] by blast
qed

lemma drive_form_fixed:
  assumes form: "is_alpha_ascii d" "\<not> is_upper_ascii d" "normal_list cs" "map ascii_lower cs = cs"
    and ok: "canonical_windows_path (drive_form d cs) = Inr p"
  shows "p = drive_form d cs"
proof -
  have d: "d \<noteq> slash" "d \<noteq> bslash"
    using form(1) by (auto simp: is_alpha_ascii_def is_upper_ascii_def is_lower_ascii_def)
  have norm: "replace_char slash bslash (drive_form d cs) = d # CHR '':'' # bslash # join [bslash] cs"
  proof -
    have "\<forall>c \<in> set cs. slash \<notin> set c"
      using form(3) by (auto simp: normal_list_def is_separator_def)
    then show ?thesis using d replace_char_join [of cs slash bslash] by (simp add: drive_form_def)
  qed
  have free: "slash \<notin> set (join [bslash] cs)"
    using set_join_subset [of "[bslash]" cs] form(3)
    by (auto simp: normal_list_def is_separator_def)
  then have again: "replace_char slash bslash (d # CHR '':'' # bslash # join [bslash] cs) =
      d # CHR '':'' # bslash # join [bslash] cs"
    using d by (intro replace_char_id) simp
  have nt: "nt_normpath (d # CHR '':'' # bslash # join [bslash] cs) =
      d # CHR '':'' # bslash # join [bslash] cs"
    unfolding nt_normpath_def again
    using d normal_components_join [OF form(3), of bslash True] by (simp add: nt_splitroot_def is_separator_def)
  have p: "p = ascii_lower (replace_char bslash slash (d # CHR '':'' # bslash # join [bslash] cs))"
    using ok d unfolding canonical_windows_path_def norm
    by (auto simp: bind_result_Inr_iff Let_def device_prefix_def nt split: if_splits)
  have "replace_char bslash slash (join [bslash] cs) = join ''/'' cs"
    using form(3) by (intro replace_char_join) (auto simp: normal_list_def is_separator_def)
  then show ?thesis
    using p d form(2,4) by (simp add: drive_form_def ascii_lower_join) (simp add: ascii_lower_char_def)
qed

lemma canonical_absolute_cases:
  assumes "canonical_absolute_path raw = Inr (pl, p)"
  obtains (windows) "pl = WINDOWS" "canonical_windows_path raw = Inr p"
      "drive_absolute (replace_char slash bslash raw) \<or> starts_with [bslash, bslash] raw"
  | (posix) "pl = POSIX" "canonical_posix_path raw = Inr p"
      "\<not> drive_absolute (replace_char slash bslash raw)" "\<not> starts_with ''//'' raw"
  using assms by (auto simp: canonical_absolute_path_def bind_result_Inr_iff split: if_splits)

lemma drive_absolute_replace [simp]: "drive_absolute (replace_char slash bslash raw) = drive_absolute raw"
  by (auto simp: drive_absolute_def is_separator_def is_alpha_ascii_def is_upper_ascii_def
      is_lower_ascii_def split: list.splits)

lemma drive_form_absolute: "is_alpha_ascii d \<Longrightarrow> drive_absolute (drive_form d cs)"
  by (simp add: drive_form_def drive_absolute_def is_separator_def)

lemma posix_form_not_drive: "\<not> drive_absolute (posix_form cs)"
  by (auto simp: posix_form_def drive_absolute_def split: list.splits)
    (simp add: is_alpha_ascii_def is_upper_ascii_def is_lower_ascii_def)

text \<open>What a canonical path looks like, and that canonicalisation maps it to itself.\<close>

lemma canonical_posix_shape:
  "canonical_absolute_path raw = Inr (POSIX, p) \<Longrightarrow>
   \<exists>cs. p = posix_form cs \<and> (\<forall>c \<in> set cs. regular c \<and> slash \<notin> set c)"
  by (erule canonical_absolute_cases) (auto dest: canonical_posix_form)

lemma canonical_drive_shape:
  "canonical_absolute_path raw = Inr (pl, p) \<Longrightarrow> drive_absolute raw \<Longrightarrow>
   pl = WINDOWS \<and> (\<exists>d cs. p = drive_form d cs \<and> is_alpha_ascii d \<and> \<not> is_upper_ascii d \<and>
     normal_list cs \<and> map ascii_lower cs = cs)"
  by (erule canonical_absolute_cases) (auto dest: canonical_drive_form)

lemma canonical_drive_fixed:
  assumes "canonical_absolute_path raw = Inr (pl, p)" "drive_absolute raw"
    and "canonical_absolute_path p = Inr (pl', p')"
  shows "(pl', p') = (pl, p)"
proof -
  obtain d cs where form: "pl = WINDOWS" "p = drive_form d cs" "is_alpha_ascii d" "\<not> is_upper_ascii d"
    "normal_list cs" "map ascii_lower cs = cs"
    using canonical_drive_shape [OF assms(1,2)] by blast
  from assms(3) show ?thesis
  proof (cases rule: canonical_absolute_cases)
    case windows
    with form drive_form_fixed [of d cs p'] show ?thesis by simp
  next
    case posix
    with form drive_form_absolute show ?thesis by simp
  qed
qed

lemma canonical_posix_fixed:
  assumes "canonical_absolute_path raw = Inr (POSIX, p)"
    and "canonical_absolute_path p = Inr (pl', p')"
  shows "(pl', p') = (POSIX, p)"
proof -
  obtain cs where form: "p = posix_form cs" "\<forall>c \<in> set cs. regular c \<and> slash \<notin> set c"
    using canonical_posix_shape [OF assms(1)] by blast
  from assms(2) show ?thesis
  proof (cases rule: canonical_absolute_cases)
    case windows
    have "\<not> starts_with [bslash, bslash] (posix_form cs)" by (simp add: posix_form_def)
    with windows form posix_form_not_drive [of cs] show ?thesis by simp
  next
    case posix
    then have "p' = posix_normpath p"
      by (auto simp: canonical_posix_path_def bind_result_Inr_iff split: if_splits)
    with posix form posix_form_fixed show ?thesis by simp
  qed
qed

text \<open>A UNC path canonicalises to a slash-only spelling, which canonicalisation itself refuses.\<close>

lemma find_from_ge: "find_from d start s = Some i \<Longrightarrow> start \<le> i"
  by (auto simp: find_from_def Let_def split: if_splits)

lemma nt_normpath_double:
  assumes "starts_with [bslash, bslash] s" "slash \<notin> set s"
  shows "starts_with [bslash, bslash] (nt_normpath s)"
proof -
  obtain t where s: "s = bslash # bslash # t"
    using assms(1) by (auto simp: starts_with_iff)
  have "replace_char slash bslash s = s" using assms(2) by (rule replace_char_id)
  moreover have "starts_with [bslash, bslash] (fst (nt_splitroot s))"
  proof -
    have "2 \<le> j" if "find_from bslash (i + 1) s = Some j" "find_from bslash k s = Some i" "2 \<le> k" for i j k
      using find_from_ge [OF that(1)] find_from_ge [OF that(2)] that(3) by simp
    then show ?thesis
      using s unfolding nt_splitroot_def Let_def
      by (fastforce split: option.splits if_splits simp: take_Cons' numeral_2_eq_2)
  qed
  ultimately show ?thesis
    by (auto simp: nt_normpath_def Let_def starts_with_iff split: prod.splits)
qed

lemma canonical_unc_shape:
  assumes "canonical_windows_path raw = Inr p" "\<not> drive_absolute raw"
  shows "starts_with ''//'' p"
proof -
  let ?norm = "replace_char slash bslash raw"
  have "\<not> drive_absolute ?norm" using assms(2) by simp
  then have double: "starts_with [bslash, bslash] ?norm"
    using assms(1) unfolding canonical_windows_path_def Let_def bind_result_Inr_iff first_failure_Inr_iff
    by (auto simp del: starts_with_Cons)
  have p: "p = ascii_lower (replace_char bslash slash
      (if starts_with device_prefix ?norm then ?norm else nt_normpath ?norm))"
    using assms(1) unfolding canonical_windows_path_def Let_def bind_result_Inr_iff by blast
  have "starts_with [bslash, bslash]
      (if starts_with device_prefix ?norm then ?norm else nt_normpath ?norm)"
    using double nt_normpath_double [OF double] replace_char_notin [of slash bslash raw] by simp
  then show ?thesis unfolding p by (auto simp: starts_with_iff)
qed

lemma canonical_absolute_not_double:
  "starts_with ''//'' p \<Longrightarrow> canonical_absolute_path p \<noteq> Inr x"
  by (auto simp: canonical_absolute_path_def bind_result_Inr_iff)

lemma canonical_fixed:
  assumes "canonical_absolute_path raw = Inr pl" "canonical_absolute_path (snd pl) = Inr pl'"
  shows "pl' = pl"
proof -
  obtain k p where pl: "pl = (k, p)" by (cases pl)
  from assms(1) [unfolded pl] show ?thesis
  proof (cases rule: canonical_absolute_cases)
    case windows
    show ?thesis
    proof (cases "drive_absolute raw")
      case True
      then show ?thesis
        using canonical_drive_fixed assms pl by (metis prod.collapse snd_conv)
    next
      case False
      with windows canonical_unc_shape canonical_absolute_not_double assms(2) pl show ?thesis by auto
    qed
  next
    case posix
    then show ?thesis using canonical_posix_fixed assms pl by (metis prod.collapse snd_conv)
  qed
qed

text \<open>
  A comparison through a key: the contract of \<open>same_absolute_path\<close>, which answers \<open>False\<close> when a
  side has no key.
\<close>

locale keyed_comparison =
  fixes key :: "'a \<Rightarrow> 'k result"
    and same :: "'a \<Rightarrow> 'a \<Rightarrow> bool"
  assumes same_iff: "same a b \<longleftrightarrow> (\<exists>k. key a = Inr k \<and> key b = Inr k)"
begin

lemma sym: "same a b = same b a"
  by (auto simp: same_iff)

lemma trans: "same a b \<Longrightarrow> same b c \<Longrightarrow> same a c"
  by (auto simp: same_iff)

lemma refl_iff: "same a a = succeeds (key a)"
  by (auto simp: same_iff succeeds_iff)

lemma key_cong: "same a b \<Longrightarrow> key a = key b"
  by (auto simp: same_iff)

end

interpretation paths: keyed_comparison canonical_absolute_path
  "\<lambda>a b. same_absolute_path (Some a) (Some b)"
  by unfold_locales (auto simp: same_absolute_path_def split: sum.splits)

section \<open>Properties\<close>

text \<open>
  Canonicalising a path is idempotent as far as it is defined: when the canonical form
  of an accepted path is itself accepted, its platform and canonical form are the ones it stands for.
\<close>

lemma canonical_absolute_path_idempotent:
  assumes "canonical_absolute_path raw = Inr (platform, path)"
    and "canonical_absolute_path path = Inr again"
  shows "again = (platform, path)"
  using assms canonical_fixed by fastforce

lemma canonical_absolute_path_idempotent_example:
  "canonical_absolute_path ''/c:/x'' = Inr (POSIX, ''/c:/x'')"
proof -
  have first: "canonical_absolute_path ''/c://x/'' = Inr (POSIX, ''/c:/x'')" by code_simp
  have accepted: "succeeds (canonical_absolute_path ''/c:/x'')" by code_simp
  obtain again where again: "canonical_absolute_path ''/c:/x'' = Inr again"
    using accepted by (auto simp: succeeds_iff)
  from canonical_absolute_path_idempotent [OF first again] again show ?thesis by simp
qed

text \<open>
  The key of a project binding is a normal form: taking the key again changes nothing,
  and two accepted drive-absolute spellings have one key exactly when \<open>same_absolute_path\<close> holds.
\<close>

lemma project_binding_key_normal:
  "project_binding_key (project_binding_key v) = project_binding_key v \<and>
   (drive_absolute v \<and> drive_absolute w \<and> succeeds (canonical_absolute_path v) \<and>
      succeeds (canonical_absolute_path w) \<longrightarrow>
    (project_binding_key v = project_binding_key w) = same_absolute_path (Some v) (Some w))"
proof (intro conjI impI)
  show "project_binding_key (project_binding_key v) = project_binding_key v"
  proof (cases "drive_absolute v")
    case True
    show ?thesis
    proof (cases "canonical_absolute_path v")
      case (Inr pl)
      then obtain k p where pl: "pl = (k, p)" by (cases pl)
      then have "drive_absolute p"
        using canonical_drive_shape Inr True drive_form_absolute by blast
      moreover have "project_binding_key v = p" using True Inr pl by (simp add: project_binding_key_def)
      ultimately show ?thesis
        using canonical_fixed [OF Inr] pl
        by (cases "canonical_absolute_path p") (auto simp: project_binding_key_def)
    qed (simp add: project_binding_key_def)
  qed (simp add: project_binding_key_def)
next
  assume h: "drive_absolute v \<and> drive_absolute w \<and> succeeds (canonical_absolute_path v) \<and>
    succeeds (canonical_absolute_path w)"
  then obtain p q where "canonical_absolute_path v = Inr (WINDOWS, p)" "canonical_absolute_path w = Inr (WINDOWS, q)"
    unfolding succeeds_iff using canonical_drive_shape by (metis prod.collapse)
  with h show "(project_binding_key v = project_binding_key w) = same_absolute_path (Some v) (Some w)"
    by (simp add: project_binding_key_def same_absolute_path_def)
qed

lemma project_binding_key_normal_example:
  "project_binding_key [CHR ''C'', CHR '':'', bslash, CHR ''A''] = project_binding_key ''c:/a/''"
proof -
  let ?v = "[CHR ''C'', CHR '':'', bslash, CHR ''A'']"
  have "drive_absolute ?v \<and> drive_absolute ''c:/a/'' \<and> succeeds (canonical_absolute_path ?v) \<and>
      succeeds (canonical_absolute_path ''c:/a/'') \<and> same_absolute_path (Some ?v) (Some ''c:/a/'')"
    by code_simp
  with project_binding_key_normal [of ?v "''c:/a/''"] show ?thesis by blast
qed

text \<open>
  \<open>same_absolute_path\<close> is symmetric and transitive, holds between a path and itself
  exactly when the path is accepted, and never relates a missing path.
\<close>

lemma same_absolute_path_partial_equivalence:
  "same_absolute_path a b = same_absolute_path b a \<and>
   \<not> (same_absolute_path a b \<and> same_absolute_path b c \<and> \<not> same_absolute_path a c) \<and>
   same_absolute_path (Some p) (Some p) = succeeds (canonical_absolute_path p) \<and>
   \<not> same_absolute_path None a"
proof -
  have "same_absolute_path a b = same_absolute_path b a"
  proof (cases a; cases b)
    fix x y assume "a = Some x" "b = Some y"
    then show ?thesis using paths.sym by blast
  qed (simp_all add: same_absolute_path_def)
  moreover have "\<not> (same_absolute_path a b \<and> same_absolute_path b c \<and> \<not> same_absolute_path a c)"
  proof (cases a; cases b; cases c)
    fix x y z assume "a = Some x" "b = Some y" "c = Some z"
    then show ?thesis using paths.trans by blast
  qed (simp_all add: same_absolute_path_def)
  moreover have "\<not> same_absolute_path None a" by (simp add: same_absolute_path_def)
  ultimately show ?thesis using paths.refl_iff by blast
qed

end
