(* ===== verification/Verification_Receipts.thy ===== *)
theory Verification_Receipts
  imports Test_Invocation Project_Identity
begin

text \<open>
  \<open>packages/protocol/src/pex_protocol/verification.py\<close>, second half: the typed probe a trusted
  component asks for, the terminal receipt of a verification backend, and the summary that binds
  the two. A model class is a record and its pydantic validators a function that returns the
  validated instance or the message of a failed check; length constraints come first, then field
  validators, then the model validator.
\<close>

section \<open>Vocabulary\<close>

datatype gathering_state = INSPECTED | ATTEMPTED | EXECUTED | GATHERING_UNAVAILABLE

datatype probe_kind = PYTEST | PYTHON_UNITTEST | FILE_COUNT | ARTIFACT_TAIL | COMMAND_EXIT | SERVICE_HEALTH

datatype backend_kind = HARNESS | SANDBOX | BACKEND_UNAVAILABLE

datatype execution_result = PASSED | FAILED | TIMEOUT | ERROR | RESULT_UNAVAILABLE

text \<open>\<open>Literal["inspected", "unavailable"]\<close>.\<close>

datatype inspection = WAS_INSPECTED | NOT_INSPECTED

section \<open>Probes\<close>

record verification_probe =
  probe_id :: string
  probe_kind :: probe_kind
  probe_harness :: harness_type
  probe_session_id :: string
  probe_project_id :: string
  probe_goal_id :: string
  probe_request_event_id :: string
  probe_cwd :: string
  probe_targets :: "string list"
  probe_timeout_seconds :: int
  probe_output_limit :: int

definition normalized_target :: "string \<Rightarrow> string" where
  "normalized_target raw = strip (slashes raw)"

definition windows_drive :: "string \<Rightarrow> bool" where
  "windows_drive s = (case s of d # k # _ \<Rightarrow> is_alpha_ascii d \<and> k = CHR '':'' | _ \<Rightarrow> False)"

definition uncontained_target :: "string \<Rightarrow> bool" where
  "uncontained_target t =
     (t = [] \<or> starts_with ''-'' t \<or> starts_with ''/'' t \<or> windows_drive t \<or>
      (\<exists>part \<in> set (split_char slash t). part = [] \<or> dot_segment part))"

definition validate_relative_targets :: "string list \<Rightarrow> string list result" where
  "validate_relative_targets targets =
     (let normalized = map normalized_target targets
      in if \<exists>t \<in> set normalized. uncontained_target t
         then Inl ''verification targets must be contained relative paths''
         else if \<not> distinct normalized then Inl ''verification targets must be unique''
         else Inr normalized)"

definition exact_absolute :: "string \<Rightarrow> bool" where
  "exact_absolute cwd = (cwd = strip cwd \<and> (starts_with ''/'' cwd \<or> drive_absolute cwd))"

definition validate_probe :: "verification_probe \<Rightarrow> verification_probe result" where
  "validate_probe p =
     bind_result
       (first_failure
         [(\<exists>s \<in> set [probe_id p, probe_session_id p, probe_goal_id p, probe_request_event_id p].
             \<not> length_between 1 512 s, ''identifier length''),
          (\<not> length_between 1 4096 (probe_project_id p), ''project_id length''),
          (\<not> length_between 1 4096 (probe_cwd p), ''cwd length''),
          (256 < length (probe_targets p) \<or> (\<exists>t \<in> set (probe_targets p). \<not> length_between 1 512 t),
             ''relative_targets length''),
          (\<not> (1 \<le> probe_timeout_seconds p \<and> probe_timeout_seconds p \<le> 300), ''timeout_seconds range''),
          (\<not> (1024 \<le> probe_output_limit p \<and> probe_output_limit p \<le> 65536), ''output_limit_bytes range'')])
       (\<lambda>_. bind_result (validate_relative_targets (probe_targets p)) (\<lambda>targets.
          bind_result
            (first_failure
              [(\<not> exact_absolute (probe_cwd p), ''verification cwd must be an exact absolute path''),
               (probe_harness p = HT_UNKNOWN, ''verification probe requires a concrete harness type'')])
            (\<lambda>_. Inr (p\<lparr>probe_targets := targets\<rparr>))))"

definition expected_pytest_scope :: "verification_probe \<Rightarrow> invocation_scope" where
  "expected_pytest_scope p = (if probe_targets p \<noteq> [] then TARGETED else FULL_SUITE)"

definition matches_pytest_invocation :: "verification_probe \<Rightarrow> pytest_invocation \<Rightarrow> bool" where
  "matches_pytest_invocation p i =
     (if probe_kind p \<noteq> PYTEST then False
      else if probe_targets p = [] then scope i = FULL_SUITE
      else scope i = TARGETED \<and> selection_flags i = [] \<and> relative_targets i = probe_targets p)"

definition matches_unittest_invocation :: "verification_probe \<Rightarrow> unittest_invocation \<Rightarrow> bool" where
  "matches_unittest_invocation p i =
     (if probe_kind p \<noteq> PYTHON_UNITTEST then False
      else if probe_targets p = [] then uscope i = FULL_SUITE
      else uscope i = TARGETED \<and> uselection_flags i = [] \<and> urelative_targets i = probe_targets p)"

section \<open>Execution receipts\<close>

record execution_receipt =
  backend :: backend_kind
  receipt_verdict :: policy_verdict
  receipt_source_event :: string
  observed_at :: datetime
  receipt_argv :: "string list"
  observed_command :: "string option"
  receipt_cwd :: "string option"
  process_started :: bool
  exit_code :: "int option"
  timed_out :: bool
  receipt_result :: execution_result
  receipt_output :: string
  failure_node :: "string option"
  receipt_error_type :: "string option"

definition optional_length :: "nat \<Rightarrow> nat \<Rightarrow> string option \<Rightarrow> bool" where
  "optional_length lo hi s = (case s of None \<Rightarrow> True | Some t \<Rightarrow> length_between lo hi t)"

definition receipt_fields :: "execution_receipt \<Rightarrow> unit result" where
  "receipt_fields r =
     first_failure
       [(\<not> length_between 1 512 (receipt_source_event r), ''source_event_id length''),
        (64 < length (receipt_argv r) \<or> (\<exists>a \<in> set (receipt_argv r). \<not> length_between 1 4096 a), ''argv length''),
        (\<not> optional_length 1 16384 (observed_command r), ''observed_command length''),
        (\<not> optional_length 1 4096 (receipt_cwd r), ''cwd length''),
        (case exit_code r of None \<Rightarrow> False | Some e \<Rightarrow> \<not> (- 2147483648 \<le> e \<and> e \<le> 2147483647),
           ''exit_code range''),
        (65536 < length (receipt_output r), ''output length''),
        (\<not> optional_length 1 4096 (failure_node r), ''failure_node length''),
        (\<not> optional_length 1 512 (receipt_error_type r), ''error_type length''),
        (\<not> is_aware (observed_at r), ''verification observed_at must be timezone-aware''),
        (case receipt_cwd r of None \<Rightarrow> False | Some cwd \<Rightarrow> \<not> exact_absolute cwd,
           ''verification cwd must be an exact absolute path'')]"

definition terminal_receipt :: "execution_receipt \<Rightarrow> unit result" where
  "terminal_receipt r =
     (if backend r = BACKEND_UNAVAILABLE then
        require
          (\<not> (receipt_result r \<noteq> RESULT_UNAVAILABLE \<or> process_started r \<or> receipt_argv r \<noteq> [] \<or>
              observed_command r \<noteq> None \<or> receipt_cwd r \<noteq> None \<or> exit_code r \<noteq> None))
          ''unavailable backend cannot claim process execution''
      else first_failure
        [(receipt_verdict r \<noteq> PV_ALLOW, ''an execution receipt requires an allow policy verdict''),
         (receipt_cwd r = None, ''an execution receipt requires an exact cwd''),
         (backend r = SANDBOX \<and> receipt_argv r = [], ''a sandbox execution receipt requires exact argv''),
         (backend r = HARNESS \<and> (observed_command r = None \<or> observed_command r = Some []),
            ''a harness execution receipt requires the observed command''),
         (receipt_result r = RESULT_UNAVAILABLE, ''an available backend cannot return unavailable execution''),
         (receipt_result r = TIMEOUT \<and> (\<not> process_started r \<or> \<not> timed_out r),
            ''timeout requires a started process and timed_out=true''),
         (receipt_result r \<noteq> TIMEOUT \<and> timed_out r, ''timed_out is valid only for a timeout result''),
         (receipt_result r = PASSED \<and> (\<not> process_started r \<or> exit_code r \<noteq> Some 0),
            ''passed verification requires a started process with exit 0''),
         (receipt_result r = FAILED \<and> (\<not> process_started r \<or> exit_code r \<in> {None, Some 0}),
            ''failed verification requires a nonzero terminal exit'')])"

definition validate_receipt :: "execution_receipt \<Rightarrow> execution_receipt result" where
  "validate_receipt r =
     bind_result (receipt_fields r) (\<lambda>_. bind_result (terminal_receipt r) (\<lambda>_. Inr r))"

section \<open>Gathering receipts\<close>

record gathering_receipt =
  gathering_state :: gathering_state
  sources :: "string list"
  recent_events :: inspection
  workspace_snapshot :: inspection
  workspace_snapshot_reason :: "string option"
  claim_count :: int
  probe :: "verification_probe option"
  execution :: "execution_receipt option"
  gathering_reason :: "string option"

definition gathering_fields :: "gathering_receipt \<Rightarrow> unit result" where
  "gathering_fields g =
     first_failure
       [(32 < length (sources g) \<or> (\<exists>s \<in> set (sources g). \<not> length_between 1 128 s), ''sources length''),
        (\<not> optional_length 0 512 (workspace_snapshot_reason g), ''workspace_snapshot_reason length''),
        (\<not> (0 \<le> claim_count g \<and> claim_count g \<le> 10000), ''claim_count range''),
        (\<not> optional_length 0 1024 (gathering_reason g), ''reason length''),
        (\<not> distinct (sources g), ''evidence sources must be unique'')]"

text \<open>The classification of an execution, through the command of a harness or the argv of a sandbox.\<close>

definition pytest_invocation_of :: "execution_receipt \<Rightarrow> pytest_invocation option result" where
  "pytest_invocation_of e =
     (if backend e = HARNESS then classify_pytest_invocation (observed_command e)
      else classify_pytest_argv (receipt_argv e))"

definition unittest_invocation_of :: "execution_receipt \<Rightarrow> unittest_invocation option result" where
  "unittest_invocation_of e =
     (if backend e = HARNESS then classify_unittest_invocation (observed_command e)
      else classify_unittest_argv (receipt_argv e))"

definition check_executed :: "verification_probe \<Rightarrow> execution_receipt \<Rightarrow> unit result" where
  "check_executed p e =
     bind_result
       (first_failure
         [(receipt_result e = RESULT_UNAVAILABLE, ''executed evidence cannot be unavailable''),
          (\<not> same_absolute_path (receipt_cwd e) (Some (probe_cwd p)),
             ''execution cwd must match the immutable probe cwd'')])
       (\<lambda>_.
         if probe_kind p = PYTEST then
           bind_result (pytest_invocation_of e) (\<lambda>invocation. case invocation of
             None \<Rightarrow> Inl ''pytest execution requires an actual pytest invocation''
           | Some i \<Rightarrow> require (matches_pytest_invocation p i)
               ''pytest invocation must match the exact typed probe'')
         else if probe_kind p = PYTHON_UNITTEST then
           bind_result (unittest_invocation_of e) (\<lambda>invocation. case invocation of
             None \<Rightarrow> Inl ''unittest execution requires python -m unittest''
           | Some i \<Rightarrow> require (matches_unittest_invocation p i)
               ''unittest invocation must match the exact typed probe'')
         else if backend e = HARNESS then
           bind_result (require (observed_command e \<noteq> None \<and> observed_command e \<noteq> Some [])
             ''non-pytest harness execution requires the observed command'') (\<lambda>_.
           bind_result (classify_pytest_invocation (observed_command e)) (\<lambda>direct.
           bind_result (require (direct = None) ''non-pytest probe cannot close on a pytest invocation'') (\<lambda>_.
           bind_result (classify_unittest_invocation (observed_command e)) (\<lambda>unit_run.
             require (unit_run = None) ''non-test probe cannot close on a unittest invocation''))))
         else Inr ())"

definition validate_gathering :: "gathering_receipt \<Rightarrow> gathering_receipt result" where
  "validate_gathering g =
     bind_result (gathering_fields g) (\<lambda>_.
     bind_result
       (if gathering_state g = EXECUTED then
          (case (probe g, execution g) of
             (Some p, Some e) \<Rightarrow> check_executed p e
           | _ \<Rightarrow> Inl ''executed evidence requires a probe and execution receipt'')
        else require (execution g = None) ''only executed evidence may carry an execution receipt'')
     (\<lambda>_. bind_result
       (first_failure
         [(gathering_state g = ATTEMPTED \<and> probe g = None, ''attempted evidence requires a typed probe''),
          (gathering_state g = GATHERING_UNAVAILABLE \<and>
             (gathering_reason g = None \<or> gathering_reason g = Some []),
             ''unavailable evidence requires a reason'')])
     (\<lambda>_. Inr g)))"

section \<open>Facts\<close>

lemma validate_receipt_Inr: "validate_receipt r = Inr r' \<longleftrightarrow> r' = r \<and> receipt_fields r = Inr () \<and> terminal_receipt r = Inr ()"
  by (auto simp: validate_receipt_def bind_result_Inr_iff)

lemma executed_checked:
  assumes "validate_gathering g = Inr g'" "gathering_state g = EXECUTED"
  obtains p e where "probe g = Some p" "execution g = Some e" "check_executed p e = Inr ()"
  using assms by (auto simp: validate_gathering_def bind_result_Inr_iff split: option.splits)

lemma check_executed_pytest:
  assumes "check_executed p e = Inr ()" "probe_kind p = PYTEST"
  shows "same_absolute_path (receipt_cwd e) (Some (probe_cwd p)) \<and>
    (\<exists>i. pytest_invocation_of e = Inr (Some i) \<and> matches_pytest_invocation p i)"
  using assms by (auto simp: check_executed_def bind_result_Inr_iff split: option.splits)

lemma normalized_target_idem [simp]: "normalized_target (normalized_target t) = normalized_target t"
proof -
  have "backslash \<notin> set (strip (slashes t))"
    using set_strip [of "slashes t"] replace_char_notin [of backslash slash t] by (auto simp: slashes_def)
  then show ?thesis by (simp add: normalized_target_def slashes_def replace_char_id)
qed

lemma matches_full_suite: "matches_pytest_invocation p i \<Longrightarrow> probe_targets p = [] \<Longrightarrow> scope i = FULL_SUITE"
  by (simp add: matches_pytest_invocation_def split: if_splits)

lemma matches_targets:
  "matches_pytest_invocation p i \<Longrightarrow> probe_targets p \<noteq> [] \<Longrightarrow>
   relative_targets i = probe_targets p \<and> selection_flags i = []"
  by (simp add: matches_pytest_invocation_def split: if_splits)

lemma validate_relative_targets_Inr:
  "validate_relative_targets ts = Inr us \<longleftrightarrow>
   us = map normalized_target ts \<and> distinct us \<and> (\<forall>t \<in> set us. \<not> uncontained_target t)"
proof -
  define ns where "ns = map normalized_target ts"
  have "validate_relative_targets ts =
    (if \<exists>t \<in> set ns. uncontained_target t
     then Inl ''verification targets must be contained relative paths''
     else if \<not> distinct ns then Inl ''verification targets must be unique'' else Inr ns)"
    by (simp only: validate_relative_targets_def Let_def ns_def)
  then show ?thesis unfolding ns_def [symmetric] by (cases "us = ns") auto
qed

lemma contained_target:
  assumes "\<not> uncontained_target t"
  shows "t \<noteq> [] \<and> hd t \<notin> set ''-/'' \<and> \<not> windows_drive t \<and> ''..'' \<notin> set (split_char slash t)"
proof -
  have h: "t \<noteq> []" "\<not> starts_with ''-'' t" "\<not> starts_with ''/'' t" "\<not> windows_drive t"
    "\<forall>part \<in> set (split_char slash t). \<not> dot_segment part"
    using assms unfolding uncontained_target_def by blast+
  moreover have "dot_segment ''..''" by (simp add: dot_segment_def)
  moreover have "hd t \<notin> set ''-/''" using h(1-3) by (cases t) simp_all
  ultimately show ?thesis by blast
qed

lemma validate_relative_targets_again:
  assumes "validate_relative_targets ts = Inr us"
  shows "validate_relative_targets us = Inr us"
proof -
  have us: "us = map normalized_target ts" "distinct us" "\<forall>t \<in> set us. \<not> uncontained_target t"
    using assms unfolding validate_relative_targets_Inr by blast+
  have "map normalized_target us = us" by (simp add: us(1))
  with us(2,3) show ?thesis by (simp add: validate_relative_targets_Inr)
qed

lemma normalized_target_clean: "backslash \<notin> set (normalized_target t)"
  using set_strip [of "slashes t"] replace_char_notin [of backslash slash t]
  by (auto simp: slashes_def normalized_target_def)

lemma length_strip_le: "length (strip s) \<le> length s"
  unfolding strip_def strip_where_def rstrip_where_def
  by (metis length_dropWhile_le length_rev le_trans)

lemma length_normalized_target: "length (normalized_target t) \<le> length t"
  using length_strip_le [of "slashes t"] by (simp add: normalized_target_def slashes_def)

section \<open>Properties\<close>

text \<open>
  Property C14. Evidence that closes a pytest probe as passed is evidence of that run: policy allowed
  it, the process started and exited with 0, it ran in the probe's directory, and its command (or
  argv, for a sandbox) classifies as a pytest run of exactly the requested targets with no selection
  flag, or of the full suite when no target was requested.
\<close>

theorem passed_pytest_evidence:
  assumes "validate_receipt e = Inr e" "validate_gathering g = Inr g"
    and "gathering_state g = EXECUTED" "probe g = Some p" "execution g = Some e"
    and "probe_kind p = PYTEST" "receipt_result e = PASSED"
  shows "receipt_verdict e = PV_ALLOW \<and> process_started e \<and> exit_code e = Some 0 \<and> \<not> timed_out e \<and>
    same_absolute_path (receipt_cwd e) (Some (probe_cwd p)) \<and>
    (\<exists>i. pytest_invocation_of e = Inr (Some i) \<and> valid_pytest_invocation i \<and>
       (if probe_targets p = [] then scope i = FULL_SUITE
        else relative_targets i = probe_targets p \<and> selection_flags i = []))"
proof -
  have checked: "check_executed p e = Inr ()"
    using executed_checked [OF assms(2,3)] assms(4,5) by auto
  from check_executed_pytest [OF this assms(6)] obtain i where
    i: "same_absolute_path (receipt_cwd e) (Some (probe_cwd p))"
       "pytest_invocation_of e = Inr (Some i)" "matches_pytest_invocation p i" by blast
  have "valid_pytest_invocation i"
    using i(2) pytest.command_well_formed pytest.argv_well_formed
    by (auto simp: pytest_invocation_of_def split: if_splits)
  moreover have "terminal_receipt e = Inr ()" using assms(1) by (simp add: validate_receipt_Inr)
  then have "receipt_verdict e = PV_ALLOW \<and> process_started e \<and> exit_code e = Some 0 \<and> \<not> timed_out e"
    using assms(7) by (auto simp: terminal_receipt_def split: if_splits)
  ultimately show ?thesis using i matches_full_suite matches_targets by auto
qed

definition example_probe :: verification_probe where
  "example_probe =
     \<lparr>probe_id = ''p'', probe_kind = PYTEST, probe_harness = HT_CODEX, probe_session_id = ''s'',
      probe_project_id = ''r'', probe_goal_id = ''g'', probe_request_event_id = ''e'', probe_cwd = ''/w'',
      probe_targets = [], probe_timeout_seconds = 60, probe_output_limit = 16384\<rparr>"

definition example_receipt :: execution_receipt where
  "example_receipt =
     \<lparr>backend = HARNESS, receipt_verdict = PV_ALLOW, receipt_source_event = ''e'', observed_at = Aware 0 0,
      receipt_argv = [], observed_command = Some ''pytest -q'', receipt_cwd = Some ''/w/'',
      process_started = True, exit_code = Some 0, timed_out = False, receipt_result = PASSED,
      receipt_output = [], failure_node = None, receipt_error_type = None\<rparr>"

definition example_gathering :: gathering_receipt where
  "example_gathering =
     \<lparr>gathering_state = EXECUTED, sources = [], recent_events = NOT_INSPECTED,
      workspace_snapshot = NOT_INSPECTED, workspace_snapshot_reason = None, claim_count = 0,
      probe = Some example_probe, execution = Some example_receipt, gathering_reason = None\<rparr>"

lemma example_cwd: "exact_absolute ''/w/''" "exact_absolute ''/w''"
  by code_simp+

lemma example_receipt_valid: "validate_receipt example_receipt = Inr example_receipt"
  using example_cwd(1)
  by (simp add: validate_receipt_def receipt_fields_def terminal_receipt_def example_receipt_def
      length_between_def optional_length_def)

theorem passed_pytest_evidence_witness:
  "receipt_verdict example_receipt = PV_ALLOW \<and>
   same_absolute_path (receipt_cwd example_receipt) (Some (probe_cwd example_probe))"
proof -
  have "validate_receipt example_receipt = Inr example_receipt" by (rule example_receipt_valid)
  moreover have "check_executed example_probe example_receipt = Inr ()" by code_simp
  then have "validate_gathering example_gathering = Inr example_gathering"
    by (simp add: validate_gathering_def gathering_fields_def optional_length_def example_gathering_def)
  ultimately show ?thesis
    using passed_pytest_evidence [of example_receipt example_gathering example_probe]
    by (simp add: example_gathering_def) (simp add: example_probe_def example_receipt_def)
qed

text \<open>
  The targets of a validated probe stay inside the workspace: none is empty, absolute, a
  drive path, an option, or spelled with a backslash or a dot segment; they are distinct; and
  validating the validated probe again changes nothing.
\<close>

lemma validated_probe_contained:
  assumes "validate_probe p = Inr q"
  shows "distinct (probe_targets q) \<and>
    (\<forall>t \<in> set (probe_targets q).
       t \<noteq> [] \<and> hd t \<notin> set ''-/'' \<and> \<not> windows_drive t \<and> backslash \<notin> set t \<and>
       ''..'' \<notin> set (split_char slash t)) \<and>
    validate_probe q = Inr q"
proof -
  obtain us where us: "validate_relative_targets (probe_targets p) = Inr us" "q = p\<lparr>probe_targets := us\<rparr>"
    using assms by (auto simp: validate_probe_def bind_result_Inr_iff)
  have clean: "t \<noteq> [] \<and> hd t \<notin> set ''-/'' \<and> \<not> windows_drive t \<and> backslash \<notin> set t \<and>
      ''..'' \<notin> set (split_char slash t)" if "t \<in> set us" for t
  proof -
    have "\<not> uncontained_target t" "t \<in> normalized_target ` set (probe_targets p)"
      using us(1) that by (auto simp: validate_relative_targets_Inr)
    moreover from this have "backslash \<notin> set t" using normalized_target_clean by blast
    ultimately show ?thesis using contained_target by blast
  qed
  have "length_between 1 512 t" if "t \<in> set us" for t
  proof -
    obtain r where r: "r \<in> set (probe_targets p)" "t = normalized_target r"
      using us(1) \<open>t \<in> set us\<close> by (auto simp: validate_relative_targets_Inr)
    then have "length r \<le> 512" using assms by (auto simp: validate_probe_def length_between_def bind_result_Inr_iff)
    with r clean [OF that] length_normalized_target [of r] show ?thesis
      by (simp add: length_between_def Suc_le_eq)
  qed
  moreover have "length us = length (probe_targets p)"
    using us(1) by (simp add: validate_relative_targets_Inr)
  ultimately have "validate_probe q = Inr q"
    using assms us validate_relative_targets_again [OF us(1)]
    by (auto simp: validate_probe_def bind_result_Inr_iff)
  moreover have "distinct us" using us(1) unfolding validate_relative_targets_Inr by blast
  ultimately show ?thesis using clean us(2) by simp
qed

lemma validated_probe_contained_example:
  "distinct [''tests/a.py'', ''b'']"
proof -
  let ?p = "example_probe\<lparr>probe_targets := [''tests'' @ [backslash] @ ''a.py'', '' b '']\<rparr>"
  have "validate_probe ?p = Inr (example_probe\<lparr>probe_targets := [''tests/a.py'', ''b'']\<rparr>)"
  proof -
    have "validate_relative_targets (probe_targets ?p) = Inr [''tests/a.py'', ''b'']" by code_simp
    then show ?thesis
      using example_cwd(2) by (simp add: validate_probe_def length_between_def) (simp add: example_probe_def)
  qed
  from validated_probe_contained [OF this] show ?thesis by simp
qed

text \<open>
  A validated execution receipt tells the truth about its outcome: it says unavailable
  exactly for an unavailable backend, which claims no process, argv, command, directory or exit
  code; and for an available backend it timed out exactly when the result says so, passed only with
  exit code 0 and failed only with another exit code of a started process.
\<close>

lemma execution_receipt_truthful:
  assumes "validate_receipt r = Inr r'"
  shows "r' = r \<and> (receipt_result r = RESULT_UNAVAILABLE \<longleftrightarrow> backend r = BACKEND_UNAVAILABLE) \<and>
    (if backend r = BACKEND_UNAVAILABLE
     then \<not> process_started r \<and> receipt_argv r = [] \<and> observed_command r = None \<and> receipt_cwd r = None \<and>
       exit_code r = None
     else (timed_out r \<longleftrightarrow> receipt_result r = TIMEOUT) \<and>
       (receipt_result r = PASSED \<longrightarrow> process_started r \<and> exit_code r = Some 0) \<and>
       (receipt_result r = FAILED \<longrightarrow> process_started r \<and> (\<exists>e. exit_code r = Some e \<and> e \<noteq> 0)))"
proof -
  have "r' = r" and t: "terminal_receipt r = Inr ()" using assms by (simp_all add: validate_receipt_Inr)
  then show ?thesis
    by (cases "exit_code r") (auto simp: terminal_receipt_def split: if_splits)
qed

lemma execution_receipt_truthful_example: "receipt_result example_receipt \<noteq> RESULT_UNAVAILABLE"
proof -
  have "validate_receipt example_receipt = Inr example_receipt" by (rule example_receipt_valid)
  from execution_receipt_truthful [OF this] show ?thesis by (simp add: example_receipt_def)
qed

end
