(* ===== verification/Project_Locator.thy ===== *)
theory Project_Locator
  imports Project_Identity
begin

text \<open>
  The second half of \<open>project_identity.py\<close>: locators, their fingerprints, the comparison
  \<open>same_project_locator\<close> and project identities. Parameters: \<open>digest\<close> is the hex SHA-256 of the
  UTF-8 encoding of a text; \<open>urlsplit\<close> is \<open>urllib.parse.urlsplit\<close>, whose result (or the message
  of its \<open>ValueError\<close>) is a \<open>split_url\<close>; \<open>port\<close> is itself fallible, as the property is.
\<close>

section \<open>Locators\<close>

datatype project_locator = Locator
  (locator_kind: locator_kind)
  (locator_raw: string)
  (canonical_of: string)
  (locator_origin: project_origin)
  (locator_platform: "path_platform option")
  (locator_members: "project_locator list")
  (physical: "physical_proof option")

fun optional_json :: "('a \<Rightarrow> pyval) \<Rightarrow> 'a option \<Rightarrow> pyval" where
  "optional_json f None = PNone"
| "optional_json f (Some x) = f x"

definition proof_json :: "physical_proof \<Rightarrow> pyval" where
  "proof_json p =
     PDict [(''provider'', PStr (provider p)), (''volume_id'', PStr (volume_id p)),
            (''object_id'', PStr (object_id p))]"

definition fingerprint_payload ::
  "locator_kind \<Rightarrow> project_origin \<Rightarrow> path_platform option \<Rightarrow> string \<Rightarrow> string list \<Rightarrow>
   physical_proof option \<Rightarrow> (string \<times> pyval) list" where
  "fingerprint_payload kind org plat canonical member_prints phys =
     [(''schema'', PStr ''pex.project-locator.v2''),
      (''kind'', PStr (locator_kind_value kind)),
      (''origin'', PDict [(''namespace'', PStr (namespace org)), (''host'', PStr (canonical_host org))]),
      (''platform'', optional_json (\<lambda>p. PStr (path_platform_value p)) plat),
      (''canonical'', PStr canonical),
      (''members'', PList (map PStr (sort member_prints))),
      (''physical'', optional_json proof_json phys)]"

text \<open>The payload holds no float, so the printer of floats is arbitrary.\<close>

definition locator_json :: "(string \<times> pyval) list \<Rightarrow> string" where
  "locator_json payload = json_dumps False (\<lambda>_. []) (PDict payload)"

fun fingerprint :: "(string \<Rightarrow> string) \<Rightarrow> project_locator \<Rightarrow> string" where
  "fingerprint digest (Locator kind raw canonical org plat members phys) =
     ''ploc_'' @ digest (locator_json
       (fingerprint_payload kind org plat canonical (map (fingerprint digest) members) phys))"

definition sorted_prints :: "(string \<Rightarrow> string) \<Rightarrow> project_locator list \<Rightarrow> string list" where
  "sorted_prints digest members = sort (map (fingerprint digest) members)"

definition set_canonical :: "(string \<Rightarrow> string) \<Rightarrow> project_locator list \<Rightarrow> string" where
  "set_canonical digest members = ''set:'' @ digest (join [CHR 0x0A] (sorted_prints digest members))"

section \<open>Repository addresses\<close>

record split_url =
  scheme :: string
  hostname :: "string option"
  username :: "string option"
  password :: "string option"
  query :: string
  fragment :: string
  url_path :: string
  port :: "int option result"

definition present :: "string option \<Rightarrow> bool" where
  "present s = (case s of None \<Rightarrow> False | Some t \<Rightarrow> t \<noteq> [])"

definition default_port :: "string \<Rightarrow> int option \<Rightarrow> bool" where
  "default_port sch p =
     ((sch = ''https'' \<and> p \<in> {None, Some 443}) \<or> (sch = ''ssh'' \<and> p \<in> {None, Some 22}))"

definition url_authority :: "string \<Rightarrow> string \<Rightarrow> int option \<Rightarrow> string" where
  "url_authority sch h p =
     (let display = (if CHR '':'' \<in> set h then ''['' @ h @ '']'' else h)
      in if default_port sch p then display
         else display @ '':'' @ (case p of None \<Rightarrow> ''None'' | Some n \<Rightarrow> decimal_int n))"

text \<open>\<open>urlunsplit((scheme, authority, path, "", ""))\<close> with a scheme and an authority.\<close>

definition urlunsplit :: "string \<Rightarrow> string \<Rightarrow> string \<Rightarrow> string" where
  "urlunsplit sch authority path =
     sch @ ''://'' @ authority @ (if path \<noteq> [] \<and> hd path \<noteq> slash then slash # path else path)"

definition canonical_repository_uri ::
  "(string \<Rightarrow> split_url result) \<Rightarrow> string \<Rightarrow> (string \<times> project_origin) result" where
  "canonical_repository_uri urlsplit raw =
     bind_result (validate_raw ''repository URI'' raw) (\<lambda>_.
     bind_result (urlsplit raw) (\<lambda>url.
     bind_result
       (first_failure
         [(\<not> (scheme url \<in> {''https'', ''ssh''}) \<or> \<not> present (hostname url),
             ''repository URI must use https or ssh with a host''),
          (present (username url) \<or> present (password url) \<or> query url \<noteq> [] \<or> fragment url \<noteq> [],
             ''repository URI credentials, query, and fragment are forbidden''),
          (bslash \<in> set (url_path url) \<or> \<not> starts_with ''/'' (url_path url),
             ''repository URI path is invalid'')])
     (\<lambda>_. bind_result (port url) (\<lambda>p.
       let authority = url_authority (scheme url) (ascii_lower (the (hostname url))) p;
           org = \<lparr>namespace = ''repository'', host = authority\<rparr>
       in bind_result (validate_origin org) (\<lambda>_.
            Inr (urlunsplit (scheme url) authority (posix_normpath (url_path url)), org))))))"

section \<open>Validation and constructors\<close>

definition canonical_path :: "path_platform \<Rightarrow> string \<Rightarrow> string result" where
  "canonical_path plat raw =
     (case plat of WINDOWS \<Rightarrow> canonical_windows_path raw | POSIX \<Rightarrow> canonical_posix_path raw)"

definition expected_canonical ::
  "(string \<Rightarrow> string) \<Rightarrow> (string \<Rightarrow> split_url result) \<Rightarrow> project_locator \<Rightarrow> string result" where
  "expected_canonical digest urlsplit l =
     (case locator_kind l of
        REPOSITORY_URI \<Rightarrow>
          if locator_platform l \<noteq> None \<or> locator_members l \<noteq> [] \<or> physical l \<noteq> None
          then Inl ''repository locator platform/member binding is invalid''
          else bind_result (canonical_repository_uri urlsplit (locator_raw l)) (\<lambda>(expected, org).
                 if locator_origin l \<noteq> org then Inl ''repository locator origin does not match its URI''
                 else Inr expected)
      | WORKSPACE_SET \<Rightarrow>
          if locator_platform l \<noteq> None \<or> locator_members l = [] \<or> physical l \<noteq> None
          then Inl ''workspace set requires members and no platform''
          else if \<not> distinct (sorted_prints digest (locator_members l))
          then Inl ''workspace set contains a duplicate locator''
          else Inr (set_canonical digest (locator_members l))
      | _ \<Rightarrow>
          if locator_kind l \<in> {LOCAL_PATH, REMOTE_PATH} then
            (case locator_platform l of
               None \<Rightarrow> Inl ''path locator platform/member binding is invalid''
             | Some plat \<Rightarrow>
                 if locator_members l \<noteq> [] then Inl ''path locator platform/member binding is invalid''
                 else canonical_path plat (locator_raw l))
          else if locator_platform l \<noteq> None \<or> locator_members l \<noteq> [] \<or> physical l \<noteq> None
          then Inl ''opaque locator platform/member binding is invalid''
          else Inr (locator_raw l))"

definition validate_binding ::
  "(string \<Rightarrow> string) \<Rightarrow> (string \<Rightarrow> split_url result) \<Rightarrow> project_locator \<Rightarrow> project_locator result" where
  "validate_binding digest urlsplit l =
     bind_result (require (length_between 1 4096 (locator_raw l)) ''raw length'') (\<lambda>_.
     bind_result (require (length_between 1 8192 (canonical_of l)) ''canonical length'') (\<lambda>_.
     bind_result (validate_raw ''project locator'' (locator_raw l)) (\<lambda>_.
     bind_result (expected_canonical digest urlsplit l) (\<lambda>expected.
       if canonical_of l \<noteq> expected
       then Inl ''project locator canonical value does not match its typed input''
       else Inr l))))"

definition path_locator ::
  "(string \<Rightarrow> string) \<Rightarrow> (string \<Rightarrow> split_url result) \<Rightarrow> string \<Rightarrow> path_platform \<Rightarrow> project_origin \<Rightarrow> bool \<Rightarrow>
   physical_proof option \<Rightarrow> project_locator result" where
  "path_locator digest urlsplit raw plat org remote phys =
     bind_result (canonical_path plat raw) (\<lambda>canonical.
       validate_binding digest urlsplit
         (Locator (if remote then REMOTE_PATH else LOCAL_PATH) raw canonical org (Some plat) [] phys))"

definition repository_locator ::
  "(string \<Rightarrow> string) \<Rightarrow> (string \<Rightarrow> split_url result) \<Rightarrow> string \<Rightarrow> project_locator result" where
  "repository_locator digest urlsplit raw =
     bind_result (canonical_repository_uri urlsplit raw) (\<lambda>(canonical, org).
       validate_binding digest urlsplit (Locator REPOSITORY_URI raw canonical org None [] None))"

definition provider_workspace ::
  "(string \<Rightarrow> string) \<Rightarrow> (string \<Rightarrow> split_url result) \<Rightarrow> string \<Rightarrow> project_origin \<Rightarrow> project_locator result" where
  "provider_workspace digest urlsplit raw org =
     bind_result (validate_raw ''provider workspace'' raw) (\<lambda>_.
       validate_binding digest urlsplit (Locator PROVIDER_WORKSPACE raw raw org None [] None))"

definition opaque_locator ::
  "(string \<Rightarrow> string) \<Rightarrow> (string \<Rightarrow> split_url result) \<Rightarrow> string \<Rightarrow> project_origin \<Rightarrow> project_locator result" where
  "opaque_locator digest urlsplit raw org =
     bind_result (validate_raw ''opaque project locator'' raw) (\<lambda>_.
       validate_binding digest urlsplit (Locator OPAQUE raw raw org None [] None))"

definition workspace_set ::
  "(string \<Rightarrow> string) \<Rightarrow> (string \<Rightarrow> split_url result) \<Rightarrow> project_locator list \<Rightarrow> project_origin \<Rightarrow> string \<Rightarrow>
   project_locator result" where
  "workspace_set digest urlsplit members org display =
     (if members = [] then Inl ''workspace set requires at least one member''
      else validate_binding digest urlsplit
             (Locator WORKSPACE_SET display (set_canonical digest members) org None members None))"

section \<open>Comparison\<close>

definition same_origin :: "project_locator \<Rightarrow> project_locator \<Rightarrow> bool" where
  "same_origin l r =
     (namespace (locator_origin l) = namespace (locator_origin r) \<and>
      canonical_host (locator_origin l) = canonical_host (locator_origin r))"

definition same_lexical_locator :: "(string \<Rightarrow> string) \<Rightarrow> project_locator \<Rightarrow> project_locator \<Rightarrow> bool" where
  "same_lexical_locator digest l r =
     (locator_kind l = locator_kind r \<and> same_origin l r \<and> locator_platform l = locator_platform r \<and>
      canonical_of l = canonical_of r \<and>
      sorted_prints digest (locator_members l) = sorted_prints digest (locator_members r))"

definition same_project_locator :: "(string \<Rightarrow> string) \<Rightarrow> project_locator \<Rightarrow> project_locator \<Rightarrow> bool" where
  "same_project_locator digest l r =
     (if same_lexical_locator digest l r then
        (case (physical l, physical r) of
           (Some p, Some q) \<Rightarrow> proof_key p = proof_key q
         | _ \<Rightarrow> True)
      else same_origin l r \<and>
        (case (physical l, physical r) of
           (Some p, Some q) \<Rightarrow> proof_key p = proof_key q
         | _ \<Rightarrow> False))"

section \<open>Project identities\<close>

record project_identity =
  identity_id :: string
  locator_fingerprints :: "string list"
  created_at :: datetime

definition is_lower_hex :: "char \<Rightarrow> bool" where
  "is_lower_hex c = (is_digit_ascii c \<or> (97 \<le> code c \<and> code c \<le> 102))"

text \<open>A prefix followed by exactly \<open>n\<close> small hexadecimal digits.\<close>

definition prefixed_hex :: "string \<Rightarrow> nat \<Rightarrow> string \<Rightarrow> bool" where
  "prefixed_hex p n s =
     (starts_with p s \<and> length s = length p + n \<and> (\<forall>c \<in> set (drop (length p) s). is_lower_hex c))"

definition validate_identity :: "project_identity \<Rightarrow> project_identity result" where
  "validate_identity i =
     bind_result
       (first_failure
         [(\<not> prefixed_hex ''prj_'' 32 (identity_id i), ''id pattern''),
          (locator_fingerprints i = [], ''project identity requires a locator fingerprint''),
          (sort (remdups (locator_fingerprints i)) \<noteq> locator_fingerprints i,
             ''project identity locators must be unique and sorted''),
          (\<exists>v \<in> set (locator_fingerprints i). \<not> prefixed_hex ''ploc_'' 64 v,
             ''project identity locator fingerprint is invalid''),
          (\<not> is_aware (created_at i), ''project identity timestamp must be timezone-aware'')])
       (\<lambda>_. Inr i)"

text \<open>\<open>create\<close>, with the hex digits of \<open>uuid4()\<close> as an argument.\<close>

definition create_identity ::
  "(string \<Rightarrow> string) \<Rightarrow> string \<Rightarrow> project_locator list \<Rightarrow> datetime \<Rightarrow> project_identity result" where
  "create_identity digest uuid_hex locators now =
     validate_identity
       \<lparr>identity_id = ''prj_'' @ uuid_hex,
        locator_fingerprints = sort (remdups (map (fingerprint digest) locators)),
        created_at = now\<rparr>"

section \<open>Facts\<close>

definition locator_payload :: "(string \<Rightarrow> string) \<Rightarrow> project_locator \<Rightarrow> (string \<times> pyval) list" where
  "locator_payload digest l =
     fingerprint_payload (locator_kind l) (locator_origin l) (locator_platform l) (canonical_of l)
       (map (fingerprint digest) (locator_members l)) (physical l)"

lemma fingerprint_unfold: "fingerprint digest l = ''ploc_'' @ digest (locator_json (locator_payload digest l))"
  by (cases l) (simp add: locator_payload_def)

lemma payload_float_free: "float_free (PDict (fingerprint_payload k org plat c ms ph))"
  by (cases plat; cases ph) (auto simp: fingerprint_payload_def proof_json_def)

lemma payload_keys: "distinct (map fst (fingerprint_payload k org plat c ms ph))"
  by (simp add: fingerprint_payload_def)

lemma sort_two: "sort_keys (PDict [(''namespace'', PStr a), (''host'', PStr b)]) =
    sort_keys (PDict [(''namespace'', PStr a'), (''host'', PStr b')]) \<Longrightarrow> a = a' \<and> b = b'"
  using sort_keys_dict [of "[(''namespace'', PStr a), (''host'', PStr b)]"
      "[(''namespace'', PStr a'), (''host'', PStr b')]" "''namespace''"]
    sort_keys_dict [of "[(''namespace'', PStr a), (''host'', PStr b)]"
      "[(''namespace'', PStr a'), (''host'', PStr b')]" "''host''"]
  by simp

lemma sort_proof:
  assumes "sort_keys (proof_json p) = sort_keys (proof_json q)"
  shows "proof_key p = proof_key q"
proof -
  let ?d = "\<lambda>p. [(''provider'', PStr (provider p)), (''volume_id'', PStr (volume_id p)),
    (''object_id'', PStr (object_id p))]"
  have "sort_keys (dict_get (?d p) k) = sort_keys (dict_get (?d q) k)" for k
    by (rule sort_keys_dict [OF assms [unfolded proof_json_def]]) simp_all
  from this [of "''provider''"] this [of "''volume_id''"] this [of "''object_id''"]
  show ?thesis by (simp add: proof_key_def)
qed

lemma locator_kind_value_inj: "locator_kind_value k = locator_kind_value k' \<Longrightarrow> k = k'"
  by (cases k; cases k'; simp)

lemma path_platform_value_inj: "path_platform_value k = path_platform_value k' \<Longrightarrow> k = k'"
  by (cases k; cases k'; simp)

lemma sort_proof_not_None: "sort_keys (proof_json p) \<noteq> PNone" "PNone \<noteq> sort_keys (proof_json p)"
  by (simp_all only: proof_json_def sort_keys.simps pyval.distinct not_False_eq_True)

lemma payload_inj:
  assumes "locator_json (fingerprint_payload k org plat c ms ph) =
    locator_json (fingerprint_payload k' org' plat' c' ms' ph')"
  shows "k = k' \<and> namespace org = namespace org' \<and> canonical_host org = canonical_host org' \<and>
    plat = plat' \<and> c = c' \<and> sort ms = sort ms' \<and> map_option proof_key ph = map_option proof_key ph'"
proof -
  have same: "sort_keys (dict_get (fingerprint_payload k org plat c ms ph) x) =
      sort_keys (dict_get (fingerprint_payload k' org' plat' c' ms' ph') x)" for x
    using assms unfolding locator_json_def
    by (intro sort_keys_dict payload_keys json_dumps_inj payload_float_free)
  have "plat = plat'"
    using same [of "''platform''"] path_platform_value_inj [of "the plat" "the plat'"]
    by (cases plat; cases plat') (simp_all add: fingerprint_payload_def)
  moreover have "map_option proof_key ph = map_option proof_key ph'"
    using same [of "''physical''"] sort_proof [of "the ph" "the ph'"]
    by (cases ph; cases ph') (simp_all add: fingerprint_payload_def sort_proof_not_None)
  moreover have "sort ms = sort ms'"
  proof -
    have "map PStr (sort ms) = map PStr (sort ms')"
      using same [of "''members''"] by (simp add: fingerprint_payload_def o_def)
    then show ?thesis by (rule map_injective) (simp add: inj_def)
  qed
  moreover have "k = k'" using same [of "''kind''"] locator_kind_value_inj [of k k'] by (simp add: fingerprint_payload_def)
  moreover have "c = c'" using same [of "''canonical''"] by (simp add: fingerprint_payload_def)
  moreover have "namespace org = namespace org' \<and> canonical_host org = canonical_host org'"
    using same [of "''origin''"] sort_two [of "namespace org" "canonical_host org"]
    by (simp only: fingerprint_payload_def) (simp del: sort_keys.simps)
  ultimately show ?thesis by blast
qed

lemma proof_json_key: "proof_key p = proof_key q \<Longrightarrow> proof_json p = proof_json q"
  by (simp add: proof_json_def proof_key_def)

lemma payload_cong:
  assumes "same_lexical_locator digest l r" "map_option proof_key (physical l) = map_option proof_key (physical r)"
  shows "locator_payload digest l = locator_payload digest r"
proof -
  have "optional_json proof_json (physical l) = optional_json proof_json (physical r)"
    using assms(2) by (cases "physical l"; cases "physical r") (auto intro: proof_json_key)
  with assms(1) show ?thesis
    by (simp add: locator_payload_def fingerprint_payload_def same_lexical_locator_def same_origin_def
        sorted_prints_def)
qed

section \<open>Properties\<close>

text \<open>
  Two locators have one fingerprint exactly when they agree in kind, origin, platform,
  canonical value and member fingerprints and carry the same physical proof, or both none,
  provided the digest does not collide on their two payload texts.
\<close>

lemma fingerprint_identifies_locator:
  assumes "digest (locator_json (locator_payload digest l)) = digest (locator_json (locator_payload digest r)) \<longrightarrow>
    locator_json (locator_payload digest l) = locator_json (locator_payload digest r)"
  shows "fingerprint digest l = fingerprint digest r \<longleftrightarrow>
    same_lexical_locator digest l r \<and>
    map_option proof_key (physical l) = map_option proof_key (physical r)"
proof
  assume "fingerprint digest l = fingerprint digest r"
  with assms have "locator_json (locator_payload digest l) = locator_json (locator_payload digest r)"
    by (simp add: fingerprint_unfold)
  from payload_inj [OF this [unfolded locator_payload_def]]
  show "same_lexical_locator digest l r \<and> map_option proof_key (physical l) = map_option proof_key (physical r)"
    by (simp add: same_lexical_locator_def same_origin_def sorted_prints_def)
next
  assume "same_lexical_locator digest l r \<and> map_option proof_key (physical l) = map_option proof_key (physical r)"
  then have "locator_payload digest l = locator_payload digest r" using payload_cong by blast
  then show "fingerprint digest l = fingerprint digest r" by (simp add: fingerprint_unfold)
qed

lemma fingerprint_identifies_locator_example:
  "fingerprint id (Locator OPAQUE ''a'' ''a'' \<lparr>namespace = ''n'', host = ''h''\<rparr> None [] None) =
   fingerprint id (Locator OPAQUE ''b'' ''a'' \<lparr>namespace = ''n'', host = ''h''\<rparr> None [] None)"
  by (subst fingerprint_identifies_locator)
    (simp_all add: same_lexical_locator_def same_origin_def)

text \<open>
  \<open>same_project_locator\<close> is reflexive and symmetric, relates only locators of one
  origin, and never relates two locators whose physical proofs disagree.
\<close>

lemma same_project_locator_safe:
  "same_project_locator digest l l \<and>
   same_project_locator digest l r = same_project_locator digest r l \<and>
   \<not> (same_project_locator digest l r \<and> \<not> same_origin l r) \<and>
   \<not> (same_project_locator digest l r \<and> physical l = Some p \<and> physical r = Some q \<and>
      proof_key p \<noteq> proof_key q)"
proof (intro conjI notI)
  show "same_project_locator digest l l"
    by (simp add: same_project_locator_def same_lexical_locator_def same_origin_def split: option.split)
  have "same_lexical_locator digest l r = same_lexical_locator digest r l" "same_origin l r = same_origin r l"
    by (auto simp: same_lexical_locator_def same_origin_def)
  then show "same_project_locator digest l r = same_project_locator digest r l"
    by (cases "physical l"; cases "physical r"; simp add: same_project_locator_def; metis)
next
  assume "same_project_locator digest l r \<and> \<not> same_origin l r"
  then show False by (auto simp: same_project_locator_def same_lexical_locator_def split: if_splits)
next
  assume "same_project_locator digest l r \<and> physical l = Some p \<and> physical r = Some q \<and>
    proof_key p \<noteq> proof_key q"
  then show False by (auto simp: same_project_locator_def split: if_splits)
qed

text \<open>
  Finding. \<open>same_project_locator\<close> is not transitive: a path observed without a physical proof
  matches two observations of the same path whose proofs disagree, which do not match each other.
\<close>

lemma same_project_locator_not_transitive:
  "\<exists>l m r.
     path_locator digest urlsplit ''/a'' POSIX org False
       (Some \<lparr>provider = ''stat'', volume_id = ''1'', object_id = ''2''\<rparr>) = Inr l \<and>
     path_locator digest urlsplit ''/a'' POSIX org False None = Inr m \<and>
     path_locator digest urlsplit ''/a'' POSIX org False
       (Some \<lparr>provider = ''stat'', volume_id = ''1'', object_id = ''3''\<rparr>) = Inr r \<and>
     same_project_locator digest l m \<and> same_project_locator digest m r \<and>
     \<not> same_project_locator digest l r"
proof -
  have path: "canonical_posix_path ''/a'' = Inr ''/a''" by code_simp
  have ok: "validate_raw ''project locator'' ''/a'' = Inr ()" by code_simp
  have "path_locator digest urlsplit ''/a'' POSIX org False ph =
      Inr (Locator LOCAL_PATH ''/a'' ''/a'' org (Some POSIX) [] ph)" for ph
    by (simp add: path_locator_def canonical_path_def path validate_binding_def ok
        expected_canonical_def length_between_def)
  then show ?thesis
    by (simp add: same_project_locator_def same_lexical_locator_def same_origin_def proof_key_def)
qed

text \<open>
  A locator that passes validation has a platform exactly when it names a path, members
  exactly when it is a workspace set (their fingerprints distinct), a physical proof only when it
  names a path; and its canonical value is determined by the other fields.
\<close>

lemma validated_locator_shape:
  assumes "validate_binding digest urlsplit l = Inr l'"
  shows "l' = l \<and>
    (locator_platform l \<noteq> None \<longleftrightarrow> locator_kind l \<in> {LOCAL_PATH, REMOTE_PATH}) \<and>
    (locator_members l \<noteq> [] \<longleftrightarrow> locator_kind l = WORKSPACE_SET) \<and>
    distinct (map (fingerprint digest) (locator_members l)) \<and>
    (physical l \<noteq> None \<longrightarrow> locator_kind l \<in> {LOCAL_PATH, REMOTE_PATH}) \<and>
    expected_canonical digest urlsplit l = Inr (canonical_of l)"
proof -
  have l': "l' = l" and e: "expected_canonical digest urlsplit l = Inr (canonical_of l)"
    using assms by (auto simp: validate_binding_def bind_result_Inr_iff split: if_splits)
  have dist: "distinct (sorted_prints digest ms) = distinct (map (fingerprint digest) ms)" for ms
    by (simp add: sorted_prints_def)
  have "(locator_platform l \<noteq> None \<longleftrightarrow> locator_kind l \<in> {LOCAL_PATH, REMOTE_PATH}) \<and>
    (locator_members l \<noteq> [] \<longleftrightarrow> locator_kind l = WORKSPACE_SET) \<and>
    distinct (map (fingerprint digest) (locator_members l)) \<and>
    (physical l \<noteq> None \<longrightarrow> locator_kind l \<in> {LOCAL_PATH, REMOTE_PATH})"
    using e dist unfolding expected_canonical_def
    by (cases "locator_kind l") (auto split: option.splits if_splits)
  with l' e show ?thesis by blast
qed

lemma validated_locator_shape_example:
  "locator_platform (Locator OPAQUE ''a'' ''a'' \<lparr>namespace = ''n'', host = ''h''\<rparr> None [] None) = None"
proof -
  let ?l = "Locator OPAQUE ''a'' ''a'' \<lparr>namespace = ''n'', host = ''h''\<rparr> None [] None"
  have "validate_raw ''project locator'' ''a'' = Inr ()" by code_simp
  then have "validate_binding id (\<lambda>_. Inl []) ?l = Inr ?l"
    by (simp add: validate_binding_def expected_canonical_def length_between_def)
  from validated_locator_shape [OF this] show ?thesis by simp
qed

lemma prefixed_hex_append [simp]:
  "prefixed_hex p n (p @ s) \<longleftrightarrow> length s = n \<and> (\<forall>c \<in> set s. is_lower_hex c)"
  by (auto simp: prefixed_hex_def)

text \<open>
  Creating an identity depends on the set of locators only, not on their order or on
  repetitions, and succeeds exactly when there is a locator, the timestamp is timezone-aware and
  the identifier and every digest have their hexadecimal form.
\<close>

lemma create_identity_total:
  "(set ls = set ls' \<longrightarrow> create_identity digest uuid ls now = create_identity digest uuid ls' now) \<and>
   (succeeds (create_identity digest uuid ls now) \<longleftrightarrow>
      ls \<noteq> [] \<and> is_aware now \<and> prefixed_hex [] 32 uuid \<and>
      (\<forall>l \<in> set ls. prefixed_hex ''ploc_'' 64 (fingerprint digest l)))"
proof -
  have canon: "sort (remdups (sort (remdups xs))) = sort (remdups xs)" for xs :: "string list"
    by (simp add: distinct_remdups_id sorted_sort_id)
  have hex: "prefixed_hex ''prj_'' 32 (CHR ''p'' # CHR ''r'' # CHR ''j'' # CHR ''_'' # uuid) =
      prefixed_hex [] 32 uuid"
    using prefixed_hex_append [of "''prj_''" 32 uuid] prefixed_hex_append [of "[]" 32 uuid] by simp
  have "sort (remdups (map f ls)) = sort (remdups (map f ls'))" if "set ls = set ls'" for f :: "project_locator \<Rightarrow> string"
    using that by (intro sorted_distinct_set_unique) simp_all
  moreover have "sort xs = [] \<longleftrightarrow> xs = []" for xs :: "string list" by (metis set_empty set_sort)
  ultimately show ?thesis
    by (auto simp: create_identity_def validate_identity_def succeeds_iff bind_result_Inr_iff canon hex)
qed

lemma create_identity_total_example:
  "create_identity id [] [Locator OPAQUE ''a'' ''a'' \<lparr>namespace = ''n'', host = ''h''\<rparr> None [] None,
     Locator OPAQUE ''a'' ''a'' \<lparr>namespace = ''n'', host = ''h''\<rparr> None [] None] (Naive 0) =
   create_identity id [] [Locator OPAQUE ''a'' ''a'' \<lparr>namespace = ''n'', host = ''h''\<rparr> None [] None] (Naive 0)"
  by (rule create_identity_total [THEN conjunct1, rule_format]) simp

end
