(* ===== verification/Overlay_Model.thy ===== *)
theory Overlay_Model
  imports Pex_Enums
begin

text \<open>
  \<open>packages/protocol/src/pex_protocol/overlay.py\<close>: session overlays with a bounded lifetime and the
  test that recognises the overlay profiles the bridge may apply by itself. A validator returns the
  validated instance (with the expiry it derives) or the message of the failed check. The instant
  \<open>now\<close> is an argument. Dates beyond Python's range of years are not modelled.
\<close>

section \<open>Diffs\<close>

record overlay_diff =
  system_instructions :: "string option"
  tools_enabled :: "string list option"
  tools_disabled :: "string list option"
  mcp_servers :: "(string \<times> pyval) list option"
  diff_model :: "string option"
  reasoning_effort :: "string option"
  permission_policy :: "(string \<times> pyval) list option"
  extra :: "(string \<times> pyval) list"

definition control_free :: "string \<Rightarrow> bool" where
  "control_free s = (\<forall>c \<in> set s. \<not> is_control c)"

definition at_most :: "nat \<Rightarrow> 'a list option \<Rightarrow> bool" where
  "at_most n xs = (case xs of None \<Rightarrow> True | Some ys \<Rightarrow> length ys \<le> n)"

definition overlay_name :: "string \<Rightarrow> bool" where
  "overlay_name s = (1 \<le> length s \<and> length s \<le> 512)"

definition tool_name_errors :: "string list option \<Rightarrow> (bool \<times> string) list" where
  "tool_name_errors names =
     (case names of
        None \<Rightarrow> []
      | Some ns \<Rightarrow>
          [(256 < length ns \<or> (\<exists>n \<in> set ns. \<not> overlay_name n), ''tool names length''),
           (\<not> distinct ns, ''overlay tool names must be unique''),
           (\<exists>n \<in> set ns. n \<noteq> strip n \<or> \<not> control_free n,
              ''overlay tool names must be trimmed control-free text'')])"

definition changes_something :: "overlay_diff \<Rightarrow> bool" where
  "changes_something d =
     (system_instructions d \<noteq> None \<or> tools_enabled d \<noteq> None \<or> tools_disabled d \<noteq> None \<or>
      mcp_servers d \<noteq> None \<or> diff_model d \<noteq> None \<or> reasoning_effort d \<noteq> None \<or>
      permission_policy d \<noteq> None \<or> extra d \<noteq> [])"

definition validate_diff :: "overlay_diff \<Rightarrow> unit result" where
  "validate_diff d =
     first_failure
       ([(\<not> at_most 32768 (system_instructions d), ''system_instructions length''),
         (\<not> at_most 128 (mcp_servers d), ''mcp_servers length''),
         (\<not> at_most 512 (diff_model d), ''model length''),
         (\<not> at_most 128 (reasoning_effort d), ''reasoning_effort length''),
         (\<not> at_most 256 (permission_policy d), ''permission_policy length''),
         (128 < length (extra d), ''extra length'')]
        @ tool_name_errors (tools_enabled d) @ tool_name_errors (tools_disabled d)
        @ [(\<not> changes_something d, ''overlay diff must contain at least one change'')])"

section \<open>Overlays\<close>

record overlay =
  overlay_id :: string
  overlay_session_id :: string
  overlay_reason :: string
  diff :: overlay_diff
  ttl_seconds :: int
  applied_at :: "datetime option"
  expires_at :: "datetime option"
  reverted_at :: "datetime option"
  revert_reason :: "string option"
  rollback :: "(string \<times> pyval) list"
  promoted :: bool

definition max_overlay_ttl_seconds :: int where "max_overlay_ttl_seconds = 86400"

definition trimmed_identifier :: "string \<Rightarrow> bool" where
  "trimmed_identifier s = (s = strip s \<and> control_free s)"

definition overlay_fields :: "overlay \<Rightarrow> unit result" where
  "overlay_fields v =
     bind_result (validate_diff (diff v)) (\<lambda>_.
       first_failure
         [(\<not> overlay_name (overlay_id v) \<or> \<not> overlay_name (overlay_session_id v), ''identifier length''),
          (\<not> (1 \<le> length (overlay_reason v) \<and> length (overlay_reason v) \<le> 8192), ''reason length''),
          (\<not> (0 < ttl_seconds v \<and> ttl_seconds v \<le> max_overlay_ttl_seconds), ''ttl_seconds range''),
          (\<not> at_most 8192 (revert_reason v), ''revert_reason length''),
          (256 < length (rollback v), ''rollback length''),
          (\<not> trimmed_identifier (overlay_id v) \<or> \<not> trimmed_identifier (overlay_session_id v),
             ''overlay identifiers must be trimmed control-free text''),
          (CHR 0x00 \<in> set (overlay_reason v) \<or>
             (case revert_reason v of None \<Rightarrow> False | Some r \<Rightarrow> CHR 0x00 \<in> set r),
             ''overlay text cannot contain NUL bytes'')])"

definition derived_expiry :: "overlay \<Rightarrow> datetime option" where
  "derived_expiry v =
     (case (applied_at v, expires_at v) of
        (Some applied, None) \<Rightarrow> Some (add_seconds applied (ttl_seconds v))
      | _ \<Rightarrow> expires_at v)"

definition lifecycle :: "overlay \<Rightarrow> unit result" where
  "lifecycle v =
     (case applied_at v of
        None \<Rightarrow>
          first_failure
            [(expires_at v \<noteq> None, ''an unapplied overlay cannot have an expiry''),
             (reverted_at v \<noteq> None, ''an unapplied overlay cannot be reverted'')]
      | Some applied \<Rightarrow>
          first_failure
            [(case derived_expiry v of None \<Rightarrow> False | Some e \<Rightarrow> as_utc e \<le> as_utc applied,
                ''overlay expiry must be after its applied timestamp''),
             (case derived_expiry v of None \<Rightarrow> False
              | Some e \<Rightarrow> as_utc applied + ttl_seconds v * 1000000 < as_utc e,
                ''overlay expiry cannot exceed its bounded TTL''),
             (case reverted_at v of None \<Rightarrow> False | Some r \<Rightarrow> as_utc r < as_utc applied,
                ''overlay cannot be reverted before it is applied'')])"

definition validate_overlay :: "overlay \<Rightarrow> overlay result" where
  "validate_overlay v =
     bind_result (overlay_fields v) (\<lambda>_.
     bind_result (lifecycle v) (\<lambda>_. Inr (v\<lparr>expires_at := derived_expiry v\<rparr>)))"

definition is_expired :: "overlay \<Rightarrow> datetime \<Rightarrow> bool" where
  "is_expired v now =
     (if promoted v \<or> applied_at v = None \<or> reverted_at v \<noteq> None then False
      else case expires_at v of
             Some e \<Rightarrow> as_utc e \<le> as_utc now
           | None \<Rightarrow>
               as_utc (add_seconds (the (applied_at v)) (ttl_seconds v)) \<le> as_utc now)"

section \<open>Overlays the bridge may apply by itself\<close>

definition debug_instructions :: "string list" where
  "debug_instructions =
     [''Stay on the failing reproduction. Do not start unrelated research. '' @
      ''Preserve the failing state until the attached acceptance criteria move.'',
      ''Stay on the failing reproduction. Do not start unrelated research. '' @
      ''Preserve the failing state until the attached acceptance criteria move. '' @
      ''Do not treat a stop as done without the attached acceptance evidence.'']"

text \<open>\<open>str(extra.get(key) or "")\<close>, used where every value of \<open>extra\<close> is a string.\<close>

definition extra_text :: "(string \<times> pyval) list \<Rightarrow> string \<Rightarrow> string" where
  "extra_text d key = (case dict_get d key of PStr s \<Rightarrow> s | _ \<Rightarrow> [])"

definition bounded_text :: "pyval \<Rightarrow> bool" where
  "bounded_text v = (case v of PStr s \<Rightarrow> length s \<le> 512 \<and> control_free s | _ \<Rightarrow> False)"

definition evidence_markers :: "string list" where
  "evidence_markers = [''acceptance'', ''evidence'', ''test'', ''verify'', ''verification'']"

definition locally_proven_session_overlay :: "overlay \<Rightarrow> bool" where
  "locally_proven_session_overlay v =
     (let d = diff v;
          phase = extra_text (extra d) ''phase'';
          pin = extra_text (extra d) ''pin'';
          print = extra_text (extra d) ''fingerprint_overlay'';
          instructions = strip (case system_instructions d of None \<Rightarrow> [] | Some s \<Rightarrow> s)
      in if tools_enabled d \<noteq> None \<or> mcp_servers d \<noteq> None \<or> diff_model d \<noteq> None \<or>
            reasoning_effort d \<noteq> None \<or> permission_policy d \<noteq> None then False
         else if \<not> set (dict_keys (extra d)) \<subseteq> {''phase'', ''pin'', ''fingerprint_overlay''} then False
         else if \<exists>kv \<in> set (extra d). \<not> bounded_text (snd kv) then False
         else if phase \<notin> {[], ''debug'', ''evidence-before-done'', ''context-health'', ''implementation''} then False
         else if print \<notin> {[], ''evidence-before-done''} then False
         else if instructions = [] then
           (tools_disabled d \<noteq> None \<and> tools_disabled d \<noteq> Some []) \<or> phase \<noteq> [] \<or> pin \<noteq> [] \<or> print \<noteq> []
         else if CHR 0x00 \<in> set instructions \<or> 8192 < length instructions then False
         else if phase = ''debug'' then instructions \<in> set debug_instructions
         else if phase = ''context-health'' then
           starts_with (''Persistent ledger '' @ [CHR 0x27]) instructions \<and>
           contains ''Acceptance:'' instructions \<and>
           ends_with ''Keep these facts in working context.'' instructions
         else if phase = ''evidence-before-done'' then
           CHR 0x0A \<notin> set instructions \<and>
           (\<exists>marker \<in> set evidence_markers. contains marker (casefold instructions))
         else False)"

section \<open>Facts\<close>

lemma validate_overlay_Inr:
  "validate_overlay v = Inr w \<longleftrightarrow>
   overlay_fields v = Inr () \<and> lifecycle v = Inr () \<and> w = v\<lparr>expires_at := derived_expiry v\<rparr>"
  by (auto simp: validate_overlay_def bind_result_Inr_iff)

lemma derived_expiry_again [simp]: "derived_expiry (v\<lparr>expires_at := derived_expiry v\<rparr>) = derived_expiry v"
  by (auto simp: derived_expiry_def split: option.splits)

lemma derived_expiry_applied: "applied_at v = Some a \<Longrightarrow> \<exists>e. derived_expiry v = Some e"
  by (auto simp: derived_expiry_def split: option.splits)

lemma overlay_fields_expiry [simp]: "overlay_fields (v\<lparr>expires_at := e\<rparr>) = overlay_fields v"
  by (simp add: overlay_fields_def)

lemma lifecycle_again: "lifecycle v = Inr () \<Longrightarrow> lifecycle (v\<lparr>expires_at := derived_expiry v\<rparr>) = Inr ()"
  by (cases "applied_at v"; cases "expires_at v"; cases "reverted_at v")
    (simp_all add: lifecycle_def derived_expiry_def split: if_splits)

lemma overlay_ttl:
  "overlay_fields v = Inr () \<Longrightarrow> 0 < ttl_seconds v \<and> ttl_seconds v \<le> 86400"
  by (auto simp: overlay_fields_def bind_result_Inr_iff max_overlay_ttl_seconds_def)

lemma validated_overlay:
  assumes "validate_overlay v = Inr w"
  shows "(case applied_at w of
      None \<Rightarrow> expires_at w = None \<and> reverted_at w = None
    | Some a \<Rightarrow> (\<exists>e. expires_at w = Some e \<and> as_utc a < as_utc e \<and>
          as_utc e \<le> as_utc a + ttl_seconds w * 1000000 \<and>
          as_utc e \<le> as_utc a + 86400 * 1000000) \<and>
        (\<forall>r. reverted_at w = Some r \<longrightarrow> as_utc a \<le> as_utc r)) \<and>
    validate_overlay w = Inr w"
proof -
  have v: "overlay_fields v = Inr ()" "lifecycle v = Inr ()" "w = v\<lparr>expires_at := derived_expiry v\<rparr>"
    using assms by (simp_all add: validate_overlay_Inr)
  have again: "validate_overlay w = Inr w"
    using v lifecycle_again by (simp add: validate_overlay_Inr)
  show ?thesis
  proof (cases "applied_at v")
    case None
    with v again show ?thesis by (simp add: lifecycle_def derived_expiry_def)
  next
    case (Some a)
    then obtain e where e: "derived_expiry v = Some e" using derived_expiry_applied by blast
    with v Some have "as_utc a < as_utc e" "as_utc e \<le> as_utc a + ttl_seconds v * 1000000"
      "\<forall>r. reverted_at v = Some r \<longrightarrow> as_utc a \<le> as_utc r"
      by (auto simp: lifecycle_def split: option.splits)
    with overlay_ttl [OF v(1)] e Some v(3) again show ?thesis by simp
  qed
qed

lemma validated_expiry:
  assumes "validate_overlay v = Inr w" "applied_at w = Some a"
  shows "\<exists>e. expires_at w = Some e \<and> as_utc a < as_utc e \<and> as_utc e \<le> as_utc a + ttl_seconds w * 1000000"
  using validated_overlay [OF assms(1)] assms(2) by auto

lemma extra_text_empty: "d = [] \<Longrightarrow> extra_text d k = []"
  by (simp add: extra_text_def)

section \<open>Properties\<close>

text \<open>
  A validated overlay that was applied lives for a positive time of at most its TTL,
  itself at most one day; one that was not applied has neither an expiry nor a revert time; a revert
  never precedes the application; and validating the validated overlay again changes nothing.
\<close>

lemma overlay_lifetime_bounded:
  assumes "validate_overlay v = Inr w"
  shows "(case applied_at w of
      None \<Rightarrow> expires_at w = None \<and> reverted_at w = None
    | Some a \<Rightarrow> (\<exists>e. expires_at w = Some e \<and> as_utc a < as_utc e \<and>
          as_utc e \<le> as_utc a + ttl_seconds w * 1000000 \<and>
          as_utc e \<le> as_utc a + 86400 * 1000000) \<and>
        (\<forall>r. reverted_at w = Some r \<longrightarrow> as_utc a \<le> as_utc r)) \<and>
    validate_overlay w = Inr w"
  using assms by (rule validated_overlay)

definition example_diff :: overlay_diff where
  "example_diff =
     \<lparr>system_instructions = None, tools_enabled = None, tools_disabled = Some [''shell''],
      mcp_servers = None, diff_model = None, reasoning_effort = None, permission_policy = None, extra = []\<rparr>"

definition example_overlay :: overlay where
  "example_overlay =
     \<lparr>overlay_id = ''o'', overlay_session_id = ''s'', overlay_reason = ''r'', diff = example_diff,
      ttl_seconds = 60, applied_at = Some (Aware 0 0), expires_at = None, reverted_at = None,
      revert_reason = None, rollback = [], promoted = False\<rparr>"

lemma example_overlay_valid:
  "validate_overlay example_overlay = Inr (example_overlay\<lparr>expires_at := Some (Aware 60000000 0)\<rparr>)"
proof -
  have name: "trimmed_identifier ''o''" "trimmed_identifier ''s''" "strip ''shell'' = ''shell''"
    "control_free ''shell''" by code_simp+
  have "validate_diff example_diff = Inr ()"
    using name by (simp add: validate_diff_def example_diff_def tool_name_errors_def at_most_def
        overlay_name_def changes_something_def)
  with name have "overlay_fields example_overlay = Inr ()"
    by (simp add: overlay_fields_def example_overlay_def overlay_name_def at_most_def
        max_overlay_ttl_seconds_def)
  then show ?thesis
    by (simp add: validate_overlay_Inr lifecycle_def derived_expiry_def example_overlay_def)
qed

lemma overlay_lifetime_bounded_example:
  "validate_overlay (example_overlay\<lparr>expires_at := Some (Aware 60000000 0)\<rparr>) =
   Inr (example_overlay\<lparr>expires_at := Some (Aware 60000000 0)\<rparr>)"
  using overlay_lifetime_bounded [OF example_overlay_valid] by (rule conjunct2)

text \<open>
  Expiry. Expiry of a validated overlay is monotone in time: it is not expired when applied,
  stays expired once it is, is expired after its TTL at the latest unless it was promoted or
  reverted, and a promoted or reverted one never expires.
\<close>

lemma overlay_expiry_monotone:
  assumes "validate_overlay v = Inr w" and "applied_at w = Some a"
  shows "\<not> is_expired w a \<and>
    (is_expired w t \<and> as_utc t \<le> as_utc u \<longrightarrow> is_expired w u) \<and>
    (if promoted w \<or> reverted_at w \<noteq> None then \<not> is_expired w t
     else as_utc a + ttl_seconds w * 1000000 \<le> as_utc t \<longrightarrow> is_expired w t)"
proof -
  obtain e where e: "expires_at w = Some e" "as_utc a < as_utc e"
    "as_utc e \<le> as_utc a + ttl_seconds w * 1000000"
    using validated_expiry [OF assms] by blast
  with assms(2) show ?thesis by (auto simp: is_expired_def)
qed

lemma overlay_expiry_monotone_witness:
  "is_expired (example_overlay\<lparr>expires_at := Some (Aware 60000000 0)\<rparr>) (Naive 60000000)"
  using overlay_expiry_monotone [OF example_overlay_valid, of "Aware 0 0" "Naive 60000000"]
  by (simp add: example_overlay_def)

text \<open>
  An overlay the bridge may apply by itself never widens authority: it enables no tool,
  adds no MCP server, changes no model, reasoning effort or permission policy, carries only the
  three known labels as short control-free text, and adds instructions only in the three phases that
  restrict them to a known form.
\<close>

lemma proven_overlay_expands_nothing:
  assumes "locally_proven_session_overlay v"
  shows "tools_enabled (diff v) = None \<and> mcp_servers (diff v) = None \<and> diff_model (diff v) = None \<and>
    reasoning_effort (diff v) = None \<and> permission_policy (diff v) = None \<and>
    (\<forall>(k, val) \<in> set (extra (diff v)). k \<in> {''phase'', ''pin'', ''fingerprint_overlay''} \<and>
       (\<exists>s. val = PStr s \<and> length s \<le> 512 \<and> control_free s)) \<and>
    (\<forall>msg. system_instructions (diff v) = Some msg \<and> strip msg \<noteq> [] \<longrightarrow>
       length (strip msg) \<le> 8192 \<and>
       (case extra_text (extra (diff v)) ''phase'' of ph \<Rightarrow>
          (ph = ''debug'' \<and> strip msg \<in> set debug_instructions) \<or>
          (ph = ''context-health'' \<and> contains ''Acceptance:'' (strip msg)) \<or>
          (ph = ''evidence-before-done'' \<and> CHR 0x0A \<notin> set (strip msg))))"
proof -
  have closed: "tools_enabled (diff v) = None \<and> mcp_servers (diff v) = None \<and> diff_model (diff v) = None \<and>
      reasoning_effort (diff v) = None \<and> permission_policy (diff v) = None"
    and keys: "set (dict_keys (extra (diff v))) \<subseteq> {''phase'', ''pin'', ''fingerprint_overlay''}"
    and vals: "\<forall>kv \<in> set (extra (diff v)). bounded_text (snd kv)"
    using assms unfolding locally_proven_session_overlay_def Let_def
    by (simp_all split: if_split_asm del: starts_with_Cons)
  have extras: "\<forall>(k, val) \<in> set (extra (diff v)). k \<in> {''phase'', ''pin'', ''fingerprint_overlay''} \<and>
      (\<exists>s. val = PStr s \<and> length s \<le> 512 \<and> control_free s)"
  proof (clarify)
    fix k val assume kv: "(k, val) \<in> set (extra (diff v))"
    then have "k \<in> set (dict_keys (extra (diff v)))" by (force simp: dict_keys_def)
    moreover have "bounded_text val" using vals kv by force
    ultimately show "k \<in> {''phase'', ''pin'', ''fingerprint_overlay''} \<and>
        (\<exists>s. val = PStr s \<and> length s \<le> 512 \<and> control_free s)"
      using keys by (auto simp: bounded_text_def split: pyval.splits)
  qed
  have "length (strip msg) \<le> 8192 \<and>
       (case extra_text (extra (diff v)) ''phase'' of ph \<Rightarrow>
          (ph = ''debug'' \<and> strip msg \<in> set debug_instructions) \<or>
          (ph = ''context-health'' \<and> contains ''Acceptance:'' (strip msg)) \<or>
          (ph = ''evidence-before-done'' \<and> CHR 0x0A \<notin> set (strip msg)))"
    if t: "system_instructions (diff v) = Some msg" "strip msg \<noteq> []" for msg
    using assms t unfolding locally_proven_session_overlay_def Let_def
    by (simp split: if_split_asm del: starts_with_Cons)
  with closed extras show ?thesis by blast
qed

lemma proven_overlay_expands_nothing_example:
  "tools_enabled (diff example_overlay) = None"
proof -
  have "locally_proven_session_overlay example_overlay"
    by (simp add: locally_proven_session_overlay_def example_overlay_def example_diff_def dict_keys_def
        extra_text_empty strip_fixed)
  from proven_overlay_expands_nothing [OF this] show ?thesis by (rule conjunct1)
qed

end
