(* ===== verification/Action_Model.thy ===== *)
theory Action_Model
  imports Pex_Enums
begin

text \<open>
  \<open>actions.py\<close>, \<open>capabilities.py\<close> and \<open>intervention.py\<close> of the protocol package: the proposed
  action that crosses the supervisor boundary, the capabilities an adapter negotiated, and the
  intervention record whose snapshot must agree with its action. Confidence values are rationals.
\<close>

definition sized :: "nat \<Rightarrow> nat \<Rightarrow> 'a list \<Rightarrow> bool" where
  "sized lo hi s = (lo \<le> length s \<and> length s \<le> hi)"

definition optional_sized :: "nat \<Rightarrow> nat \<Rightarrow> 'a list option \<Rightarrow> bool" where
  "optional_sized lo hi s = (case s of None \<Rightarrow> True | Some t \<Rightarrow> sized lo hi t)"

section \<open>Proposed actions\<close>

record proposed_action =
  act_type :: intervention_type
  act_session_id :: string
  act_goal_id :: "string option"
  act_payload :: "(string \<times> pyval) list"
  act_rationale :: string
  act_evidence :: "string list"
  act_confidence :: rat
  act_risk :: risk_level
  act_reversible :: bool
  act_expected_benefit :: string
  act_cooldown_seconds :: int
  act_authority :: authority
  act_requires_capability :: "string option"

definition validate_action :: "proposed_action \<Rightarrow> unit result" where
  "validate_action a =
     first_failure
       [(\<not> sized 1 512 (act_session_id a), ''session_id length''),
        (\<not> optional_sized 1 512 (act_goal_id a), ''goal_id length''),
        (256 < length (act_payload a), ''payload length''),
        (\<not> sized 1 16384 (act_rationale a), ''rationale length''),
        (128 < length (act_evidence a) \<or> (\<exists>e \<in> set (act_evidence a). 8192 < length e), ''evidence length''),
        (\<not> (0 \<le> act_confidence a \<and> act_confidence a \<le> 1), ''confidence range''),
        (8192 < length (act_expected_benefit a), ''expected_benefit length''),
        (\<not> (0 \<le> act_cooldown_seconds a \<and> act_cooldown_seconds a \<le> 86400), ''cooldown_seconds range''),
        (\<not> optional_sized 1 128 (act_requires_capability a), ''requires_capability length'')]"

section \<open>Interventions\<close>

record intervention =
  int_id :: string
  int_session_id :: string
  int_goal_id :: "string option"
  int_trigger :: string
  int_evidence :: "string list"
  int_diagnosis :: string
  int_action :: proposed_action
  int_confidence :: rat
  int_risk :: string
  int_reversible :: bool
  int_authority_required :: string
  int_action_taken :: string
  int_verdict :: policy_verdict
  int_result :: string
  int_worker_response :: string
  int_outcome :: string
  int_helped :: "bool option"
  int_created_at :: datetime
  int_metadata :: "(string \<times> pyval) list"

definition snapshot_consistency :: "intervention \<Rightarrow> unit result" where
  "snapshot_consistency i =
     (let a = int_action i
      in first_failure
        [(act_session_id a \<noteq> int_session_id i \<or> act_goal_id a \<noteq> int_goal_id i,
            ''intervention/action identity mismatch''),
         (int_evidence i \<noteq> act_evidence a, ''intervention/action evidence mismatch''),
         (int_confidence i \<noteq> act_confidence a, ''intervention/action confidence mismatch''),
         (int_risk i \<noteq> risk_level_value (act_risk a), ''intervention/action risk mismatch''),
         (int_reversible i \<noteq> act_reversible a, ''intervention/action reversibility mismatch''),
         (int_authority_required i \<noteq> authority_value (act_authority a),
            ''intervention/action authority mismatch'')])"

definition validate_intervention :: "intervention \<Rightarrow> unit result" where
  "validate_intervention i =
     bind_result
       (first_failure
         [(\<not> sized 1 512 (int_id i), ''id length''),
          (\<not> sized 1 512 (int_session_id i), ''session_id length''),
          (\<not> optional_sized 1 512 (int_goal_id i), ''goal_id length''),
          (\<not> sized 1 128 (int_trigger i), ''trigger length''),
          (128 < length (int_evidence i) \<or> (\<exists>e \<in> set (int_evidence i). 8192 < length e), ''evidence length''),
          (16384 < length (int_diagnosis i), ''diagnosis length''),
          (\<not> (0 \<le> int_confidence i \<and> int_confidence i \<le> 1), ''confidence range''),
          (\<not> sized 1 64 (int_risk i), ''risk length''),
          (\<not> sized 1 128 (int_authority_required i), ''authority_required length''),
          (\<not> sized 1 128 (int_action_taken i), ''action_taken length''),
          (16384 < length (int_result i), ''result length''),
          (65536 < length (int_worker_response i), ''worker_response length''),
          (16384 < length (int_outcome i), ''outcome length''),
          (256 < length (int_metadata i), ''metadata length'')])
       (\<lambda>_. snapshot_consistency i)"

section \<open>Capabilities\<close>

definition boolean_capabilities :: "string list" where
  "boolean_capabilities =
     [''observe_messages'', ''observe_thought_events'', ''observe_tool_calls'', ''observe_file_edits'',
      ''observe_shell'', ''observe_context_compaction'', ''observe_tokens'', ''observe_permissions'',
      ''observe_session_status'', ''send_message'', ''inject_context'', ''approve'', ''deny'', ''start'',
      ''stop'', ''resume'', ''fork'', ''summarize'', ''modify_config'', ''modify_system_instructions'',
      ''modify_tools'', ''modify_mcp'', ''modify_model'', ''modify_reasoning_effort'',
      ''modify_permissions'', ''focus_ui'']"

text \<open>\<open>granted\<close> lists the boolean fields that are \<open>True\<close>.\<close>

record adapter_capabilities =
  granted :: "string list"
  response_mode :: permission_response_mode
  config_scope :: string
  granularity :: control_granularity
  trust_level :: rat
  support_label :: adapter_support_label
  cap_notes :: string

definition supports :: "adapter_capabilities \<Rightarrow> string \<Rightarrow> bool" where
  "supports c capability = (capability \<in> set boolean_capabilities \<and> capability \<in> set (granted c))"

text \<open>
  \<open>str(v)\<close>: \<open>show\<close> stands for \<open>repr\<close> of a float, list or dictionary.
\<close>

fun str_of :: "(pyval \<Rightarrow> string) \<Rightarrow> pyval \<Rightarrow> string" where
  "str_of show PNone = ''None''"
| "str_of show (PBool b) = (if b then ''True'' else ''False'')"
| "str_of show (PInt i) = decimal_int i"
| "str_of show (PStr s) = s"
| "str_of show v = show v"

text \<open>\<open>str(v or "")\<close>.\<close>

definition str_or_empty :: "(pyval \<Rightarrow> string) \<Rightarrow> pyval \<Rightarrow> string" where
  "str_or_empty show v = (if truthy v then str_of show v else [])"

text \<open>Two interventions for one action tell the same story.\<close>

lemma validate_intervention_Inr:
  "validate_intervention i = Inr () \<Longrightarrow> snapshot_consistency i = Inr ()"
  by (simp add: validate_intervention_def bind_result_Inr_iff)

text \<open>
  Snapshots. A validated intervention is a snapshot of its action: session, goal, evidence,
  confidence, reversibility agree, and its risk and authority labels parse back to the action's.
\<close>

lemma intervention_is_action_snapshot:
  assumes "validate_intervention i = Inr ()"
  shows "int_session_id i = act_session_id (int_action i) \<and> int_goal_id i = act_goal_id (int_action i) \<and>
    int_evidence i = act_evidence (int_action i) \<and> int_confidence i = act_confidence (int_action i) \<and>
    int_reversible i = act_reversible (int_action i) \<and>
    parse_enum risk_level_value all_risk_level (int_risk i) = Inr (act_risk (int_action i)) \<and>
    parse_enum authority_value all_authority (int_authority_required i) = Inr (act_authority (int_action i))"
  using validate_intervention_Inr [OF assms]
  by (simp add: snapshot_consistency_def Let_def risk_level.parse_value authority.parse_value)

definition example_action :: proposed_action where
  "example_action =
     \<lparr>act_type = IT_RESPOND_PERMISSION, act_session_id = ''s'', act_goal_id = None,
      act_payload = [(''command'', PStr ''pytest -q'')], act_rationale = ''r'', act_evidence = [],
      act_confidence = 1 / 2, act_risk = RL_LOW, act_reversible = False, act_expected_benefit = [],
      act_cooldown_seconds = 30, act_authority = AUTH_LOCAL_POLICY, act_requires_capability = None\<rparr>"

lemma intervention_is_action_snapshot_witness:
  "parse_enum risk_level_value all_risk_level ''low'' = Inr RL_LOW"
proof -
  let ?i = "\<lparr>int_id = ''i'', int_session_id = ''s'', int_goal_id = None, int_trigger = ''t'',
    int_evidence = [], int_diagnosis = [], int_action = example_action, int_confidence = 1 / 2,
    int_risk = ''low'', int_reversible = False, int_authority_required = ''local_policy'',
    int_action_taken = ''x'', int_verdict = PV_ALLOW, int_result = [], int_worker_response = [],
    int_outcome = [], int_helped = None, int_created_at = Aware 0 0, int_metadata = []\<rparr>"
  have "validate_intervention ?i = Inr ()"
    by (simp add: validate_intervention_def snapshot_consistency_def sized_def optional_sized_def
        example_action_def)
  from intervention_is_action_snapshot [OF this] show ?thesis by (simp add: example_action_def)
qed

end
