(* ===== verification/Policy_Engine.thy ===== *)
theory Policy_Engine
  imports Overlay_Model Action_Model Py_Regex
begin

text \<open>
  \<open>services/bridge/src/pex_bridge/policy/engine.py\<close>: the deterministic policy that turns a proposed
  action into a verdict. The pattern lists are translated from the source one by one. Parameters:
  \<open>show\<close> is \<open>repr\<close> of a payload value that is not a string; \<open>coerce\<close> is the field coercion of
  \<open>Overlay.model_validate\<close> (\<open>None\<close> when the payload does not have the fields of an overlay), after
  which the validators of \<open>Overlay_Model\<close> run.
\<close>

section \<open>Patterns\<close>

definition auto_allow :: "rx list" where
  "auto_allow =
     [rseq [RBol, ralt [rlit_ci ''pytest'', rseq [rlit_ci ''python'', rplus rspace, rlit_ci
        ''-m'', rplus rspace, rlit_ci ''pytest'']], RWordB],
      rseq [RBol, ralt [rlit_ci ''npm'', rlit_ci ''pnpm'', rlit_ci ''yarn''], rplus rspace,
        rlit_ci ''test'', RWordB],
      rseq [RBol, rlit_ci ''cargo'', rplus rspace, rlit_ci ''test'', RWordB],
      rseq [RBol, rlit_ci ''go'', rplus rspace, rlit_ci ''test'', RWordB],
      rseq [RBol, ralt [rlit_ci ''ruff'', rlit_ci ''eslint'', rlit_ci ''tsc'', rlit_ci ''mypy'',
        rlit_ci ''pyright'', rlit_ci ''black'', rlit_ci ''prettier''], RWordB],
      rseq [RBol, ralt [rlit_ci ''npm'', rlit_ci ''pnpm'', rlit_ci ''yarn''], rplus rspace,
        rlit_ci ''run'', rplus rspace, ralt [rlit_ci ''lint'', rlit_ci ''typecheck'', rlit_ci
        ''test''], RWordB],
      rseq [RBol, ralt [rlit_ci ''npm'', rlit_ci ''pnpm''], rplus rspace, rlit_ci ''run'', rplus
        rspace, rlit_ci ''build'', RWordB]]"

definition always_ask :: "rx list" where
  "always_ask =
     [rseq [RWordB, rlit_ci ''git'', rplus rspace, rlit_ci ''push'', RWordB, RStar rdot, ralt
        [rlit_ci ''--force'', rlit_ci ''-f''], RWordB],
      rseq [RWordB, rlit_ci ''git'', rplus rspace, rlit_ci ''reset'', rplus rspace, rlit_ci
        ''--hard'', RWordB],
      rseq [RWordB, rlit_ci ''git'', rplus rspace, rlit_ci ''clean'', RWordB, RStar rdot,
        rspace, rchar (CHR ''-''), RStar (RChr is_alpha_ascii), rchar_ci (CHR ''f'')],
      rseq [RWordB, rlit_ci ''rm'', rplus rspace, ralt [rlit_ci ''-rf'', rlit_ci ''--recursive''
        ], RWordB],
      rseq [RWordB, rlit_ci ''remove-item'', RWordB, RStar rdot, ralt [rlit_ci ''-recurse'',
        rlit_ci ''-force'']],
      rseq [RWordB, ralt [rlit_ci ''del'', rlit_ci ''erase'', rlit_ci ''rmdir'', rlit_ci ''rd''
        ], RWordB, RStar rdot, ralt [rlit_ci ''/s'', rlit_ci ''/q'']],
      rseq [RWordB, rlit_ci ''drop'', rplus rspace, rlit_ci ''table'', RWordB],
      rseq [RWordB, rlit_ci ''kubectl'', rplus rspace, rlit_ci ''delete'', RWordB],
      rseq [RWordB, rlit_ci ''terraform'', rplus rspace, rlit_ci ''destroy'', RWordB],
      rseq [RWordB, rlit_ci ''aws'', rplus rspace, RStar rdot, rlit_ci ''delete'', RWordB],
      rseq [RWordB, rlit_ci ''chmod'', rplus rspace, rlit ''777'', RWordB],
      rseq [RWordB, rlit_ci ''curl'', RWordB, RStar rdot, rchar (CHR ''|''), RStar rspace, ropt
        (rlit_ci ''ba''), rlit_ci ''sh'', RWordB],
      rseq [RWordB, ralt [rlit_ci ''npm'', rlit_ci ''pnpm'', rlit_ci ''yarn''], rplus rspace,
        rlit_ci ''publish'', RWordB],
      rseq [RWordB, ralt [rlit_ci ''vercel'', rlit_ci ''netlify'', rlit_ci ''wrangler''],
        RWordB, RStar rdot, RWordB, ralt [rlit_ci ''--prod'', rlit_ci ''deploy'', rlit_ci
        ''publish''], RWordB],
      rseq [RWordB, ralt [rlit_ci ''get-content'', rlit_ci ''type'', rlit_ci ''cat''], RWordB,
        RStar rdot, ralt [rseq [rlit_ci ''.env'', RWordB], rseq [rlit_ci ''id_rsa'', RWordB],
        rseq [rlit_ci ''auth.json'', RWordB], rlit_ci ''credentials'']]]"

definition shell_control :: rx where
  "shell_control =
     ralt [rchar (CHR 0x0D), rchar (CHR 0x0A), rlit ''&&'', rlit ''||'', rset '';|&<>'', rchar
       (CHR 0x60), rlit ''$('']"

section \<open>Command risk\<close>

definition command_risk :: "string option \<Rightarrow> risk_level" where
  "command_risk command =
     (case command of
        None \<Rightarrow> RL_LOW
      | Some cmd \<Rightarrow>
          if cmd = [] then RL_LOW
          else if \<exists>p \<in> set always_ask. rx_found p cmd then RL_IRREVERSIBLE
          else if rx_found shell_control cmd then RL_HIGH
          else if \<exists>p \<in> set auto_allow. rx_found p cmd then RL_NONE
          else RL_MEDIUM)"

definition effective_command :: "(pyval \<Rightarrow> string) \<Rightarrow> proposed_action \<Rightarrow> string option \<Rightarrow> string" where
  "effective_command show action command =
     (case command of
        Some c \<Rightarrow> if c \<noteq> [] then c else str_or_empty show (dict_get (act_payload action) ''command'')
      | None \<Rightarrow> str_or_empty show (dict_get (act_payload action) ''command''))"

definition effective_risk :: "proposed_action \<Rightarrow> string \<Rightarrow> risk_level" where
  "effective_risk action cmd =
     (if cmd \<noteq> [] \<and> act_type action = IT_RESPOND_PERMISSION then
        (if dict_get (act_payload action) ''decision_source'' = PStr ''local_policy'' \<and>
            act_risk action \<notin> {RL_HIGH, RL_IRREVERSIBLE}
         then command_risk (Some cmd)
         else if risk_rank (act_risk action) < risk_rank (command_risk (Some cmd)) then command_risk (Some cmd)
         else act_risk action)
      else act_risk action)"

section \<open>The decision\<close>

definition overlay_allowed :: "(pyval \<Rightarrow> overlay option) \<Rightarrow> proposed_action \<Rightarrow> bool" where
  "overlay_allowed coerce action =
     (case coerce (dict_get (act_payload action) ''overlay'') of
        None \<Rightarrow> False
      | Some v \<Rightarrow>
          (case validate_overlay v of
             Inl _ \<Rightarrow> False
           | Inr w \<Rightarrow> locally_proven_session_overlay w))"

definition decide ::
  "(pyval \<Rightarrow> string) \<Rightarrow> (pyval \<Rightarrow> overlay option) \<Rightarrow> autonomy_level \<Rightarrow> proposed_action \<Rightarrow> string option \<Rightarrow>
   policy_verdict" where
  "decide show coerce autonomy action command =
     (if autonomy = AL_OBSERVE then PV_DENY
      else if autonomy = AL_ASSIST \<and>
              act_type action \<notin> {IT_ANNOTATE, IT_NOTIFY, IT_ASK_HUMAN, IT_NOOP} then PV_DENY
      else
        let risk = effective_risk action (effective_command show action command)
        in if act_type action = IT_ASK_HUMAN then PV_ASK_HUMAN
           else if risk \<in> {RL_HIGH, RL_IRREVERSIBLE} then PV_ASK_HUMAN
           else if act_authority action = AUTH_HUMAN then PV_ASK_HUMAN
           else if act_type action = IT_RESPOND_PERMISSION then
             (if risk \<in> {RL_NONE, RL_LOW} \<and> autonomy \<in> {AL_MANAGE, AL_AUTOPILOT} then PV_ALLOW
              else PV_ASK_HUMAN)
           else if act_type action \<in> {IT_SEND_NUDGE, IT_INJECT_CONTEXT, IT_CONTINUE_SESSION,
                     IT_REQUEST_VERIFICATION, IT_ANNOTATE, IT_NOTIFY, IT_NOOP, IT_FOCUS_UI} then
             (if autonomy \<in> {AL_NUDGE, AL_MANAGE, AL_AUTOPILOT} then
                (if act_type action = IT_CONTINUE_SESSION \<and> autonomy = AL_NUDGE then PV_DENY else PV_ALLOW)
              else PV_DENY)
           else if act_type action = IT_FRESH_HANDOFF then
             (if autonomy \<in> {AL_MANAGE, AL_AUTOPILOT} \<and> risk \<in> {RL_NONE, RL_LOW} then PV_ALLOW else PV_DENY)
           else if act_type action = IT_APPLY_OVERLAY then
             (if autonomy \<in> {AL_MANAGE, AL_AUTOPILOT} \<and> act_reversible action \<and> risk \<in> {RL_NONE, RL_LOW} \<and>
                 act_requires_capability action = Some ''modify_config'' \<and>
                 (\<exists>item \<in> set (act_evidence action). strip item \<noteq> []) \<and> overlay_allowed coerce action
              then PV_ALLOW else PV_ASK_HUMAN)
           else PV_ASK_HUMAN)"

section \<open>Facts\<close>

lemma command_risk_low_iff:
  "cmd \<noteq> [] \<Longrightarrow> command_risk (Some cmd) \<in> {RL_NONE, RL_LOW} \<longleftrightarrow> command_risk (Some cmd) = RL_NONE"
  by (simp add: command_risk_def)

lemma command_risk_none_iff:
  "cmd \<noteq> [] \<Longrightarrow> command_risk (Some cmd) = RL_NONE \<longleftrightarrow>
    (\<forall>p \<in> set always_ask. \<not> rx_found p cmd) \<and> \<not> rx_found shell_control cmd \<and>
    (\<exists>p \<in> set auto_allow. rx_found p cmd)"
  by (auto simp: command_risk_def)

definition single_command :: "string \<Rightarrow> bool" where
  "single_command cmd =
     ((\<forall>c \<in> set cmd. c \<notin> set '';|&<>'' \<and> c \<notin> {CHR 0x0D, CHR 0x0A, CHR 0x60}) \<and> \<not> contains ''$('' cmd)"

lemma contains_set: "contains p s \<Longrightarrow> set p \<subseteq> set s"
  by (auto simp: contains_iff)

lemma shell_control_iff: "rx_found shell_control cmd \<longleftrightarrow> \<not> single_command cmd"
proof -
  have "rx_found shell_control cmd \<longleftrightarrow>
    (CHR 0x0D \<in> set cmd \<or> CHR 0x0A \<in> set cmd \<or> contains ''&&'' cmd \<or> contains ''||'' cmd \<or>
     (\<exists>c \<in> set cmd. c \<in> set '';|&<>'') \<or> CHR 0x60 \<in> set cmd \<or> contains ''$('' cmd)"
    by (simp add: shell_control_def rchar_def rset_def del: contains.simps)
  moreover have "contains ''&&'' cmd \<Longrightarrow> CHR ''&'' \<in> set cmd" "contains ''||'' cmd \<Longrightarrow> CHR ''|'' \<in> set cmd"
    using contains_set [of "''&&''" cmd] contains_set [of "''||''" cmd] by simp_all
  ultimately show ?thesis unfolding single_command_def by auto
qed

lemma effective_risk_local:
  assumes "effective_risk action cmd \<in> {RL_NONE, RL_LOW}" "act_type action = IT_RESPOND_PERMISSION" "cmd \<noteq> []"
  shows "command_risk (Some cmd) = RL_NONE"
proof -
  have "command_risk (Some cmd) \<in> {RL_NONE, RL_LOW}"
    using assms
    by (cases "command_risk (Some cmd)"; cases "act_risk action") (auto simp: effective_risk_def split: if_splits)
  with assms(3) show ?thesis using command_risk_low_iff by blast
qed

lemma effective_risk_explicit:
  "act_risk action \<in> {RL_HIGH, RL_IRREVERSIBLE} \<Longrightarrow> effective_risk action cmd \<in> {RL_HIGH, RL_IRREVERSIBLE}"
  by (cases "command_risk (Some cmd)") (auto simp: effective_risk_def)

text \<open>The verdict depends on the action through its type, risk, authority and overlay test only.\<close>

definition overlay_gate :: "(pyval \<Rightarrow> overlay option) \<Rightarrow> proposed_action \<Rightarrow> bool" where
  "overlay_gate coerce action =
     (act_reversible action \<and> act_requires_capability action = Some ''modify_config'' \<and>
      (\<exists>item \<in> set (act_evidence action). strip item \<noteq> []) \<and> overlay_allowed coerce action)"

lemma decide_allow_iff:
  "decide show coerce autonomy action command = PV_ALLOW \<longleftrightarrow>
   (let risk = effective_risk action (effective_command show action command); kind = act_type action
    in autonomy \<notin> {AL_OBSERVE, AL_ASSIST} \<and> risk \<notin> {RL_HIGH, RL_IRREVERSIBLE} \<and>
       act_authority action \<noteq> AUTH_HUMAN \<and>
       (kind \<in> {IT_SEND_NUDGE, IT_INJECT_CONTEXT, IT_REQUEST_VERIFICATION, IT_ANNOTATE, IT_NOTIFY,
                IT_NOOP, IT_FOCUS_UI} \<or>
        kind = IT_CONTINUE_SESSION \<and> autonomy \<noteq> AL_NUDGE \<or>
        autonomy \<noteq> AL_NUDGE \<and> risk \<in> {RL_NONE, RL_LOW} \<and>
          (kind \<in> {IT_RESPOND_PERMISSION, IT_FRESH_HANDOFF} \<or>
           kind = IT_APPLY_OVERLAY \<and> overlay_gate coerce action)))"
  unfolding decide_def overlay_gate_def Let_def
  by (cases autonomy; cases "act_type action"; simp)

lemma decide_allow:
  assumes "decide show coerce autonomy action command = PV_ALLOW"
  shows "autonomy \<in> {AL_NUDGE, AL_MANAGE, AL_AUTOPILOT}"
    and "effective_risk action (effective_command show action command) \<notin> {RL_HIGH, RL_IRREVERSIBLE}"
    and "act_authority action \<noteq> AUTH_HUMAN"
  using assms by (auto simp: decide_allow_iff Let_def; cases autonomy; simp)+

lemma effective_risk_mono:
  assumes "risk_rank r \<le> risk_rank (act_risk action)" "effective_risk action cmd \<notin> {RL_HIGH, RL_IRREVERSIBLE}"
  shows "risk_rank (effective_risk (action\<lparr>act_risk := r\<rparr>) cmd) \<le> risk_rank (effective_risk action cmd)"
  using assms
  by (cases r; cases "act_risk action") (auto simp: effective_risk_def split: if_splits)

lemma risk_rank_low: "risk_rank r \<le> risk_rank s \<Longrightarrow>
    (s \<notin> {RL_HIGH, RL_IRREVERSIBLE} \<longrightarrow> r \<notin> {RL_HIGH, RL_IRREVERSIBLE}) \<and>
    (s \<in> {RL_NONE, RL_LOW} \<longrightarrow> r \<in> {RL_NONE, RL_LOW})"
  by (cases r; cases s; simp)

lemma permission_allow_bounds:
  assumes "decide show coerce autonomy action command = PV_ALLOW" "act_type action = IT_RESPOND_PERMISSION"
  shows "autonomy \<in> {AL_MANAGE, AL_AUTOPILOT} \<and> act_authority action \<noteq> AUTH_HUMAN \<and>
    act_risk action \<notin> {RL_HIGH, RL_IRREVERSIBLE} \<and>
    effective_risk action (effective_command show action command) \<in> {RL_NONE, RL_LOW}"
proof -
  have "autonomy \<in> {AL_MANAGE, AL_AUTOPILOT}"
    "effective_risk action (effective_command show action command) \<in> {RL_NONE, RL_LOW}"
    using assms decide_allow(1) [OF assms(1)] by (auto simp: decide_allow_iff Let_def)
  then show ?thesis using decide_allow [OF assms(1)] effective_risk_explicit by blast
qed

section \<open>Properties\<close>

text \<open>
  Property C12. A permission request is answered without a human only in the modes manage and
  autopilot, when neither its label nor its authority asks for one; and if it names a command, that
  command matches an allowlisted test or lint prefix, matches none of the patterns that always ask,
  and contains no character or substitution that composes, redirects or continues a shell command.
\<close>

theorem permission_auto_approval:
  assumes "decide show coerce autonomy action command = PV_ALLOW" and "act_type action = IT_RESPOND_PERMISSION"
  shows "autonomy \<in> {AL_MANAGE, AL_AUTOPILOT} \<and> act_authority action \<noteq> AUTH_HUMAN \<and>
    act_risk action \<notin> {RL_HIGH, RL_IRREVERSIBLE} \<and>
    (case effective_command show action command of
       [] \<Rightarrow> act_risk action \<in> {RL_NONE, RL_LOW}
     | c # cs \<Rightarrow> single_command (c # cs) \<and> (\<exists>p \<in> set auto_allow. rx_found p (c # cs)) \<and>
         (\<forall>p \<in> set always_ask. \<not> rx_found p (c # cs)))"
proof -
  let ?cmd = "effective_command show action command"
  have m: "autonomy \<in> {AL_MANAGE, AL_AUTOPILOT}" "effective_risk action ?cmd \<in> {RL_NONE, RL_LOW}"
    and auth: "act_authority action \<noteq> AUTH_HUMAN" "act_risk action \<notin> {RL_HIGH, RL_IRREVERSIBLE}"
    using permission_allow_bounds [OF assms] by blast+
  show ?thesis
  proof (cases ?cmd)
    case Nil
    with m auth show ?thesis by (simp add: effective_risk_def)
  next
    case (Cons c cs)
    have "command_risk (Some ?cmd) = RL_NONE"
      using effective_risk_local [OF m(2) assms(2)] Cons by simp
    with Cons m auth show ?thesis
      using command_risk_none_iff [of ?cmd] shell_control_iff [of ?cmd] by simp
  qed
qed

lemma example_command: "effective_command show example_action None = ''pytest -q''"
  by (simp add: effective_command_def example_action_def str_or_empty_def)

lemma example_risk: "command_risk (Some ''pytest -q'') = RL_NONE"
  by code_simp

lemma example_allowed: "decide show coerce AL_MANAGE example_action None = PV_ALLOW"
  by (simp add: decide_def example_command effective_risk_def example_risk)
    (simp add: example_action_def)

theorem permission_auto_approval_witness:
  "single_command ''pytest -q''"
  using permission_auto_approval [OF example_allowed [of "\<lambda>_. []" "\<lambda>_. None"]]
  by (simp add: example_command) (simp add: example_action_def)

text \<open>
  Property C24. Starting, stopping or forking an agent, cleaning up, reverting an overlay and asking the
  human are never allowed by policy alone; nor is anything in the modes observe and assist; nor is
  an action whose risk label is high or irreversible or whose authority is the human.
\<close>

theorem human_only_actions:
  "act_type action \<in> {IT_START_AGENT, IT_STOP_AGENT, IT_FORK_PROBE, IT_CLEANUP, IT_REVERT_OVERLAY, IT_ASK_HUMAN} \<or>
   autonomy \<in> {AL_OBSERVE, AL_ASSIST} \<or> act_risk action \<in> {RL_HIGH, RL_IRREVERSIBLE} \<or>
   act_authority action = AUTH_HUMAN \<Longrightarrow>
   decide show coerce autonomy action command \<noteq> PV_ALLOW"
proof -
  assume a: "act_type action \<in> {IT_START_AGENT, IT_STOP_AGENT, IT_FORK_PROBE, IT_CLEANUP, IT_REVERT_OVERLAY, IT_ASK_HUMAN} \<or>
    autonomy \<in> {AL_OBSERVE, AL_ASSIST} \<or> act_risk action \<in> {RL_HIGH, RL_IRREVERSIBLE} \<or>
    act_authority action = AUTH_HUMAN"
  show ?thesis
  proof
    assume d: "decide show coerce autonomy action command = PV_ALLOW"
    have "act_type action \<notin> {IT_START_AGENT, IT_STOP_AGENT, IT_FORK_PROBE, IT_CLEANUP, IT_REVERT_OVERLAY, IT_ASK_HUMAN}"
      using d by (auto simp: decide_allow_iff Let_def)
    with a decide_allow [OF d] effective_risk_explicit show False by auto
  qed
qed

theorem human_only_actions_witness:
  "decide (\<lambda>_. []) (\<lambda>_. None) AL_AUTOPILOT (example_action\<lparr>act_type := IT_STOP_AGENT\<rparr>) None \<noteq> PV_ALLOW"
  by (rule human_only_actions) simp

fun autonomy_rank :: "autonomy_level \<Rightarrow> nat" where
  "autonomy_rank AL_OBSERVE = 0"
| "autonomy_rank AL_ASSIST = 1"
| "autonomy_rank AL_NUDGE = 2"
| "autonomy_rank AL_MANAGE = 3"
| "autonomy_rank AL_AUTOPILOT = 4"

lemma decide_autopilot: "decide show coerce AL_AUTOPILOT action command = decide show coerce AL_MANAGE action command"
  by (simp add: decide_def Let_def)

lemma decide_nudge:
  "decide show coerce AL_NUDGE action command = PV_ALLOW \<Longrightarrow> decide show coerce AL_MANAGE action command = PV_ALLOW"
  by (auto simp: decide_def Let_def split: if_splits)

text \<open>
  More autonomy never withdraws a permission: what the policy allows in one mode it
  allows in every later mode of the scale observe, assist, nudge, manage, autopilot; manage and
  autopilot give the same verdict on every action.
\<close>

lemma autonomy_monotone:
  "(decide show coerce a action command = PV_ALLOW \<and> autonomy_rank a \<le> autonomy_rank b \<longrightarrow>
      decide show coerce b action command = PV_ALLOW) \<and>
   decide show coerce AL_AUTOPILOT action command = decide show coerce AL_MANAGE action command"
proof (intro conjI impI)
  assume h: "decide show coerce a action command = PV_ALLOW \<and> autonomy_rank a \<le> autonomy_rank b"
  then have "a \<in> {AL_NUDGE, AL_MANAGE, AL_AUTOPILOT}" using decide_allow(1) by blast
  with h show "decide show coerce b action command = PV_ALLOW"
    by (cases b) (auto simp: decide_autopilot dest: decide_nudge)
qed (rule decide_autopilot)

lemma autonomy_monotone_example:
  "decide (\<lambda>_. []) (\<lambda>_. None) AL_AUTOPILOT example_action None = PV_ALLOW"
  using autonomy_monotone [of "\<lambda>_. []" "\<lambda>_. None" AL_MANAGE example_action None AL_AUTOPILOT]
    example_allowed by simp

text \<open>
  Risk labels. A higher risk label never helps: if the policy allows an action with a label, it allows
  the same action with every lower label.
\<close>

lemma lower_risk_still_allowed:
  assumes "decide show coerce autonomy action command = PV_ALLOW" and "risk_rank r \<le> risk_rank (act_risk action)"
  shows "decide show coerce autonomy (action\<lparr>act_risk := r\<rparr>) command = PV_ALLOW"
proof -
  let ?cmd = "effective_command show action command"
  have cmd: "effective_command show (action\<lparr>act_risk := r\<rparr>) command = ?cmd"
    by (cases command) (simp_all add: effective_command_def)
  have "risk_rank (effective_risk (action\<lparr>act_risk := r\<rparr>) ?cmd) \<le> risk_rank (effective_risk action ?cmd)"
    using assms(2) decide_allow(2) [OF assms(1)] by (rule effective_risk_mono)
  note low = risk_rank_low [OF this]
  have "overlay_gate coerce (action\<lparr>act_risk := r\<rparr>) = overlay_gate coerce action"
    by (simp add: overlay_gate_def overlay_allowed_def)
  with low assms(1) show ?thesis unfolding decide_allow_iff Let_def cmd by auto
qed

lemma lower_risk_still_allowed_witness:
  "decide (\<lambda>_. []) (\<lambda>_. None) AL_MANAGE (example_action\<lparr>act_risk := RL_NONE\<rparr>) None = PV_ALLOW"
  using example_allowed by (rule lower_risk_still_allowed) simp

text \<open>
  Property C25. An overlay is applied without a human only when it is reversible, backed by evidence,
  within the adapter's configuration capability, and of a profile that widens no authority.
\<close>

theorem overlay_auto_apply:
  assumes "decide show coerce autonomy action command = PV_ALLOW" and "act_type action = IT_APPLY_OVERLAY"
  shows "act_reversible action \<and> act_requires_capability action = Some ''modify_config'' \<and>
    (\<exists>item \<in> set (act_evidence action). strip item \<noteq> []) \<and>
    (\<exists>v w. coerce (dict_get (act_payload action) ''overlay'') = Some v \<and> validate_overlay v = Inr w \<and>
       locally_proven_session_overlay w)"
proof -
  have "overlay_gate coerce action"
    using assms by (auto simp: decide_allow_iff Let_def)
  then show ?thesis
    by (auto simp: overlay_gate_def overlay_allowed_def split: option.splits sum.splits)
qed

theorem overlay_auto_apply_witness: "strip ''e'' \<noteq> []"
proof -
  let ?a = "example_action\<lparr>act_type := IT_APPLY_OVERLAY, act_reversible := True, act_evidence := [''e''],
    act_requires_capability := Some ''modify_config''\<rparr>"
  have proven: "locally_proven_session_overlay (example_overlay\<lparr>expires_at := Some (Aware 60000000 0)\<rparr>)"
    by (simp add: locally_proven_session_overlay_def example_overlay_def example_diff_def dict_keys_def
        extra_text_empty strip_fixed)
  have e: "strip ''e'' = ''e''" by code_simp
  have ov: "overlay_allowed (\<lambda>_. Some example_overlay) a" for a
    by (simp add: overlay_allowed_def example_overlay_valid proven)
  have "decide (\<lambda>_. []) (\<lambda>_. Some example_overlay) AL_MANAGE ?a None = PV_ALLOW"
    by (simp add: decide_allow_iff overlay_gate_def effective_risk_def ov e)
      (simp add: example_action_def ov e)
  from overlay_auto_apply [OF this] show ?thesis by simp
qed

text \<open>
  Finding. In the mode assist no action is ever carried out: the exemption the code makes for
  annotations, notifications and no-ops only decides between denying them and asking.
\<close>

lemma assist_denies_exempted:
  "act_type action \<in> {IT_ANNOTATE, IT_NOTIFY, IT_NOOP} \<Longrightarrow>
   decide show coerce AL_ASSIST action command =
     (if act_risk action \<in> {RL_HIGH, RL_IRREVERSIBLE} \<or> act_authority action = AUTH_HUMAN
      then PV_ASK_HUMAN else PV_DENY)"
  by (auto simp: decide_def Let_def effective_risk_def)

lemma assist_denies_exempted_witness:
  "decide (\<lambda>_. []) (\<lambda>_. None) AL_ASSIST (example_action\<lparr>act_type := IT_NOTIFY\<rparr>) None = PV_DENY"
  by (subst assist_denies_exempted) (simp_all add: example_action_def)

text \<open>
  Finding. The pattern that should catch production deploys by flag does not: its word boundary
  before the dashes needs a word character directly in front of them, so \<open>vercel --prod\<close> is
  classified as an ordinary command of medium risk.
\<close>

lemma vercel_prod_is_not_flagged:
  "command_risk (Some ''vercel --prod'') = RL_MEDIUM \<and> command_risk (Some ''vercel deploy'') = RL_IRREVERSIBLE"
  by code_simp

end
