(* ===== verification/Harness_Events.thy ===== *)
theory Harness_Events
  imports Pex_Enums "HOL-Library.Multiset"
begin

text \<open>
  \<open>packages/protocol/src/pex_protocol/session.py\<close> and \<open>goal.py\<close>: the observed event, the session,
  the goal and the recorded decision, each with all of its fields and its defaults. Timestamps compare as
  instants (\<open>as_utc\<close>); mixing naive and aware timestamps, which Python refuses to compare, is not
  modelled.
\<close>

record harness_event =
  event_id :: string
  ts :: datetime
  ev_harness :: harness_type
  ev_session_id :: string
  ev_project_id :: "string option"
  ev_goal_id :: "string option"
  event_type :: event_type
  phase :: event_phase
  raw_event_ref :: "string option"
  message_delta :: "string option"
  tool_name :: "string option"
  tool_input :: "(string \<times> pyval) list option"
  tool_output_ref :: "string option"
  command :: "string option"
  file_paths :: "string list"
  diff_ref :: "string option"
  approval_request :: "(string \<times> pyval) list option"
  token_usage :: "(string \<times> pyval) list option"
  ev_cost :: "rat option"
  process_state :: "(string \<times> pyval) list option"
  ev_error :: "string option"
  ev_metadata :: "(string \<times> pyval) list"

definition new_event ::
  "string \<Rightarrow> datetime \<Rightarrow> harness_type \<Rightarrow> string \<Rightarrow> event_type \<Rightarrow> harness_event" where
  "new_event identifier time harness session kind =
     \<lparr>event_id = identifier, ts = time, ev_harness = harness, ev_session_id = session, ev_project_id = None,
      ev_goal_id = None, event_type = kind, phase = EP_DURING, raw_event_ref = None, message_delta = None,
      tool_name = None, tool_input = None, tool_output_ref = None, command = None, file_paths = [],
      diff_ref = None, approval_request = None, token_usage = None, ev_cost = None, process_state = None,
      ev_error = None, ev_metadata = []\<rparr>"

record harness_session =
  ses_id :: string
  ses_harness :: harness_type
  vendor_session_id :: string
  ses_project_id :: "string option"
  ses_goal_id :: "string option"
  ses_cwd :: "string option"
  ses_repo :: "string option"
  ses_branch :: "string option"
  ses_model :: "string option"
  ses_reasoning_effort :: "string option"
  ses_status :: session_status
  ses_context_health :: rat
  ses_last_activity :: "datetime option"
  ses_capabilities :: "(string \<times> pyval) list"
  ses_external_url :: "string option"
  ses_local_window_id :: "string option"
  supervision_paused :: bool
  ses_metadata :: "(string \<times> pyval) list"

definition new_session :: "string \<Rightarrow> harness_type \<Rightarrow> string \<Rightarrow> harness_session" where
  "new_session identifier harness vendor =
     \<lparr>ses_id = identifier, ses_harness = harness, vendor_session_id = vendor, ses_project_id = None,
      ses_goal_id = None, ses_cwd = None, ses_repo = None, ses_branch = None, ses_model = None,
      ses_reasoning_effort = None, ses_status = SS_DISCOVERED, ses_context_health = 1, ses_last_activity = None,
      ses_capabilities = [], ses_external_url = None, ses_local_window_id = None, supervision_paused = False,
      ses_metadata = []\<rparr>"

record goal =
  goal_id :: string
  goal_project_id :: string
  title :: string
  objective :: string
  acceptance_criteria :: "string list"
  constraints :: "string list"
  preferences :: "string list"
  forbidden_outcomes :: "string list"
  non_goals :: "string list"
  priority :: int
  deadline :: "datetime option"
  evidence_requirements :: "string list"
  goal_created_at :: datetime
  goal_updated_at :: datetime
  supersedes :: "string option"
  goal_paused :: bool
  observation_only :: bool

definition new_goal :: "string \<Rightarrow> string \<Rightarrow> string \<Rightarrow> string \<Rightarrow> datetime \<Rightarrow> goal" where
  "new_goal identifier project name aim time =
     \<lparr>goal_id = identifier, goal_project_id = project, title = name, objective = aim, acceptance_criteria = [],
      constraints = [], preferences = [], forbidden_outcomes = [], non_goals = [], priority = 0,
      deadline = None, evidence_requirements = [], goal_created_at = time, goal_updated_at = time,
      supersedes = None, goal_paused = False, observation_only = False\<rparr>"

record decision =
  dec_id :: string
  dec_goal_id :: string
  dec_statement :: string
  dec_rationale :: string
  dec_alternatives_rejected :: "string list"
  dec_scope :: string
  dec_confidence :: rat
  dec_source :: decision_source
  dec_status :: decision_status
  dec_created_at :: datetime
  dec_metadata :: "(string \<times> pyval) list"
  dec_sensitivity :: sensitivity

definition new_decision :: "string \<Rightarrow> string \<Rightarrow> string \<Rightarrow> datetime \<Rightarrow> decision" where
  "new_decision identifier g stated time =
     \<lparr>dec_id = identifier, dec_goal_id = g, dec_statement = stated, dec_rationale = [],
      dec_alternatives_rejected = [], dec_scope = [], dec_confidence = 1 / 2,
      dec_source = DSRC_HUMAN, dec_status = DST_ACTIVE, dec_created_at = time,
      dec_metadata = [], dec_sensitivity = SEN_INTERNAL\<rparr>"

definition instant :: "harness_event \<Rightarrow> int" where
  "instant e = as_utc (ts e)"

text \<open>\<open>s or ""\<close>, \<open>bool(s)\<close> and \<open>state or {}\<close>.\<close>

definition text_or_empty :: "string option \<Rightarrow> string" where
  "text_or_empty s = (case s of None \<Rightarrow> [] | Some t \<Rightarrow> t)"

definition given :: "string option \<Rightarrow> bool" where
  "given s = (text_or_empty s \<noteq> [])"

definition state_of :: "harness_event \<Rightarrow> (string \<times> pyval) list" where
  "state_of e = (case process_state e of None \<Rightarrow> [] | Some d \<Rightarrow> d)"

text \<open>\<open>sorted(events, key=lambda event: event.ts)\<close>: stable.\<close>

definition by_time :: "harness_event list \<Rightarrow> harness_event list" where
  "by_time events = sort_key instant events"

lemma filter_one: "distinct zs \<Longrightarrow> k \<in> set zs \<Longrightarrow> filter (\<lambda>x. x = k) zs = [k]"
  by (induction zs) (auto simp: filter_empty_conv)

text \<open>Events with distinct instants have one order, whatever order they arrive in.\<close>

lemma sort_key_mset_unique:
  assumes "mset xs = mset ys" "distinct (map f xs)"
  shows "sort_key f xs = sort_key f ys"
proof (rule properties_for_sort_key)
  show "mset (sort_key f ys) = mset xs" using assms(1) by simp
  show "sorted (map f (sort_key f ys))" by simp
  fix k
  assume k: "k \<in> set (sort_key f ys)"
  have inj: "inj_on f (set xs)" "distinct xs" using assms(2) by (auto simp: distinct_map)
  have sets: "set ys = set xs" "distinct ys"
    using assms(1) inj(2) by (metis mset_eq_setD, metis mset_eq_imp_distinct_iff)
  have one: "filter (\<lambda>x. f k = f x) zs = [k]" if "distinct zs" "set zs = set xs" for zs
  proof -
    have "filter (\<lambda>x. f k = f x) zs = filter (\<lambda>x. x = k) zs"
      using inj(1) that k sets by (intro filter_cong) (auto dest: inj_onD)
    also have "\<dots> = [k]"
      using that k sets by (intro filter_one) simp_all
    finally show ?thesis .
  qed
  have "distinct (sort_key f ys)" "set (sort_key f ys) = set xs" using sets by simp_all
  then show "filter (\<lambda>x. f k = f x) (sort_key f ys) = filter (\<lambda>x. f k = f x) xs"
    using one inj(2) by simp
qed

lemma by_time_unique:
  "mset events = mset events' \<Longrightarrow> distinct (map instant events) \<Longrightarrow> by_time events = by_time events'"
  unfolding by_time_def by (rule sort_key_mset_unique)

lemma mset_by_time [simp]: "mset (by_time events) = mset events"
  by (simp add: by_time_def)

lemma set_by_time [simp]: "set (by_time events) = set events"
  by (simp add: by_time_def)

end
