(* ===== verification/Trajectory_Features.thy ===== *)
theory Trajectory_Features
  imports Harness_Events Test_Invocation
begin

text \<open>
  \<open>services/bridge/src/pex_bridge/scoring.py\<close>: features of a session's observed events and the four
  trajectory scores computed from them. The loop over the events is a fold of \<open>observe\<close> over the
  events in time order. Floats are rationals; \<open>round4\<close> rounds half to even at the fourth decimal.
  \<open>Inl\<close> is the validation error a test classifier may raise.
\<close>

section \<open>Features\<close>

definition success_claim :: rx where
  "success_claim =
     rseq [RWordB, ralt [rlit_ci ''all tests passed'', rlit_ci ''tests passed'', rlit_ci
       ''tests pass'', rlit_ci ''completed successfully'', rlit_ci ''deployment complete'',
       rlit_ci ''evaluation done'', rlit_ci ''i am done'', rlit_ci (''i'' @ [CHR 0x27] @
       ''m done''), rlit_ci (''we'' @ [CHR 0x27] @ ''re done''), rlit_ci ''all done''], RWordB]"

record observation =
  commands :: "string list"
  tools :: "string list"
  files :: "string list"
  errors :: "string list"
  stops :: nat
  tests_run :: nat
  success_claims :: nat
  edits :: nat
  latest_ok :: "bool option"

definition no_observation :: observation where
  "no_observation =
     \<lparr>commands = [], tools = [], files = [], errors = [], stops = 0, tests_run = 0,
      success_claims = 0, edits = 0, latest_ok = None\<rparr>"

text \<open>The command a test classification looks at.\<close>

definition test_command :: "harness_event \<Rightarrow> string option" where
  "test_command e =
     (case dict_get (ev_metadata e) ''opencode_scoped_test_command'' of
        PStr s \<Rightarrow> Some s
      | _ \<Rightarrow> command e)"

datatype runner = PYTEST_RUNNER | UNITTEST_RUNNER

fun runner_key :: "runner \<Rightarrow> string" where
  "runner_key PYTEST_RUNNER = ''pytest''"
| "runner_key UNITTEST_RUNNER = ''unittest''"

definition python_runner_of :: "harness_event \<Rightarrow> runner option result" where
  "python_runner_of e =
     bind_result (classify_pytest_invocation (test_command e)) (\<lambda>p.
     bind_result (classify_unittest_invocation (test_command e)) (\<lambda>u.
       Inr (if p \<noteq> None then Some PYTEST_RUNNER
            else if u \<noteq> None then Some UNITTEST_RUNNER else None)))"

definition runner_info :: "runner \<Rightarrow> harness_event \<Rightarrow> (string \<times> pyval) list" where
  "runner_info r e = dict_or_empty (dict_get (state_of e) (runner_key r))"

definition nonzero_exit :: "pyval \<Rightarrow> bool" where
  "nonzero_exit v = (case as_int v of None \<Rightarrow> False | Some i \<Rightarrow> i \<noteq> 0)"

text \<open>What one test event says about the tests: \<open>None\<close> when it is incomplete.\<close>

definition test_outcome :: "(string \<times> pyval) list \<Rightarrow> harness_event \<Rightarrow> bool option" where
  "test_outcome info e =
     (if given (ev_error e) \<or> nonzero_exit (dict_get info ''exit_code'') \<or>
         dict_get info ''ok'' = PBool False
      then Some False
      else if dict_get info ''ok'' = PBool True \<and> dict_get info ''exit_code'' = PInt 0 then Some True
      else None)"

definition names_other_tests :: "harness_event \<Rightarrow> bool" where
  "names_other_tests e =
     (given (command e) \<and>
      (\<exists>token \<in> set [''npm test'', ''cargo test'', ''go test'']. contains token (lower (text_or_empty (command e)))))"

definition optional_item :: "string option \<Rightarrow> string list" where
  "optional_item s = (if given s then [text_or_empty s] else [])"

definition latest_after :: "runner option \<Rightarrow> harness_event \<Rightarrow> bool option \<Rightarrow> bool option" where
  "latest_after r e prev =
     (case r of
        Some k \<Rightarrow> test_outcome (runner_info k e) e
      | None \<Rightarrow> if event_type e = ET_FILE_EDIT then None else prev)"

definition observe :: "runner option \<Rightarrow> harness_event \<Rightarrow> observation \<Rightarrow> observation" where
  "observe r e ob =
     \<lparr>commands = commands ob @ map strip (optional_item (command e)),
      tools = tools ob @ optional_item (tool_name e),
      files = files ob @ file_paths e,
      errors = errors ob @ optional_item (ev_error e),
      stops = stops ob + (if event_type e = ET_STOP then 1 else 0),
      tests_run = tests_run ob + (if r \<noteq> None \<or> names_other_tests e then 1 else 0),
      success_claims = success_claims ob +
        (if event_type e \<in> {ET_AGENT_RESPONSE, ET_STOP} \<and>
            rx_found success_claim (text_or_empty (message_delta e)) then 1 else 0),
      edits = edits ob + (if event_type e = ET_FILE_EDIT then 1 else 0),
      latest_ok = latest_after r e (latest_ok ob)\<rparr>"

fun observe_all :: "harness_event list \<Rightarrow> observation \<Rightarrow> observation result" where
  "observe_all [] ob = Inr ob"
| "observe_all (e # es) ob =
     bind_result (python_runner_of e) (\<lambda>r. observe_all es (observe r e ob))"

text \<open>\<open>sum(count - 1 for count in Counter(xs).values() if count > 1)\<close>.\<close>

definition repeats :: "string list \<Rightarrow> nat" where
  "repeats xs = sum_list (map (\<lambda>x. count_list xs x - 1) (remdups xs))"

record features =
  event_count :: nat
  repeated_command_count :: nat
  repeated_tool_count :: nat
  unique_tool_count :: nat
  tool_count :: nat
  file_touch_count :: nat
  error_count :: nat
  identical_error_count :: nat
  f_stops :: nat
  f_tests_run :: nat
  f_success_claims :: nat
  f_edits :: nat
  span_seconds :: rat
  pytest_failed :: bool

definition span :: "harness_event list \<Rightarrow> rat" where
  "span ordered =
     (if ordered = [] then 1
      else max (of_int (instant (last ordered) - instant (hd ordered)) / 1000000) 1)"

definition extract_features :: "harness_event list \<Rightarrow> features result" where
  "extract_features events =
     bind_result (observe_all (by_time events) no_observation) (\<lambda>ob. Inr
       \<lparr>event_count = length events,
        repeated_command_count = repeats (commands ob),
        repeated_tool_count = repeats (tools ob),
        unique_tool_count = length (remdups (tools ob)),
        tool_count = length (tools ob),
        file_touch_count = length (remdups (files ob)),
        error_count = length (errors ob),
        identical_error_count = repeats (errors ob),
        f_stops = stops ob,
        f_tests_run = tests_run ob,
        f_success_claims = success_claims ob,
        f_edits = edits ob,
        span_seconds = span (by_time events),
        pytest_failed = (latest_ok ob = Some False)\<rparr>)"

section \<open>Scores\<close>

record scores =
  drift :: rat
  stagnation :: rat
  premature_completion :: rat
  claim_contradiction :: rat
  score_features :: features

definition round4 :: "rat \<Rightarrow> rat" where
  "round4 x =
     (let scaled = x * 10000; below = floor scaled; frac = scaled - of_int below;
          n = (if frac < 1 / 2 then below
               else if 1 / 2 < frac then below + 1
               else if even below then below else below + 1)
      in of_int n / 10000)"

definition clamp :: "rat \<Rightarrow> rat" where
  "clamp x = max 0 (min 1 x)"

definition repeated_low_info :: "features \<Rightarrow> rat" where
  "repeated_low_info f =
     of_nat (repeated_command_count f + repeated_tool_count f)
     / of_nat (max (tool_count f + event_count f) 1)"

definition drift_raw :: "features \<Rightarrow> rat" where
  "drift_raw f =
     4 / 10 * repeated_low_info f + 5 / 10 * min 1 (of_nat (identical_error_count f) / 3)
     - 35 / 100 * min 1 (of_nat (f_edits f + f_tests_run f) / 8)"

definition stagnation_raw :: "features \<Rightarrow> rat" where
  "stagnation_raw f =
     4 / 10 * repeated_low_info f
     + 4 / 10 * (of_nat (identical_error_count f) / of_nat (max (error_count f) 1))
     + 2 / 10 * (if f_edits f = 0 \<and> 6 < tool_count f then 1 else 0)"

definition score_trajectory :: "harness_event list \<Rightarrow> scores result" where
  "score_trajectory events =
     bind_result (extract_features events) (\<lambda>f. Inr
       \<lparr>drift = round4 (clamp (drift_raw f)),
        stagnation = round4 (clamp (stagnation_raw f)),
        premature_completion = round4 (if pytest_failed f \<and> 0 < f_stops f then 88 / 100 else 0),
        claim_contradiction = round4 (if 0 < f_success_claims f \<and> pytest_failed f then 85 / 100 else 0),
        score_features = f\<rparr>)"

section \<open>Facts\<close>

lemma observe_all_append:
  "observe_all (xs @ ys) ob = bind_result (observe_all xs ob) (observe_all ys)"
proof (induction xs arbitrary: ob)
  case (Cons e xs)
  then show ?case by (cases "python_runner_of e") simp_all
qed simp

lemma observe_all_latest:
  "observe_all es ob = Inr ob' \<Longrightarrow>
   latest_ok ob' = foldl (\<lambda>prev e. case python_runner_of e of Inl _ \<Rightarrow> prev | Inr r \<Rightarrow> latest_after r e prev)
     (latest_ok ob) es"
proof (induction es arbitrary: ob)
  case (Cons e es)
  from Cons.prems obtain r where r: "python_runner_of e = Inr r" "observe_all es (observe r e ob) = Inr ob'"
    by (auto simp: bind_result_Inr_iff)
  from Cons.IH [OF r(2)] r(1) show ?case by (simp add: observe_def)
qed simp

lemma round4_fixed:
  assumes "x * 10000 = of_int n"
  shows "round4 x = x"
proof -
  have "floor (x * 10000) = n" by (simp add: assms)
  with assms show ?thesis by (simp add: round4_def Let_def field_simps)
qed

lemma round4_mono_bounds:
  assumes "0 \<le> x" "x \<le> 1"
  shows "0 \<le> round4 x \<and> round4 x \<le> 1"
proof (cases "x = 1")
  case True
  have "round4 1 = 1" by (rule round4_fixed [of _ 10000]) simp
  with True show ?thesis by simp
next
  case False
  let ?b = "floor (x * 10000)"
  have "0 \<le> ?b" "?b < 10000" using assms False by (simp_all add: floor_less_iff)
  then have n: "\<exists>n. round4 x = of_int n / 10000 \<and> 0 \<le> n \<and> n \<le> 10000"
    by (auto simp: round4_def Let_def)
  then obtain n :: int where "round4 x = of_int n / 10000" "0 \<le> n" "n \<le> 10000" by blast
  then show ?thesis by simp
qed

lemma clamp_bounds: "0 \<le> clamp x \<and> clamp x \<le> 1"
  by (auto simp: clamp_def)

definition settles :: "harness_event list \<Rightarrow> bool \<Rightarrow> bool" where
  "settles es verdict =
     (\<exists>a e b r. es = a @ e # b \<and> python_runner_of e = Inr (Some r) \<and>
        test_outcome (runner_info r e) e = Some verdict \<and>
        (\<forall>x \<in> set b. python_runner_of x = Inr None \<and> event_type x \<noteq> ET_FILE_EDIT))"

lemma settles_snoc:
  assumes "python_runner_of e = Inr k"
  shows "settles (es @ [e]) v \<longleftrightarrow>
    (case k of Some r \<Rightarrow> test_outcome (runner_info r e) e = Some v
     | None \<Rightarrow> event_type e \<noteq> ET_FILE_EDIT \<and> settles es v)"
proof
  assume "settles (es @ [e]) v"
  then obtain a x b r where h: "es @ [e] = a @ x # b" "python_runner_of x = Inr (Some r)"
    "test_outcome (runner_info r x) x = Some v"
    "\<forall>y \<in> set b. python_runner_of y = Inr None \<and> event_type y \<noteq> ET_FILE_EDIT"
    unfolding settles_def by blast
  show "case k of Some r \<Rightarrow> test_outcome (runner_info r e) e = Some v
     | None \<Rightarrow> event_type e \<noteq> ET_FILE_EDIT \<and> settles es v"
  proof (cases b rule: rev_cases)
    case Nil
    with h assms show ?thesis by auto
  next
    case (snoc b' y)
    with h have "es = a @ x # b'" "y = e" by (simp_all add: append_eq_append_conv2)
    with h snoc assms show ?thesis unfolding settles_def by fastforce
  qed
next
  assume h: "case k of Some r \<Rightarrow> test_outcome (runner_info r e) e = Some v
     | None \<Rightarrow> event_type e \<noteq> ET_FILE_EDIT \<and> settles es v"
  show "settles (es @ [e]) v"
  proof (cases k)
    case None
    with h obtain a x b r where "es = a @ x # b" "python_runner_of x = Inr (Some r)"
      "test_outcome (runner_info r x) x = Some v"
      "\<forall>y \<in> set b. python_runner_of y = Inr None \<and> event_type y \<noteq> ET_FILE_EDIT" "event_type e \<noteq> ET_FILE_EDIT"
      unfolding settles_def by auto
    then show ?thesis using None assms unfolding settles_def
      by (intro exI [of _ a] exI [of _ x] exI [of _ "b @ [e]"] exI [of _ r]) auto
  next
    case (Some r)
    then show ?thesis using h assms unfolding settles_def
      by (intro exI [of _ es] exI [of _ e] exI [of _ "[]"] exI [of _ r]) simp
  qed
qed

lemma observe_all_settles:
  "observe_all es no_observation = Inr ob \<Longrightarrow> latest_ok ob = Some v \<longleftrightarrow> settles es v"
proof (induction es arbitrary: ob rule: rev_induct)
  case Nil
  then show ?case by (auto simp: no_observation_def settles_def)
next
  case (snoc e es)
  then obtain ob1 k where k: "observe_all es no_observation = Inr ob1" "python_runner_of e = Inr k"
    "ob = observe k e ob1"
    by (auto simp: observe_all_append bind_result_Inr_iff)
  from snoc.IH [OF k(1)] settles_snoc [OF k(2)] show ?case
    by (cases k) (auto simp: k(3) observe_def latest_after_def)
qed

section \<open>Properties\<close>

text \<open>
  The features say that tests failed exactly when, in time order, some recognised pytest or
  unittest run failed (an error, a nonzero exit or an explicit failure) and neither a later run nor
  a later file edit came after it.
\<close>

lemma tests_failed_iff:
  assumes "extract_features events = Inr f"
  shows "pytest_failed f \<longleftrightarrow>
    (\<exists>a e b r. by_time events = a @ e # b \<and> python_runner_of e = Inr (Some r) \<and>
       (given (ev_error e) \<or> nonzero_exit (dict_get (runner_info r e) ''exit_code'') \<or>
        dict_get (runner_info r e) ''ok'' = PBool False) \<and>
       (\<forall>x \<in> set b. python_runner_of x = Inr None \<and> event_type x \<noteq> ET_FILE_EDIT))"
proof -
  obtain ob where ob: "observe_all (by_time events) no_observation = Inr ob"
    "pytest_failed f = (latest_ok ob = Some False)"
    using assms by (auto simp: extract_features_def bind_result_Inr_iff)
  have "test_outcome info e = Some False \<longleftrightarrow> given (ev_error e) \<or> nonzero_exit (dict_get info ''exit_code'') \<or>
      dict_get info ''ok'' = PBool False" for info e
    by (simp add: test_outcome_def)
  with observe_all_settles [OF ob(1), of False] ob(2) show ?thesis
    unfolding settles_def by simp
qed

definition example_run :: harness_event where
  "example_run =
     (new_event ''e1'' (Aware 0 0) HT_CODEX ''s'' ET_SHELL)\<lparr>phase := EP_AFTER, command := Some ''pytest -q'',
      process_state := Some [(''pytest'', PDict [(''ok'', PBool False), (''exit_code'', PInt 1)])]\<rparr>"

definition example_stop :: harness_event where
  "example_stop =
     (new_event ''e2'' (Aware 1 0) HT_CODEX ''s'' ET_STOP)\<lparr>phase := EP_TERMINAL,
      message_delta := Some ''All done''\<rparr>"

lemma example_runners:
  "python_runner_of example_run = Inr (Some PYTEST_RUNNER)" "python_runner_of example_stop = Inr None"
  by code_simp+

lemma example_features:
  "\<exists>f. extract_features [example_stop, example_run] = Inr f \<and> pytest_failed f \<and> f_stops f = 1"
proof -
  have "by_time [example_stop, example_run] = [example_run, example_stop]" by code_simp
  then show ?thesis
    by (simp add: extract_features_def example_runners observe_def no_observation_def latest_after_def
        test_outcome_def runner_info_def nonzero_exit_def as_int_iff)
      (simp add: example_run_def new_event_def example_stop_def new_event_def state_of_def)
qed

lemma tests_failed_iff_example:
  "\<exists>a e b. by_time [example_stop, example_run] = a @ e # b \<and> python_runner_of e \<noteq> Inr None"
proof -
  obtain f where f: "extract_features [example_stop, example_run] = Inr f" "pytest_failed f"
    using example_features by blast
  then obtain a e b r where "by_time [example_stop, example_run] = a @ e # b"
    "python_runner_of e = Inr (Some r)"
    unfolding tests_failed_iff [OF f(1)] by blast
  then show ?thesis by (intro exI [of _ a] exI [of _ e] exI [of _ b]) simp
qed

text \<open>
  The scores depend on the set of events only, as long as their instants differ: the order
  in which events arrive does not change features or scores.
\<close>

lemma score_order_independent:
  assumes "mset events = mset events'" and "distinct (map instant events)"
  shows "score_trajectory events = score_trajectory events'"
proof -
  have "by_time events = by_time events'" "length events = length events'"
    using assms by (auto intro: by_time_unique mset_eq_length)
  then show ?thesis by (simp add: score_trajectory_def extract_features_def)
qed

lemma score_order_independent_example:
  "score_trajectory [example_stop, example_run] = score_trajectory [example_run, example_stop]"
  by (rule score_order_independent) (simp_all add: instant_def example_stop_def new_event_def example_run_def new_event_def)

text \<open>
  Every score lies between 0 and 1, as the model class requires; premature completion and
  claim contradiction take their fixed value exactly when the tests failed and the worker stopped,
  respectively claimed success, and are 0 otherwise.
\<close>

lemma scores_in_range:
  assumes "score_trajectory events = Inr s"
  shows "0 \<le> drift s \<and> drift s \<le> 1 \<and> 0 \<le> stagnation s \<and> stagnation s \<le> 1 \<and>
    premature_completion s =
      (if pytest_failed (score_features s) \<and> 0 < f_stops (score_features s) then 22 / 25 else 0) \<and>
    claim_contradiction s =
      (if pytest_failed (score_features s) \<and> 0 < f_success_claims (score_features s) then 17 / 20 else 0)"
proof -
  have "round4 (88 / 100) = 22 / 25" "round4 (85 / 100) = 17 / 20" "round4 0 = 0"
    using round4_fixed [of "88 / 100" 8800] round4_fixed [of "85 / 100" 8500] round4_fixed [of 0 0] by simp_all
  then have const: "round4 (if P then 88 / 100 else 0) = (if P then 22 / 25 else 0)"
    "round4 (if P then 85 / 100 else 0) = (if P then 17 / 20 else 0)" for P by simp_all
  have range: "0 \<le> round4 (clamp x)" "round4 (clamp x) \<le> 1" for x
    using clamp_bounds [of x] round4_mono_bounds by blast+
  obtain f where "s = \<lparr>drift = round4 (clamp (drift_raw f)), stagnation = round4 (clamp (stagnation_raw f)),
      premature_completion = round4 (if pytest_failed f \<and> 0 < f_stops f then 88 / 100 else 0),
      claim_contradiction = round4 (if 0 < f_success_claims f \<and> pytest_failed f then 85 / 100 else 0),
      score_features = f\<rparr>"
    using assms unfolding score_trajectory_def bind_result_Inr_iff by auto
  then show ?thesis by (simp only: scores.select_convs const range conj_commute simp_thms)
qed

lemma scores_in_range_example:
  "\<exists>s. score_trajectory [example_stop, example_run] = Inr s \<and> premature_completion s = 22 / 25"
proof -
  obtain f where f: "extract_features [example_stop, example_run] = Inr f" "pytest_failed f" "f_stops f = 1"
    using example_features by blast
  then obtain s where s: "score_trajectory [example_stop, example_run] = Inr s" "score_features s = f"
    by (auto simp: score_trajectory_def)
  from scores_in_range [OF s(1)] s f show ?thesis by auto
qed

end
