(* ===== verification/Adapter_Contract.thy ===== *)
theory Adapter_Contract
  imports Policy_Engine Harness_Events Project_Identity
begin

text \<open>
  \<open>services/bridge/src/pex_bridge/adapters/base.py\<close>: the boundary every harness adapter shares.
  Bounded text and identifiers, the receipts that bind a delivered message to one session, the
  fail-closed reading of an adapter's answer, the comparison of session bindings, and the outcome of
  an inline permission hook. Values that cross the boundary are \<open>pyval\<close>; a receipt is a dictionary
  with distinct keys.
\<close>

section \<open>Bounded text\<close>

definition max_adapter_message_chars :: nat where "max_adapter_message_chars = 262144"
definition max_adapter_id_chars :: nat where "max_adapter_id_chars = 512"
definition max_adapter_binding_chars :: nat where "max_adapter_binding_chars = 4096"

definition bounded_adapter_text :: "pyval \<Rightarrow> string \<Rightarrow> nat \<Rightarrow> string result" where
  "bounded_adapter_text v field max_chars =
     (case v of
        PStr s \<Rightarrow>
          if strip s = [] then Inl (field @ '' must be non-empty text'')
          else if CHR 0x00 \<in> set s then Inl (field @ '' contains a NUL byte'')
          else if max_chars < length s then Inl (field @ '' exceeds the adapter safety bound'')
          else Inr s
      | _ \<Rightarrow> Inl (field @ '' must be non-empty text''))"

definition bounded_adapter_id :: "pyval \<Rightarrow> string \<Rightarrow> string result" where
  "bounded_adapter_id v field =
     bind_result (bounded_adapter_text v field max_adapter_id_chars) (\<lambda>s.
       if \<exists>c \<in> set (strip s). is_control c then Inl (field @ '' contains control characters'')
       else Inr (strip s))"

definition bounded_adapter_binding :: "pyval \<Rightarrow> string \<Rightarrow> string result" where
  "bounded_adapter_binding v field =
     bind_result (bounded_adapter_text v field max_adapter_binding_chars) (\<lambda>s.
       if \<exists>c \<in> set s. is_control c then Inl (field @ '' contains control characters'') else Inr s)"

definition bounded_sha256 :: "pyval \<Rightarrow> string \<Rightarrow> string result" where
  "bounded_sha256 v field =
     (case v of
        PStr s \<Rightarrow>
          if length s = 64 \<and> (\<forall>c \<in> set s. c \<in> set ''0123456789abcdef'') then Inr s
          else Inl (field @ '' must be a lowercase SHA-256 digest'')
      | _ \<Rightarrow> Inl (field @ '' must be a lowercase SHA-256 digest''))"

section \<open>Delivery receipts\<close>

definition worker_delivery_schema_generic :: string where
  "worker_delivery_schema_generic = ''pex.worker-delivery.v1''"

definition worker_delivery_schema_codex :: string where
  "worker_delivery_schema_codex = ''pex.worker-delivery.codex-turn.v1''"

definition cursor_hook_preparation_schema :: string where
  "cursor_hook_preparation_schema = ''pex.cursor-hook-preparation.v1''"

definition worker_delivery_receipt_keys :: "string list" where
  "worker_delivery_receipt_keys = [''schema'', ''target_session_id'', ''vendor_session_id'', ''vendor_turn_id'']"

definition cursor_hook_preparation_receipt_keys :: "string list" where
  "cursor_hook_preparation_receipt_keys =
     [''schema'', ''preparation_id'', ''trigger_event_id'', ''target_session_id'', ''vendor_session_id'',
      ''message_sha256'']"

type_synonym receipt = "(string \<times> string) list"

text \<open>\<open>value in {HarnessType.CODEX, "codex"}\<close>: a set test hashes the value, which lists and
  dictionaries refuse. A member of the enumeration is the string of its value.\<close>

definition is_codex :: "pyval \<Rightarrow> bool result" where
  "is_codex v =
     (case v of PList _ \<Rightarrow> Inl ''unhashable type'' | PDict _ \<Rightarrow> Inl ''unhashable type''
      | _ \<Rightarrow> Inr (v = PStr (harness_type_value HT_CODEX)))"

definition worker_delivery_schema_for :: "pyval \<Rightarrow> string result" where
  "worker_delivery_schema_for harness =
     bind_result (is_codex harness) (\<lambda>codex.
       Inr (if codex then worker_delivery_schema_codex else worker_delivery_schema_generic))"

text \<open>Equality of a dictionary with the dictionary of strings the code expects.\<close>

definition same_dict :: "(string \<times> pyval) list \<Rightarrow> receipt \<Rightarrow> bool" where
  "same_dict r expected =
     (set (dict_keys r) = set (map fst expected) \<and>
      (\<forall>(k, s) \<in> set expected. dict_get r k = PStr s))"

definition validate_worker_delivery_receipt_binding ::
  "pyval \<Rightarrow> pyval \<Rightarrow> pyval \<Rightarrow> pyval \<Rightarrow> receipt result" where
  "validate_worker_delivery_receipt_binding rcpt target vendor harness =
     (case rcpt of
        PDict r \<Rightarrow>
          bind_result (bounded_adapter_id target ''worker delivery target session id'') (\<lambda>target_id.
          bind_result (bounded_adapter_id vendor ''worker delivery bound vendor session id'') (\<lambda>bound_vendor.
          bind_result
            (require (set (dict_keys r) = set worker_delivery_receipt_keys)
              ''worker delivery receipt has invalid keys'') (\<lambda>_.
          bind_result (bounded_adapter_id (dict_get r ''vendor_session_id'') ''worker delivery vendor session id'')
            (\<lambda>receipt_vendor.
          bind_result (bounded_adapter_id (dict_get r ''vendor_turn_id'') ''worker delivery vendor turn id'')
            (\<lambda>receipt_turn.
          bind_result (worker_delivery_schema_for harness) (\<lambda>schema.
            let expected =
              [(''schema'', schema), (''target_session_id'', target_id),
               (''vendor_session_id'', bound_vendor), (''vendor_turn_id'', receipt_turn)]
            in if \<not> same_dict r expected \<or> PStr receipt_vendor \<noteq> dict_get r ''vendor_session_id'' \<or>
                  PStr receipt_turn \<noteq> dict_get r ''vendor_turn_id''
               then Inl ''worker delivery receipt does not match the target session''
               else Inr expected))))))
      | _ \<Rightarrow> Inl ''worker delivery receipt has the wrong shape'')"

definition harness_of :: "harness_session \<Rightarrow> pyval" where
  "harness_of s = PStr (harness_type_value (ses_harness s))"

definition validate_worker_delivery_receipt :: "pyval \<Rightarrow> harness_session \<Rightarrow> receipt result" where
  "validate_worker_delivery_receipt rcpt s =
     validate_worker_delivery_receipt_binding rcpt (PStr (ses_id s)) (PStr (vendor_session_id s)) (harness_of s)"

definition validate_codex_worker_delivery_receipt_binding ::
  "pyval \<Rightarrow> pyval \<Rightarrow> pyval \<Rightarrow> pyval \<Rightarrow> receipt result" where
  "validate_codex_worker_delivery_receipt_binding rcpt target vendor harness =
     bind_result (is_codex harness) (\<lambda>codex.
     bind_result (require codex ''Codex worker delivery receipt has the wrong target harness'') (\<lambda>_.
     bind_result (validate_worker_delivery_receipt_binding rcpt target vendor harness) (\<lambda>expected.
     bind_result
       (require (map_of expected ''schema'' = Some worker_delivery_schema_codex)
         ''Codex worker delivery receipt has the wrong schema'') (\<lambda>_. Inr expected))))"

definition validate_codex_worker_delivery_receipt :: "pyval \<Rightarrow> harness_session \<Rightarrow> receipt result" where
  "validate_codex_worker_delivery_receipt rcpt s =
     validate_codex_worker_delivery_receipt_binding rcpt (PStr (ses_id s)) (PStr (vendor_session_id s))
       (harness_of s)"

text \<open>\<open>trigger\<close>, \<open>preparation\<close> and \<open>message\<close> are the optional expectations of the caller.\<close>

definition validate_cursor_hook_preparation_receipt ::
  "pyval \<Rightarrow> harness_session \<Rightarrow> pyval \<Rightarrow> pyval \<Rightarrow> pyval \<Rightarrow> receipt result" where
  "validate_cursor_hook_preparation_receipt rcpt s trigger preparation message =
     (if ses_harness s \<noteq> HT_CURSOR then Inl ''Cursor hook preparation has the wrong target harness''
      else case rcpt of
        PDict r \<Rightarrow>
          bind_result
            (require (set (dict_keys r) = set cursor_hook_preparation_receipt_keys)
              ''Cursor hook preparation receipt has invalid keys'') (\<lambda>_.
          bind_result (bounded_adapter_id (PStr (ses_id s)) ''Cursor hook preparation target session id'')
            (\<lambda>target.
          bind_result
            (bounded_adapter_id (PStr (vendor_session_id s)) ''Cursor hook preparation bound vendor session id'')
            (\<lambda>bound_vendor.
          bind_result (bounded_adapter_id (dict_get r ''preparation_id'') ''Cursor hook preparation id'')
            (\<lambda>prep.
          bind_result
            (bounded_adapter_id (dict_get r ''trigger_event_id'') ''Cursor hook preparation trigger event id'')
            (\<lambda>trig.
          bind_result
            (bounded_adapter_id (dict_get r ''vendor_session_id'') ''Cursor hook preparation vendor session id'')
            (\<lambda>receipt_vendor.
          bind_result (bounded_sha256 (dict_get r ''message_sha256'') ''Cursor hook preparation message hash'')
            (\<lambda>hash.
            let expected =
              [(''schema'', cursor_hook_preparation_schema), (''preparation_id'', prep),
               (''trigger_event_id'', trig), (''target_session_id'', target),
               (''vendor_session_id'', bound_vendor), (''message_sha256'', hash)]
            in if \<not> same_dict r expected \<or> target \<noteq> ''cursor:'' @ bound_vendor \<or>
                  receipt_vendor \<noteq> bound_vendor \<or>
                  (\<exists>(supplied, observed) \<in> set [(preparation, prep), (trigger, trig), (message, hash)].
                     supplied \<noteq> PNone \<and> supplied \<noteq> PStr observed)
               then Inl ''Cursor hook preparation receipt does not match its binding''
               else Inr expected)))))))
      | _ \<Rightarrow> Inl ''Cursor hook preparation receipt has invalid keys'')"

section \<open>Reading an adapter's answer\<close>

text \<open>
  What \<open>send_message\<close> may return: the two dataclasses, whose fields the annotations do not enforce,
  or any other value.
\<close>

datatype adapter_result =
    Plain pyval
  | Message (msg_accepted: pyval) (msg_vendor_session: pyval) (msg_vendor_turn: pyval)
  | Preparation (prep_id: pyval) (prep_trigger: pyval) (prep_vendor_session: pyval) (prep_sha256: pyval)

datatype adapter_message_resolution =
    Delivered receipt
  | Rejected
  | Delivery_Uncertain
  | Hook_Prepared receipt

definition resolve_adapter_message_result ::
  "adapter_result \<Rightarrow> harness_session \<Rightarrow> adapter_message_resolution" where
  "resolve_adapter_message_result result s =
     (case result of
        Preparation prep trig vendor sha \<Rightarrow>
          (case validate_cursor_hook_preparation_receipt
                  (PDict [(''schema'', PStr cursor_hook_preparation_schema), (''preparation_id'', prep),
                          (''trigger_event_id'', trig), (''target_session_id'', PStr (ses_id s)),
                          (''vendor_session_id'', vendor), (''message_sha256'', sha)])
                  s PNone PNone PNone of
             Inl _ \<Rightarrow> Delivery_Uncertain
           | Inr r \<Rightarrow> Hook_Prepared r)
      | Plain v \<Rightarrow> if v = PBool False then Rejected else Delivery_Uncertain
      | Message accepted vendor turn \<Rightarrow>
          if accepted = PBool False then Rejected
          else if accepted \<noteq> PBool True then Delivery_Uncertain
          else (case worker_delivery_schema_for (harness_of s) of
                  Inl _ \<Rightarrow> Delivery_Uncertain
                | Inr schema \<Rightarrow>
                    (case validate_worker_delivery_receipt
                       (PDict [(''schema'', PStr schema), (''target_session_id'', PStr (ses_id s)),
                               (''vendor_session_id'', vendor), (''vendor_turn_id'', turn)]) s of
                       Inl _ \<Rightarrow> Delivery_Uncertain
                     | Inr r \<Rightarrow> Delivered r)))"

section \<open>Session bindings\<close>

definition compatible_binding :: "string option \<Rightarrow> string option \<Rightarrow> bool \<Rightarrow> bool" where
  "compatible_binding left right path_like =
     (if \<not> given left \<or> \<not> given right then True
      else if \<not> path_like then left = right
      else project_binding_key (text_or_empty left) = project_binding_key (text_or_empty right))"

definition same_present_binding :: "string option \<Rightarrow> string option \<Rightarrow> bool \<Rightarrow> bool" where
  "same_present_binding left right path_like =
     (given left = given right \<and> compatible_binding left right path_like)"

definition session_binding_matches :: "harness_session option \<Rightarrow> harness_session \<Rightarrow> harness_type \<Rightarrow> bool" where
  "session_binding_matches bound supplied harness =
     (case bound of
        None \<Rightarrow> False
      | Some b \<Rightarrow>
          \<not> (ses_id supplied \<noteq> ses_id b \<or> vendor_session_id supplied \<noteq> vendor_session_id b \<or>
             ses_harness supplied \<noteq> harness \<or> ses_harness b \<noteq> harness) \<and>
          compatible_binding (ses_goal_id b) (ses_goal_id supplied) False \<and>
          same_present_binding (ses_project_id b) (ses_project_id supplied) True \<and>
          same_present_binding (ses_cwd b) (ses_cwd supplied) True)"

definition preserve_bridge_state ::
  "harness_session option \<Rightarrow> string option \<Rightarrow> string option \<Rightarrow> string option \<times> bool" where
  "preserve_bridge_state existing cwd project =
     (case existing of
        None \<Rightarrow> (None, False)
      | Some e \<Rightarrow>
          if \<not> same_present_binding (ses_cwd e) cwd True then (None, False)
          else if \<not> same_present_binding (ses_project_id e) project True then (None, False)
          else (ses_goal_id e, supervision_paused e))"

text \<open>\<open>HarnessAdapter.attach\<close> over the sessions \<open>discover_sessions\<close> returned.\<close>

fun attach_session :: "harness_session list \<Rightarrow> string \<Rightarrow> harness_session option" where
  "attach_session [] r = None"
| "attach_session (s # ss) r =
     (if ses_id s = r \<or> vendor_session_id s = r then Some s else attach_session ss r)"

section \<open>Inline permission outcomes\<close>

definition verified_inline_permission_outcome ::
  "(pyval \<Rightarrow> string) \<Rightarrow> harness_session \<Rightarrow> intervention option \<Rightarrow> event_type \<Rightarrow> string option \<Rightarrow> string option" where
  "verified_inline_permission_outcome show s intervention expected_trigger expected_request =
     (case intervention of
        None \<Rightarrow> None
      | Some i \<Rightarrow>
          let a = int_action i
          in if int_session_id i \<noteq> ses_id s \<or> int_trigger i \<noteq> event_type_value expected_trigger \<or>
                int_action_taken i \<noteq> intervention_type_value IT_RESPOND_PERMISSION \<or>
                act_type a \<noteq> IT_RESPOND_PERMISSION \<or> act_session_id a \<noteq> ses_id s \<or>
                \<not> (\<exists>e \<in> set (int_evidence i). strip e \<noteq> [])
             then None
             else
               let request = strip (str_or_empty show (dict_get (act_payload a) ''request_id''));
                   requested = lower (strip (str_or_empty show (dict_get (act_payload a) ''decision'')))
               in if request = [] \<or> (expected_request \<noteq> None \<and> Some request \<noteq> expected_request) then None
                  else if int_verdict i = PV_ASK_HUMAN then
                    (if int_result i = ''permission_delegated_to_harness'' then Some ''ask'' else None)
                  else if int_verdict i \<noteq> PV_ALLOW then None
                  else if int_result i = ''permission_allow_inline'' then
                    (if requested \<in> {[], ''allow''} then Some ''allow'' else None)
                  else if int_result i = ''permission_deny_inline'' then
                    (if requested = ''deny'' then Some ''deny'' else None)
                  else None)"

section \<open>Facts\<close>

lemma bounded_adapter_text_Inr:
  "bounded_adapter_text v field n = Inr s \<longleftrightarrow>
    v = PStr s \<and> strip s \<noteq> [] \<and> CHR 0x00 \<notin> set s \<and> length s \<le> n"
  by (auto simp: bounded_adapter_text_def split: pyval.splits)

lemma bounded_adapter_id_Inr:
  "bounded_adapter_id v field = Inr t \<longleftrightarrow>
    (\<exists>s. v = PStr s \<and> t = strip s \<and> t \<noteq> [] \<and> CHR 0x00 \<notin> set s \<and> length s \<le> 512 \<and>
      (\<forall>c \<in> set t. \<not> is_control c))"
  by (auto simp: bounded_adapter_id_def bounded_adapter_text_Inr bind_result_Inr_iff max_adapter_id_chars_def
      split: if_splits)

text \<open>An identifier that stands for itself.\<close>

definition exact_id :: "string \<Rightarrow> bool" where
  "exact_id s = (s \<noteq> [] \<and> strip s = s \<and> length s \<le> 512 \<and> (\<forall>c \<in> set s. \<not> is_control c))"

lemma exact_id_iff: "exact_id s \<longleftrightarrow> bounded_adapter_id (PStr s) field = Inr s"
proof -
  have "is_control (CHR 0x00)" by (simp add: is_control_def)
  then show ?thesis unfolding exact_id_def bounded_adapter_id_Inr by auto
qed

lemma bounded_adapter_id_field: "bounded_adapter_id v f = Inr t \<longleftrightarrow> bounded_adapter_id v g = Inr t"
  by (simp add: bounded_adapter_id_Inr)

lemma is_codex_harness_of: "is_codex (harness_of s) = Inr (ses_harness s = HT_CODEX)"
  using harness_type.value_eq_iff [of "ses_harness s" HT_CODEX] by (simp add: is_codex_def harness_of_def)

definition session_schema :: "harness_session \<Rightarrow> string" where
  "session_schema s =
     (if ses_harness s = HT_CODEX then worker_delivery_schema_codex else worker_delivery_schema_generic)"

lemma schema_for_harness_of: "worker_delivery_schema_for (harness_of s) = Inr (session_schema s)"
  by (simp add: worker_delivery_schema_for_def is_codex_harness_of session_schema_def)

definition delivery_receipt :: "harness_session \<Rightarrow> string \<Rightarrow> string \<Rightarrow> receipt" where
  "delivery_receipt s vendor turn =
     [(''schema'', session_schema s), (''target_session_id'', ses_id s),
      (''vendor_session_id'', vendor), (''vendor_turn_id'', turn)]"

lemma checked_Inr_iff: "(if bad then Inl msg else Inr x) = Inr y \<longleftrightarrow> \<not> bad \<and> x = y"
  by simp

lemma bind_InrE:
  "bind_result r f = Inr y \<Longrightarrow> (\<And>x. r = Inr x \<Longrightarrow> f x = Inr y \<Longrightarrow> thesis) \<Longrightarrow> thesis"
  by (auto simp: bind_result_Inr_iff)

lemma if_Inl_else: "(if b then Inl m else x) = Inr y \<longleftrightarrow> \<not> b \<and> x = Inr y"
  by simp

lemma exact_id_of: "bounded_adapter_id v f = Inr t \<Longrightarrow> v = PStr t \<longleftrightarrow> exact_id t \<and> v = PStr t"
  by (auto simp: exact_id_def bounded_adapter_id_Inr)

lemma same_dict_Cons:
  "same_dict r e \<longleftrightarrow> set (dict_keys r) = fst ` set e \<and> (\<forall>x \<in> set e. dict_get r (fst x) = PStr (snd x))"
  by (auto simp: same_dict_def)

lemma worker_receipt_Inr:
  "validate_worker_delivery_receipt (PDict r) s = Inr e \<longleftrightarrow>
    set (dict_keys r) = set worker_delivery_receipt_keys \<and>
    (\<exists>target vendor turn.
      bounded_adapter_id (PStr (ses_id s)) [] = Inr target \<and>
      bounded_adapter_id (PStr (vendor_session_id s)) [] = Inr vendor \<and> exact_id vendor \<and> exact_id turn \<and>
      e = [(''schema'', session_schema s), (''target_session_id'', target),
           (''vendor_session_id'', vendor), (''vendor_turn_id'', turn)] \<and>
      (\<forall>x \<in> set e. dict_get r (fst x) = PStr (snd x)))"
  (is "?l \<longleftrightarrow> ?r")
proof
  assume ?l
  then obtain target vendor rv turn where *:
    "bounded_adapter_id (PStr (ses_id s)) ''worker delivery target session id'' = Inr target"
    "bounded_adapter_id (PStr (vendor_session_id s)) ''worker delivery bound vendor session id'' = Inr vendor"
    "set (dict_keys r) = set worker_delivery_receipt_keys"
    "bounded_adapter_id (dict_get r ''vendor_session_id'') ''worker delivery vendor session id'' = Inr rv"
    "bounded_adapter_id (dict_get r ''vendor_turn_id'') ''worker delivery vendor turn id'' = Inr turn"
    "PStr rv = dict_get r ''vendor_session_id''" "PStr turn = dict_get r ''vendor_turn_id''"
    and e: "e = [(''schema'', session_schema s), (''target_session_id'', target),
           (''vendor_session_id'', vendor), (''vendor_turn_id'', turn)]" and d: "same_dict r e"
    unfolding validate_worker_delivery_receipt_def validate_worker_delivery_receipt_binding_def pyval.case
      schema_for_harness_of Let_def bind_result_simps
    by (elim bind_InrE, unfold checked_Inr_iff require_Inr_iff de_Morgan_disj not_not, elim conjE)
      (rule that; (assumption | rule sym, assumption | simp only:))
  have "exact_id rv" "exact_id turn" using *(4-7) exact_id_of by metis+
  moreover have "rv = vendor" using d e *(6) by (simp add: same_dict_Cons)
  moreover have "bounded_adapter_id (PStr (ses_id s)) [] = Inr target"
    "bounded_adapter_id (PStr (vendor_session_id s)) [] = Inr vendor"
    using *(1,2) bounded_adapter_id_field by blast+
  ultimately show ?r
    using *(3) d e unfolding same_dict_Cons by blast
next
  assume r: ?r
  then obtain target vendor turn where *:
    "set (dict_keys r) = set worker_delivery_receipt_keys"
    "bounded_adapter_id (PStr (ses_id s)) [] = Inr target"
    "bounded_adapter_id (PStr (vendor_session_id s)) [] = Inr vendor" "exact_id vendor" "exact_id turn"
    and e: "e = [(''schema'', session_schema s), (''target_session_id'', target),
           (''vendor_session_id'', vendor), (''vendor_turn_id'', turn)]"
    and d: "\<forall>x \<in> set e. dict_get r (fst x) = PStr (snd x)"
    by blast
  have "same_dict r e" using * d e by (auto simp: same_dict_Cons worker_delivery_receipt_keys_def)
  moreover have "bounded_adapter_id (PStr (ses_id s)) f = Inr target"
    "bounded_adapter_id (PStr (vendor_session_id s)) f = Inr vendor"
    "bounded_adapter_id (PStr vendor) f = Inr vendor" "bounded_adapter_id (PStr turn) f = Inr turn" for f
    using * bounded_adapter_id_field exact_id_iff by blast+
  ultimately show ?l
    using *(1) d e
    by (simp add: validate_worker_delivery_receipt_def validate_worker_delivery_receipt_binding_def
        schema_for_harness_of Let_def)
qed

lemma resolve_delivered:
  "resolve_adapter_message_result result s = Delivered r \<longleftrightarrow>
    exact_id (ses_id s) \<and>
    (\<exists>vendor turn. bounded_adapter_id (PStr (vendor_session_id s)) [] = Inr vendor \<and> exact_id vendor \<and>
      exact_id turn \<and> result = Message (PBool True) (PStr vendor) (PStr turn) \<and> r = delivery_receipt s vendor turn)"
proof (cases result)
  case (Message accepted vendor turn)
  let ?d = "[(''schema'', PStr (session_schema s)), (''target_session_id'', PStr (ses_id s)),
             (''vendor_session_id'', vendor), (''vendor_turn_id'', turn)]"
  have keys: "set (dict_keys ?d) = set worker_delivery_receipt_keys"
    by (auto simp: dict_keys_def worker_delivery_receipt_keys_def)
  have "resolve_adapter_message_result result s = Delivered r \<longleftrightarrow>
    accepted = PBool True \<and> validate_worker_delivery_receipt (PDict ?d) s = Inr r"
    by (auto simp: Message resolve_adapter_message_result_def schema_for_harness_of split: sum.splits)
  also have "\<dots> \<longleftrightarrow> accepted = PBool True \<and>
    (\<exists>target v t. bounded_adapter_id (PStr (ses_id s)) [] = Inr target \<and>
      bounded_adapter_id (PStr (vendor_session_id s)) [] = Inr v \<and> exact_id v \<and> exact_id t \<and>
      ses_id s = target \<and> vendor = PStr v \<and> turn = PStr t \<and> r = delivery_receipt s v t)"
    unfolding worker_receipt_Inr delivery_receipt_def using keys by fastforce
  finally show ?thesis using Message exact_id_iff by auto
qed (auto simp: resolve_adapter_message_result_def split: sum.splits)

lemma resolve_rejected:
  "resolve_adapter_message_result result s = Rejected \<longleftrightarrow>
    result = Plain (PBool False) \<or> (\<exists>v t. result = Message (PBool False) v t)"
  by (cases result) (auto simp: resolve_adapter_message_result_def split: sum.splits)

lemma cursor_receipt_Inr:
  assumes "validate_cursor_hook_preparation_receipt (PDict r) s trigger preparation message = Inr e"
  obtains target vendor prep trig hash where
    "ses_harness s = HT_CURSOR" "target = ''cursor:'' @ vendor"
    "bounded_adapter_id (PStr (ses_id s)) [] = Inr target"
    "bounded_adapter_id (PStr (vendor_session_id s)) [] = Inr vendor"
    "length hash = 64" "\<forall>c \<in> set hash. c \<in> set ''0123456789abcdef''"
    "preparation = PNone \<or> preparation = PStr prep" "trigger = PNone \<or> trigger = PStr trig"
    "message = PNone \<or> message = PStr hash"
    "e = [(''schema'', cursor_hook_preparation_schema), (''preparation_id'', prep),
               (''trigger_event_id'', trig), (''target_session_id'', target),
               (''vendor_session_id'', vendor), (''message_sha256'', hash)]"
    "\<forall>x \<in> set e. dict_get r (fst x) = PStr (snd x)"
proof -
  from assms obtain target vendor prep trig rv hash where *: "ses_harness s = HT_CURSOR"
    "bounded_adapter_id (PStr (ses_id s)) ''Cursor hook preparation target session id'' = Inr target"
    "bounded_adapter_id (PStr (vendor_session_id s)) ''Cursor hook preparation bound vendor session id'' = Inr vendor"
    "bounded_sha256 (dict_get r ''message_sha256'') ''Cursor hook preparation message hash'' = Inr hash"
    "target = ''cursor:'' @ vendor"
    "\<not> (\<exists>(supplied, observed) \<in> set [(preparation, prep), (trigger, trig), (message, hash)].
        supplied \<noteq> PNone \<and> supplied \<noteq> PStr observed)"
    and e: "e = [(''schema'', cursor_hook_preparation_schema), (''preparation_id'', prep),
               (''trigger_event_id'', trig), (''target_session_id'', target),
               (''vendor_session_id'', vendor), (''message_sha256'', hash)]" and d: "same_dict r e"
    unfolding validate_cursor_hook_preparation_receipt_def pyval.case Let_def if_Inl_else
    by (elim conjE bind_InrE, unfold checked_Inr_iff require_Inr_iff de_Morgan_disj not_not, elim conjE)
      (rule that; (assumption | rule sym, assumption | simp only:))
  have "length hash = 64 \<and> (\<forall>c \<in> set hash. c \<in> set ''0123456789abcdef'')"
    using *(4) unfolding bounded_sha256_def by (simp split: pyval.splits if_splits)
  moreover have "bounded_adapter_id (PStr (ses_id s)) [] = Inr target"
    "bounded_adapter_id (PStr (vendor_session_id s)) [] = Inr vendor"
    using *(2,3) bounded_adapter_id_field by blast+
  moreover have "preparation = PNone \<or> preparation = PStr prep" "trigger = PNone \<or> trigger = PStr trig"
    "message = PNone \<or> message = PStr hash"
    using *(6) by auto
  ultimately show thesis
    using that *(1,5) e d unfolding same_dict_Cons by blast
qed

lemma resolve_prepared:
  assumes "resolve_adapter_message_result result s = Hook_Prepared r"
  obtains prep trig hash where
    "ses_harness s = HT_CURSOR" "ses_id s = ''cursor:'' @ strip (vendor_session_id s)" "exact_id (ses_id s)"
    "length hash = 64"
    "result = Preparation (PStr prep) (PStr trig) (PStr (strip (vendor_session_id s))) (PStr hash)"
    "r = [(''schema'', cursor_hook_preparation_schema), (''preparation_id'', prep),
          (''trigger_event_id'', trig), (''target_session_id'', ses_id s),
          (''vendor_session_id'', strip (vendor_session_id s)), (''message_sha256'', hash)]"
proof (cases result)
  case (Preparation prep trig vendor sha)
  let ?d = "PDict [(''schema'', PStr cursor_hook_preparation_schema), (''preparation_id'', prep),
                   (''trigger_event_id'', trig), (''target_session_id'', PStr (ses_id s)),
                   (''vendor_session_id'', vendor), (''message_sha256'', sha)]"
  have "validate_cursor_hook_preparation_receipt ?d s PNone PNone PNone = Inr r"
    using assms unfolding Preparation by (auto simp: resolve_adapter_message_result_def split: sum.splits)
  then show thesis
  proof (rule cursor_receipt_Inr)
    fix t v p g h
    assume *: "ses_harness s = HT_CURSOR" "t = ''cursor:'' @ v" "bounded_adapter_id (PStr (ses_id s)) [] = Inr t"
      "bounded_adapter_id (PStr (vendor_session_id s)) [] = Inr v" "length h = 64"
      "r = [(''schema'', cursor_hook_preparation_schema), (''preparation_id'', p), (''trigger_event_id'', g),
            (''target_session_id'', t), (''vendor_session_id'', v), (''message_sha256'', h)]"
      "\<forall>x \<in> set r. dict_get [(''schema'', PStr cursor_hook_preparation_schema), (''preparation_id'', prep),
         (''trigger_event_id'', trig), (''target_session_id'', PStr (ses_id s)),
         (''vendor_session_id'', vendor), (''message_sha256'', sha)] (fst x) = PStr (snd x)"
    then have "ses_id s = t" "prep = PStr p" "trig = PStr g" "vendor = PStr v" "sha = PStr h"
      "v = strip (vendor_session_id s)"
      by (simp_all add: bounded_adapter_id_Inr)
    with * show thesis using that Preparation exact_id_iff by simp
  qed
qed (use assms in \<open>auto simp: resolve_adapter_message_result_def split: sum.splits if_splits\<close>)

section \<open>Properties\<close>

text \<open>
  Property C13. Fail-closed delivery: an adapter's answer counts as delivered exactly when it is a
  message result whose acceptance is literally \<open>True\<close> and which names, with identifiers that stand for
  themselves, the session's own vendor session and a turn, for a session whose id stands for itself; the
  receipt is then determined. It counts as rejected exactly when it is literally \<open>False\<close>, plainly or as
  the acceptance. A bare \<open>True\<close> delivers nothing, and a prepared hook needs a Cursor session.
\<close>

theorem delivery_needs_exact_receipt:
  "(resolve_adapter_message_result result s = Delivered r \<longleftrightarrow>
     exact_id (ses_id s) \<and>
     (\<exists>vendor turn. bounded_adapter_id (PStr (vendor_session_id s)) [] = Inr vendor \<and> exact_id vendor \<and>
       exact_id turn \<and> result = Message (PBool True) (PStr vendor) (PStr turn) \<and>
       r = [(''schema'', session_schema s), (''target_session_id'', ses_id s),
            (''vendor_session_id'', vendor), (''vendor_turn_id'', turn)])) \<and>
   (resolve_adapter_message_result result s = Rejected \<longleftrightarrow>
     result = Plain (PBool False) \<or> (\<exists>v t. result = Message (PBool False) v t)) \<and>
   \<not> (resolve_adapter_message_result result s = Hook_Prepared r \<and>
      \<not> (ses_harness s = HT_CURSOR \<and> ses_id s = ''cursor:'' @ strip (vendor_session_id s) \<and>
        (\<exists>prep trig hash. result =
           Preparation (PStr prep) (PStr trig) (PStr (strip (vendor_session_id s))) (PStr hash))))"
proof -
  have "ses_harness s = HT_CURSOR \<and> ses_id s = ''cursor:'' @ strip (vendor_session_id s) \<and>
      (\<exists>prep trig hash. result =
          Preparation (PStr prep) (PStr trig) (PStr (strip (vendor_session_id s))) (PStr hash))"
    if "resolve_adapter_message_result result s = Hook_Prepared r"
    by (rule resolve_prepared [OF that]) blast
  then show ?thesis
    using resolve_delivered [of result s r] resolve_rejected [of result s] unfolding delivery_receipt_def
    by (intro conjI) simp_all
qed

text \<open>
  Matching a session against its binding is symmetric and strict: it needs the same id,
  vendor session and harness, equally present projects and directories with equal binding keys, and no
  two different goals. A session that matches keeps the bound goal and pause state when it is discovered
  again, and attaching by its id finds the bound session when that is the first one discovered.
\<close>

lemma session_binding_safe:
  assumes "session_binding_matches (Some b) s h"
  shows "session_binding_matches (Some s) b h \<and> ses_id s = ses_id b \<and>
    vendor_session_id s = vendor_session_id b \<and> ses_harness s = h \<and> ses_harness b = h \<and>
    given (ses_project_id s) = given (ses_project_id b) \<and>
    project_binding_key (text_or_empty (ses_project_id s)) = project_binding_key (text_or_empty (ses_project_id b)) \<and>
    project_binding_key (text_or_empty (ses_cwd s)) = project_binding_key (text_or_empty (ses_cwd b)) \<and>
    (ses_goal_id s = ses_goal_id b \<or> \<not> given (ses_goal_id s) \<or> \<not> given (ses_goal_id b)) \<and>
    preserve_bridge_state (Some b) (ses_cwd s) (ses_project_id s) = (ses_goal_id b, supervision_paused b) \<and>
    attach_session (b # ss) (ses_id s) = Some b"
  using assms
  by (auto simp: session_binding_matches_def same_present_binding_def compatible_binding_def
      preserve_bridge_state_def given_def split: if_splits)

definition example_session :: harness_session where
  "example_session =
     (new_session ''cursor:v1'' HT_CURSOR ''v1'')\<lparr>ses_project_id := Some ''p'', ses_goal_id := Some ''g'',
      ses_status := SS_WORKING, supervision_paused := True\<rparr>"

lemma session_binding_safe_example:
  "preserve_bridge_state (Some example_session) None (Some ''p'') = (Some ''g'', True)"
proof -
  have "session_binding_matches (Some example_session) (example_session\<lparr>ses_goal_id := None\<rparr>) HT_CURSOR"
    by (simp add: session_binding_matches_def same_present_binding_def compatible_binding_def given_def
        text_or_empty_def example_session_def new_session_def)
  from session_binding_safe [OF this, of "[]"] show ?thesis by (simp add: example_session_def new_session_def)
qed

text \<open>
  An inline permission outcome is read only from this session's own recorded permission
  response, with evidence and a request id. If the recorded verdict is the policy engine's, then ``ask''
  is returned exactly for a delegated request; ``allow'' and ``deny'' need an allow verdict, hence the
  modes manage or autopilot and neither human authority nor a high risk label, and ``deny'' needs an
  explicit denial.
\<close>

lemma inline_permission_outcome:
  assumes "verified_inline_permission_outcome show s (Some i) trig req = Some out"
    and "int_verdict i = decide show coerce autonomy (int_action i) cmd"
  shows "int_session_id i = ses_id s \<and> act_session_id (int_action i) = ses_id s \<and>
    (\<exists>e \<in> set (int_evidence i). strip e \<noteq> []) \<and>
    (if out = ''ask'' then int_verdict i = PV_ASK_HUMAN \<and> int_result i = ''permission_delegated_to_harness''
     else out \<in> {''allow'', ''deny''} \<and> autonomy \<in> {AL_MANAGE, AL_AUTOPILOT} \<and>
       act_authority (int_action i) \<noteq> AUTH_HUMAN \<and> act_risk (int_action i) \<notin> {RL_HIGH, RL_IRREVERSIBLE} \<and>
       int_result i = (if out = ''allow'' then ''permission_allow_inline'' else ''permission_deny_inline'') \<and>
       lower (strip (str_or_empty show (dict_get (act_payload (int_action i)) ''decision''))) \<in>
         {out, if out = ''allow'' then [] else out})"
proof -
  let ?a = "int_action i"
  have *: "act_type ?a = IT_RESPOND_PERMISSION" "int_verdict i = PV_ASK_HUMAN \<or> int_verdict i = PV_ALLOW"
    using assms(1) by (auto simp: verified_inline_permission_outcome_def Let_def split: if_splits)
  have "autonomy \<in> {AL_MANAGE, AL_AUTOPILOT} \<and> act_authority ?a \<noteq> AUTH_HUMAN \<and>
      act_risk ?a \<notin> {RL_HIGH, RL_IRREVERSIBLE}" if "int_verdict i = PV_ALLOW"
    using permission_allow_bounds *(1) that assms(2) by metis
  with assms(1) *(2) show ?thesis
    by (auto simp: verified_inline_permission_outcome_def Let_def split: if_splits)
qed

definition example_intervention :: intervention where
  "example_intervention =
     \<lparr>int_id = ''i'', int_session_id = ''s'', int_goal_id = None, int_trigger = ''permission_request'',
      int_evidence = [''e''], int_diagnosis = [],
      int_action = example_action\<lparr>act_payload := [(''request_id'', PStr ''r'')], act_evidence := [''e'']\<rparr>,
      int_confidence = 1 / 2, int_risk = ''low'', int_reversible = False, int_authority_required = ''local_policy'',
      int_action_taken = ''RESPOND_PERMISSION'', int_verdict = PV_ALLOW, int_result = ''permission_allow_inline'',
      int_worker_response = [], int_outcome = [], int_helped = None,
      int_created_at = Aware 0 0, int_metadata = []\<rparr>"

lemma inline_permission_outcome_example:
  "verified_inline_permission_outcome (\<lambda>_. []) (example_session\<lparr>ses_id := ''s''\<rparr>) (Some example_intervention)
     ET_PERMISSION_REQUEST (Some ''r'') = Some ''allow'' \<and>
   act_authority (int_action example_intervention) \<noteq> AUTH_HUMAN"
proof -
  have s: "strip ''e'' = ''e''" "strip ''r'' = ''r''" "strip [] = []" by code_simp+
  have out: "verified_inline_permission_outcome (\<lambda>_. []) (example_session\<lparr>ses_id := ''s''\<rparr>)
    (Some example_intervention) ET_PERMISSION_REQUEST (Some ''r'') = Some ''allow''"
    by (simp add: verified_inline_permission_outcome_def example_session_def new_session_def example_intervention_def
        example_action_def str_or_empty_def s)
  have "int_verdict example_intervention =
    decide (\<lambda>_. []) (\<lambda>_. None) AL_MANAGE (int_action example_intervention) None"
    by (simp add: example_intervention_def decide_def effective_command_def effective_risk_def example_action_def
        str_or_empty_def)
  from inline_permission_outcome [OF out this] out show ?thesis by simp
qed

end
