(* ===== verification/Credentials.thy ===== *)
theory Credentials
  imports Pex_Enums Action_Model
begin

text \<open>
  \<open>mcp_auth.py\<close> and \<open>hook_auth.py\<close> of the bridge, with \<open>validate_project_binding\<close> of \<open>store.py\<close>:
  the principals that MCP clients and harness hooks act under, built from Store records under
  their validators. The digest (SHA-256), the parser of ISO timestamps and \<open>repr\<close> of unexpected
  values are parameters; the instant of the check is an argument. What the two kinds of credential
  have in common is the locale \<open>expiring_credential\<close>.
\<close>

section \<open>Project bindings and tokens\<close>

definition is_lower_hex_char :: "char \<Rightarrow> bool" where
  "is_lower_hex_char c = (is_digit_ascii c \<or> c \<in> set ''abcdef'')"

definition url_safe_char :: "char \<Rightarrow> bool" where
  "url_safe_char c = (is_alnum_ascii c \<or> c \<in> set ''_-'')"

text \<open>A prefix, then between \<open>lo\<close> and \<open>hi\<close> characters of a class: \<open>re.fullmatch\<close>.\<close>

definition prefixed :: "string \<Rightarrow> nat \<Rightarrow> nat \<Rightarrow> (char \<Rightarrow> bool) \<Rightarrow> string \<Rightarrow> bool" where
  "prefixed pre lo hi p s =
     (starts_with pre s \<and>
      (let body = drop (length pre) s
       in lo \<le> length body \<and> length body \<le> hi \<and> (\<forall>c \<in> set body. p c)))"

definition valid_project_binding :: "string \<Rightarrow> bool" where
  "valid_project_binding s =
     (length s \<le> 1024 \<and>
      (prefixed ''legacy:'' 64 64 is_lower_hex_char s \<or> prefixed ''identity:'' 1 512 url_safe_char s))"

definition validate_project_binding :: "pyval \<Rightarrow> string result" where
  "validate_project_binding v =
     (case v of PStr s \<Rightarrow> if valid_project_binding s then Inr s else Inl ''project binding is invalid''
      | _ \<Rightarrow> Inl ''project binding is invalid'')"

definition is_sha256 :: "string \<Rightarrow> bool" where
  "is_sha256 s = prefixed [] 64 64 is_lower_hex_char s"

definition session_token :: "string \<Rightarrow> bool" where
  "session_token s = prefixed ''pex_mcp_'' 64 64 url_safe_char s"

definition digest_mcp_session_token :: "(string \<Rightarrow> string) \<Rightarrow> pyval \<Rightarrow> string result" where
  "digest_mcp_session_token digest v =
     (case v of PStr s \<Rightarrow> if session_token s then Inr (digest s) else Inl ''invalid MCP session token''
      | _ \<Rightarrow> Inl ''invalid MCP session token'')"

definition hook_token :: "string \<Rightarrow> bool" where
  "hook_token s = prefixed ''pex_hook_'' 64 64 url_safe_char s"

definition digest_hook_token :: "(pyval \<Rightarrow> string) \<Rightarrow> (string \<Rightarrow> string) \<Rightarrow> pyval \<Rightarrow> string result" where
  "digest_hook_token show digest v =
     (let token = str_or_empty show v
      in if 512 < length token \<or> \<not> hook_token token then Inl ''invalid hook credential''
         else Inr (digest token))"

section \<open>MCP principals\<close>

datatype principal_kind = ANONYMOUS | OPERATOR | SESSION

record mcp_principal =
  principal_id :: string
  kind :: principal_kind
  scopes :: "string list"
  mcp_session_id :: "string option"
  mcp_goal_id :: "string option"
  mcp_project_id :: "string option"
  mcp_project_binding :: "string option"
  mcp_vendor_session_id :: "string option"
  mcp_harness :: "harness_type option"
  issued_at :: "datetime option"
  expires_at :: "datetime option"

definition mcp_session_scopes :: "string list" where
  "mcp_session_scopes =
     [''mcp:read'', ''pex.report_progress'', ''pex.request_decision'', ''pex.handoff'', ''pex.verify_claim'',
      ''pex.check_action'']"

definition sized_option :: "nat \<Rightarrow> string option \<Rightarrow> bool" where
  "sized_option hi s = (case s of None \<Rightarrow> True | Some t \<Rightarrow> 1 \<le> length t \<and> length t \<le> hi)"

definition has_bindings :: "mcp_principal \<Rightarrow> bool" where
  "has_bindings p =
     (mcp_session_id p \<noteq> None \<or> mcp_goal_id p \<noteq> None \<or> mcp_project_id p \<noteq> None \<or>
      mcp_project_binding p \<noteq> None \<or> mcp_vendor_session_id p \<noteq> None \<or> mcp_harness p \<noteq> None \<or>
      issued_at p \<noteq> None \<or> expires_at p \<noteq> None)"

definition lacks_binding :: "mcp_principal \<Rightarrow> bool" where
  "lacks_binding p =
     (mcp_session_id p = None \<or> mcp_goal_id p = None \<or> mcp_project_id p = None \<or>
      mcp_project_binding p = None \<or> mcp_vendor_session_id p = None \<or> mcp_harness p = None \<or>
      issued_at p = None \<or> expires_at p = None)"

definition to_utc :: "datetime \<Rightarrow> datetime" where
  "to_utc t = Aware (as_utc t) 0"

definition naive_time :: "datetime option \<Rightarrow> bool" where
  "naive_time t = (case t of None \<Rightarrow> False | Some u \<Rightarrow> \<not> is_aware u)"

text \<open>Both timestamps as instants, when both are there.\<close>

definition lifetime :: "mcp_principal \<Rightarrow> (int \<times> int) option" where
  "lifetime p =
     (case (issued_at p, expires_at p) of (Some i, Some e) \<Rightarrow> Some (as_utc i, as_utc e) | _ \<Rightarrow> None)"

definition validate_principal :: "mcp_principal \<Rightarrow> mcp_principal result" where
  "validate_principal p =
     bind_result
       (first_failure
         [(\<not> sized_option 512 (Some (principal_id p)), ''principal_id length''),
          (\<not> (1 \<le> length (remdups (scopes p)) \<and> length (remdups (scopes p)) \<le> 16) \<or>
             (\<exists>s \<in> set (scopes p). \<not> sized_option 128 (Some s)), ''scopes length''),
          (\<not> sized_option 512 (mcp_session_id p) \<or> \<not> sized_option 512 (mcp_goal_id p) \<or>
             \<not> sized_option 4096 (mcp_project_id p) \<or> \<not> sized_option 512 (mcp_vendor_session_id p),
             ''identifier length''),
          (case mcp_project_binding p of None \<Rightarrow> False | Some b \<Rightarrow> \<not> valid_project_binding b,
             ''project binding is invalid''),
          (naive_time (issued_at p) \<or> naive_time (expires_at p),
             ''MCP principal timestamps must be timezone-aware'')])
       (\<lambda>_.
         let q = p\<lparr>issued_at := map_option to_utc (issued_at p),
                   expires_at := map_option to_utc (expires_at p)\<rparr>
         in bind_result
           (if kind q = SESSION then
              first_failure
                [(lacks_binding q, ''session MCP principal is missing an identity binding''),
                 (case lifetime q of None \<Rightarrow> False | Some (i, e) \<Rightarrow> e \<le> i,
                    ''session MCP principal expiry is invalid''),
                 (''mcp:read'' \<notin> set (scopes q), ''session MCP principal is missing read scope''),
                 (\<not> set (scopes q) \<subseteq> set mcp_session_scopes,
                    ''session MCP principal contains an unknown scope'')]
            else first_failure
                [(has_bindings q, ''non-session MCP principal cannot carry session bindings''),
                 (set (scopes q) \<noteq> {''mcp:read''}, ''non-session MCP principal must be read-only'')])
           (\<lambda>_. Inr q))"

definition bare_principal :: "string \<Rightarrow> principal_kind \<Rightarrow> mcp_principal" where
  "bare_principal pid k =
     \<lparr>principal_id = pid, kind = k, scopes = [''mcp:read''], mcp_session_id = None, mcp_goal_id = None,
      mcp_project_id = None, mcp_project_binding = None, mcp_vendor_session_id = None,
      mcp_harness = None, issued_at = None, expires_at = None\<rparr>"

definition anonymous_principal :: "mcp_principal result" where
  "anonymous_principal = validate_principal (bare_principal ''anonymous:local-mcp'' ANONYMOUS)"

definition operator_principal :: "mcp_principal result" where
  "operator_principal = validate_principal (bare_principal ''operator:bridge-token'' OPERATOR)"

text \<open>A Store record: the fields of a principal, and when it was revoked.\<close>

record mcp_record =
  record_principal :: mcp_principal
  record_binding :: pyval
  revoked_at :: pyval

definition mcp_from_store :: "mcp_record \<Rightarrow> datetime \<Rightarrow> mcp_principal result" where
  "mcp_from_store r now =
     bind_result (validate_project_binding (record_binding r)) (\<lambda>binding.
     bind_result (validate_principal ((record_principal r)\<lparr>kind := SESSION, mcp_project_binding := Some binding\<rparr>)) (\<lambda>p.
     bind_result
       (first_failure
         [(\<not> is_aware now, ''MCP principal validation time must be timezone-aware''),
          (lifetime p = None, ''session MCP principal lifetime is missing''),
          (case lifetime p of None \<Rightarrow> False | Some (i, e) \<Rightarrow> \<not> (i \<le> as_utc now \<and> as_utc now < e),
             ''session MCP principal is not active''),
          (revoked_at r \<noteq> PNone, ''session MCP principal is revoked'')])
       (\<lambda>_. Inr p)))"

definition has_scope :: "mcp_principal \<Rightarrow> string \<Rightarrow> bool" where
  "has_scope p s = (s \<in> set (scopes p))"

section \<open>Hook principals\<close>

definition allowed_hook_routes :: "harness_type \<Rightarrow> string list" where
  "allowed_hook_routes h =
     (case h of
        HT_CURSOR \<Rightarrow> [''hook:cursor'']
      | HT_CLAUDE_CODE \<Rightarrow> [''hook:claude_code'']
      | HT_QWEN \<Rightarrow> [''hook:qwen'']
      | HT_HERMES \<Rightarrow> [''hook:hermes'']
      | HT_OPENCODE \<Rightarrow> [''opencode:heartbeat'', ''opencode:overlay-runtime'']
      | _ \<Rightarrow> [])"

record hook_principal =
  credential_id :: string
  token_digest :: string
  hook_session_id :: "string option"
  hook_vendor_session_id :: "string option"
  hook_harness :: harness_type
  hook_project_id :: string
  hook_project_binding :: string
  allowed_routes :: "string list"
  hook_issued_at :: datetime
  hook_expires_at :: datetime

text \<open>\<open>parse_iso\<close> stands for \<open>datetime.fromisoformat(str(value))\<close>, \<open>None\<close> for its errors.\<close>

definition aware_utc :: "(pyval \<Rightarrow> datetime option) \<Rightarrow> pyval \<Rightarrow> string \<Rightarrow> datetime result" where
  "aware_utc parse_iso v field =
     (case parse_iso v of
        None \<Rightarrow> Inl (''hook credential '' @ field @ '' is invalid'')
      | Some t \<Rightarrow>
          if \<not> is_aware t then Inl (''hook credential '' @ field @ '' must be timezone-aware'')
          else Inr (to_utc t))"

definition credential_field :: "(string \<times> pyval) list \<Rightarrow> string \<Rightarrow> string result" where
  "credential_field r field =
     (case dict_get r field of
        PStr s \<Rightarrow>
          if strip s = [] \<or> 4096 < length s then Inl (''hook credential '' @ field @ '' is invalid'') else Inr s
      | _ \<Rightarrow> Inl (''hook credential '' @ field @ '' is invalid''))"

definition optional_field :: "(string \<times> pyval) list \<Rightarrow> string \<Rightarrow> string option result" where
  "optional_field r field =
     (if dict_get r field = PNone then Inr None
      else bind_result (credential_field r field) (\<lambda>s. Inr (Some s)))"

definition hook_routes :: "(pyval \<Rightarrow> string) \<Rightarrow> pyval \<Rightarrow> string list result" where
  "hook_routes show v =
     (case v of
        PList (r # rs) \<Rightarrow> Inr (map (str_of show) (r # rs))
      | _ \<Rightarrow> Inl ''hook credential routes are invalid'')"

definition hook_from_store ::
  "(pyval \<Rightarrow> string) \<Rightarrow> (pyval \<Rightarrow> datetime option) \<Rightarrow> (string \<times> pyval) list \<Rightarrow> datetime \<Rightarrow>
   hook_principal result" where
  "hook_from_store show parse_iso r now =
     bind_result (validate_project_binding (dict_get r ''project_binding'')) (\<lambda>binding.
     bind_result (require (dict_get r ''revoked_at'' = PNone) ''hook credential is revoked'') (\<lambda>_.
     bind_result (aware_utc parse_iso (dict_get r ''issued_at'') ''issued_at'') (\<lambda>issued.
     bind_result (aware_utc parse_iso (dict_get r ''expires_at'') ''expires_at'') (\<lambda>expires.
     bind_result
       (first_failure
         [(\<not> is_aware now, ''hook credential check time must be timezone-aware''),
          (\<not> (as_utc issued \<le> as_utc now \<and> as_utc now < as_utc expires), ''hook credential is not active'')])
     (\<lambda>_.
     bind_result
       (case map_of r ''harness_type'' of
          None \<Rightarrow> Inl ''hook credential harness is invalid''
        | Some v \<Rightarrow>
            (case parse_enum harness_type_value all_harness_type (str_of show v) of
               Inl _ \<Rightarrow> Inl ''hook credential harness is invalid''
             | Inr h \<Rightarrow> Inr h)) (\<lambda>harness.
     bind_result (hook_routes show (dict_get r ''allowed_routes'')) (\<lambda>routes.
     bind_result
       (require (distinct routes \<and> set routes \<subseteq> set (allowed_hook_routes harness))
         ''hook credential routes exceed harness authority'') (\<lambda>_.
     bind_result (credential_field r ''credential_id'') (\<lambda>cid.
     bind_result (credential_field r ''project_id'') (\<lambda>pid.
     bind_result
       (case dict_get r ''token_digest'' of
          PStr d \<Rightarrow> if is_sha256 d then Inr d else Inl ''hook credential digest is invalid''
        | _ \<Rightarrow> Inl ''hook credential digest is invalid'') (\<lambda>digest.
     bind_result
       (require ((dict_get r ''session_id'' = PNone) = (dict_get r ''vendor_session_id'' = PNone))
         ''hook credential has a partial session binding'') (\<lambda>_.
     bind_result (optional_field r ''session_id'') (\<lambda>sid.
     bind_result (optional_field r ''vendor_session_id'') (\<lambda>vid.
       Inr \<lparr>credential_id = cid, token_digest = digest, hook_session_id = sid,
            hook_vendor_session_id = vid, hook_harness = harness, hook_project_id = pid,
            hook_project_binding = binding, allowed_routes = routes, hook_issued_at = issued,
            hook_expires_at = expires\<rparr>))))))))))))))"

definition authorizes :: "hook_principal \<Rightarrow> string \<Rightarrow> bool" where
  "authorizes p route = (route \<in> set (allowed_routes p))"

definition is_bound :: "hook_principal \<Rightarrow> bool" where
  "is_bound p = (hook_session_id p \<noteq> None \<and> hook_vendor_session_id p \<noteq> None)"

section \<open>Facts\<close>

lemma validate_principal_Inr:
  assumes "validate_principal p = Inr q"
  shows "q = p\<lparr>issued_at := map_option to_utc (issued_at p), expires_at := map_option to_utc (expires_at p)\<rparr> \<and>
    (if kind q = SESSION
     then \<not> lacks_binding q \<and> ''mcp:read'' \<in> set (scopes q) \<and> set (scopes q) \<subseteq> set mcp_session_scopes \<and>
       (\<forall>i e. lifetime q = Some (i, e) \<longrightarrow> i < e)
     else \<not> has_bindings q \<and> set (scopes q) = {''mcp:read''})"
  using assms unfolding validate_principal_def Let_def bind_result_Inr_iff
  by (auto split: option.splits prod.splits)

lemma mcp_from_store_Inr:
  "mcp_from_store r now = Inr p \<longleftrightarrow>
   (\<exists>b. validate_project_binding (record_binding r) = Inr b \<and>
      validate_principal ((record_principal r)\<lparr>kind := SESSION, mcp_project_binding := Some b\<rparr>) = Inr p) \<and>
   is_aware now \<and> revoked_at r = PNone \<and>
   (\<exists>i e. lifetime p = Some (i, e) \<and> i \<le> as_utc now \<and> as_utc now < e)"
  unfolding mcp_from_store_def bind_result_Inr_iff by (auto split: option.splits prod.splits)

lemma aware_utc_Inr: "aware_utc parse_iso v f = Inr t \<Longrightarrow> is_aware t"
  by (auto simp: aware_utc_def to_utc_def split: option.splits if_splits)

text \<open>The part of a hook record that does not depend on the instant of the check.\<close>

lemma hook_from_store_window:
  assumes "hook_from_store show parse_iso r now = Inr p"
  shows "is_aware now \<and> as_utc (hook_issued_at p) \<le> as_utc now \<and> as_utc now < as_utc (hook_expires_at p)"
  using assms unfolding hook_from_store_def bind_result_Inr_iff by auto

lemma hook_from_store_again:
  assumes "hook_from_store show parse_iso r now = Inr p" "is_aware now'"
    "as_utc (hook_issued_at p) \<le> as_utc now'" "as_utc now' < as_utc (hook_expires_at p)"
  shows "hook_from_store show parse_iso r now' = Inr p"
  using assms unfolding hook_from_store_def bind_result_Inr_iff by auto

lemma hook_from_store_fixed:
  assumes "hook_from_store show parse_iso r now = Inr p" "hook_from_store show parse_iso r now' = Inr q"
  shows "p = q"
  using assms unfolding hook_from_store_def bind_result_Inr_iff by auto

lemma hook_from_store_shape:
  assumes "hook_from_store show parse_iso r now = Inr p"
  shows "valid_project_binding (hook_project_binding p) \<and> dict_get r ''revoked_at'' = PNone \<and>
    allowed_routes p \<noteq> [] \<and> distinct (allowed_routes p) \<and>
    set (allowed_routes p) \<subseteq> set (allowed_hook_routes (hook_harness p)) \<and> is_sha256 (token_digest p) \<and>
    (hook_session_id p = None \<longleftrightarrow> hook_vendor_session_id p = None)"
proof -
  have binding: "validate_project_binding v = Inr b \<Longrightarrow> valid_project_binding b" for v b
    by (auto simp: validate_project_binding_def split: pyval.splits if_splits)
  have routes: "hook_routes show v = Inr rs \<Longrightarrow> rs \<noteq> []" for v rs
    by (auto simp: hook_routes_def split: pyval.splits list.splits)
  have field: "optional_field r f = Inr x \<Longrightarrow> (x = None \<longleftrightarrow> dict_get r f = PNone)" for f x
    by (auto simp: optional_field_def bind_result_Inr_iff split: if_splits)
  have digest: "(case v of PStr d \<Rightarrow> if is_sha256 d then Inr d else Inl m | _ \<Rightarrow> Inl m) = Inr d' \<Longrightarrow> is_sha256 d'"
    for v m and d' :: string
    by (auto split: pyval.splits if_splits)
  show ?thesis
    using assms unfolding hook_from_store_def bind_result_Inr_iff
    by (auto dest: binding routes field digest)
qed

section \<open>The contract of an expiring credential\<close>

text \<open>
  Building a principal from its record at an instant: inside its lifetime, and with the same result
  at every instant of the lifetime.
\<close>

locale expiring_credential =
  fixes accept :: "'r \<Rightarrow> datetime \<Rightarrow> 'p result"
    and starts :: "'p \<Rightarrow> int" and ends :: "'p \<Rightarrow> int"
  assumes in_window: "accept r now = Inr p \<Longrightarrow> is_aware now \<and> starts p \<le> as_utc now \<and> as_utc now < ends p"
    and stable: "accept r now = Inr p \<Longrightarrow> is_aware now' \<Longrightarrow> starts p \<le> as_utc now' \<Longrightarrow>
      as_utc now' < ends p \<Longrightarrow> accept r now' = Inr p"
    and one_principal: "accept r now = Inr p \<Longrightarrow> accept r now' = Inr q \<Longrightarrow> p = q"
begin

lemma accepted_iff:
  assumes "accept r now = Inr p"
  shows "accept r now' = Inr p \<longleftrightarrow> is_aware now' \<and> starts p \<le> as_utc now' \<and> as_utc now' < ends p"
  using assms in_window stable by blast

lemma expired_forever:
  assumes "accept r now = Inr p" "ends p \<le> as_utc now'"
  shows "accept r now' \<noteq> Inr q"
  using assms in_window one_principal by (metis not_le)

end

definition mcp_starts :: "mcp_principal \<Rightarrow> int" where
  "mcp_starts p = (case lifetime p of None \<Rightarrow> 0 | Some (i, e) \<Rightarrow> i)"

definition mcp_ends :: "mcp_principal \<Rightarrow> int" where
  "mcp_ends p = (case lifetime p of None \<Rightarrow> 0 | Some (i, e) \<Rightarrow> e)"

interpretation mcp: expiring_credential mcp_from_store mcp_starts mcp_ends
  by unfold_locales (auto simp: mcp_from_store_Inr mcp_starts_def mcp_ends_def)

interpretation hook: expiring_credential "hook_from_store render parse_iso"
    "\<lambda>p. as_utc (hook_issued_at p)" "\<lambda>p. as_utc (hook_expires_at p)" for render parse_iso
  by unfold_locales (use hook_from_store_window hook_from_store_again hook_from_store_fixed in blast)+

section \<open>Properties\<close>

text \<open>
  Property C21. A credential record that was accepted once is accepted, with the same principal, at
  exactly the timezone-aware instants of its lifetime: from its issue, up to but excluding its expiry.
  This holds for MCP session principals and for hook principals.
\<close>

theorem credential_lifetime:
  assumes "mcp_from_store m now = Inr p" and "hook_from_store show parse_iso h now = Inr q"
  shows "(mcp_from_store m t = Inr p \<longleftrightarrow> is_aware t \<and> mcp_starts p \<le> as_utc t \<and> as_utc t < mcp_ends p) \<and>
    (hook_from_store show parse_iso h t = Inr q \<longleftrightarrow>
       is_aware t \<and> as_utc (hook_issued_at q) \<le> as_utc t \<and> as_utc t < as_utc (hook_expires_at q))"
  using mcp.accepted_iff [OF assms(1)] hook.accepted_iff [OF assms(2)] by blast

definition example_binding :: string where
  "example_binding = ''identity:p''"

definition example_mcp_record :: mcp_record where
  "example_mcp_record =
     \<lparr>record_principal =
        (bare_principal ''s1'' SESSION)\<lparr>mcp_session_id := Some ''s'', mcp_goal_id := Some ''g'',
          mcp_project_id := Some ''p'', mcp_vendor_session_id := Some ''v'', mcp_harness := Some HT_CODEX,
          issued_at := Some (Aware 0 0), expires_at := Some (Aware 10 0)\<rparr>,
      record_binding = PStr example_binding, revoked_at = PNone\<rparr>"

definition example_hook_record :: "(string \<times> pyval) list" where
  "example_hook_record =
     [(''project_binding'', PStr example_binding), (''issued_at'', PInt 0), (''expires_at'', PInt 10),
      (''harness_type'', PStr ''cursor''), (''allowed_routes'', PList [PStr ''hook:cursor'']),
      (''credential_id'', PStr ''c''), (''project_id'', PStr ''p''),
      (''token_digest'', PStr (replicate 64 (CHR ''a'')))]"

text \<open>An instance of the timestamp parser: integers are microseconds of UTC.\<close>

definition example_iso :: "pyval \<Rightarrow> datetime option" where
  "example_iso v = (case v of PInt i \<Rightarrow> Some (Aware i 0) | _ \<Rightarrow> None)"

lemma example_mcp_accepted: "\<exists>p. mcp_from_store example_mcp_record (Aware 5 0) = Inr p \<and> mcp_ends p = 10"
proof -
  have b: "valid_project_binding example_binding"
    by (simp add: valid_project_binding_def example_binding_def prefixed_def url_safe_char_def
        is_alnum_ascii_def is_alpha_ascii_def is_lower_ascii_def)
  then show ?thesis
    by (simp add: mcp_from_store_def example_mcp_record_def validate_project_binding_def validate_principal_def
        bare_principal_def sized_option_def lacks_binding_def lifetime_def to_utc_def naive_time_def
        mcp_session_scopes_def mcp_ends_def Let_def)
qed

lemma example_hook_accepted:
  "\<exists>p. hook_from_store (\<lambda>_. []) example_iso example_hook_record (Aware 5 0) = Inr p \<and>
     as_utc (hook_expires_at p) = 10"
proof -
  have b: "valid_project_binding example_binding"
    by (simp add: valid_project_binding_def example_binding_def prefixed_def url_safe_char_def
        is_alnum_ascii_def is_alpha_ascii_def is_lower_ascii_def)
  have d: "is_sha256 (replicate 64 (CHR ''a''))"
    by (simp add: is_sha256_def prefixed_def is_lower_hex_char_def)
  have h: "parse_enum harness_type_value all_harness_type ''cursor'' = Inr HT_CURSOR"
    using harness_type.parse_value [of HT_CURSOR] by simp
  have s: "strip ''c'' = ''c''" "strip ''p'' = ''p''" by code_simp+
  show ?thesis
    by (simp add: hook_from_store_def example_hook_record_def validate_project_binding_def b d h s aware_utc_def
        example_iso_def hook_routes_def allowed_hook_routes_def credential_field_def optional_field_def to_utc_def)
qed

theorem credential_lifetime_witness:
  "\<exists>p. mcp_from_store example_mcp_record (Aware 5 0) = Inr p \<and>
     mcp_from_store example_mcp_record (Aware 10 0) \<noteq> Inr p"
proof -
  obtain p where p: "mcp_from_store example_mcp_record (Aware 5 0) = Inr p" "mcp_ends p = 10"
    using example_mcp_accepted by blast
  obtain q where q: "hook_from_store (\<lambda>_. []) example_iso example_hook_record (Aware 5 0) = Inr q"
    using example_hook_accepted by blast
  from credential_lifetime [OF p(1) q, of "Aware 10 0"] p show ?thesis by auto
qed

text \<open>
  A principal built from a Store record holds no more authority than its kind: an MCP
  session principal reads and uses known session scopes only, under a complete identity binding and
  an unrevoked record; a hook principal is confined to the routes of its own harness.
\<close>

lemma credential_authority:
  assumes "mcp_from_store m now = Inr p" and "hook_from_store show parse_iso h now = Inr q"
  shows "kind p = SESSION \<and> has_scope p ''mcp:read'' \<and> set (scopes p) \<subseteq> set mcp_session_scopes \<and>
    \<not> lacks_binding p \<and> revoked_at m = PNone \<and>
    valid_project_binding (hook_project_binding q) \<and> dict_get h ''revoked_at'' = PNone \<and>
    is_sha256 (token_digest q) \<and>
    \<not> (authorizes q route \<and> route \<notin> set (allowed_hook_routes (hook_harness q)))"
proof -
  obtain b where "validate_principal ((record_principal m)\<lparr>kind := SESSION, mcp_project_binding := Some b\<rparr>) = Inr p"
    "revoked_at m = PNone"
    using assms(1) unfolding mcp_from_store_Inr by blast
  with validate_principal_Inr [OF this(1)] hook_from_store_shape [OF assms(2)] show ?thesis
    by (auto simp: authorizes_def has_scope_def)
qed

lemma credential_authority_example:
  "\<exists>p. mcp_from_store example_mcp_record (Aware 5 0) = Inr p \<and> has_scope p ''mcp:read''"
proof -
  obtain p where p: "mcp_from_store example_mcp_record (Aware 5 0) = Inr p"
    using example_mcp_accepted by blast
  obtain q where q: "hook_from_store (\<lambda>_. []) example_iso example_hook_record (Aware 5 0) = Inr q"
    using example_hook_accepted by blast
  from credential_authority [OF p q, of "[]"] p show ?thesis by auto
qed

end
