(* ===== verification/Request_Guards.thy ===== *)
theory Request_Guards
  imports Canonical_Json
begin

text \<open>
  The guards in front of the HTTP routes: \<open>origin_guard.py\<close> (trusted loopback hosts, trusted mutation
  origins) and \<open>request_limits.py\<close> (the bounded body), and the order in which \<open>app.py\<close> nests them. A
  byte string is a \<open>string\<close>. A guard either answers the request itself or hands it on; the messages the
  server will deliver are a list, which may end before the body does. Whether a body is acceptable JSON
  (UTF-8, no duplicate keys, no non-finite number) is the parameter \<open>json_ok\<close>.
\<close>

section \<open>Requests\<close>

record asgi_scope =
  scope_type :: string
  scope_method :: string
  headers :: "(string \<times> string) list"

datatype asgi_message =
    Http_Disconnect
  | Http_Request (chunk: string) (more_body: bool)
  | Other_Message

text \<open>
  What a guard did: handed on the request together with the messages the application will receive
  before it sees a disconnect, answered with a status, closed a websocket, returned because the
  client had left, or is still waiting for a message.
\<close>

datatype guard_outcome =
    Forwarded "asgi_message list"
  | Answered nat string
  | Closed nat
  | Gone
  | Waiting

definition header_values :: "asgi_scope \<Rightarrow> string \<Rightarrow> string list" where
  "header_values scope name = map snd (filter (\<lambda>(n, v). ascii_lower n = name) (headers scope))"

definition is_ascii :: "string \<Rightarrow> bool" where
  "is_ascii s = (\<forall>c \<in> set s. code c < 128)"

definition digits_value :: "string \<Rightarrow> nat" where
  "digits_value s = foldl (\<lambda>n c. 10 * n + (code c - 48)) 0 s"

section \<open>Trusted hosts\<close>

definition loopback_hosts :: "string list" where
  "loopback_hosts = [''127.0.0.1'', ''localhost'']"

definition test_hosts :: "string list" where
  "test_hosts = [''test'', ''testserver'']"

definition valid_port :: "string \<Rightarrow> bool" where
  "valid_port p =
     ((\<forall>c \<in> set p. is_digit_ascii c) \<and> p \<noteq> [] \<and> 1 \<le> digits_value p \<and> digits_value p \<le> 65535)"

definition trusted_host :: "bool \<Rightarrow> string \<Rightarrow> bool" where
  "trusted_host allow_test v =
     (if v = [] \<or> 255 < length v then False
      else if \<not> is_ascii v then False
      else if v \<noteq> strip v \<or> (\<exists>c \<in> set v. code c < 33 \<or> code c = 127) then False
      else if starts_with ''['' v then
        (if CHR '']'' \<notin> set v then False
         else
           let closing = length (takeWhile (\<lambda>c. c \<noteq> CHR '']'') v);
               remainder = drop (closing + 1) v
           in if casefold (take (closing + 1) v) \<noteq> ''[::1]'' then False
              else if remainder \<noteq> [] \<and> \<not> starts_with '':'' remainder then False
              else
                let port = drop 1 remainder
                in if port = [] then CHR '':'' \<notin> set (after_last (CHR '']'') v) else valid_port port)
      else
        (if 1 < length (filter (\<lambda>c. c = CHR '':'') v) then False
         else
           let host = casefold (before_char (CHR '':'') v);
               port = drop (length (before_char (CHR '':'') v) + 1) v
           in if host \<notin> set (loopback_hosts @ (if allow_test then test_hosts else [])) then False
              else if port = [] then \<not> ends_with '':'' v else valid_port port))"

text \<open>\<open>None\<close>: the request goes on to the wrapped application.\<close>

definition host_guard :: "bool \<Rightarrow> asgi_scope \<Rightarrow> guard_outcome option" where
  "host_guard allow_test scope =
     (if scope_type scope \<notin> {''http'', ''websocket''} then None
      else
        let hosts = header_values scope ''host''
        in if length hosts = 1 \<and> trusted_host allow_test (hd hosts) then None
           else if scope_type scope = ''websocket'' then Some (Closed 1008)
           else Some (Answered 400 ''untrusted host''))"

section \<open>Trusted mutation origins\<close>

definition mutating_methods :: "string list" where
  "mutating_methods = [''POST'', ''PUT'', ''PATCH'', ''DELETE'']"

definition trusted_ui_origins :: "string list" where
  "trusted_ui_origins =
     [''http://127.0.0.1:1420'', ''http://localhost:1420'', ''http://tauri.localhost'',
      ''https://tauri.localhost'', ''tauri://localhost'']"

definition origin_guard :: "string list \<Rightarrow> asgi_scope \<Rightarrow> guard_outcome option" where
  "origin_guard allowed scope =
     (if scope_type scope \<noteq> ''http'' \<or> scope_method scope \<notin> set mutating_methods then None
      else
        let origins = header_values scope ''origin''
        in if origins = [] \<or>
              (length origins = 1 \<and> is_ascii (hd origins) \<and> hd origins \<in> set allowed)
           then None else Some (Answered 403 ''untrusted mutation origin''))"

section \<open>Bounded bodies\<close>

definition max_http_request_bytes :: nat where "max_http_request_bytes = 4 * 1024 * 1024"
definition max_http_body_chunks :: nat where "max_http_body_chunks = 4096"

text \<open>\<open>int(text)\<close> on ASCII text: surrounding blanks, a sign, digits with single underscores between
  them, and at most 4300 digits, the interpreter's limit.\<close>

fun int_digits :: "string \<Rightarrow> bool" where
  "int_digits [] = False"
| "int_digits [c] = is_digit_ascii c"
| "int_digits (c # d # s) =
     (is_digit_ascii c \<and> (if d = CHR ''_'' then int_digits s else int_digits (d # s)))"

definition parse_int :: "string \<Rightarrow> int option" where
  "parse_int s =
     (let t = strip s;
          neg = starts_with ''-'' t;
          body = (if neg \<or> starts_with ''+'' t then drop 1 t else t);
          ds = filter is_digit_ascii body
      in if \<not> int_digits body \<or> 4300 < length ds then None
         else Some (if neg then - int (digits_value ds) else int (digits_value ds)))"

text \<open>The declared length: an error, or the agreed value when there is one.\<close>

definition content_length :: "nat \<Rightarrow> asgi_scope \<Rightarrow> guard_outcome + nat option" where
  "content_length max_bytes scope =
     (let lengths = header_values scope ''content-length'';
          parsed = map (\<lambda>v. if is_ascii v then parse_int v else None) lengths
      in if lengths = [] then Inr None
         else if None \<in> set parsed then Inl (Answered 400 ''invalid Content-Length'')
         else if (\<exists>i \<in> set (map the parsed). i < 0) \<or> length (remdups (map the parsed)) \<noteq> 1
           then Inl (Answered 400 ''invalid Content-Length'')
         else if int max_bytes < the (hd parsed) then Inl (Answered 413 ''request body too large'')
         else Inr (Some (nat (the (hd parsed)))))"

text \<open>The receive loop: \<open>received\<close> (\<open>total\<close> in the code), \<open>count\<close> and \<open>buffered\<close> are its variables.\<close>

fun receive_body ::
  "nat \<Rightarrow> asgi_message list \<Rightarrow> nat \<Rightarrow> nat \<Rightarrow> asgi_message list \<Rightarrow>
   guard_outcome + nat \<times> asgi_message list" where
  "receive_body max_bytes [] received count buffered = Inl Waiting"
| "receive_body max_bytes (Http_Disconnect # ms) received count buffered = Inl Gone"
| "receive_body max_bytes (Other_Message # ms) received count buffered =
     receive_body max_bytes ms received count buffered"
| "receive_body max_bytes (Http_Request body again # ms) received count buffered =
     (if max_http_body_chunks < count + 1 then Inl (Answered 413 ''request body has too many chunks'')
      else if max_bytes < received + length body then Inl (Answered 413 ''request body too large'')
      else if \<not> again then Inr (received + length body, buffered @ [Http_Request body again])
      else receive_body max_bytes ms (received + length body) (count + 1) (buffered @ [Http_Request body again]))"

definition content_types :: "asgi_scope \<Rightarrow> string list" where
  "content_types scope =
     map (\<lambda>v. casefold (strip (before_char (CHR '';'') (filter (\<lambda>c. code c < 128) v))))
       (header_values scope ''content-type'')"

definition bytes_space :: "char \<Rightarrow> bool" where
  "bytes_space c = (code c \<in> {9, 10, 11, 12, 13, 32})"

definition looks_like_json :: "string list \<Rightarrow> string \<Rightarrow> bool" where
  "looks_like_json types raw =
     (types \<noteq> [] \<and> (hd types = ''application/json'' \<or> ends_with ''+json'' (hd types)) \<or>
      types = [] \<and> take 1 (dropWhile bytes_space raw) \<in> {''{'', ''[''})"

definition raw_body :: "asgi_message list \<Rightarrow> string" where
  "raw_body ms = concat (map chunk ms)"

definition body_guard ::
  "(string \<Rightarrow> bool) \<Rightarrow> nat \<Rightarrow> asgi_scope \<Rightarrow> asgi_message list \<Rightarrow> guard_outcome" where
  "body_guard json_ok max_bytes scope ms =
     (if scope_type scope \<noteq> ''http'' then Forwarded ms
      else case content_length max_bytes scope of
        Inl answer \<Rightarrow> answer
      | Inr expected \<Rightarrow>
          (case receive_body max_bytes ms 0 0 [] of
             Inl answer \<Rightarrow> answer
           | Inr (received, buffered) \<Rightarrow>
               if expected \<noteq> None \<and> expected \<noteq> Some received
               then Answered 400 ''Content-Length does not match request body''
               else if 1 < length (content_types scope) then Answered 400 ''invalid Content-Type''
               else if 0 < received \<and> looks_like_json (content_types scope) (raw_body buffered) \<and>
                       \<not> json_ok (raw_body buffered)
               then Answered 400 ''invalid JSON body''
               else Forwarded buffered))"

text \<open>The response of \<open>_send_error\<close>: status, headers and body.\<close>

definition send_error :: "nat \<Rightarrow> string \<Rightarrow> nat \<times> (string \<times> string) list \<times> string" where
  "send_error status detail =
     (let body = json_text True (\<lambda>_. []) (PDict [(''detail'', PStr detail)])
      in (status, [(''content-type'', ''application/json''), (''content-length'', decimal (length body))], body))"

text \<open>
  The nesting of \<open>app.py\<close>, outermost first: the origin guard, CORS (the third-party middleware
  \<open>cors\<close>, which may answer a preflight itself), the body guard, the host guard.
\<close>

definition guarded_request ::
  "(string \<Rightarrow> bool) \<Rightarrow> (asgi_scope \<Rightarrow> guard_outcome option) \<Rightarrow> asgi_scope \<Rightarrow> asgi_message list \<Rightarrow>
   guard_outcome" where
  "guarded_request json_ok cors scope ms =
     (case origin_guard trusted_ui_origins scope of
        Some answer \<Rightarrow> answer
      | None \<Rightarrow>
          (case cors scope of
             Some answer \<Rightarrow> answer
           | None \<Rightarrow>
               (case body_guard json_ok max_http_request_bytes scope ms of
                  Forwarded ms' \<Rightarrow>
                    (case host_guard False scope of Some answer \<Rightarrow> answer | None \<Rightarrow> Forwarded ms')
                | answer \<Rightarrow> answer)))"

section \<open>The body guard against its specification\<close>

text \<open>The request as a whole: its body messages up to the last one, if the client stays that long.\<close>

fun whole_body :: "asgi_message list \<Rightarrow> asgi_message list option" where
  "whole_body [] = None"
| "whole_body (Http_Disconnect # ms) = None"
| "whole_body (Other_Message # ms) = whole_body ms"
| "whole_body (Http_Request body again # ms) =
     (if again then map_option (Cons (Http_Request body again)) (whole_body ms)
      else Some [Http_Request body again])"

definition is_body :: "asgi_message \<Rightarrow> bool" where
  "is_body m = (case m of Http_Request _ _ \<Rightarrow> True | _ \<Rightarrow> False)"

lemma raw_body_simps [simp]: "raw_body [] = []" "raw_body (m # ms) = chunk m @ raw_body ms"
  by (simp_all add: raw_body_def)

lemma receive_body_Inr:
  "receive_body n ms t k buf = Inr (t', buf') \<longleftrightarrow>
    (\<exists>b. whole_body ms = Some b \<and> buf' = buf @ b \<and> t' = t + length (raw_body b) \<and>
      k + length b \<le> max_http_body_chunks \<and> t' \<le> n)"
proof (induction n ms t k buf rule: receive_body.induct)
  case (4 n body again ms t k buf)
  show ?case
  proof (cases "max_http_body_chunks < k + 1 \<or> n < t + length body \<or> \<not> again")
    case True
    then show ?thesis by auto
  next
    case False
    then show ?thesis using "4.IH" by auto
  qed
qed simp_all

lemma whole_body_shape:
  "whole_body ms = Some b \<Longrightarrow> b \<noteq> [] \<and> list_all is_body b \<and> list_all more_body (butlast b) \<and> \<not> more_body (last b)"
  by (induction ms arbitrary: b rule: whole_body.induct) (auto simp: is_body_def split: if_splits)

lemma receive_body_waiting:
  "k \<le> max_http_body_chunks \<Longrightarrow> t \<le> n \<Longrightarrow>
    receive_body n ms t k buf = Inl Waiting \<longleftrightarrow>
    Http_Disconnect \<notin> set ms \<and> k + length (filter is_body ms) \<le> max_http_body_chunks \<and>
    list_all more_body (filter is_body ms) \<and> t + length (raw_body (filter is_body ms)) \<le> n"
  by (induction n ms t k buf rule: receive_body.induct) (auto simp: is_body_def)

lemma receive_body_not_forwarded: "receive_body n ms t k buf \<noteq> Inl (Forwarded b)"
  by (induction n ms t k buf rule: receive_body.induct) auto

lemma content_length_not_forwarded:
  "content_length n scope \<noteq> Inl (Forwarded b)" "content_length n scope \<noteq> Inl Waiting"
  by (auto simp: content_length_def Let_def)

section \<open>The host grammar\<close>

lemma before_after_split:
  "v = before_char d v @ drop (length (before_char d v)) v"
  "drop (length (before_char d v)) v = [] \<or> hd (drop (length (before_char d v)) v) = d"
proof -
  have *: "drop (length (takeWhile (\<lambda>c. c \<noteq> d) v)) v = dropWhile (\<lambda>c. c \<noteq> d) v"
    by (simp add: dropWhile_eq_drop)
  show "v = before_char d v @ drop (length (before_char d v)) v"
    by (simp add: before_char_def *)
  show "drop (length (before_char d v)) v = [] \<or> hd (drop (length (before_char d v)) v) = d"
    unfolding before_char_def * using hd_dropWhile [of "\<lambda>c. c \<noteq> d" v] by blast
qed

lemma after_last_tail: "d \<notin> set t \<Longrightarrow> after_last d (s @ d # t) = t"
proof -
  assume "d \<notin> set t"
  then have "takeWhile (\<lambda>c. c \<noteq> d) (rev t) = rev t" by (auto simp: takeWhile_eq_all_conv)
  then show ?thesis by (simp add: after_last_def takeWhile_append \<open>d \<notin> set t\<close>)
qed

lemma drop_Cons_rest: "drop n v = c # t \<Longrightarrow> drop (n + 1) v = t"
  by (metis add.commute drop0 drop_Suc_Cons drop_drop One_nat_def)

lemma trusted_host_shape:
  assumes "trusted_host allow_test v"
  shows "\<exists>h p. v = h @ p \<and>
    casefold h \<in> set (''[::1]'' # loopback_hosts @ (if allow_test then test_hosts else [])) \<and>
    (p = [] \<or> (\<exists>d. p = CHR '':'' # d \<and> valid_port d))"
proof (cases "starts_with ''['' v")
  case True
  let ?d = "CHR '']''" let ?b = "before_char ?d v" let ?r = "drop (length ?b + 1) v"
  have in_v: "?d \<in> set v" and host: "casefold (take (length ?b + 1) v) = ''[::1]''"
    and rest: "?r = [] \<or> starts_with '':'' ?r"
    and port: "if drop 1 ?r = [] then CHR '':'' \<notin> set (after_last ?d v) else valid_port (drop 1 ?r)"
    using assms True by (auto simp: trusted_host_def Let_def before_char_def split: if_splits)
  have v: "v = take (length ?b + 1) v @ ?r" by simp
  show ?thesis
  proof (cases ?r)
    case Nil
    then show ?thesis using host by (intro exI [of _ v] exI [of _ "[]"]) simp
  next
    case (Cons c p)
    have c: "c = CHR '':''" using rest unfolding Cons by simp
    have "p \<noteq> []"
    proof
      assume "p = []"
      have "drop (length ?b) v \<noteq> []" using Cons by auto
      then have "drop (length ?b) v = ?d # ?r"
        using before_after_split(2) [of ?d v] drop_Cons_rest [of "length ?b" v]
        by (cases "drop (length ?b) v") auto
      then have "v = ?b @ ?d # [CHR '':'']"
        using before_after_split(1) [of v ?d] Cons c \<open>p = []\<close> by simp
      then have "after_last ?d v = [CHR '':'']" using after_last_tail [of ?d "[CHR '':'']" ?b] by simp
      with port \<open>p = []\<close> show False unfolding Cons by simp
    qed
    with port have "valid_port p" unfolding Cons by simp
    then have "casefold (take (length ?b + 1) v) = ''[::1]'' \<and> (\<exists>d. CHR '':'' # p = CHR '':'' # d \<and> valid_port d)"
      using host by simp
    with v show ?thesis unfolding Cons c
      by (intro exI [of _ "take (length ?b + 1) v"] exI [of _ "CHR '':'' # p"]) simp_all
  qed
next
  case False
  let ?d = "CHR '':''" let ?b = "before_char ?d v"
  have host: "casefold ?b \<in> set (loopback_hosts @ (if allow_test then test_hosts else []))"
    and port: "if drop (length ?b + 1) v = [] then \<not> ends_with '':'' v else valid_port (drop (length ?b + 1) v)"
    using assms False by (auto simp: trusted_host_def Let_def split: if_splits)
  show ?thesis
  proof (cases "drop (length ?b) v")
    case Nil
    then have "v = ?b" using before_after_split(1) [of v ?d] by simp
    then show ?thesis using host by (intro exI [of _ v] exI [of _ "[]"]) auto
  next
    case (Cons c p)
    have c: "c = ?d" using before_after_split(2) [of ?d v] Cons by simp
    have p: "p = drop (length ?b + 1) v" using drop_Cons_rest [OF Cons] by simp
    have v: "v = ?b @ ?d # p" using before_after_split(1) [of v ?d] Cons c by simp
    have "p \<noteq> []"
    proof
      assume "p = []"
      with v have "ends_with '':'' v" unfolding ends_with_iff by blast
      with port p \<open>p = []\<close> show False by simp
    qed
    with port p have "valid_port p" by simp
    with v host show ?thesis by (intro exI [of _ ?b] exI [of _ "?d # p"]) auto
  qed
qed

lemma body_guard_Forwarded:
  "body_guard json_ok n scope ms = Forwarded buf \<longleftrightarrow>
    (if scope_type scope \<noteq> ''http'' then buf = ms
     else whole_body ms = Some buf \<and> length buf \<le> 4096 \<and> length (raw_body buf) \<le> n \<and>
       content_length n scope \<in> {Inr None, Inr (Some (length (raw_body buf)))} \<and>
       length (content_types scope) \<le> 1 \<and>
       \<not> (raw_body buf \<noteq> [] \<and> looks_like_json (content_types scope) (raw_body buf) \<and> \<not> json_ok (raw_body buf)))"
proof (cases "scope_type scope = ''http''")
  case True
  show ?thesis
  proof (cases "content_length n scope")
    case (Inl e)
    then show ?thesis using True content_length_not_forwarded(1) by (auto simp: body_guard_def)
  next
    case (Inr expected)
    show ?thesis
    proof (cases "receive_body n ms 0 0 []")
      case (Inl e)
      then have "\<not> (\<exists>b. whole_body ms = Some b \<and> length b \<le> 4096 \<and> length (raw_body b) \<le> n)"
        using receive_body_Inr [of n ms 0 0 "[]"] by (auto simp: max_http_body_chunks_def)
      then show ?thesis
        using True Inr Inl receive_body_not_forwarded [of n ms 0 0 "[]" buf] by (auto simp: body_guard_def)
    next
      case (Inr r)
      obtain t b where r: "r = (t, b)" by (cases r)
      with Inr have b: "whole_body ms = Some b" "t = length (raw_body b)" "length b \<le> 4096" "t \<le> n"
        using receive_body_Inr [of n ms 0 0 "[]" t b] by (auto simp: max_http_body_chunks_def)
      then show ?thesis
        using True Inr r \<open>content_length n scope = Inr expected\<close> by (auto simp: body_guard_def)
    qed
  qed
qed (auto simp: body_guard_def)

section \<open>Properties\<close>



text \<open>
  Property C15. What reaches the routes: a forwarded HTTP request names exactly one host, a loopback
  name with an optional port between 1 and 65535; if it mutates, it carries no origin or exactly one
  allowlisted origin; and its body is one complete request body of at most 4 MiB.
\<close>

theorem forwarded_request_is_guarded:
  assumes "guarded_request json_ok cors scope ms = Forwarded buf" and "scope_type scope = ''http''"
    and "cors scope = None"
  shows "(\<exists>h p. header_values scope ''host'' = [h @ p] \<and> casefold h \<in> set (''[::1]'' # loopback_hosts) \<and>
      (p = [] \<or> (\<exists>d. p = CHR '':'' # d \<and> valid_port d))) \<and>
    (scope_method scope \<notin> set mutating_methods \<or> header_values scope ''origin'' = [] \<or>
     (\<exists>origin \<in> set trusted_ui_origins. header_values scope ''origin'' = [origin])) \<and>
    whole_body ms = Some buf \<and> length (raw_body buf) \<le> 4194304"
proof -
  have origin: "origin_guard trusted_ui_origins scope = None"
    and host: "host_guard False scope = None"
    and body: "body_guard json_ok max_http_request_bytes scope ms = Forwarded buf"
    using assms
    by (auto simp: guarded_request_def origin_guard_def host_guard_def Let_def
        split: option.splits guard_outcome.splits if_splits)
  have "length (header_values scope ''host'') = 1" "trusted_host False (hd (header_values scope ''host''))"
    using host assms(2) by (auto simp: host_guard_def Let_def split: if_splits)
  then have "\<exists>v. header_values scope ''host'' = [v] \<and> trusted_host False v"
    by (cases "header_values scope ''host''") auto
  moreover have "scope_method scope \<notin> set mutating_methods \<or> header_values scope ''origin'' = [] \<or>
     (\<exists>origin \<in> set trusted_ui_origins. header_values scope ''origin'' = [origin])"
    using origin assms(2)
    by (cases "header_values scope ''origin''") (auto simp: origin_guard_def Let_def split: if_splits)
  moreover have "whole_body ms = Some buf \<and> length (raw_body buf) \<le> 4194304"
    using body assms(2) by (simp add: body_guard_Forwarded max_http_request_bytes_def)
  ultimately show ?thesis using trusted_host_shape [of False] by fastforce
qed

definition example_scope :: asgi_scope where
  "example_scope =
     \<lparr>scope_type = ''http'', scope_method = ''POST'',
      headers = [(''Host'', ''localhost''), (''origin'', ''tauri://localhost'')]\<rparr>"

theorem forwarded_request_is_guarded_witness:
  "\<exists>h p. header_values example_scope ''host'' = [h @ p] \<and> casefold h \<in> set (''[::1]'' # loopback_hosts)"
proof -
  have *: "header_values example_scope ''host'' = [''localhost'']"
    "header_values example_scope ''origin'' = [''tauri://localhost'']"
    "header_values example_scope ''content-length'' = []" "content_types example_scope = []"
    "trusted_host False ''localhost''" "is_ascii ''tauri://localhost''" by code_simp+
  let ?ms = "[Http_Request ''a'' True, Other_Message, Http_Request ''b'' False]"
  have "body_guard (\<lambda>_. True) max_http_request_bytes example_scope ?ms =
      Forwarded [Http_Request ''a'' True, Http_Request ''b'' False]"
    unfolding body_guard_Forwarded using *(3,4)
    by (simp add: content_length_def example_scope_def max_http_request_bytes_def)
  moreover have "origin_guard trusted_ui_origins example_scope = None" "host_guard False example_scope = None"
    using * by (simp_all add: origin_guard_def host_guard_def trusted_ui_origins_def)
  ultimately have "guarded_request (\<lambda>_. True) (\<lambda>_. None) example_scope ?ms =
      Forwarded [Http_Request ''a'' True, Http_Request ''b'' False]"
    by (simp add: guarded_request_def)
  from forwarded_request_is_guarded [OF this] show ?thesis by (auto simp: example_scope_def)
qed

end
