(* ===== verification/Mcp_Gate.thy ===== *)
theory Mcp_Gate
  imports Credentials Harness_Events Request_Guards
begin

text \<open>
  The authentication of MCP callers in \<open>app.py\<close>: \<open>MCPTokenMiddleware\<close>, its resolution of a bearer to
  a principal, and the recheck of a session principal against live state. The Store's queries, SHA-256
  and the clock are parameters. A query that raises a \<open>ValueError\<close> (a blocked project identity is one)
  is \<open>Refused\<close>; any other exception is \<open>Down\<close>.
\<close>

datatype 'a query = Answer 'a | Refused | Down

record live_store =
  principal_by_digest :: "string \<Rightarrow> datetime \<Rightarrow> mcp_record option query"
  session_for_authority :: "string \<Rightarrow> harness_session option query"
  goal_for_authority :: "string \<Rightarrow> goal option query"
  has_goal_successor :: "string \<Rightarrow> bool query"
  project_binding_for :: "string \<Rightarrow> string query"

datatype mcp_resolution = Principal mcp_principal | No_Principal | Unavailable | Crashed string

datatype mcp_outcome = Unguarded | Admitted mcp_principal | Denied nat string | Unhandled string

section \<open>Rechecking a session principal\<close>

text \<open>\<open>is_desktop_observe_session\<close> of \<open>adapters/desktop.py\<close>.\<close>

definition is_desktop_observe_session :: "harness_session option \<Rightarrow> bool" where
  "is_desktop_observe_session s =
     (case s of
        None \<Rightarrow> False
      | Some t \<Rightarrow>
          vendor_session_id t = ''desktop'' \<or> dict_get (ses_metadata t) ''source'' = PStr ''desktop'' \<or>
          ends_with '':desktop'' (ses_id t))"

definition ask :: "'a query \<Rightarrow> ('a \<Rightarrow> mcp_resolution) \<Rightarrow> mcp_resolution" where
  "ask q f = (case q of Answer x \<Rightarrow> f x | Refused \<Rightarrow> No_Principal | Down \<Rightarrow> Unavailable)"

text \<open>\<open>session.project_id or session.cwd\<close> is \<open>None\<close>.\<close>

definition no_project :: "harness_session \<Rightarrow> bool" where
  "no_project s = (\<not> given (ses_project_id s) \<and> ses_cwd s = None)"

text \<open>The early returns on the session.\<close>

definition session_disagrees :: "mcp_principal \<Rightarrow> harness_session \<Rightarrow> bool" where
  "session_disagrees p s =
     (ses_status s = SS_DETACHED \<or>
      dict_get (ses_metadata s) ''not_live_control'' = PBool True \<or>
      truthy (dict_get (ses_metadata s) ''observe_only'') \<or>
      is_desktop_observe_session (Some s) \<or>
      ses_goal_id s \<noteq> mcp_goal_id p \<or> Some (vendor_session_id s) \<noteq> mcp_vendor_session_id p \<or>
      Some (ses_harness s) \<noteq> mcp_harness p \<or> \<not> set (scopes p) \<subseteq> set mcp_session_scopes)"

definition revalidate_project :: "live_store \<Rightarrow> mcp_principal \<Rightarrow> goal \<Rightarrow> string \<Rightarrow> mcp_resolution" where
  "revalidate_project store p goal project =
     ask (has_goal_successor store (goal_id goal)) (\<lambda>successor.
       if successor then No_Principal
       else ask (project_binding_for store project) (\<lambda>binding.
         if Some binding \<noteq> mcp_project_binding p then No_Principal else Principal p))"

definition revalidate_goal :: "live_store \<Rightarrow> mcp_principal \<Rightarrow> harness_session \<Rightarrow> mcp_resolution" where
  "revalidate_goal store p s =
     ask (if given (ses_goal_id s) then goal_for_authority store (text_or_empty (ses_goal_id s)) else Answer None)
       (\<lambda>g.
         case g of
           None \<Rightarrow> No_Principal
         | Some goal \<Rightarrow>
             if no_project s then No_Principal
             else (case mcp_project_id p of
                     None \<Rightarrow> No_Principal
                   | Some project \<Rightarrow> revalidate_project store p goal project))"

definition revalidate :: "live_store \<Rightarrow> mcp_principal \<Rightarrow> mcp_resolution" where
  "revalidate store p =
     (if kind p \<noteq> SESSION then No_Principal
      else case mcp_session_id p of
        None \<Rightarrow> No_Principal
      | Some sid \<Rightarrow>
          ask (session_for_authority store sid) (\<lambda>found.
            case found of
              None \<Rightarrow> No_Principal
            | Some s \<Rightarrow> if session_disagrees p s then No_Principal else revalidate_goal store p s))"

section \<open>Resolving a bearer\<close>

text \<open>\<open>secrets.compare_digest\<close> refuses strings with non-ASCII characters.\<close>

definition compare_digest :: "string \<Rightarrow> string \<Rightarrow> bool result" where
  "compare_digest a b = (if is_ascii a \<and> is_ascii b then Inr (a = b) else Inl ''TypeError'')"

text \<open>\<open>authorization.partition(" ")\<close>, when the scheme is \<open>bearer\<close>.\<close>

definition bearer :: "string \<Rightarrow> string option" where
  "bearer auth =
     (let scheme = before_char (CHR '' '') auth
      in if CHR '' '' \<notin> set auth \<or> casefold scheme \<noteq> ''bearer'' then None
         else Some (drop (length scheme + 1) auth))"

definition matches_token :: "string \<Rightarrow> string option \<Rightarrow> bool result" where
  "matches_token supplied token =
     (if text_or_empty token = [] then Inr False else compare_digest supplied (text_or_empty token))"

definition of_result :: "mcp_principal result \<Rightarrow> mcp_resolution" where
  "of_result r = (case r of Inl _ \<Rightarrow> No_Principal | Inr p \<Rightarrow> Principal p)"

definition session_principal ::
  "(string \<Rightarrow> string) \<Rightarrow> live_store \<Rightarrow> string option \<Rightarrow> datetime \<Rightarrow> string \<Rightarrow> mcp_resolution" where
  "session_principal digest store token now auth =
     (case bearer auth of
        None \<Rightarrow> No_Principal
      | Some supplied \<Rightarrow>
          if supplied = [] then No_Principal
          else case matches_token supplied token of
            Inl e \<Rightarrow> Crashed e
          | Inr True \<Rightarrow> of_result operator_principal
          | Inr False \<Rightarrow>
              (case digest_mcp_session_token digest (PStr supplied) of
                 Inl _ \<Rightarrow> No_Principal
               | Inr d \<Rightarrow>
                   ask (principal_by_digest store d now) (\<lambda>found.
                     case found of
                       None \<Rightarrow> No_Principal
                     | Some r \<Rightarrow>
                         (case mcp_from_store r now of
                            Inl _ \<Rightarrow> No_Principal
                          | Inr p \<Rightarrow> revalidate store p))))"

section \<open>The middleware\<close>

definition authorization_header :: "asgi_scope \<Rightarrow> string" where
  "authorization_header scope =
     (case header_values scope ''authorization'' of [] \<Rightarrow> [] | v # vs \<Rightarrow> v)"

definition admit :: "mcp_principal result \<Rightarrow> mcp_outcome" where
  "admit r = (case r of Inl e \<Rightarrow> Unhandled e | Inr p \<Rightarrow> Admitted p)"

definition mcp_gate ::
  "(string \<Rightarrow> string) \<Rightarrow> live_store \<Rightarrow> bool \<Rightarrow> string option \<Rightarrow> datetime \<Rightarrow> asgi_scope \<Rightarrow> mcp_outcome" where
  "mcp_gate digest store require_auth token now scope =
     (if scope_type scope \<noteq> ''http'' then Unguarded
      else
        let auth = authorization_header scope;
            resolved = session_principal digest store token now auth
        in if \<not> require_auth then
             (case resolved of
                Principal p \<Rightarrow> Admitted p
              | Crashed e \<Rightarrow> Unhandled e
              | _ \<Rightarrow> admit anonymous_principal)
           else case bearer auth of
             None \<Rightarrow> Denied 401 ''invalid token''
           | Some supplied \<Rightarrow>
               (case matches_token supplied token of
                  Inl e \<Rightarrow> Unhandled e
                | Inr True \<Rightarrow> admit operator_principal
                | Inr False \<Rightarrow>
                    (case resolved of
                       Principal p \<Rightarrow> Admitted p
                     | No_Principal \<Rightarrow> Denied 401 ''invalid token''
                     | Unavailable \<Rightarrow> Denied 503 ''bridge authentication is unavailable''
                     | Crashed e \<Rightarrow> Unhandled e)))"

text \<open>\<open>principal_from_scope\<close> over the admitted principal.\<close>

definition principal_from_scope :: "mcp_principal option \<Rightarrow> mcp_principal result" where
  "principal_from_scope p =
     (case p of None \<Rightarrow> Inl ''authenticated MCP principal is unavailable'' | Some q \<Rightarrow> Inr q)"

section \<open>Facts\<close>

lemma operator_ok:
  "operator_principal = Inr (bare_principal ''operator:bridge-token'' OPERATOR)"
  "anonymous_principal = Inr (bare_principal ''anonymous:local-mcp'' ANONYMOUS)"
  by (simp_all add: operator_principal_def anonymous_principal_def validate_principal_def bare_principal_def
      sized_option_def naive_time_def has_bindings_def)

text \<open>The live state a session principal must agree with.\<close>

definition live_principal :: "live_store \<Rightarrow> mcp_principal \<Rightarrow> bool" where
  "live_principal store p =
     (kind p = SESSION \<and>
      (\<exists>sid s goal project binding.
        mcp_session_id p = Some sid \<and> session_for_authority store sid = Answer (Some s) \<and>
        \<not> session_disagrees p s \<and> given (ses_goal_id s) \<and>
        goal_for_authority store (text_or_empty (ses_goal_id s)) = Answer (Some goal) \<and> \<not> no_project s \<and>
        mcp_project_id p = Some project \<and> has_goal_successor store (goal_id goal) = Answer False \<and>
        project_binding_for store project = Answer binding \<and> mcp_project_binding p = Some binding))"

text \<open>A resolution that is not \<open>No_Principal\<close> passed every early return.\<close>

lemma passed_if [simp]:
  "r \<noteq> No_Principal \<Longrightarrow> (if b then No_Principal else x) = r \<longleftrightarrow> \<not> b \<and> x = r"
  by simp

lemma passed_option [simp]:
  "r \<noteq> No_Principal \<Longrightarrow> (case o' of None \<Rightarrow> No_Principal | Some y \<Rightarrow> f y) = r \<longleftrightarrow> (\<exists>y. o' = Some y \<and> f y = r)"
  by (cases o') auto

lemma passed_result [simp]:
  "r \<noteq> No_Principal \<Longrightarrow> (case o' of Inl _ \<Rightarrow> No_Principal | Inr y \<Rightarrow> f y) = r \<longleftrightarrow> (\<exists>y. o' = Inr y \<and> f y = r)"
  by (cases o') auto

lemma passed_ask [simp]:
  "r \<notin> {No_Principal, Unavailable} \<Longrightarrow> ask q g = r \<longleftrightarrow> (\<exists>x. q = Answer x \<and> g x = r)"
  by (cases q) (auto simp: ask_def)

lemma of_result_iff [simp]:
  "of_result r = Principal p \<longleftrightarrow> r = Inr p" "of_result r \<noteq> Crashed e"
  by (cases r; simp add: of_result_def)+

lemma revalidate_goal_Principal:
  "revalidate_goal store p s = Principal q \<longleftrightarrow> q = p \<and>
    (\<exists>goal project binding. given (ses_goal_id s) \<and>
        goal_for_authority store (text_or_empty (ses_goal_id s)) = Answer (Some goal) \<and> \<not> no_project s \<and>
        mcp_project_id p = Some project \<and> has_goal_successor store (goal_id goal) = Answer False \<and>
        project_binding_for store project = Answer binding \<and> mcp_project_binding p = Some binding)"
  unfolding revalidate_goal_def revalidate_project_def
  by (cases "given (ses_goal_id s)") auto

lemma revalidate_Principal: "revalidate store p = Principal q \<longleftrightarrow> q = p \<and> live_principal store p"
  unfolding revalidate_def live_principal_def
  by (cases "kind p = SESSION"; cases "mcp_session_id p") (auto simp: revalidate_goal_Principal)

lemma revalidate_not_crashed: "revalidate store p \<noteq> Crashed e"
  unfolding revalidate_def revalidate_goal_def revalidate_project_def by auto

lemma matches_token_Inr:
  "matches_token supplied token = Inr True \<longleftrightarrow>
    token = Some supplied \<and> supplied \<noteq> [] \<and> is_ascii supplied"
  "matches_token supplied token = Inl e \<longleftrightarrow>
    e = ''TypeError'' \<and> text_or_empty token \<noteq> [] \<and> \<not> (is_ascii supplied \<and> is_ascii (text_or_empty token))"
  by (auto simp: matches_token_def compare_digest_def text_or_empty_def split: option.splits)

text \<open>An accepted session credential for the supplied token.\<close>

definition session_credential ::
  "(string \<Rightarrow> string) \<Rightarrow> live_store \<Rightarrow> datetime \<Rightarrow> string \<Rightarrow> mcp_principal \<Rightarrow> bool" where
  "session_credential digest store now supplied p =
     (session_token supplied \<and>
      (\<exists>r. principal_by_digest store (digest supplied) now = Answer (Some r) \<and> mcp_from_store r now = Inr p) \<and>
      live_principal store p)"

lemma session_principal_Principal:
  "session_principal digest store token now auth = Principal p \<longleftrightarrow>
    (\<exists>supplied. bearer auth = Some supplied \<and> supplied \<noteq> [] \<and>
      (matches_token supplied token = Inr True \<and> operator_principal = Inr p \<or>
       matches_token supplied token = Inr False \<and> session_credential digest store now supplied p))"
proof (cases "bearer auth")
  case (Some supplied)
  show ?thesis
  proof (cases "matches_token supplied token")
    case (Inr same)
    show ?thesis
      by (cases same)
        (auto simp: session_principal_def Some Inr session_credential_def digest_mcp_session_token_def
          revalidate_Principal)
  qed (simp add: session_principal_def Some)
qed (simp add: session_principal_def)

lemma session_principal_Crashed:
  "session_principal digest store token now auth = Crashed e \<longleftrightarrow>
    (\<exists>supplied. bearer auth = Some supplied \<and> supplied \<noteq> [] \<and> matches_token supplied token = Inl e)"
proof (cases "bearer auth")
  case (Some supplied)
  show ?thesis
  proof (cases "matches_token supplied token")
    case (Inr same)
    show ?thesis
      by (cases same)
        (auto simp: session_principal_def Some Inr digest_mcp_session_token_def revalidate_not_crashed)
  qed (simp add: session_principal_def Some)
qed (simp add: session_principal_def)

section \<open>Properties\<close>

text \<open>
  Property C22. With authentication required, an HTTP caller is admitted exactly as the operator, for the
  bridge token itself, or as the principal of a session token whose record is accepted at this instant
  and agrees with the live session, goal and project. The middleware fails with an unhandled exception
  exactly when the bridge has a token and the bearer or the token contains a non-ASCII character.
\<close>

theorem mcp_gate_admits_iff:
  "(mcp_gate digest store True token now scope = Admitted p \<longleftrightarrow>
     scope_type scope = ''http'' \<and>
     (\<exists>supplied. bearer (authorization_header scope) = Some supplied \<and>
       (matches_token supplied token = Inr True \<and> operator_principal = Inr p \<or>
        matches_token supplied token = Inr False \<and> session_credential digest store now supplied p))) \<and>
   (mcp_gate digest store True token now scope = Unhandled e \<longleftrightarrow>
     scope_type scope = ''http'' \<and>
     (\<exists>supplied. bearer (authorization_header scope) = Some supplied \<and> e = ''TypeError'' \<and>
       text_or_empty token \<noteq> [] \<and> \<not> (is_ascii supplied \<and> is_ascii (text_or_empty token))))"
proof (cases "bearer (authorization_header scope)")
  case (Some supplied)
  let ?r = "session_principal digest store token now (authorization_header scope)"
  have token: "session_credential digest store now supplied p \<Longrightarrow> supplied \<noteq> []" for p
    by (auto simp: session_credential_def session_token_def prefixed_def)
  show ?thesis
  proof (cases "matches_token supplied token")
    case (Inl e')
    then have "e' = ''TypeError'' \<and> text_or_empty token \<noteq> [] \<and>
        \<not> (is_ascii supplied \<and> is_ascii (text_or_empty token))"
      using matches_token_Inr(2) [of supplied token e'] by simp
    then show ?thesis using Some Inl by (auto simp: mcp_gate_def Let_def)
  next
    case (Inr same)
    then have ascii: "\<not> (text_or_empty token \<noteq> [] \<and> \<not> (is_ascii supplied \<and> is_ascii (text_or_empty token)))"
      using matches_token_Inr(2) [of supplied token] by (metis sum.distinct(1))
    have crash: "?r \<noteq> Crashed e"
      using session_principal_Crashed [of digest store token now "authorization_header scope" e] Some Inr by simp
    show ?thesis
    proof (cases same)
      case True
      then have "mcp_gate digest store True token now scope =
          (if scope_type scope \<noteq> ''http'' then Unguarded else admit operator_principal)"
        using Some Inr by (simp add: mcp_gate_def Let_def)
      then show ?thesis using Some Inr True ascii by (simp add: admit_def operator_ok)
    next
      case False
      have r: "?r = Principal p \<longleftrightarrow> session_credential digest store now supplied p"
        using session_principal_Principal [of digest store token now "authorization_header scope" p] Some Inr False
          token [of p] by auto
      have "mcp_gate digest store True token now scope =
          (if scope_type scope \<noteq> ''http'' then Unguarded
           else case ?r of
               Principal p \<Rightarrow> Admitted p
             | No_Principal \<Rightarrow> Denied 401 ''invalid token''
             | Unavailable \<Rightarrow> Denied 503 ''bridge authentication is unavailable''
             | Crashed e \<Rightarrow> Unhandled e)"
        using Some Inr False by (simp add: mcp_gate_def Let_def)
      then show ?thesis using Some Inr False ascii crash r by (cases ?r) simp_all
    qed
  qed
qed (simp add: mcp_gate_def Let_def)

text \<open>
  Property C9. Whatever the configuration, no caller is given more than the read scope without a live
  session credential: a principal that was admitted with any other scope is a session principal whose
  record is accepted, inside its lifetime, and whose session, goal and project are live now.
\<close>

theorem mcp_write_needs_live_session:
  assumes "mcp_gate digest store require_auth token now scope = Admitted p" and "has_scope p s" "s \<noteq> ''mcp:read''"
  shows "s \<in> set mcp_session_scopes \<and>
    (\<exists>supplied. bearer (authorization_header scope) = Some supplied \<and>
      session_credential digest store now supplied p) \<and>
    (\<exists>i e. lifetime p = Some (i, e) \<and> i \<le> as_utc now \<and> as_utc now < e)"
proof -
  let ?r = "session_principal digest store token now (authorization_header scope)"
  have "\<not> (admit operator_principal = Admitted p \<or> admit anonymous_principal = Admitted p \<or>
      operator_principal = Inr p)"
    using assms(2,3) by (auto simp: operator_ok admit_def has_scope_def bare_principal_def)
  then have "?r = Principal p" "\<not> operator_principal = Inr p"
    using assms(1)
    by (auto simp: mcp_gate_def Let_def split: if_splits option.splits sum.splits bool.splits mcp_resolution.splits)
  then obtain supplied where sup: "bearer (authorization_header scope) = Some supplied"
    "session_credential digest store now supplied p"
    using session_principal_Principal by blast
  then obtain r where "mcp_from_store r now = Inr p" "live_principal store p"
    by (auto simp: session_credential_def)
  then have "(\<exists>i e. lifetime p = Some (i, e) \<and> i \<le> as_utc now \<and> as_utc now < e)"
    "set (scopes p) \<subseteq> set mcp_session_scopes"
    by (auto simp: mcp_from_store_Inr live_principal_def session_disagrees_def)
  with sup assms(2) show ?thesis by (auto simp: has_scope_def)
qed

definition example_record :: mcp_record where
  "example_record =
     example_mcp_record\<lparr>record_principal :=
       (record_principal example_mcp_record)\<lparr>scopes := [''mcp:read'', ''pex.handoff'']\<rparr>\<rparr>"

definition example_live_session :: harness_session where
  "example_live_session =
     (new_session ''s'' HT_CODEX ''v'')\<lparr>ses_project_id := Some ''p'', ses_goal_id := Some ''g'',
      ses_status := SS_WORKING\<rparr>"

definition example_goal :: goal where
  "example_goal =
     \<lparr>goal_id = ''g'', goal_project_id = ''p'', title = ''t'', objective = ''o'', acceptance_criteria = [],
      constraints = [], preferences = [], forbidden_outcomes = [], non_goals = [], priority = 0, deadline = None,
      evidence_requirements = [], goal_created_at = Aware 0 0, goal_updated_at = Aware 0 0, supersedes = None,
      goal_paused = False, observation_only = False\<rparr>"

definition example_store :: live_store where
  "example_store =
     \<lparr>principal_by_digest = (\<lambda>_ _. Answer (Some example_record)),
      session_for_authority = (\<lambda>_. Answer (Some example_live_session)),
      goal_for_authority = (\<lambda>_. Answer (Some example_goal)), has_goal_successor = (\<lambda>_. Answer False),
      project_binding_for = (\<lambda>_. Answer example_binding)\<rparr>"

definition example_request :: asgi_scope where
  "example_request =
     \<lparr>scope_type = ''http'', scope_method = ''POST'',
      headers = [(''authorization'', ''bearer pex_mcp_'' @ replicate 64 (CHR ''a''))]\<rparr>"

theorem mcp_write_needs_live_session_witness:
  "\<exists>p. mcp_gate (\<lambda>t. t) example_store True None (Aware 5 0) example_request = Admitted p \<and>
     (\<exists>i e. lifetime p = Some (i, e) \<and> i \<le> 5 \<and> 5 < e)"
proof -
  let ?token = "''pex_mcp_'' @ replicate 64 (CHR ''a'')"
  have b: "valid_project_binding example_binding"
    by (simp add: valid_project_binding_def example_binding_def prefixed_def url_safe_char_def
        is_alnum_ascii_def is_alpha_ascii_def is_lower_ascii_def)
  then obtain p where p: "mcp_from_store example_record (Aware 5 0) = Inr p" "mcp_session_id p = Some ''s''"
    "mcp_goal_id p = Some ''g''" "mcp_vendor_session_id p = Some ''v''" "mcp_harness p = Some HT_CODEX"
    "mcp_project_id p = Some ''p''" "mcp_project_binding p = Some example_binding" "kind p = SESSION"
    "scopes p = [''mcp:read'', ''pex.handoff'']"
    by (simp add: mcp_from_store_def example_record_def example_mcp_record_def validate_project_binding_def
        validate_principal_def bare_principal_def sized_option_def lacks_binding_def lifetime_def to_utc_def
        naive_time_def mcp_session_scopes_def Let_def)
  have "live_principal example_store p"
    using p by (simp add: live_principal_def example_store_def example_live_session_def new_session_def session_disagrees_def
        is_desktop_observe_session_def ends_with_def mcp_session_scopes_def given_def text_or_empty_def
        no_project_def)
  moreover have "session_token ?token"
    by (simp add: session_token_def prefixed_def url_safe_char_def is_alnum_ascii_def is_alpha_ascii_def
        is_lower_ascii_def)
  ultimately have c: "session_credential (\<lambda>t. t) example_store (Aware 5 0) ?token p"
    using p(1) by (simp add: session_credential_def example_store_def)
  have "authorization_header example_request = ''bearer '' @ ?token"
    by (simp add: authorization_header_def header_values_def example_request_def ascii_lower_def
        ascii_lower_char_def is_upper_ascii_def)
  then have auth: "bearer (authorization_header example_request) = Some ?token"
    by (simp add: bearer_def before_char_def casefold_char_def lower_char_def is_upper_ascii_def)
  have m: "matches_token ?token None = Inr False" by (simp add: matches_token_def text_or_empty_def)
  with auth c have "session_principal (\<lambda>t. t) example_store None (Aware 5 0) (authorization_header example_request)
      = Principal p"
    using session_principal_Principal by blast
  with auth m have gate: "mcp_gate (\<lambda>t. t) example_store True None (Aware 5 0) example_request = Admitted p"
    by (simp add: mcp_gate_def example_request_def Let_def)
  have "has_scope p ''pex.handoff''" using p by (simp add: has_scope_def)
  from mcp_write_needs_live_session [OF gate this] gate show ?thesis by auto
qed

end
