(* ===== verification/Hook_Access.thy ===== *)
theory Hook_Access
  imports Mcp_Gate
begin

text \<open>
  The bearer checks of the HTTP routes in \<open>app.py\<close>: the operator token, the access of worker hooks, the
  binding of a hook payload to its session and project, and the authorization of a hook route. The
  Store's queries, the clock and SHA-256 are parameters, as in the theory of MCP authentication. An
  \<open>HTTPException\<close> is \<open>Http\<close> with its status; any other exception is \<open>Uncaught\<close>.
\<close>

datatype http_error = Http nat string | Uncaught string

type_synonym 'a http = "http_error + 'a"

definition then_http :: "'a http \<Rightarrow> ('a \<Rightarrow> 'b http) \<Rightarrow> 'b http" where
  "then_http r f = (case r of Inl e \<Rightarrow> Inl e | Inr x \<Rightarrow> f x)"

definition deny_if :: "bool \<Rightarrow> nat \<Rightarrow> string \<Rightarrow> unit http" where
  "deny_if bad status detail = (if bad then Inl (Http status detail) else Inr ())"

section \<open>The operator\<close>

text \<open>\<open>compare_digest\<close> raises outside any handler when a string is not ASCII.\<close>

definition compare_tokens :: "string \<Rightarrow> string \<Rightarrow> bool http" where
  "compare_tokens a b = (case compare_digest a b of Inl e \<Rightarrow> Inl (Uncaught e) | Inr same \<Rightarrow> Inr same)"

definition require_token :: "bool \<Rightarrow> string option \<Rightarrow> string option \<Rightarrow> unit http" where
  "require_token require_auth token auth =
     (if \<not> require_auth then Inr ()
      else then_http
        (deny_if (text_or_empty token = []) 503 ''bridge authentication is unavailable'') (\<lambda>_.
        case bearer (text_or_empty auth) of
          None \<Rightarrow> Inl (Http 401 ''invalid token'')
        | Some supplied \<Rightarrow>
            then_http (compare_tokens supplied (text_or_empty token)) (\<lambda>same.
              deny_if (\<not> same) 401 ''invalid token'')))"

record operator_evidence =
  evidence_principal :: string
  actor_assurance :: string

definition local_operator :: operator_evidence where
  "local_operator = \<lparr>evidence_principal = ''local_bridge_operator'', actor_assurance = ''bridge_bearer''\<rparr>"

definition require_operator_token ::
  "bool \<Rightarrow> bool \<Rightarrow> string option \<Rightarrow> string option \<Rightarrow> operator_evidence http" where
  "require_operator_token require_auth allow_unauthenticated token auth =
     (if \<not> require_auth then
        (if \<not> allow_unauthenticated
         then Inl (Http 403 ''operator mutations require bridge authentication'')
         else Inr local_operator)
      else then_http (require_token require_auth token auth) (\<lambda>_. Inr local_operator))"

definition goal_control_actor ::
  "bool \<Rightarrow> bool \<Rightarrow> string option \<Rightarrow> string option \<Rightarrow> operator_evidence option http" where
  "goal_control_actor require_auth allow_unauthenticated token auth =
     (if \<not> require_auth then Inr None
      else then_http (require_operator_token require_auth allow_unauthenticated token auth) (\<lambda>e. Inr (Some e)))"

section \<open>Hook credentials\<close>

type_synonym hook_record = "(string \<times> pyval) list"

text \<open>\<open>None\<close> is the operator, or any caller when authentication is off.\<close>

definition require_hook_access ::
  "(pyval \<Rightarrow> string) \<Rightarrow> (pyval \<Rightarrow> datetime option) \<Rightarrow> (string \<Rightarrow> string) \<Rightarrow>
   (string \<Rightarrow> datetime \<Rightarrow> hook_record option query) \<Rightarrow> bool \<Rightarrow> string option \<Rightarrow> datetime \<Rightarrow> string option \<Rightarrow>
   hook_principal option http" where
  "require_hook_access show parse_iso digest credential_by_digest require_auth token now auth =
     (if \<not> require_auth then Inr None
      else then_http
        (deny_if (text_or_empty token = []) 503 ''bridge authentication is unavailable'') (\<lambda>_.
        case bearer (text_or_empty auth) of
          None \<Rightarrow> Inl (Http 401 ''invalid token'')
        | Some supplied \<Rightarrow>
            then_http (compare_tokens supplied (text_or_empty token)) (\<lambda>same.
              if same then Inr None
              else case digest_hook_token show digest (PStr supplied) of
                Inl _ \<Rightarrow> Inl (Http 401 ''invalid token'')
              | Inr d \<Rightarrow>
                  (case credential_by_digest d now of
                     Refused \<Rightarrow> Inl (Http 401 ''invalid token'')
                   | Down \<Rightarrow> Inl (Http 503 ''bridge authentication is unavailable'')
                   | Answer None \<Rightarrow> Inl (Http 401 ''invalid token'')
                   | Answer (Some r) \<Rightarrow>
                       (case hook_from_store show parse_iso r now of
                          Inl _ \<Rightarrow> Inl (Http 401 ''invalid token'')
                        | Inr p \<Rightarrow> Inr (Some p))))))"

definition authorize_hook_route ::
  "(string \<Rightarrow> string query) \<Rightarrow> hook_principal option \<Rightarrow> string \<Rightarrow> harness_type \<Rightarrow>
   string option \<Rightarrow> string option \<Rightarrow> string option \<Rightarrow> unit http" where
  "authorize_hook_route binding_for caller route harness sid vendor project =
     (case caller of
        None \<Rightarrow> Inr ()
      | Some p \<Rightarrow>
          then_http
            (deny_if (\<not> authorizes p route \<or> hook_harness p \<noteq> harness) 403
              ''hook credential does not authorize this route'') (\<lambda>_.
          then_http
            (deny_if (is_bound p \<and> sid \<noteq> None \<and> hook_session_id p \<noteq> sid) 403
              ''hook credential session binding mismatch'') (\<lambda>_.
          then_http
            (deny_if (is_bound p \<and> vendor \<noteq> None \<and> hook_vendor_session_id p \<noteq> vendor) 403
              ''hook credential vendor session binding mismatch'') (\<lambda>_.
          case project of
            None \<Rightarrow> Inr ()
          | Some j \<Rightarrow>
              if \<not> is_bound p then Inr ()
              else (case binding_for j of
                      Answer live \<Rightarrow>
                        deny_if (live \<noteq> hook_project_binding p) 403 ''hook credential project binding mismatch''
                    | Refused \<Rightarrow> Inl (Http 403 ''hook credential project binding mismatch'')
                    | Down \<Rightarrow> Inl (Uncaught ''store''))))))"

section \<open>Hook payloads\<close>

text \<open>\<open>a or b\<close>.\<close>

definition either :: "pyval \<Rightarrow> pyval \<Rightarrow> pyval" where
  "either a b = (if truthy a then a else b)"

text \<open>\<open>roots[0] if isinstance(roots, list) and roots else other\<close>.\<close>

definition first_root :: "pyval \<Rightarrow> pyval \<Rightarrow> pyval" where
  "first_root roots other = (case roots of PList (r # rs) \<Rightarrow> r | _ \<Rightarrow> other)"

text \<open>The vendor identity and the project a payload names, for the harnesses with a scoped hook route.\<close>

definition hook_payload_values :: "harness_type \<Rightarrow> (string \<times> pyval) list \<Rightarrow> (pyval \<times> pyval) option" where
  "hook_payload_values harness payload =
     (let get = dict_get payload
      in case harness of
           HT_CURSOR \<Rightarrow> Some (get ''conversation_id'', first_root (get ''workspace_roots'') (get ''cwd''))
         | HT_CLAUDE_CODE \<Rightarrow>
             (let roots = either (get ''cwd'') (get ''workspace_roots'')
              in Some (either (either (get ''session_id'') (get ''conversation_id'')) (get ''sessionId''),
                       first_root roots roots))
         | HT_QWEN \<Rightarrow> Some (either (get ''session_id'') (get ''sessionId''), get ''cwd'')
         | HT_HERMES \<Rightarrow> Some (either (get ''session_id'') (get ''task_id''), get ''cwd'')
         | _ \<Rightarrow> None)"

definition max_id_chars :: nat where "max_id_chars = 512"
definition max_path_chars :: nat where "max_path_chars = 4096"

definition hook_payload_binding ::
  "harness_type \<Rightarrow> (string \<times> pyval) list \<Rightarrow> (string \<times> string option) http" where
  "hook_payload_binding harness payload =
     (case hook_payload_values harness payload of
        None \<Rightarrow> Inl (Http 403 ''harness has no scoped hook route'')
      | Some (PStr vendor, project) \<Rightarrow>
          if strip vendor = [] \<or> max_id_chars < length vendor \<or> (\<exists>c \<in> set vendor. is_control c)
          then Inl (Http 422 ''hook payload has no valid vendor session identity'')
          else (case project of
                  PNone \<Rightarrow> Inr (strip vendor, None)
                | PStr [] \<Rightarrow> Inr (strip vendor, None)
                | PStr j \<Rightarrow>
                    if strip j = [] \<or> max_path_chars < length j \<or> CHR 0x00 \<in> set j
                    then Inl (Http 422 ''hook payload has no valid project identity'')
                    else Inr (strip vendor, Some j)
                | _ \<Rightarrow> Inl (Http 422 ''hook payload has no valid project identity''))
      | Some _ \<Rightarrow> Inl (Http 422 ''hook payload has no valid vendor session identity''))"

text \<open>What binding a bootstrap credential to its first session does in the Store.\<close>

datatype bind_outcome = Bound hook_record | No_Permission string | Conflict string | Bind_Failed

definition hook_session :: "datetime \<Rightarrow> harness_type \<Rightarrow> string \<Rightarrow> string \<Rightarrow> harness_session" where
  "hook_session now harness vendor project =
     (new_session (harness_type_value harness @ '':'' @ vendor) harness vendor)
       \<lparr>ses_project_id := Some project, ses_cwd := Some project, ses_last_activity := Some now,
        ses_metadata := [(''source'', PStr ''authenticated_hook_bootstrap'')]\<rparr>"

definition authorize_hook_payload ::
  "(pyval \<Rightarrow> string) \<Rightarrow> (pyval \<Rightarrow> datetime option) \<Rightarrow> (string \<Rightarrow> string query) \<Rightarrow>
   (string \<Rightarrow> harness_session \<Rightarrow> bind_outcome) \<Rightarrow> datetime \<Rightarrow> hook_principal option \<Rightarrow> harness_type \<Rightarrow>
   (string \<times> pyval) list \<Rightarrow> hook_principal option http" where
  "authorize_hook_payload show parse_iso binding_for bind now caller harness payload =
     (case caller of
        None \<Rightarrow> Inr None
      | Some p \<Rightarrow>
          then_http (hook_payload_binding harness payload) (\<lambda>(vendor, project).
          then_http
            (authorize_hook_route binding_for caller (''hook:'' @ harness_type_value harness) harness
              (Some (harness_type_value harness @ '':'' @ vendor)) (Some vendor) project) (\<lambda>_.
          if is_bound p then Inr caller
          else case project of
            None \<Rightarrow> Inl (Http 403 ''bootstrap hook credential requires a project identity'')
          | Some j \<Rightarrow>
              (case bind (token_digest p) (hook_session now harness vendor j) of
                 Bound r \<Rightarrow>
                   (case hook_from_store show parse_iso r now of
                      Inl e \<Rightarrow> Inl (Http 409 e)
                    | Inr q \<Rightarrow> Inr (Some q))
               | No_Permission e \<Rightarrow> Inl (Http 403 e)
               | Conflict e \<Rightarrow> Inl (Http 409 e)
               | Bind_Failed \<Rightarrow> Inl (Uncaught ''store'')))))"

section \<open>Facts\<close>

lemma then_http_Inr: "then_http r f = Inr y \<longleftrightarrow> (\<exists>x. r = Inr x \<and> f x = Inr y)"
  by (cases r) (simp_all add: then_http_def)

lemma deny_if_Inr [simp]: "deny_if bad status detail = Inr u \<longleftrightarrow> \<not> bad"
  by (simp add: deny_if_def)

lemma compare_tokens_Inr: "compare_tokens a b = Inr same \<Longrightarrow> same = (a = b)"
  by (auto simp: compare_tokens_def compare_digest_def split: if_splits)

lemma require_hook_access_Inr:
  assumes "require_hook_access show parse_iso digest credential_by_digest True token now auth = Inr p"
  obtains supplied where "bearer (text_or_empty auth) = Some supplied" "text_or_empty token \<noteq> []"
    "(supplied = text_or_empty token \<and> p = None) \<or>
     (\<exists>d r q. p = Some q \<and> digest_hook_token show digest (PStr supplied) = Inr d \<and>
        credential_by_digest d now = Answer (Some r) \<and> hook_from_store show parse_iso r now = Inr q)"
proof (cases "bearer (text_or_empty auth)")
  case (Some supplied)
  have t: "text_or_empty token \<noteq> []"
    using assms by (auto simp: require_hook_access_def then_http_Inr)
  obtain same where same: "compare_tokens supplied (text_or_empty token) = Inr same"
    using assms Some by (auto simp: require_hook_access_def then_http_Inr)
  show thesis
  proof (cases same)
    case True
    with same have "supplied = text_or_empty token" using compare_tokens_Inr by blast
    moreover have "p = None" using assms Some same True by (auto simp: require_hook_access_def then_http_Inr)
    ultimately show thesis using that Some t by blast
  next
    case False
    with assms Some same t obtain d where "digest_hook_token show digest (PStr supplied) = Inr d"
      by (auto simp: require_hook_access_def then_http_Inr split: sum.splits)
    with assms Some same t False show thesis
      using that [OF Some t]
      by (auto simp: require_hook_access_def then_http_Inr split: query.splits option.splits sum.splits)
  qed
qed (use assms in \<open>simp add: require_hook_access_def then_http_Inr\<close>)

lemma authorize_hook_route_Inr:
  "authorize_hook_route binding_for (Some p) route harness (Some sid) (Some vendor) project = Inr u \<longleftrightarrow>
    authorizes p route \<and> hook_harness p = harness \<and>
    \<not> (is_bound p \<and> \<not> (hook_session_id p = Some sid \<and> hook_vendor_session_id p = Some vendor \<and>
      (case project of None \<Rightarrow> True | Some j \<Rightarrow> binding_for j = Answer (hook_project_binding p))))"
  by (cases project) (auto simp: authorize_hook_route_def then_http_Inr split: query.splits)

text \<open>The operator is recognised by the bridge token alone.\<close>

lemma require_token_Inr:
  "require_token require_auth token auth = Inr u \<longleftrightarrow>
    \<not> require_auth \<or> text_or_empty token \<noteq> [] \<and> is_ascii (text_or_empty token) \<and>
      bearer (text_or_empty auth) = Some (text_or_empty token)"
  by (auto simp: require_token_def then_http_Inr compare_tokens_def compare_digest_def split: option.splits if_splits)

section \<open>Properties\<close>

text \<open>
  Property C17. A worker hook acts only for itself: when authentication is required and a hook payload is
  accepted for a credential, that credential is active, belongs to the harness of the route and
  authorizes it. A bound credential accepts only the session, the vendor session and, if the payload names
  a project, the live project binding it was issued for; an unbound one needs a project and acts as what
  the Store bound it to.
\<close>

theorem hook_payload_is_bound:
  assumes "require_hook_access show parse_iso digest credential_by_digest True token now auth = Inr caller"
    and "authorize_hook_payload show parse_iso binding_for bind now' caller h payload = Inr (Some q)"
  shows "\<exists>p vendor project. caller = Some p \<and> as_utc (hook_issued_at p) \<le> as_utc now \<and>
    as_utc now < as_utc (hook_expires_at p) \<and> hook_harness p = h \<and>
    authorizes p (''hook:'' @ harness_type_value h) \<and>
    hook_payload_binding h payload = Inr (vendor, project) \<and>
    (if is_bound p
     then q = p \<and> hook_session_id p = Some (harness_type_value h @ '':'' @ vendor) \<and>
       hook_vendor_session_id p = Some vendor \<and>
       (case project of None \<Rightarrow> True | Some j \<Rightarrow> binding_for j = Answer (hook_project_binding p))
     else \<exists>j r. project = Some j \<and> bind (token_digest p) (hook_session now' h vendor j) = Bound r \<and>
       hook_from_store show parse_iso r now' = Inr q)"
proof -
  obtain p where p: "caller = Some p"
    using assms(2) by (cases caller) (simp_all add: authorize_hook_payload_def)
  obtain r where "hook_from_store show parse_iso r now = Inr p"
    by (rule require_hook_access_Inr [OF assms(1)]) (use p in auto)
  then have window: "as_utc (hook_issued_at p) \<le> as_utc now" "as_utc now < as_utc (hook_expires_at p)"
    using hook_from_store_window by blast+
  obtain vendor project where b: "hook_payload_binding h payload = Inr (vendor, project)"
    and route: "authorize_hook_route binding_for (Some p) (''hook:'' @ harness_type_value h) h
      (Some (harness_type_value h @ '':'' @ vendor)) (Some vendor) project = Inr ()"
    using assms(2) p by (auto simp: authorize_hook_payload_def then_http_Inr)
  show ?thesis
  proof (cases "is_bound p")
    case True
    then have "q = p" using assms(2) p b by (auto simp: authorize_hook_payload_def then_http_Inr)
    with True p b window route show ?thesis unfolding authorize_hook_route_Inr by auto
  next
    case False
    with assms(2) p b obtain j r where "project = Some j" "bind (token_digest p) (hook_session now' h vendor j) = Bound r"
      "hook_from_store show parse_iso r now' = Inr q"
      by (auto simp: authorize_hook_payload_def then_http_Inr split: option.splits bind_outcome.splits sum.splits)
    with False p b window route show ?thesis unfolding authorize_hook_route_Inr by auto
  qed
qed

definition example_payload :: "(string \<times> pyval) list" where
  "example_payload = [(''conversation_id'', PStr ''v''), (''workspace_roots'', PList [PStr ''/p''])]"

theorem hook_payload_is_bound_witness:
  "\<exists>q. authorize_hook_payload (\<lambda>_. []) example_iso (\<lambda>_. Refused) (\<lambda>_ _. Bound example_hook_record) (Aware 6 0)
     q HT_CURSOR example_payload = Inr q \<and> (\<exists>p. q = Some p \<and> hook_harness p = HT_CURSOR)"
proof -
  let ?token = "''pex_hook_'' @ replicate 64 (CHR ''a'')" let ?auth = "Some (''bearer '' @ ?token)"
  let ?store = "\<lambda>_ _. Answer (Some example_hook_record)"
  obtain p where p: "hook_from_store (\<lambda>_. []) example_iso example_hook_record (Aware 5 0) = Inr p"
    "as_utc (hook_expires_at p) = 10"
    using example_hook_accepted by blast
  have "as_utc (hook_issued_at p) \<le> 5" using hook_from_store_window [OF p(1)] by simp
  then have p6: "hook_from_store (\<lambda>_. []) example_iso example_hook_record (Aware 6 0) = Inr p"
    using hook_from_store_again [OF p(1), of "Aware 6 0"] p(2) by simp
  have "dict_get example_hook_record ''session_id'' = PNone" by (simp add: example_hook_record_def)
  then have unbound: "\<not> is_bound p"
    using p(1) unfolding hook_from_store_def bind_result_Inr_iff
    by (auto simp: is_bound_def optional_field_def)
  have harness: "hook_harness p = HT_CURSOR" "authorizes p ''hook:cursor''"
    using p(1) harness_type.parse_value [of HT_CURSOR] unfolding hook_from_store_def bind_result_Inr_iff
    by (auto simp: authorizes_def example_hook_record_def hook_routes_def)
  have bearer: "bearer (''bearer '' @ ?token) = Some ?token"
    by (simp add: bearer_def before_char_def casefold_char_def lower_char_def is_upper_ascii_def)
  have "hook_token ?token"
    by (simp add: hook_token_def prefixed_def url_safe_char_def is_alnum_ascii_def is_alpha_ascii_def is_lower_ascii_def)
  then have "digest_hook_token (\<lambda>_. []) (\<lambda>t. t) (PStr ?token) = Inr ?token"
    by (simp add: digest_hook_token_def str_or_empty_def)
  moreover have "compare_tokens ?token ''t'' = Inr False"
    by (simp add: compare_tokens_def compare_digest_def is_ascii_def)
  ultimately have access: "require_hook_access (\<lambda>_. []) example_iso (\<lambda>t. t) ?store True (Some ''t'') (Aware 5 0) ?auth
      = Inr (Some p)"
    using bearer p(1) by (simp add: require_hook_access_def then_http_def deny_if_def text_or_empty_def)
  have "strip ''v'' = ''v''" "strip ''/p'' = ''/p''" by code_simp+
  then have "hook_payload_binding HT_CURSOR example_payload = Inr (''v'', Some ''/p'')"
    by (simp add: hook_payload_binding_def hook_payload_values_def example_payload_def first_root_def
        max_id_chars_def max_path_chars_def is_control_def)
  then have ok: "authorize_hook_payload (\<lambda>_. []) example_iso (\<lambda>_. Refused) (\<lambda>_ _. Bound example_hook_record)
      (Aware 6 0) (Some p) HT_CURSOR example_payload = Inr (Some p)"
    using harness unbound p6 by (simp add: authorize_hook_payload_def then_http_Inr authorize_hook_route_Inr)
  from hook_payload_is_bound [OF access ok] ok show ?thesis by blast
qed

end
