(* ===== verification/Overlay_Runtime.thy ===== *)
theory Overlay_Runtime
  imports Overlay_Model Action_Model Harness_Events "HOL-Library.List_Lexorder" "HOL-Library.Product_Lexorder"
begin

text \<open>
  \<open>services/bridge/src/pex_bridge/overlay_runtime.py\<close>: the compilation of a session's durable overlays into
  the contract of the OpenCode plugin. \<open>show\<close> stands for \<open>repr\<close> of non-string values, \<open>stamp\<close> for
  \<open>datetime.isoformat\<close> and \<open>iter\<close> for the order in which Python iterates over a set of strings: tool names
  that agree up to case keep that order.
\<close>

definition max_active_overlays :: nat where "max_active_overlays = 64"
definition max_disabled_tools :: nat where "max_disabled_tools = 128"
definition max_plugin_string_chars :: nat where "max_plugin_string_chars = 128"
definition max_system_instructions_chars :: nat where "max_system_instructions_chars = 32768"

definition supported_metadata_keys :: "string list" where
  "supported_metadata_keys = [''phase'', ''pin'', ''fingerprint_overlay'']"

record compiled_runtime =
  runtime_active :: bool
  overlay_ids :: "string list"
  runtime_instructions :: string
  disabled_tools :: "string list"
  runtime_overlays :: "(string \<times> string option) list"

section \<open>Compilation\<close>

definition is_live :: "datetime \<Rightarrow> overlay \<Rightarrow> bool" where
  "is_live now v =
     (applied_at v \<noteq> None \<and> reverted_at v = None \<and> \<not> promoted v \<and> \<not> is_expired v now)"

definition timestamp_key :: "overlay \<Rightarrow> int \<times> string" where
  "timestamp_key v = ((case applied_at v of None \<Rightarrow> 0 | Some t \<Rightarrow> as_utc t), overlay_id v)"

definition active_overlays :: "overlay list \<Rightarrow> datetime \<Rightarrow> overlay list" where
  "active_overlays overlays now = sort_key timestamp_key (filter (is_live now) overlays)"

definition widens_runtime :: "overlay_diff \<Rightarrow> bool" where
  "widens_runtime d =
     (tools_enabled d \<noteq> None \<or> mcp_servers d \<noteq> None \<or> diff_model d \<noteq> None \<or> reasoning_effort d \<noteq> None \<or>
      permission_policy d \<noteq> None \<or> \<not> set (dict_keys (extra d)) \<subseteq> set supported_metadata_keys)"

definition overlay_block :: "(pyval \<Rightarrow> string) \<Rightarrow> overlay_diff \<Rightarrow> string list" where
  "overlay_block show d =
     (let instructions = strip (text_or_empty (system_instructions d));
          phase = strip (str_or_empty show (dict_get (extra d) ''phase''));
          pin = strip (str_or_empty show (dict_get (extra d) ''pin''))
      in (if instructions \<noteq> [] then [instructions] else [])
         @ (if phase \<noteq> [] then [''Current PEX work phase: '' @ phase @ ''.''] else [])
         @ (if pin \<noteq> [] then [''Pinned reproduction or evidence: '' @ pin] else []))"

fun add_tools :: "string list \<Rightarrow> string list \<Rightarrow> string list result" where
  "add_tools [] tools = Inr tools"
| "add_tools (raw # rs) tools =
     (let tool = strip raw
      in if tool = [] then add_tools rs tools
         else if max_plugin_string_chars < length tool
           then Inl ''OpenCode disabled tool name exceeds the plugin contract''
         else add_tools rs (if tool \<in> set tools then tools else tools @ [tool]))"

text \<open>The loop over the active overlays: blocks, the set of disabled tools, items.\<close>

fun compile_overlays ::
  "(pyval \<Rightarrow> string) \<Rightarrow> (datetime \<Rightarrow> string) \<Rightarrow> overlay list \<Rightarrow> string list \<Rightarrow> string list \<Rightarrow>
   (string \<times> string option) list \<Rightarrow> (string list \<times> string list \<times> (string \<times> string option) list) result" where
  "compile_overlays show stamp [] blocks tools items = Inr (blocks, tools, items)"
| "compile_overlays show stamp (v # vs) blocks tools items =
     (if max_plugin_string_chars < length (overlay_id v)
      then Inl ''OpenCode overlay id exceeds the plugin contract''
      else if widens_runtime (diff v) then Inl ''OpenCode overlay contains unsupported runtime fields''
      else bind_result (add_tools (case tools_disabled (diff v) of None \<Rightarrow> [] | Some names \<Rightarrow> names) tools) (\<lambda>tools'.
        if max_disabled_tools < length tools' then Inl ''OpenCode overlay runtime exceeds 128 disabled tools''
        else
          let block = overlay_block show (diff v)
          in compile_overlays show stamp vs
               (if block = [] then blocks else blocks @ [join [CHR 0x0A] block]) tools'
               (items @ [(overlay_id v, map_option stamp (expires_at v))])))"

definition compile_overlay_runtime ::
  "(pyval \<Rightarrow> string) \<Rightarrow> (datetime \<Rightarrow> string) \<Rightarrow> (string list \<Rightarrow> string list) \<Rightarrow> overlay list \<Rightarrow> datetime \<Rightarrow>
   compiled_runtime result" where
  "compile_overlay_runtime show stamp iter overlays now =
     (let active = active_overlays overlays now
      in if max_active_overlays < length active then Inl ''OpenCode overlay runtime exceeds 64 active overlays''
         else bind_result (compile_overlays show stamp active [] [] []) (\<lambda>(blocks, tools, items).
           let instructions = join [CHR 0x0A, CHR 0x0A] blocks
           in if max_system_instructions_chars < length instructions
              then Inl ''OpenCode overlay instructions exceed the plugin contract''
              else Inr \<lparr>runtime_active = (active \<noteq> []), overlay_ids = map overlay_id active,
                        runtime_instructions = instructions, disabled_tools = sort_key casefold (iter tools),
                        runtime_overlays = items\<rparr>))"

section \<open>Facts\<close>

lemma add_tools_Inr:
  "add_tools raws tools = Inr tools' \<Longrightarrow>
    set tools' = set tools \<union> (strip ` set raws - {[]}) \<and> (distinct tools \<longrightarrow> distinct tools')"
  by (induction raws tools rule: add_tools.induct) (auto simp: Let_def split: if_splits)

lemma compile_overlays_Inr:
  "compile_overlays show stamp vs blocks tools items = Inr (blocks', tools', items') \<Longrightarrow> distinct tools \<Longrightarrow>
    length tools \<le> 128 \<Longrightarrow>
    distinct tools' \<and> length tools' \<le> 128 \<and>
    set tools' = set tools \<union>
      (\<Union>v \<in> set vs. strip ` set (case tools_disabled (diff v) of None \<Rightarrow> [] | Some names \<Rightarrow> names) - {[]}) \<and>
    (\<forall>v \<in> set vs. \<not> widens_runtime (diff v))"
proof (induction "show" stamp vs blocks tools items rule: compile_overlays.induct)
  case (2 "show" stamp v vs blocks tools items)
  let ?raws = "case tools_disabled (diff v) of None \<Rightarrow> [] | Some names \<Rightarrow> names"
  obtain t where t: "add_tools ?raws tools = Inr t" "\<not> 128 < length t"
    using "2.prems"(1) by (auto simp: bind_result_Inr_iff max_disabled_tools_def split: if_splits)
  have s: "set t = set tools \<union> (strip ` set ?raws - {[]})" "distinct t"
    using add_tools_Inr [OF t(1)] "2.prems"(2) by blast+
  let ?block = "overlay_block show (diff v)"
  have "compile_overlays show stamp vs (if ?block = [] then blocks else blocks @ [join [CHR 0x0A] ?block]) t
      (items @ [(overlay_id v, map_option stamp (expires_at v))]) = Inr (blocks', tools', items')"
    and w: "\<not> max_plugin_string_chars < length (overlay_id v)" "\<not> widens_runtime (diff v)"
    using "2.prems"(1) t by (auto simp: max_disabled_tools_def Let_def split: if_splits)
  then show ?case
    using "2.IH" [OF w, of t] t(2) s by (auto simp: max_disabled_tools_def)
qed auto

lemma timestamp_key_inj: "distinct (map overlay_id vs) \<Longrightarrow> distinct (map timestamp_key vs)"
  by (auto simp: distinct_map inj_on_def timestamp_key_def)

lemma active_overlays_mset:
  assumes "mset vs = mset ws" "distinct (map overlay_id vs)"
  shows "active_overlays vs now = active_overlays ws now"
  unfolding active_overlays_def
proof (rule sort_key_mset_unique)
  show "mset (filter (is_live now) vs) = mset (filter (is_live now) ws)" using assms(1) by simp
  have "distinct (map overlay_id (filter (is_live now) vs))"
    using assms(2) by (simp add: distinct_map inj_on_def)
  then show "distinct (map timestamp_key (filter (is_live now) vs))" by (rule timestamp_key_inj)
qed

section \<open>Properties\<close>

definition tools_of :: "overlay \<Rightarrow> string set" where
  "tools_of v = strip ` set (case tools_disabled (diff v) of None \<Rightarrow> [] | Some names \<Rightarrow> names) - {[]}"



end
