(* ===== verification/Review_Authority.thy ===== *)
theory Review_Authority
  imports Main
begin

text \<open>
  \<open>services/supervisor/src/pex_supervisor/review_authority.py\<close>: the revocable authority of one human
  review. An authority is an object with an \<open>active\<close> flag, addressed by a number; the context variable
  \<open>_AUTHORITY\<close> gives every execution context its current authority. Copying a context, as a new thread or
  task does, copies the reference, so all copies share the flag. Contexts interleave freely: a system is
  a state and a relation of labelled steps.
\<close>

section \<open>States\<close>

text \<open>
  \<open>open_guards c\<close> are the \<open>review_invocation_guard\<close> blocks context \<open>c\<close> is in, innermost first, each with
  its authority and the value the context variable had before. \<open>pending c\<close> is the authority whose
  \<open>check\<close> callback context \<open>c\<close> is running.
\<close>

record review =
  next_id :: nat
  active :: "nat \<Rightarrow> bool"
  contexts :: "nat set"
  current :: "nat \<Rightarrow> nat option"
  open_guards :: "nat \<Rightarrow> (nat \<times> nat option) list"
  pending :: "nat \<Rightarrow> nat option"

definition initial :: review where
  "initial =
     \<lparr>next_id = 0, active = (\<lambda>_. False), contexts = {0}, current = (\<lambda>_. None), open_guards = (\<lambda>_. []),
      pending = (\<lambda>_. None)\<rparr>"

section \<open>Operations\<close>

text \<open>The two halves of \<open>review_invocation_guard\<close>.\<close>

definition enter_guard :: "review \<Rightarrow> nat \<Rightarrow> review" where
  "enter_guard s c =
     s\<lparr>next_id := next_id s + 1, active := (active s)(next_id s := True),
       current := (current s)(c := Some (next_id s)),
       open_guards := (open_guards s)(c := (next_id s, current s c) # open_guards s c)\<rparr>"

definition exit_guard :: "review \<Rightarrow> nat \<Rightarrow> nat \<Rightarrow> nat option \<Rightarrow> (nat \<times> nat option) list \<Rightarrow> review" where
  "exit_guard s c a old gs =
     s\<lparr>active := (active s)(a := False), current := (current s)(c := old),
       open_guards := (open_guards s)(c := gs)\<rparr>"

definition copy_context :: "review \<Rightarrow> nat \<Rightarrow> nat \<Rightarrow> review" where
  "copy_context s c d =
     s\<lparr>contexts := insert d (contexts s), current := (current s)(d := current s c),
       open_guards := (open_guards s)(d := []), pending := (pending s)(d := None)\<rparr>"

definition set_pending :: "review \<Rightarrow> nat \<Rightarrow> nat option \<Rightarrow> review" where
  "set_pending s c p = s\<lparr>pending := (pending s)(c := p)\<rparr>"

section \<open>Steps\<close>

datatype label =
    Enter nat
  | Exit nat
  | Copy nat nat
  | Unscoped nat
  | Ended nat nat
  | Start_Check nat nat
  | Failed_Check nat nat
  | Granted nat nat

text \<open>
  \<open>require_review_authority\<close> returns at once without an authority (\<open>Unscoped\<close>), raises for an inactive one
  (\<open>Ended\<close>), and otherwise runs the callback (\<open>Start_Check\<close>); while it runs, other contexts may step. It
  then raises if the callback did (\<open>Failed_Check\<close>) or if the authority is inactive by now (\<open>Ended\<close>), and
  returns otherwise (\<open>Granted\<close>).
\<close>

inductive step :: "review \<Rightarrow> label \<Rightarrow> review \<Rightarrow> bool" where
  enter: "c \<in> contexts s \<Longrightarrow> pending s c = None \<Longrightarrow> step s (Enter c) (enter_guard s c)"
| exit: "c \<in> contexts s \<Longrightarrow> pending s c = None \<Longrightarrow> open_guards s c = (a, old) # gs \<Longrightarrow>
    step s (Exit c) (exit_guard s c a old gs)"
| copy: "c \<in> contexts s \<Longrightarrow> d \<notin> contexts s \<Longrightarrow> step s (Copy c d) (copy_context s c d)"
| unscoped: "c \<in> contexts s \<Longrightarrow> pending s c = None \<Longrightarrow> current s c = None \<Longrightarrow> step s (Unscoped c) s"
| ended: "c \<in> contexts s \<Longrightarrow> pending s c = None \<Longrightarrow> current s c = Some a \<Longrightarrow> \<not> active s a \<Longrightarrow>
    step s (Ended c a) s"
| start: "c \<in> contexts s \<Longrightarrow> pending s c = None \<Longrightarrow> current s c = Some a \<Longrightarrow> active s a \<Longrightarrow>
    step s (Start_Check c a) (set_pending s c (Some a))"
| failed: "c \<in> contexts s \<Longrightarrow> pending s c = Some a \<Longrightarrow> step s (Failed_Check c a) (set_pending s c None)"
| revoked: "c \<in> contexts s \<Longrightarrow> pending s c = Some a \<Longrightarrow> \<not> active s a \<Longrightarrow>
    step s (Ended c a) (set_pending s c None)"
| granted: "c \<in> contexts s \<Longrightarrow> pending s c = Some a \<Longrightarrow> active s a \<Longrightarrow>
    step s (Granted c a) (set_pending s c None)"

inductive_cases grantedE: "step s (Granted c a) t"
inductive_cases exitE: "step s (Exit c) t"

inductive steps :: "review \<Rightarrow> label list \<Rightarrow> review \<Rightarrow> bool" where
  none: "steps s [] s"
| more: "steps s ls t \<Longrightarrow> step t l u \<Longrightarrow> steps s (ls @ [l]) u"

definition reachable :: "review \<Rightarrow> bool" where
  "reachable s = (\<exists>ls. steps initial ls s)"

lemmas review_simps =
  enter_guard_def exit_guard_def copy_context_def set_pending_def

section \<open>Invariants\<close>

definition opened :: "review \<Rightarrow> nat \<Rightarrow> nat list" where
  "opened s c = map fst (open_guards s c)"

text \<open>
  Authorities are allocated in order; the active ones are exactly those of open guards, each of one
  guard; a context outside the system has no guard; references point to allocated objects.
\<close>

definition well_formed :: "review \<Rightarrow> bool" where
  "well_formed s =
     ((\<forall>a. active s a = (\<exists>c. a \<in> set (opened s c))) \<and>
      (\<forall>a c. a \<in> set (opened s c) \<longrightarrow> a < next_id s \<and> c \<in> contexts s) \<and>
      (\<forall>c. distinct (opened s c)) \<and>
      (\<forall>c d. c \<noteq> d \<longrightarrow> set (opened s c) \<inter> set (opened s d) = {}))"

lemma well_formed_initial: "well_formed initial"
  by (simp add: well_formed_def initial_def opened_def)

lemma opened_simps:
  "opened (enter_guard s c) d = (if d = c then next_id s # opened s c else opened s d)"
  "open_guards s c = (a, old) # gs \<Longrightarrow>
     opened (exit_guard s c a old gs) d = (if d = c then tl (opened s c) else opened s d)"
  "opened (copy_context s c e) d = (if d = e then [] else opened s d)"
  "opened (set_pending s c p) d = opened s d"
  by (simp_all add: opened_def review_simps)

lemma well_formed_set_pending [simp]: "well_formed (set_pending s c p) = well_formed s"
  by (simp add: well_formed_def opened_def set_pending_def)

lemma step_well_formed: "step s l t \<Longrightarrow> well_formed s \<Longrightarrow> well_formed t"
proof (induction rule: step.induct)
  case (enter c s)
  then show ?case
    unfolding well_formed_def opened_simps by (auto simp: review_simps less_Suc_eq)
next
  case (exit c s a old gs)
  obtain xs where xs: "xs = map fst gs" by simp
  have o: "opened s c = a # xs" using exit by (simp add: opened_def xs)
  have t: "opened (exit_guard s c a old gs) d = (if d = c then xs else opened s d)" for d
    using opened_simps(2) [OF exit(3), of d] o by simp
  have act: "active (exit_guard s c a old gs) x = (x \<noteq> a \<and> (\<exists>d. x \<in> set (opened s d)))" for x
    using exit(4) by (simp add: review_simps well_formed_def)
  have own: "x \<in> set (opened s d) \<Longrightarrow> x \<in> set (opened s e) \<Longrightarrow> d = e" for x d e
    using exit(4) unfolding well_formed_def by blast
  have a: "a \<notin> set xs" "distinct xs" using exit(4) o unfolding well_formed_def by (metis distinct.simps(2))+
  have inside: "x \<in> set (opened s d) \<Longrightarrow> x < next_id s \<and> d \<in> contexts s" for x d
    using exit(4) unfolding well_formed_def by blast
  have sub: "set (if d = c then xs else opened s d) \<subseteq> set (opened s d)" for d using o by auto
  have owners: "x \<noteq> a \<and> (\<exists>d. x \<in> set (opened s d)) \<longleftrightarrow> (\<exists>d. x \<in> set (if d = c then xs else opened s d))" for x
  proof
    assume "x \<noteq> a \<and> (\<exists>d. x \<in> set (opened s d))"
    then obtain d where "x \<noteq> a" "x \<in> set (opened s d)" by blast
    then show "\<exists>d. x \<in> set (if d = c then xs else opened s d)" by (intro exI [of _ d]) (auto simp: o)
  next
    assume "\<exists>d. x \<in> set (if d = c then xs else opened s d)"
    then obtain d where d: "x \<in> set (if d = c then xs else opened s d)" by blast
    have "a \<in> set (opened s c)" using o by simp
    then have "x \<noteq> a" using d a(1) own [of a d c] by (cases "d = c") auto
    with d sub show "x \<noteq> a \<and> (\<exists>d. x \<in> set (opened s d))" by blast
  qed
  have disj: "\<forall>d e. d \<noteq> e \<longrightarrow>
      set (if d = c then xs else opened s d) \<inter> set (if e = c then xs else opened s e) = {}"
    using own sub by blast
  have dist: "distinct (if d = c then xs else opened s d)" for d
    using a(2) exit(4) by (simp add: well_formed_def)
  have same: "next_id (exit_guard s c a old gs) = next_id s" "contexts (exit_guard s c a old gs) = contexts s"
    by (simp_all add: review_simps)
  show ?case
    unfolding well_formed_def t act same
  proof (intro conjI)
    show "\<forall>x. (x \<noteq> a \<and> (\<exists>d. x \<in> set (opened s d))) = (\<exists>d. x \<in> set (if d = c then xs else opened s d))"
      using owners by blast
    show "\<forall>x d. x \<in> set (if d = c then xs else opened s d) \<longrightarrow> x < next_id s \<and> d \<in> contexts s"
      using inside sub by blast
  qed (use disj dist in blast)+
next
  case (copy c s d)
  have "x \<in> set (opened s e) \<Longrightarrow> e \<in> contexts s" for x e using copy(3) by (simp add: well_formed_def)
  then have "set (opened s d) = {}" using copy(2) by (intro equals0I) blast
  then have o: "opened (copy_context s c d) e = opened s e" for e by (simp add: opened_simps(3))
  have same: "active (copy_context s c d) = active s" "next_id (copy_context s c d) = next_id s"
    "contexts (copy_context s c d) = insert d (contexts s)"
    by (simp_all add: review_simps)
  show ?case using copy(3) unfolding well_formed_def o same by blast
qed simp_all

lemma steps_well_formed: "steps s ls t \<Longrightarrow> well_formed s \<Longrightarrow> well_formed t"
  by (induction rule: steps.induct) (simp_all add: step_well_formed)

lemma reachable_well_formed: "reachable s \<Longrightarrow> well_formed s"
  unfolding reachable_def using steps_well_formed well_formed_initial by blast

lemma granted_owner:
  assumes "well_formed s" "step s (Granted c a) t"
  shows "\<exists>!owner. a \<in> set (opened s owner)"
proof -
  have "active s a" using assms(2) by (rule grantedE)
  then obtain owner where owner: "a \<in> set (opened s owner)" using assms(1) by (auto simp: well_formed_def)
  then show ?thesis using assms(1) unfolding well_formed_def by blast
qed

text \<open>An allocated authority that is inactive stays so, and nothing is granted by it.\<close>

lemma step_inactive:
  "step s l t \<Longrightarrow> \<not> active s a \<Longrightarrow> a < next_id s \<Longrightarrow>
    \<not> active t a \<and> a < next_id t \<and> (\<forall>d. l \<noteq> Granted d a)"
  by (induction rule: step.induct) (auto simp: review_simps)

lemma steps_inactive:
  "steps s ls t \<Longrightarrow> \<not> active s a \<Longrightarrow> a < next_id s \<Longrightarrow>
    \<not> active t a \<and> a < next_id t \<and> (\<forall>d. Granted d a \<notin> set ls)"
proof (induction rule: steps.induct)
  case (more s ls t l u)
  then show ?case using step_inactive [OF more(2), of a] by auto
qed simp

section \<open>Properties\<close>

text \<open>
  Property C20. Once a review ends, its authority is revoked for good: however the contexts interleave,
  the authority that was active inside the guard that a context leaves grants nothing in any later
  step of any context, copies and checks in progress included; the context has its previous authority
  back; and the active authorities always are exactly those of the open guards.
\<close>

theorem ended_review_grants_nothing:
  assumes "reachable s" and "step s (Exit c) t" and "steps t ls u"
  shows "\<exists>a old gs. open_guards s c = (a, old) # gs \<and> active s a \<and> current t c = old \<and>
    (\<forall>d. Granted d a \<notin> set ls) \<and> \<not> active u a \<and>
    (\<forall>b. active u b = (\<exists>d. b \<in> fst ` set (open_guards u d)))"
proof -
  have wf: "well_formed s" using assms(1) by (rule reachable_well_formed)
  obtain a old gs where gs: "open_guards s c = (a, old) # gs" "t = exit_guard s c a old gs"
    using assms(2) by (auto elim: exitE)
  then have a: "a \<in> set (opened s c)" by (simp add: opened_def)
  with wf have "active s a" "a < next_id s" by (auto simp: well_formed_def)
  then have "\<not> active t a" "a < next_id t" "current t c = old" using gs by (simp_all add: review_simps)
  moreover have "well_formed u"
    using step_well_formed [OF assms(2) wf] steps_well_formed [OF assms(3)] by blast
  then have "\<forall>b. active u b = (\<exists>d. b \<in> fst ` set (open_guards u d))"
    by (simp add: well_formed_def opened_def)
  ultimately show ?thesis using gs(1) \<open>active s a\<close> steps_inactive [OF assms(3)] by blast
qed

text \<open>
  Context 0 enters a guard, context 1 is a copy and starts a check, context 0 leaves: the check ends in
  a refusal.
\<close>

definition example_before :: review where
  "example_before = set_pending (copy_context (enter_guard initial 0) 0 1) 1 (Some 0)"

definition example_after :: review where
  "example_after = exit_guard example_before 0 0 None []"

lemmas example_simps = example_before_def example_after_def review_simps initial_def

lemma example_reachable: "reachable example_before"
proof -
  have "steps initial [] initial" by (rule none)
  moreover have "step initial (Enter 0) (enter_guard initial 0)" by (rule enter) (simp_all add: initial_def)
  ultimately have "steps initial ([] @ [Enter 0]) (enter_guard initial 0)" by (rule more)
  moreover have "step (enter_guard initial 0) (Copy 0 1) (copy_context (enter_guard initial 0) 0 1)"
    by (rule copy) (simp_all add: example_simps)
  ultimately have "steps initial (([] @ [Enter 0]) @ [Copy 0 1]) (copy_context (enter_guard initial 0) 0 1)"
    by (rule more)
  moreover have "step (copy_context (enter_guard initial 0) 0 1) (Start_Check 1 0) example_before"
    unfolding example_before_def by (rule start) (simp_all add: example_simps)
  ultimately show ?thesis unfolding reachable_def by (blast intro: more)
qed

theorem ended_review_grants_nothing_witness:
  "\<not> active (set_pending example_after 1 None) 0 \<and> current example_after 0 = None"
proof -
  have exit: "step example_before (Exit 0) example_after"
    unfolding example_after_def by (rule step.exit) (simp_all add: example_simps)
  have "step example_after (Ended 1 0) (set_pending example_after 1 None)"
    by (rule revoked) (simp_all add: example_simps)
  then have "steps example_after ([] @ [Ended 1 0]) (set_pending example_after 1 None)"
    by (rule more [OF none])
  from ended_review_grants_nothing [OF example_reachable exit this] show ?thesis
    by (auto simp: example_simps)
qed

end
