(* ===== verification/Supervisor_Context.thy ===== *)
theory Supervisor_Context
  imports Harness_Events Project_Identity
begin

text \<open>
  \<open>packages/protocol/src/pex_protocol/supervisor.py\<close>, first half: the durable context a supervisor may
  see, bound to one session, project and goal, and the request that carries it. Each validator returns the
  error of the first check that fails. A request is built from its parts here, so the nested models are
  validated with it.
\<close>

section \<open>Identifiers and times\<close>

text \<open>\<open>unicodedata.category(char)\<close> starts with \<open>C\<close>: controls, and the soft hyphen.\<close>

definition category_c :: "char \<Rightarrow> bool" where
  "category_c c = (code c < 32 \<or> (127 \<le> code c \<and> code c < 160) \<or> code c = 173)"

definition bad_context_id :: "string \<Rightarrow> bool" where
  "bad_context_id v = (v \<noteq> strip v \<or> (\<exists>c \<in> set v. category_c c))"

definition bad_length :: "nat \<Rightarrow> nat \<Rightarrow> string \<Rightarrow> bool" where
  "bad_length lo hi v = (length v < lo \<or> hi < length v)"

text \<open>A string field with bounds whose value is an identifier: \<open>_ContextId\<close> has the bounds 1 and 512.\<close>

definition bad_identifier :: "nat \<Rightarrow> string \<Rightarrow> bool" where
  "bad_identifier hi v = (bad_length 1 hi v \<or> bad_context_id v)"

definition bad_optional :: "('a \<Rightarrow> bool) \<Rightarrow> 'a option \<Rightarrow> bool" where
  "bad_optional bad v = (case v of None \<Rightarrow> False | Some x \<Rightarrow> bad x)"

definition bad_identifiers :: "nat \<Rightarrow> nat \<Rightarrow> string list \<Rightarrow> bool" where
  "bad_identifiers most hi vs = (most < length vs \<or> (\<exists>v \<in> set vs. bad_identifier hi v) \<or> \<not> distinct vs)"

definition bad_unit :: "rat \<Rightarrow> bool" where
  "bad_unit q = (q < 0 \<or> 1 < q)"

section \<open>Context items and decisions\<close>

record context_item =
  ci_id :: string
  ci_project_id :: string
  ci_goal_id :: "string option"
  ci_kind :: context_kind
  ci_content :: string
  ci_content_truncated :: bool
  ci_semantic_kind :: "string option"
  ci_status :: string
  ci_source_refs :: "string list"
  ci_source_session_id :: "string option"
  ci_provenance :: source_kind
  ci_confidence :: rat
  ci_verified :: bool
  ci_relevance_tags :: "string list"
  ci_valid_from :: datetime
  ci_stale_after :: "datetime option"
  ci_supersedes :: "string option"
  ci_sensitivity :: sensitivity

definition validate_context_item :: "context_item \<Rightarrow> unit result" where
  "validate_context_item x =
     first_failure
       [(bad_identifier 512 (ci_id x), ''id''),
        (bad_identifier 4096 (ci_project_id x), ''project_id''),
        (bad_optional (bad_identifier 512) (ci_goal_id x), ''goal_id''),
        (bad_length 1 2000 (ci_content x), ''content''),
        (bad_optional (bad_identifier 80) (ci_semantic_kind x), ''semantic_kind''),
        (bad_identifier 80 (ci_status x), ''status''),
        (bad_identifiers 16 512 (ci_source_refs x), ''supervisor context source references must be unique''),
        (bad_optional (bad_identifier 512) (ci_source_session_id x), ''source_session_id''),
        (bad_unit (ci_confidence x), ''confidence''),
        (bad_identifiers 16 120 (ci_relevance_tags x), ''supervisor context relevance tags must be unique''),
        (bad_optional (bad_identifier 512) (ci_supersedes x), ''supersedes''),
        (ci_sensitivity x \<notin> {SEN_PUBLIC, SEN_INTERNAL}, ''sensitivity''),
        (\<not> is_aware (ci_valid_from x), ''supervisor context valid_from must be timezone-aware''),
        (ci_verified x \<and> ci_provenance x \<notin> {SK_TEST, SK_WORKSPACE},
           ''verified supervisor context requires test or workspace provenance''),
        (bad_optional (\<lambda>t. \<not> is_aware t) (ci_stale_after x),
           ''supervisor context stale_after must be timezone-aware''),
        (bad_optional (\<lambda>t. as_utc t \<le> as_utc (ci_valid_from x)) (ci_stale_after x),
           ''supervisor context stale_after must follow valid_from'')]"

record decision_item =
  di_id :: string
  di_kind :: string
  di_goal_id :: string
  di_statement :: string
  di_statement_truncated :: bool
  di_rationale :: string
  di_rationale_truncated :: bool
  di_alternatives_rejected :: "string list"
  di_alternatives_rejected_truncated :: bool
  di_scope :: string
  di_scope_truncated :: bool
  di_confidence :: rat
  di_source :: decision_source
  di_status :: decision_status
  di_created_at :: datetime
  di_source_refs :: "string list"
  di_source_session_id :: "string option"
  di_sensitivity :: sensitivity

definition validate_decision_item :: "decision_item \<Rightarrow> unit result" where
  "validate_decision_item x =
     first_failure
       [(bad_identifier 512 (di_id x), ''id''),
        (di_kind x \<notin> {''decision'', ''rejected_approach'', ''unresolved_question''}, ''kind''),
        (bad_identifier 512 (di_goal_id x), ''goal_id''),
        (bad_length 1 2000 (di_statement x), ''statement''),
        (bad_length 0 1000 (di_rationale x), ''rationale''),
        (12 < length (di_alternatives_rejected x) \<or>
           (\<exists>v \<in> set (di_alternatives_rejected x). bad_length 1 1000 v), ''alternatives_rejected''),
        (bad_length 0 500 (di_scope x), ''scope''),
        (bad_unit (di_confidence x), ''confidence''),
        (di_status x \<notin> {DST_ACTIVE, DST_UNCERTAIN}, ''status''),
        (\<not> is_aware (di_created_at x), ''supervisor decision created_at must be timezone-aware''),
        (bad_identifiers 16 512 (di_source_refs x), ''supervisor decision source references must be unique''),
        (bad_optional (bad_identifier 512) (di_source_session_id x), ''source_session_id''),
        (di_sensitivity x \<notin> {SEN_PUBLIC, SEN_INTERNAL}, ''sensitivity'')]"

section \<open>The envelope\<close>

record context_envelope =
  env_schema :: string
  env_target_session_id :: string
  env_project_id :: "string option"
  env_goal_id :: "string option"
  env_observed_at :: datetime
  env_context_items :: "context_item list"
  env_decisions :: "decision_item list"
  env_offered_context_ids :: "string list"
  env_offered_decision_ids :: "string list"

definition project_matches :: "string option \<Rightarrow> string option \<Rightarrow> bool" where
  "project_matches observed expected =
     (case (observed, expected) of
        (Some a, Some b) \<Rightarrow> project_binding_key a = project_binding_key b
      | _ \<Rightarrow> observed = None \<and> expected = None)"

definition check_envelope_item :: "context_envelope \<Rightarrow> context_item \<Rightarrow> unit result" where
  "check_envelope_item env x =
     first_failure
       [(\<not> project_matches (Some (ci_project_id x)) (env_project_id env),
           ''supervisor context item project identity mismatch''),
        (ci_goal_id x \<notin> {None, env_goal_id env}, ''supervisor context item goal identity mismatch''),
        (as_utc (env_observed_at env) < as_utc (ci_valid_from x) \<or>
           bad_optional (\<lambda>t. as_utc t \<le> as_utc (env_observed_at env)) (ci_stale_after x),
           ''supervisor context item is not valid at observation time'')]"

definition check_envelope_decision :: "context_envelope \<Rightarrow> decision_item \<Rightarrow> unit result" where
  "check_envelope_decision env x =
     first_failure
       [(Some (di_goal_id x) \<noteq> env_goal_id env, ''supervisor decision goal identity mismatch''),
        (as_utc (env_observed_at env) < as_utc (di_created_at x),
           ''supervisor decision postdates context observation'')]"

definition envelope_text :: "context_envelope \<Rightarrow> nat" where
  "envelope_text env =
     sum_list (map (\<lambda>x. length (ci_content x)) (env_context_items env)) +
     sum_list (map (\<lambda>x. length (di_statement x) + length (di_rationale x) +
                        sum_list (map length (di_alternatives_rejected x))) (env_decisions env))"

definition envelope_fields :: "context_envelope \<Rightarrow> unit result" where
  "envelope_fields env =
     first_failure
       [(env_schema env \<noteq> ''pex.supervisor-context.v1'', ''schema''),
        (bad_identifier 512 (env_target_session_id env), ''target_session_id''),
        (bad_optional (bad_identifier 4096) (env_project_id env), ''project_id''),
        (bad_optional (bad_identifier 512) (env_goal_id env), ''goal_id''),
        (32 < length (env_context_items env), ''context_items''),
        (24 < length (env_decisions env), ''decisions''),
        (bad_identifiers 32 512 (env_offered_context_ids env), ''supervisor context selection identifiers must be unique''),
        (bad_identifiers 24 512 (env_offered_decision_ids env), ''supervisor context selection identifiers must be unique'')]"

definition envelope_selection :: "context_envelope \<Rightarrow> unit result" where
  "envelope_selection env =
     first_failure
       [(\<not> is_aware (env_observed_at env), ''supervisor context observed_at must be timezone-aware''),
        (env_offered_context_ids env \<noteq> map ci_id (env_context_items env),
           ''supervisor offered context ids do not match context items''),
        (env_offered_decision_ids env \<noteq> map di_id (env_decisions env),
           ''supervisor offered decision ids do not match decisions''),
        ((env_project_id env = None \<or> env_goal_id env = None) \<and>
           (env_context_items env \<noteq> [] \<or> env_decisions env \<noteq> []),
           ''unbound supervisor context must be empty'')]"

definition validate_envelope :: "context_envelope \<Rightarrow> unit result" where
  "validate_envelope env =
     bind_result (map_result validate_context_item (env_context_items env)) (\<lambda>_.
     bind_result (map_result validate_decision_item (env_decisions env)) (\<lambda>_.
     bind_result (envelope_fields env) (\<lambda>_.
     bind_result (envelope_selection env) (\<lambda>_.
     bind_result (map_result (check_envelope_item env) (env_context_items env)) (\<lambda>_.
     bind_result (map_result (check_envelope_decision env) (env_decisions env)) (\<lambda>_.
     require (envelope_text env \<le> 48000)
       ''supervisor context text exceeds the aggregate size limit''))))))"

section \<open>The request\<close>

record trajectory_scores =
  drift :: rat
  stagnation :: rat
  premature_completion :: rat
  claim_contradiction :: rat
  score_features :: "(string \<times> pyval) list"

definition validate_scores :: "trajectory_scores \<Rightarrow> unit result" where
  "validate_scores s =
     first_failure
       [(bad_unit (drift s), ''drift''),
        (bad_unit (stagnation s), ''stagnation''),
        (bad_unit (premature_completion s), ''premature_completion''),
        (bad_unit (claim_contradiction s), ''claim_contradiction'')]"

record supervisor_request =
  rq_session :: harness_session
  rq_goal :: "goal option"
  rq_event :: harness_event
  rq_recent_events :: "harness_event list"
  rq_scores :: trajectory_scores
  rq_context :: "context_envelope option"
  rq_autonomy :: autonomy_level
  rq_trajectory_review_enabled :: bool
  rq_notes :: string

definition require_project_match :: "string option \<Rightarrow> string option \<Rightarrow> string \<Rightarrow> unit result" where
  "require_project_match observed expected label =
     (case observed of
        None \<Rightarrow> Inr ()
      | Some a \<Rightarrow> require (project_matches (Some a) expected) (label @ ''/session project identity mismatch''))"

definition event_binding :: "harness_session \<Rightarrow> string \<Rightarrow> harness_event \<Rightarrow> unit result" where
  "event_binding s label e =
     bind_result (require (ev_session_id e = ses_id s) (label @ ''/session identity mismatch'')) (\<lambda>_.
     bind_result (require (ev_harness e = ses_harness s) (label @ ''/session harness identity mismatch'')) (\<lambda>_.
       require_project_match (ev_project_id e) (ses_project_id s) label))"

definition goal_binding :: "harness_session \<Rightarrow> goal option \<Rightarrow> unit result" where
  "goal_binding s g =
     (case g of
        None \<Rightarrow> Inr ()
      | Some x \<Rightarrow>
          bind_result (require (ses_goal_id s = Some (goal_id x)) ''goal/session identity mismatch'') (\<lambda>_.
          bind_result (require (ses_project_id s \<noteq> None) ''goal/session project identity mismatch'') (\<lambda>_.
            require_project_match (Some (goal_project_id x)) (ses_project_id s) ''goal'')))"

definition context_binding :: "supervisor_request \<Rightarrow> unit result" where
  "context_binding r =
     (case rq_context r of
        None \<Rightarrow> Inr ()
      | Some env \<Rightarrow>
          first_failure
            [(env_target_session_id env \<noteq> ses_id (rq_session r), ''supervisor context/session identity mismatch''),
             (\<not> project_matches (env_project_id env) (ses_project_id (rq_session r)),
                ''supervisor context/session project identity mismatch''),
             (env_goal_id env \<noteq> map_option goal_id (rq_goal r),
                ''supervisor context/request goal identity mismatch'')])"

definition require_bound_identity :: "supervisor_request \<Rightarrow> unit result" where
  "require_bound_identity r =
     bind_result (event_binding (rq_session r) ''event'' (rq_event r)) (\<lambda>_.
     bind_result (map_result (event_binding (rq_session r) ''recent event'') (rq_recent_events r)) (\<lambda>_.
     bind_result (goal_binding (rq_session r) (rq_goal r)) (\<lambda>_.
       context_binding r)))"

definition validate_request :: "supervisor_request \<Rightarrow> unit result" where
  "validate_request r =
     bind_result (validate_scores (rq_scores r)) (\<lambda>_.
     bind_result (case rq_context r of None \<Rightarrow> Inr () | Some env \<Rightarrow> validate_envelope env) (\<lambda>_.
     bind_result (require (length (rq_recent_events r) \<le> 1000) ''recent_events'') (\<lambda>_.
     bind_result (require (length (rq_notes r) \<le> 65536) ''notes'') (\<lambda>_.
       require_bound_identity r))))"

section \<open>What a validated request binds\<close>

lemma map_result_member: "map_result f xs = Inr ys \<Longrightarrow> x \<in> set xs \<Longrightarrow> \<exists>y. f x = Inr y"
  by (metis in_set_conv_nth map_result_Inr_nth)

lemma bad_optional_simps [simp]: "bad_optional bad None = False" "bad_optional bad (Some x) = bad x"
  by (simp_all add: bad_optional_def)

lemma project_matches_iff:
  "project_matches a b \<longleftrightarrow> map_option project_binding_key a = map_option project_binding_key b"
  by (auto simp: project_matches_def split: option.splits)

lemma project_matches_trans: "project_matches a b \<Longrightarrow> project_matches b c \<Longrightarrow> project_matches a c"
  by (simp add: project_matches_iff)

lemma require_project_match_Inr [simp]:
  "require_project_match observed expected label = Inr u \<longleftrightarrow>
     observed = None \<or> project_matches observed expected"
  by (cases observed) (simp_all add: require_project_match_def)

definition event_bound :: "harness_session \<Rightarrow> harness_event \<Rightarrow> bool" where
  "event_bound s e =
     (ev_session_id e = ses_id s \<and> ev_harness e = ses_harness s \<and>
      (ev_project_id e = None \<or> project_matches (ev_project_id e) (ses_project_id s)))"

lemma event_binding_Inr [simp]: "event_binding s label e = Inr u \<longleftrightarrow> event_bound s e"
  by (auto simp: event_binding_def event_bound_def bind_result_Inr_iff)

lemma goal_binding_Inr:
  "goal_binding s (Some g) = Inr u \<Longrightarrow>
   ses_goal_id s = Some (goal_id g) \<and> project_matches (Some (goal_project_id g)) (ses_project_id s)"
  by (auto simp: goal_binding_def bind_result_Inr_iff)

text \<open>One context item, one decision, as a request for a goal may show them at a time.\<close>

definition visible_item :: "string option \<Rightarrow> string option \<Rightarrow> int \<Rightarrow> context_item \<Rightarrow> bool" where
  "visible_item project g now x =
     (project_matches (Some (ci_project_id x)) project \<and> (ci_goal_id x = None \<or> ci_goal_id x = g) \<and>
      as_utc (ci_valid_from x) \<le> now \<and> (case ci_stale_after x of None \<Rightarrow> True | Some t \<Rightarrow> now < as_utc t) \<and>
      ci_sensitivity x \<in> {SEN_PUBLIC, SEN_INTERNAL} \<and>
      \<not> (ci_verified x \<and> ci_provenance x \<notin> {SK_TEST, SK_WORKSPACE}))"

definition visible_decision :: "string option \<Rightarrow> int \<Rightarrow> decision_item \<Rightarrow> bool" where
  "visible_decision g now x =
     (g = Some (di_goal_id x) \<and> as_utc (di_created_at x) \<le> now \<and>
      di_status x \<noteq> DST_SUPERSEDED \<and> di_sensitivity x \<in> {SEN_PUBLIC, SEN_INTERNAL})"

lemma validated_envelope:
  assumes "validate_envelope env = Inr u"
  shows "x \<in> set (env_context_items env) \<Longrightarrow>
           visible_item (env_project_id env) (env_goal_id env) (as_utc (env_observed_at env)) x"
    and "y \<in> set (env_decisions env) \<Longrightarrow>
           visible_decision (env_goal_id env) (as_utc (env_observed_at env)) y"
    and "env_goal_id env = None \<Longrightarrow> env_context_items env = [] \<and> env_decisions env = []"
    and "envelope_text env \<le> 48000"
proof -
  from assms obtain us vs where
    items: "map_result validate_context_item (env_context_items env) = Inr us"
      "map_result (check_envelope_item env) (env_context_items env) = Inr vs"
    using assms unfolding validate_envelope_def bind_result_Inr_iff by blast
  from assms obtain us' vs' where
    decisions: "map_result validate_decision_item (env_decisions env) = Inr us'"
      "map_result (check_envelope_decision env) (env_decisions env) = Inr vs'"
    unfolding validate_envelope_def bind_result_Inr_iff by blast
  show "visible_item (env_project_id env) (env_goal_id env) (as_utc (env_observed_at env)) x"
    if "x \<in> set (env_context_items env)"
    using map_result_member [OF items(1) that] map_result_member [OF items(2) that]
    by (auto simp: validate_context_item_def check_envelope_item_def visible_item_def split: option.splits)
  show "visible_decision (env_goal_id env) (as_utc (env_observed_at env)) y" if "y \<in> set (env_decisions env)"
    using map_result_member [OF decisions(1) that] map_result_member [OF decisions(2) that]
    by (auto simp: validate_decision_item_def check_envelope_decision_def visible_decision_def)
  have "\<exists>w. envelope_selection env = Inr w"
    using assms unfolding validate_envelope_def bind_result_Inr_iff by blast
  then show "env_context_items env = [] \<and> env_decisions env = []" if "env_goal_id env = None"
    using that by (auto simp: envelope_selection_def)
  show "envelope_text env \<le> 48000"
    using assms unfolding validate_envelope_def bind_result_Inr_iff by auto
qed

text \<open>
  Property C19. A validated supervisor request is about one session: every event in it belongs to that session
  and harness and names no other project, a goal in it is the session's goal in the session's project, and the
  durable context it shows was selected for this session. Every context item shown belongs to this project and
  to this goal or to none, was valid when observed, is neither secret nor local-only, and counts as verified
  only with test or workspace provenance; every decision shown belongs to this goal, is not superseded and not
  younger than the observation. Without a goal, nothing is shown.
\<close>

theorem validated_request_is_bound:
  assumes "validate_request r = Inr u"
  shows "(\<forall>e \<in> set (rq_event r # rq_recent_events r). event_bound (rq_session r) e) \<and>
    (case rq_goal r of
       None \<Rightarrow> True
     | Some g \<Rightarrow> ses_goal_id (rq_session r) = Some (goal_id g) \<and>
         project_matches (Some (goal_project_id g)) (ses_project_id (rq_session r))) \<and>
    (case rq_context r of
       None \<Rightarrow> True
     | Some env \<Rightarrow>
         let g = map_option goal_id (rq_goal r); now = as_utc (env_observed_at env)
         in env_target_session_id env = ses_id (rq_session r) \<and>
            list_all (visible_item (ses_project_id (rq_session r)) g now) (env_context_items env) \<and>
            list_all (visible_decision g now) (env_decisions env) \<and>
            envelope_text env \<le> 48000 \<and>
            (if g = None then env_context_items env = [] \<and> env_decisions env = [] else True))"
proof -
  have bound: "\<exists>w. require_bound_identity r = Inr w"
    and env: "\<And>v. rq_context r = Some v \<Longrightarrow> \<exists>w. validate_envelope v = Inr w"
    using assms unfolding validate_request_def bind_result_Inr_iff by auto
  from bound have events: "event_bound (rq_session r) (rq_event r)"
    "\<And>e. e \<in> set (rq_recent_events r) \<Longrightarrow> event_bound (rq_session r) e"
    and g: "\<exists>w. goal_binding (rq_session r) (rq_goal r) = Inr w"
    and c: "\<exists>w. context_binding r = Inr w"
    unfolding require_bound_identity_def bind_result_Inr_iff by (auto dest: map_result_member)
  have shown: "env_target_session_id v = ses_id (rq_session r)"
    "project_matches (env_project_id v) (ses_project_id (rq_session r))"
    "env_goal_id v = map_option goal_id (rq_goal r)" if "rq_context r = Some v" for v
    using c that by (auto simp: context_binding_def)
  have item: "visible_item (ses_project_id (rq_session r)) (map_option goal_id (rq_goal r)) (as_utc (env_observed_at v)) x"
    if v: "rq_context r = Some v" and x: "x \<in> set (env_context_items v)" for v x
    using env [OF v] validated_envelope(1) [OF _ x] shown [OF v] project_matches_trans
    by (auto simp: visible_item_def)
  have decision: "visible_decision (map_option goal_id (rq_goal r)) (as_utc (env_observed_at v)) x"
    if v: "rq_context r = Some v" and x: "x \<in> set (env_decisions v)" for v x
    using env [OF v] validated_envelope(2) [OF _ x] shown [OF v] by auto
  have shown_context: "let g = map_option goal_id (rq_goal r); now = as_utc (env_observed_at v)
      in env_target_session_id v = ses_id (rq_session r) \<and>
         list_all (visible_item (ses_project_id (rq_session r)) g now) (env_context_items v) \<and>
         list_all (visible_decision g now) (env_decisions v) \<and> envelope_text v \<le> 48000 \<and>
         (if g = None then env_context_items v = [] \<and> env_decisions v = [] else True)"
    if v: "rq_context r = Some v" for v
    using env [OF v] shown [OF v] item [OF v] decision [OF v] validated_envelope(3,4) [of v]
    unfolding Let_def list_all_iff by auto
  from g have "case rq_goal r of
       None \<Rightarrow> True
     | Some g \<Rightarrow> ses_goal_id (rq_session r) = Some (goal_id g) \<and>
         project_matches (Some (goal_project_id g)) (ses_project_id (rq_session r))"
    by (auto split: option.split dest!: goal_binding_Inr)
  moreover have "\<forall>e \<in> set (rq_event r # rq_recent_events r). event_bound (rq_session r) e"
    using events by simp
  ultimately show ?thesis
    using shown_context by (cases "rq_context r") (simp_all only: option.case simp_thms)
qed

definition example_context_item :: context_item where
  "example_context_item =
     \<lparr>ci_id = ''c1'', ci_project_id = ''/p'', ci_goal_id = Some ''g'', ci_kind = CK_FACT, ci_content = ''fact'',
      ci_content_truncated = False, ci_semantic_kind = None, ci_status = ''active'', ci_source_refs = [''e1''],
      ci_source_session_id = None, ci_provenance = SK_TEST, ci_confidence = 1, ci_verified = True,
      ci_relevance_tags = [], ci_valid_from = Aware 0 0, ci_stale_after = None, ci_supersedes = None,
      ci_sensitivity = SEN_INTERNAL\<rparr>"

definition example_envelope :: context_envelope where
  "example_envelope =
     \<lparr>env_schema = ''pex.supervisor-context.v1'', env_target_session_id = ''s'', env_project_id = Some ''/p'',
      env_goal_id = Some ''g'', env_observed_at = Aware 5 0, env_context_items = [example_context_item],
      env_decisions = [], env_offered_context_ids = [''c1''], env_offered_decision_ids = []\<rparr>"

definition example_request :: supervisor_request where
  "example_request =
     \<lparr>rq_session = (new_session ''s'' HT_CODEX ''v'')\<lparr>ses_project_id := Some ''/p'', ses_goal_id := Some ''g''\<rparr>,
      rq_goal = Some (new_goal ''g'' ''/p'' ''Title'' ''Objective'' (Aware 0 0)),
      rq_event = (new_event ''e1'' (Aware 1 0) HT_CODEX ''s'' ET_STOP)\<lparr>ev_project_id := Some ''/p''\<rparr>,
      rq_recent_events = [],
      rq_scores = \<lparr>drift = 0, stagnation = 0, premature_completion = 0, claim_contradiction = 0,
                   score_features = []\<rparr>,
      rq_context = Some example_envelope, rq_autonomy = AL_MANAGE, rq_trajectory_review_enabled = False,
      rq_notes = []\<rparr>"

lemma example_identifiers:
  "bad_context_id ''c1'' = False" "bad_context_id ''/p'' = False" "bad_context_id ''g'' = False"
  "bad_context_id ''e1'' = False" "bad_context_id ''s'' = False" "bad_context_id ''active'' = False"
  by code_simp+

lemma example_item_valid: "validate_context_item example_context_item = Inr ()"
  by (simp add: validate_context_item_def example_context_item_def bad_identifier_def bad_identifiers_def
      bad_length_def bad_unit_def example_identifiers)

lemma example_envelope_valid: "validate_envelope example_envelope = Inr ()"
  by (simp add: validate_envelope_def example_envelope_def example_item_valid envelope_fields_def
      envelope_selection_def check_envelope_item_def envelope_text_def bad_identifier_def bad_identifiers_def
      bad_length_def project_matches_iff example_identifiers)
    (simp add: example_context_item_def)

lemma example_request_valid: "validate_request example_request = Inr ()"
  by (simp add: validate_request_def example_request_def example_envelope_valid validate_scores_def bad_unit_def
      require_bound_identity_def event_binding_def require_project_match_def goal_binding_def context_binding_def
      project_matches_iff new_session_def new_event_def new_goal_def)
    (simp add: example_envelope_def)

theorem validated_request_is_bound_witness:
  "visible_item (Some ''/p'') (Some ''g'') 5 example_context_item"
  using validated_request_is_bound [OF example_request_valid]
  by (simp add: example_request_def example_envelope_def new_session_def new_goal_def Let_def)

end
