(* ===== verification/Supervisor_Evidence.thy ===== *)
theory Supervisor_Evidence
  imports Supervisor_Context Action_Model Project_Locator
begin

text \<open>
  \<open>packages/protocol/src/pex_protocol/supervisor.py\<close>, second half: the observations an evidence tool returns
  to the supervisor, their binding to one invocation, the receipt of the independent verifier and the result
  of the supervisor. Parameters: \<open>loads\<close> is \<open>json.loads\<close> with the two hooks of the code (\<open>None\<close> when it
  raises: malformed text, a duplicate key, a non-finite constant), \<open>show_float\<close> is \<open>float.__repr__\<close>,
  \<open>sha\<close> the hex SHA-256 of a text, \<open>dump\<close> the JSON text pydantic gives an observation.
\<close>

section \<open>Observations\<close>

record observation =
  obs_schema :: string
  obs_id :: string
  obs_invocation_id :: string
  obs_stage :: string
  obs_request_digest :: string
  obs_session_id :: string
  obs_goal_id :: "string option"
  obs_event_id :: string
  obs_observed_at :: datetime
  obs_tool_name :: string
  obs_arguments_json :: string
  obs_output :: string
  obs_output_sha256 :: string

definition observation_fields :: "observation \<Rightarrow> unit result" where
  "observation_fields x =
     first_failure
       [(obs_schema x \<noteq> ''pex.supervisor-evidence-observation.v1'', ''schema''),
        (\<not> prefixed_hex ''pexobs_'' 32 (obs_id x), ''observation_id''),
        (bad_identifier 128 (obs_invocation_id x), ''invocation_id''),
        (obs_stage x \<notin> {''main'', ''verifier''}, ''stage''),
        (\<not> prefixed_hex [] 64 (obs_request_digest x), ''request_digest''),
        (bad_identifier 512 (obs_session_id x), ''session_id''),
        (bad_optional (bad_identifier 512) (obs_goal_id x), ''goal_id''),
        (bad_identifier 512 (obs_event_id x), ''event_id''),
        (bad_identifier 128 (obs_tool_name x), ''tool_name''),
        (bad_length 2 4096 (obs_arguments_json x), ''arguments_json''),
        (bad_length 2 9000 (obs_output x), ''output''),
        (\<not> prefixed_hex [] 64 (obs_output_sha256 x), ''output_sha256''),
        (\<not> is_aware (obs_observed_at x), ''evidence observation observed_at must be timezone-aware'')]"

text \<open>\<open>validate_shape\<close>: at most eight levels below the top, at most a hundred entries each.\<close>

fun first_error :: "unit result list \<Rightarrow> unit result" where
  "first_error [] = Inr ()"
| "first_error (r # rs) = (case r of Inl e \<Rightarrow> Inl e | Inr _ \<Rightarrow> first_error rs)"

fun validate_shape :: "nat \<Rightarrow> pyval \<Rightarrow> unit result" where
  "validate_shape depth (PDict kvs) =
     (if 8 < depth then Inl ''evidence observation JSON is too deeply nested''
      else if 100 < length kvs then Inl ''evidence observation JSON object is too wide''
      else first_error (map (\<lambda>kv. validate_shape (Suc depth) (snd kv)) kvs))"
| "validate_shape depth (PList vs) =
     (if 8 < depth then Inl ''evidence observation JSON is too deeply nested''
      else if 100 < length vs then Inl ''evidence observation JSON array is too wide''
      else first_error (map (validate_shape (Suc depth)) vs))"
| "validate_shape depth v =
     require (depth \<le> 8) ''evidence observation JSON is too deeply nested''"

fun is_dict :: "pyval \<Rightarrow> bool" where
  "is_dict (PDict _) = True"
| "is_dict _ = False"

definition exact_payload ::
  "(string \<Rightarrow> pyval option) \<Rightarrow> (rat \<Rightarrow> string) \<Rightarrow> (string \<Rightarrow> string) \<Rightarrow> observation \<Rightarrow> unit result" where
  "exact_payload loads show_float sha x =
     (case (loads (obs_arguments_json x), loads (obs_output x)) of
        (Some arguments, Some out) \<Rightarrow>
          bind_result (validate_shape 0 arguments) (\<lambda>_.
          bind_result (validate_shape 0 out) (\<lambda>_.
            first_failure
              [(\<not> is_dict arguments \<or> json_dumps False show_float arguments \<noteq> obs_arguments_json x,
                  ''evidence observation arguments must be a canonical JSON object''),
               (\<not> is_dict out \<or> dict_get (dict_or_empty out) ''pex_observation_id'' \<noteq> PStr (obs_id x),
                  ''evidence output must bind its observation identifier''),
               (obs_output_sha256 x \<noteq> sha (obs_output x),
                  ''evidence observation output hash mismatch'')]))
      | _ \<Rightarrow> Inl ''evidence observation payloads must be strict JSON'')"

definition validate_observation ::
  "(string \<Rightarrow> pyval option) \<Rightarrow> (rat \<Rightarrow> string) \<Rightarrow> (string \<Rightarrow> string) \<Rightarrow> observation \<Rightarrow> unit result" where
  "validate_observation loads show_float sha x =
     bind_result (observation_fields x) (\<lambda>_. exact_payload loads show_float sha x)"

section \<open>One invocation\<close>

definition max_evidence_observations :: nat where
  "max_evidence_observations = 24"

definition max_evidence_observation_bytes :: nat where
  "max_evidence_observation_bytes = 128 * 1024"

text \<open>The six values every observation of one invocation shares.\<close>

record binding =
  b_stage :: string
  b_request_digest :: string
  b_session_id :: string
  b_goal_id :: "string option"
  b_event_id :: string
  b_invocation_id :: string

definition carries :: "binding \<Rightarrow> observation \<Rightarrow> bool" where
  "carries b x =
     (obs_stage x = b_stage b \<and> obs_request_digest x = b_request_digest b \<and> obs_session_id x = b_session_id b \<and>
      obs_goal_id x = b_goal_id b \<and> obs_event_id x = b_event_id b \<and> obs_invocation_id x = b_invocation_id b)"

text \<open>The loop over the observations, with the identifiers seen and the bytes counted so far.\<close>

fun bind_observations ::
  "(observation \<Rightarrow> string) \<Rightarrow> binding \<Rightarrow> observation list \<Rightarrow> string list \<Rightarrow> nat \<Rightarrow> (string list \<times> nat) result" where
  "bind_observations dump b [] ids total_bytes = Inr (ids, total_bytes)"
| "bind_observations dump b (x # xs) ids total_bytes =
     (if obs_id x \<in> set ids then Inl ''evidence observation identifiers must be unique''
      else if \<not> carries b x then Inl ''evidence observation authority binding mismatch''
      else bind_observations dump b xs (obs_id x # ids) (total_bytes + length (dump x)))"

definition validate_bindings ::
  "(observation \<Rightarrow> string) \<Rightarrow> observation list \<Rightarrow> string list \<Rightarrow> binding \<Rightarrow> unit result" where
  "validate_bindings dump observations refs b =
     bind_result (require (length observations \<le> max_evidence_observations) ''too many evidence observations'') (\<lambda>_.
     bind_result (require (distinct refs) ''evidence observation references must be unique'') (\<lambda>_.
     bind_result (bind_observations dump b observations [] 0) (\<lambda>(ids, total_bytes).
       first_failure
         [(max_evidence_observation_bytes < total_bytes, ''evidence observations exceed the aggregate byte limit''),
          (\<not> set refs \<subseteq> set ids, ''evidence reference does not resolve to an observation'')])))"

text \<open>
  \<open>validate_observation_lineage\<close> and \<open>validate_main_observation_lineage\<close>: the invocation is the one of the
  receipt, the other values are those of the first observation.
\<close>

definition lineage ::
  "(observation \<Rightarrow> string) \<Rightarrow> string \<Rightarrow> string option \<Rightarrow> observation list \<Rightarrow> string list \<Rightarrow> unit result" where
  "lineage dump stage invocation observations refs =
     (case observations of
        [] \<Rightarrow> require (refs = []) (stage @ '' evidence refs require observations'')
      | x # _ \<Rightarrow>
          (case invocation of
             None \<Rightarrow> Inl (stage @ '' evidence observations require invocation identity'')
           | Some i \<Rightarrow>
               validate_bindings dump observations refs
                 \<lparr>b_stage = stage, b_request_digest = obs_request_digest x, b_session_id = obs_session_id x,
                  b_goal_id = obs_goal_id x, b_event_id = obs_event_id x, b_invocation_id = i\<rparr>))"

section \<open>The independent verifier\<close>

definition independent_verifier_evidence_tools :: "string list" where
  "independent_verifier_evidence_tools =
     [''get_context'', ''get_context_items'', ''get_decisions'', ''get_recent_events'', ''get_scores'',
      ''get_session_state'', ''inspect_acceptance'', ''inspect_workspace'', ''inspect_git'', ''inspect_file'',
      ''inspect_artifact'', ''inspect_process'', ''run_verification'']"

record verifier_receipt =
  vr_approved :: bool
  vr_status :: string
  vr_rationale :: string
  vr_evidence :: "string list"
  vr_evidence_tools :: "string list"
  vr_invocation_id :: "string option"
  vr_observations :: "observation list"
  vr_evidence_refs :: "string list"
  vr_model_call_count :: int
  vr_input_tokens :: int
  vr_output_tokens :: int
  vr_latency_ms :: int

definition bad_strings :: "nat \<Rightarrow> nat \<Rightarrow> string list \<Rightarrow> bool" where
  "bad_strings most hi vs = (most < length vs \<or> (\<exists>v \<in> set vs. hi < length v))"

definition bad_range :: "int \<Rightarrow> int \<Rightarrow> bool" where
  "bad_range hi i = (i < 0 \<or> hi < i)"

definition bad_refs :: "string list \<Rightarrow> bool" where
  "bad_refs refs = (20 < length refs \<or> (\<exists>v \<in> set refs. \<not> prefixed_hex ''pexobs_'' 32 v))"

definition verifier_fields :: "verifier_receipt \<Rightarrow> unit result" where
  "verifier_fields r =
     first_failure
       [(bad_length 1 120 (vr_status r), ''status''),
        (bad_length 0 2000 (vr_rationale r), ''rationale''),
        (bad_strings 20 1000 (vr_evidence r), ''evidence''),
        (bad_strings 20 128 (vr_evidence_tools r), ''evidence_tools''),
        (bad_optional (bad_length 1 128) (vr_invocation_id r), ''invocation_id''),
        (max_evidence_observations < length (vr_observations r), ''evidence_observations''),
        (bad_refs (vr_evidence_refs r), ''evidence_refs''),
        (bad_range 1000000 (vr_model_call_count r), ''model_call_count''),
        (bad_range 1000000000000 (vr_input_tokens r), ''input_tokens''),
        (bad_range 1000000000000 (vr_output_tokens r), ''output_tokens''),
        (bad_range 86400000 (vr_latency_ms r), ''latency_ms'')]"

definition validate_verifier_receipt ::
  "(string \<Rightarrow> pyval option) \<Rightarrow> (rat \<Rightarrow> string) \<Rightarrow> (string \<Rightarrow> string) \<Rightarrow> (observation \<Rightarrow> string) \<Rightarrow>
   verifier_receipt \<Rightarrow> unit result" where
  "validate_verifier_receipt loads show_float sha dump r =
     bind_result (map_result (validate_observation loads show_float sha) (vr_observations r)) (\<lambda>_.
     bind_result (verifier_fields r) (\<lambda>_.
       lineage dump ''verifier'' (vr_invocation_id r) (vr_observations r) (vr_evidence_refs r)))"

definition authorizes_intervention :: "verifier_receipt \<Rightarrow> bool" where
  "authorizes_intervention r =
     (vr_approved r \<and> vr_status r = ''approved'' \<and> 1 \<le> vr_model_call_count r \<and> vr_evidence_refs r \<noteq> [] \<and>
      vr_observations r \<noteq> [] \<and>
      (\<exists>x \<in> set (vr_observations r).
         obs_id x \<in> set (vr_evidence_refs r) \<and> obs_tool_name x \<in> set independent_verifier_evidence_tools))"

section \<open>The result of the supervisor\<close>

record supervisor_result =
  sr_action :: proposed_action
  sr_used_llm :: bool
  sr_model_name :: "string option"
  sr_diagnosis :: string
  sr_traces :: "string list"
  sr_input_tokens :: int
  sr_output_tokens :: int
  sr_latency_ms :: int
  sr_inference_request_id :: "string option"
  sr_local_invocation_id :: "string option"
  sr_inference_status :: string
  sr_model_call_count :: int
  sr_runtime :: "string option"
  sr_runtime_version :: "string option"
  sr_model_class :: "string option"
  sr_provider :: "string option"
  sr_base_url :: "string option"
  sr_auth_mode :: "string option"
  sr_config_fingerprint :: "string option"
  sr_evidence_tools :: "string list"
  sr_observations :: "observation list"
  sr_evidence_refs :: "string list"
  sr_independent_verifier :: "verifier_receipt option"
  sr_backend :: "string option"
  sr_execution_mode :: "string option"
  sr_transport :: "string option"
  sr_transport_invocation_id :: "string option"
  sr_transport_request_id :: "string option"
  sr_transport_status :: string

definition result_fields :: "supervisor_result \<Rightarrow> unit result" where
  "result_fields r =
     first_failure
       [(256 < length (sr_traces r), ''traces''),
        (sr_input_tokens r < 0, ''input_tokens''),
        (sr_output_tokens r < 0, ''output_tokens''),
        (sr_latency_ms r < 0, ''latency_ms''),
        (sr_inference_status r \<notin> {''not_attempted'', ''completed'', ''failed'', ''timeout''}, ''inference_status''),
        (sr_model_call_count r < 0, ''model_call_count''),
        (bad_optional (\<lambda>v. \<not> prefixed_hex [] 64 v) (sr_config_fingerprint r), ''config_fingerprint''),
        (128 < length (sr_evidence_tools r), ''evidence_tools''),
        (max_evidence_observations < length (sr_observations r), ''evidence_observations''),
        (bad_refs (sr_evidence_refs r), ''evidence_refs''),
        (sr_transport_status r \<notin> {''not_attempted'', ''completed'', ''failed''}, ''transport_status'')]"

definition validate_result ::
  "(string \<Rightarrow> pyval option) \<Rightarrow> (rat \<Rightarrow> string) \<Rightarrow> (string \<Rightarrow> string) \<Rightarrow> (observation \<Rightarrow> string) \<Rightarrow>
   supervisor_result \<Rightarrow> unit result" where
  "validate_result loads show_float sha dump r =
     bind_result (validate_action (sr_action r)) (\<lambda>_.
     bind_result (map_result (validate_observation loads show_float sha) (sr_observations r)) (\<lambda>_.
     bind_result (case sr_independent_verifier r of None \<Rightarrow> Inr ()
                  | Some v \<Rightarrow> validate_verifier_receipt loads show_float sha dump v) (\<lambda>_.
     bind_result (result_fields r) (\<lambda>_.
       lineage dump ''main'' (sr_local_invocation_id r) (sr_observations r) (sr_evidence_refs r)))))"

section \<open>Lineage\<close>

lemma first_error_Inr [simp]: "first_error rs = Inr u \<longleftrightarrow> (\<forall>r \<in> set rs. r = Inr ())"
  by (induction rs) (auto split: sum.splits)

lemma bind_observations_Inr:
  "bind_observations dump b xs ids n = Inr (ids', n') \<longleftrightarrow>
     distinct (map obs_id xs) \<and> set (map obs_id xs) \<inter> set ids = {} \<and> (\<forall>x \<in> set xs. carries b x) \<and>
     ids' = rev (map obs_id xs) @ ids \<and> n' = n + sum_list (map (\<lambda>x. length (dump x)) xs)"
proof (induction xs arbitrary: ids n)
  case (Cons x xs)
  show ?case by (auto simp: Cons.IH)
qed auto

text \<open>The observations of one invocation: an exact account of what the check accepts.\<close>

definition one_invocation ::
  "(observation \<Rightarrow> string) \<Rightarrow> binding \<Rightarrow> observation list \<Rightarrow> string list \<Rightarrow> bool" where
  "one_invocation dump b xs refs =
     (length xs \<le> 24 \<and> distinct (map obs_id xs) \<and> distinct refs \<and> set refs \<subseteq> set (map obs_id xs) \<and>
      (\<forall>x \<in> set xs. carries b x) \<and> sum_list (map (\<lambda>x. length (dump x)) xs) \<le> 131072)"

lemma validate_bindings_iff:
  "validate_bindings dump xs refs b = Inr u \<longleftrightarrow> one_invocation dump b xs refs"
  unfolding validate_bindings_def one_invocation_def bind_result_Inr_iff
  by (auto simp: bind_observations_Inr max_evidence_observations_def max_evidence_observation_bytes_def)

lemma lineage_Inr:
  assumes "lineage dump stage invocation xs refs = Inr u" "xs \<noteq> []"
  obtains b where "one_invocation dump b xs refs" "b_stage b = stage" "invocation = Some (b_invocation_id b)"
  using assms by (auto simp: lineage_def validate_bindings_iff split: list.splits option.splits)

text \<open>What one accepted observation says of itself.\<close>

definition authentic ::
  "(string \<Rightarrow> pyval option) \<Rightarrow> (rat \<Rightarrow> string) \<Rightarrow> (string \<Rightarrow> string) \<Rightarrow> observation \<Rightarrow> bool" where
  "authentic loads show_float sha x =
     (obs_output_sha256 x = sha (obs_output x) \<and>
      (case loads (obs_output x) of
         Some (PDict d) \<Rightarrow> dict_get d ''pex_observation_id'' = PStr (obs_id x)
       | _ \<Rightarrow> False) \<and>
      (case loads (obs_arguments_json x) of
         Some (PDict d) \<Rightarrow> json_dumps False show_float (PDict d) = obs_arguments_json x
       | _ \<Rightarrow> False))"

lemma is_dict_iff: "is_dict v \<longleftrightarrow> (\<exists>d. v = PDict d)"
  by (cases v) simp_all

lemma validate_observation_authentic:
  assumes "validate_observation loads show_float sha x = Inr u"
  shows "authentic loads show_float sha x"
proof -
  from assms obtain w where "exact_payload loads show_float sha x = Inr w"
    by (auto simp: validate_observation_def bind_result_Inr_iff)
  then show ?thesis
    by (auto simp: exact_payload_def authentic_def bind_result_Inr_iff is_dict_iff split: option.splits)
qed

text \<open>
  Property C18. A verifier receipt that passed validation and authorizes an intervention rests on evidence: it is
  approved by at least one model call and cites, without repetition, only observations it carries; one of the
  cited ones comes from a read-only evidence tool. All observations it carries were made by one verifier
  invocation, the one the receipt names, for one request, session, goal and event; each has its own identifier,
  its recorded hash is that of its output, the output names the observation, and its arguments are in canonical
  form. Together they stay within 24 observations and 128 KiB.
\<close>

theorem verifier_authority_rests_on_evidence:
  assumes "validate_verifier_receipt loads show_float sha dump r = Inr u" "authorizes_intervention r"
  shows "\<exists>b cited. one_invocation dump b (vr_observations r) (vr_evidence_refs r) \<and>
    b_stage b = ''verifier'' \<and> vr_invocation_id r = Some (b_invocation_id b) \<and>
    list_all (authentic loads show_float sha) (vr_observations r) \<and>
    cited \<in> set (vr_observations r) \<and> obs_id cited \<in> set (vr_evidence_refs r) \<and>
    obs_tool_name cited \<in> set independent_verifier_evidence_tools \<and>
    vr_approved r \<and> vr_status r = ''approved'' \<and> 1 \<le> vr_model_call_count r"
proof -
  from assms(1) have checked: "\<exists>ys. map_result (validate_observation loads show_float sha) (vr_observations r) = Inr ys"
    and line: "lineage dump ''verifier'' (vr_invocation_id r) (vr_observations r) (vr_evidence_refs r) = Inr u"
    by (auto simp: validate_verifier_receipt_def bind_result_Inr_iff)
  from assms(2) obtain cited where cited: "cited \<in> set (vr_observations r)"
    "obs_id cited \<in> set (vr_evidence_refs r)" "obs_tool_name cited \<in> set independent_verifier_evidence_tools"
    by (auto simp: authorizes_intervention_def)
  from line obtain b where "one_invocation dump b (vr_observations r) (vr_evidence_refs r)"
    "b_stage b = ''verifier''" "vr_invocation_id r = Some (b_invocation_id b)"
    using lineage_Inr cited(1) by (metis empty_iff empty_set)
  moreover have "list_all (authentic loads show_float sha) (vr_observations r)"
    using checked validate_observation_authentic unfolding list_all_iff by (metis map_result_member)
  ultimately show ?thesis
    using cited assms(2) by (auto simp: authorizes_intervention_def)
qed

definition example_observation :: observation where
  "example_observation =
     \<lparr>obs_schema = ''pex.supervisor-evidence-observation.v1'', obs_id = ''pexobs_'' @ replicate 32 (CHR ''0''),
      obs_invocation_id = ''inv'', obs_stage = ''verifier'', obs_request_digest = replicate 64 (CHR ''a''),
      obs_session_id = ''s'', obs_goal_id = Some ''g'', obs_event_id = ''e1'', obs_observed_at = Aware 0 0,
      obs_tool_name = ''inspect_git'', obs_arguments_json = ''{}'', obs_output = ''out'',
      obs_output_sha256 = replicate 64 (CHR ''b'')\<rparr>"

definition example_verifier_receipt :: verifier_receipt where
  "example_verifier_receipt =
     \<lparr>vr_approved = True, vr_status = ''approved'', vr_rationale = [], vr_evidence = [], vr_evidence_tools = [],
      vr_invocation_id = Some ''inv'', vr_observations = [example_observation],
      vr_evidence_refs = [obs_id example_observation], vr_model_call_count = 1, vr_input_tokens = 0,
      vr_output_tokens = 0, vr_latency_ms = 0\<rparr>"

definition example_loads :: "string \<Rightarrow> pyval option" where
  "example_loads t =
     Some (PDict (if t = ''{}'' then [] else [(''pex_observation_id'', PStr (obs_id example_observation))]))"

definition example_sha :: "string \<Rightarrow> string" where
  "example_sha t = replicate 64 (CHR ''b'')"

lemma example_hex:
  "prefixed_hex ''pexobs_'' 32 (''pexobs_'' @ replicate 32 (CHR ''0''))"
  "prefixed_hex [] 64 (replicate 64 (CHR ''a''))" "prefixed_hex [] 64 (replicate 64 (CHR ''b''))"
  by (simp_all add: prefixed_hex_def is_lower_hex_def is_digit_ascii_def)

lemma example_evidence_ids:
  "bad_context_id ''inv'' = False" "bad_context_id ''inspect_git'' = False"
  by code_simp+

lemma example_observation_valid:
  "validate_observation example_loads show_float example_sha example_observation = Inr ()"
  by (simp add: validate_observation_def observation_fields_def exact_payload_def example_loads_def
      example_sha_def bad_identifier_def bad_length_def json_dumps_def)
    (simp add: example_observation_def example_hex example_hex(1) [simplified] example_evidence_ids
      example_identifiers bad_identifier_def bad_length_def)

lemma example_verifier_receipt_valid:
  "validate_verifier_receipt example_loads show_float example_sha obs_output example_verifier_receipt = Inr ()"
  by (simp add: validate_verifier_receipt_def example_verifier_receipt_def example_observation_valid verifier_fields_def
      bad_length_def bad_strings_def bad_refs_def bad_range_def max_evidence_observations_def lineage_def
      validate_bindings_iff one_invocation_def carries_def)
    (simp add: example_observation_def example_hex example_hex(1) [simplified] validate_bindings_iff
      one_invocation_def carries_def)

theorem verifier_authority_rests_on_evidence_witness:
  "\<exists>b. b_stage b = ''verifier'' \<and> b_invocation_id b = ''inv'' \<and> carries b example_observation"
proof -
  have "authorizes_intervention example_verifier_receipt"
    by (simp add: authorizes_intervention_def example_verifier_receipt_def example_observation_def
        independent_verifier_evidence_tools_def)
  from verifier_authority_rests_on_evidence [OF example_verifier_receipt_valid this] show ?thesis
    by (fastforce simp: one_invocation_def example_verifier_receipt_def)
qed

end
