(* ===== verification/Trajectory_Review.thy ===== *)
theory Trajectory_Review
  imports Supervisor_Context Canonical_Json
begin

text \<open>
  \<open>services/supervisor/src/pex_supervisor/trajectory.py\<close>: when a session has failed in the same way often
  enough to be worth a review. Two signals: three distinct OpenCode tool calls of one user turn with the same
  error, and three equal failures of one command with no observed progress in between. Parameters: \<open>sha\<close> is the
  hex SHA-256, \<open>show_float\<close> is \<open>float.__repr__\<close>, \<open>show_time\<close> is \<open>datetime.isoformat\<close>, \<open>dump_goal\<close> the JSON value
  pydantic gives a goal. The scan over the events is a fold that carries the failures of the current run, their
  signature and the last observed progress.
\<close>

section \<open>Equality of events\<close>

text \<open>Equality of Python values: numbers by value, dictionaries without regard to order.\<close>

fun canonical_value :: "pyval \<Rightarrow> pyval" where
  "canonical_value (PBool b) = PFloat (if b then 1 else 0)"
| "canonical_value (PInt i) = PFloat (of_int i)"
| "canonical_value (PList vs) = PList (map canonical_value vs)"
| "canonical_value (PDict kvs) = PDict (sort_key fst (map (\<lambda>(k, v). (k, canonical_value v)) kvs))"
| "canonical_value v = v"

definition canonical_dict :: "(string \<times> pyval) list \<Rightarrow> (string \<times> pyval) list" where
  "canonical_dict d = sort_key fst (map (\<lambda>(k, v). (k, canonical_value v)) d)"

fun canonical_time :: "datetime \<Rightarrow> datetime" where
  "canonical_time (Naive t) = Naive t"
| "canonical_time (Aware t off) = Aware (t - off) 0"

definition canonical_event :: "harness_event \<Rightarrow> harness_event" where
  "canonical_event e =
     e\<lparr>ts := canonical_time (ts e), tool_input := map_option canonical_dict (tool_input e),
       approval_request := map_option canonical_dict (approval_request e),
       token_usage := map_option canonical_dict (token_usage e),
       process_state := map_option canonical_dict (process_state e),
       ev_metadata := canonical_dict (ev_metadata e)\<rparr>"

definition same_event :: "harness_event \<Rightarrow> harness_event \<Rightarrow> bool" where
  "same_event a b = (canonical_event a = canonical_event b)"

section \<open>Candidates\<close>

record review_candidate =
  cand_key :: string
  cand_event_ids :: "string list"
  cand_kind :: string

text \<open>\<open>json.dumps(scope, sort_keys=True, ensure_ascii=False)\<close>, with the separators Python uses by default.\<close>

fun spaced_json :: "(rat \<Rightarrow> string) \<Rightarrow> pyval \<Rightarrow> string" where
  "spaced_json show_float (PList vs) = ''['' @ join '', '' (map (spaced_json show_float) vs) @ '']''"
| "spaced_json show_float (PDict kvs) =
     ''{'' @ join '', '' (map (\<lambda>(k, v). json_string False k @ '': '' @ spaced_json show_float v) kvs) @ ''}''"
| "spaced_json show_float v = json_text False show_float v"

definition scope_key :: "(string \<Rightarrow> string) \<Rightarrow> (rat \<Rightarrow> string) \<Rightarrow> pyval \<Rightarrow> string" where
  "scope_key sha show_float scope = sha (spaced_json show_float (sort_keys scope))"

fun optional_text :: "string option \<Rightarrow> pyval" where
  "optional_text None = PNone"
| "optional_text (Some s) = PStr s"

definition observed_command_exit_code :: "harness_event \<Rightarrow> int option" where
  "observed_command_exit_code e =
     (case filter (\<lambda>v. v \<noteq> PNone)
        [dict_get (state_of e) ''exit_code'', dict_get (ev_metadata e) ''command_exit_code''] of
        [] \<Rightarrow> None
      | v # vs \<Rightarrow> if \<forall>w \<in> set vs. w = v then as_int v else None)"

section \<open>Repeated tool failures\<close>

definition nonempty_text :: "pyval \<Rightarrow> bool" where
  "nonempty_text v = (case v of PStr s \<Rightarrow> s \<noteq> [] | _ \<Rightarrow> False)"

definition contiguous :: "pyval \<Rightarrow> bool" where
  "contiguous v = (case v of PDict d \<Rightarrow> dict_get d ''stream_contiguous'' = PBool True | _ \<Rightarrow> False)"

definition lineage_of :: "harness_event \<Rightarrow> pyval" where
  "lineage_of e = dict_get (ev_metadata e) ''opencode_message_lineage''"

definition parent_of :: "harness_event \<Rightarrow> pyval" where
  "parent_of e = dict_get (dict_or_empty (lineage_of e)) ''parent_message_id''"

definition call_of :: "harness_event \<Rightarrow> pyval" where
  "call_of e = dict_get (ev_metadata e) ''opencode_tool_call_id''"

text \<open>The tests of the loop on one event, apart from the call identities seen before.\<close>

definition same_tool_failure :: "supervisor_request \<Rightarrow> goal \<Rightarrow> harness_event \<Rightarrow> bool" where
  "same_tool_failure r g e =
     (ev_session_id e = ses_id (rq_session r) \<and> ev_project_id e = ses_project_id (rq_session r) \<and>
      ev_harness e = HT_OPENCODE \<and> ev_goal_id e = Some (goal_id g) \<and>
      as_utc (goal_updated_at g) \<le> instant e \<and> event_type e = ET_TOOL_FAILURE \<and> phase e = EP_AFTER \<and>
      tool_name e = tool_name (rq_event r) \<and> ev_error e = ev_error (rq_event r) \<and>
      dict_get (ev_metadata e) ''opencode_tool_status'' = PStr ''error'' \<and>
      contiguous (lineage_of e) \<and> parent_of e = parent_of (rq_event r) \<and> nonempty_text (call_of e))"

fun tool_failures :: "supervisor_request \<Rightarrow> goal \<Rightarrow> harness_event list \<Rightarrow> pyval list \<Rightarrow> harness_event list" where
  "tool_failures r g [] seen = []"
| "tool_failures r g (e # es) seen =
     (if same_tool_failure r g e \<and> call_of e \<notin> set seen
      then e # tool_failures r g es (call_of e # seen)
      else tool_failures r g es seen)"

definition tool_failure_is_current :: "supervisor_request \<Rightarrow> bool" where
  "tool_failure_is_current r =
     (let e = rq_event r
      in ses_harness (rq_session r) = HT_OPENCODE \<and> event_type e = ET_TOOL_FAILURE \<and> phase e = EP_AFTER \<and>
         rq_goal r \<noteq> None \<and> contiguous (lineage_of e) \<and> given (tool_name e) \<and> given (ev_error e) \<and>
         nonempty_text (parent_of e) \<and> nonempty_text (call_of e))"

text \<open>\<open>failures[-3:]\<close> and the tests on it: at least three, the last is the current event, ten minutes at most.\<close>

definition last_three :: "supervisor_request \<Rightarrow> harness_event list \<Rightarrow> harness_event list option" where
  "last_three r failures =
     (let three = drop (length failures - 3) failures
      in if length failures < 3 \<or> event_id (last failures) \<noteq> event_id (rq_event r) \<or>
            600 * 1000000 < instant (rq_event r) - instant (hd three)
         then None else Some three)"

definition tool_scope :: "(goal \<Rightarrow> pyval) \<Rightarrow> supervisor_request \<Rightarrow> goal \<Rightarrow> pyval" where
  "tool_scope dump_goal r g =
     PDict
       [(''kind'', PStr ''repeated_opencode_tool_failure''),
        (''session_id'', PStr (ses_id (rq_session r))),
        (''workspace_binding'', dict_get (ses_metadata (rq_session r)) ''workspace_binding''),
        (''goal'', dump_goal g),
        (''parent_message_id'', parent_of (rq_event r)),
        (''failure'', PList [optional_text (tool_name (rq_event r)), optional_text (ev_error (rq_event r))])]"

definition opencode_tool_failure_candidate ::
  "(string \<Rightarrow> string) \<Rightarrow> (rat \<Rightarrow> string) \<Rightarrow> (goal \<Rightarrow> pyval) \<Rightarrow> supervisor_request \<Rightarrow> harness_event list \<Rightarrow>
   review_candidate option" where
  "opencode_tool_failure_candidate sha show_float dump_goal r events =
     (case rq_goal r of
        None \<Rightarrow> None
      | Some g \<Rightarrow>
          if \<not> tool_failure_is_current r then None
          else map_option
            (\<lambda>three. \<lparr>cand_key = scope_key sha show_float (tool_scope dump_goal r g),
                      cand_event_ids = map event_id three,
                      cand_kind = ''repeated_opencode_tool_failure''\<rparr>)
            (last_three r (tool_failures r g events [])))"

section \<open>Repeated command failures\<close>

definition in_scope :: "goal \<Rightarrow> harness_event \<Rightarrow> bool" where
  "in_scope g e = (ev_goal_id e = Some (goal_id g) \<and> as_utc (goal_updated_at g) \<le> instant e)"

definition command_result :: "harness_event \<Rightarrow> bool" where
  "command_result e =
     (given (command e) \<and> phase e \<in> {EP_AFTER, EP_TERMINAL} \<and>
      event_type e \<in> {ET_SHELL, ET_TOOL_RESULT, ET_TOOL_FAILURE})"

definition material :: "goal \<Rightarrow> harness_event \<Rightarrow> bool" where
  "material g e = (in_scope g e \<and> (event_type e = ET_FILE_EDIT \<or> command_result e))"

text \<open>\<open>material_times[event.ts] > 1\<close>.\<close>

definition ambiguous :: "goal \<Rightarrow> harness_event list \<Rightarrow> harness_event \<Rightarrow> bool" where
  "ambiguous g events e = (1 < count_list (map instant (filter (material g) events)) (instant e))"

definition failed_command :: "harness_event \<Rightarrow> bool" where
  "failed_command e = (case observed_command_exit_code e of None \<Rightarrow> False | Some i \<Rightarrow> i \<noteq> 0)"

type_synonym signature = "string option \<times> int option \<times> string option"

definition observed_failure :: "harness_event \<Rightarrow> signature" where
  "observed_failure e =
     (command e, observed_command_exit_code e, if given (ev_error e) then ev_error e else message_delta e)"

record scan_state =
  failures :: "harness_event list"
  signature :: "signature option"
  progress_anchor :: "string option"

definition start_scan :: scan_state where
  "start_scan = \<lparr>failures = [], signature = None, progress_anchor = None\<rparr>"

definition scan_event ::
  "(datetime \<Rightarrow> string) \<Rightarrow> (harness_event \<Rightarrow> bool) \<Rightarrow> goal \<Rightarrow> scan_state \<Rightarrow> harness_event \<Rightarrow> scan_state" where
  "scan_event show_time amb g st e =
     (if amb e then
        \<lparr>failures = [], signature = None, progress_anchor = Some (''ambiguous:'' @ show_time (ts e))\<rparr>
      else if \<not> in_scope g e then st\<lparr>failures := [], signature := None\<rparr>
      else if event_type e = ET_FILE_EDIT then
        \<lparr>failures = [], signature = None, progress_anchor = Some (event_id e)\<rparr>
      else if \<not> command_result e then st
      else if \<not> failed_command e then
        \<lparr>failures = [], signature = None, progress_anchor = Some (event_id e)\<rparr>
      else if signature st \<noteq> Some (observed_failure e) then
        st\<lparr>failures := [e], signature := Some (observed_failure e)\<rparr>
      else st\<lparr>failures := failures st @ [e]\<rparr>)"

definition scan_events ::
  "(datetime \<Rightarrow> string) \<Rightarrow> (harness_event \<Rightarrow> bool) \<Rightarrow> goal \<Rightarrow> harness_event list \<Rightarrow> scan_state" where
  "scan_events show_time amb g events = foldl (scan_event show_time amb g) start_scan events"

fun signature_json :: "signature option \<Rightarrow> pyval" where
  "signature_json None = PNone"
| "signature_json (Some (c, i, m)) =
     PList [optional_text c, case i of None \<Rightarrow> PNone | Some n \<Rightarrow> PInt n, optional_text m]"

definition command_scope :: "(goal \<Rightarrow> pyval) \<Rightarrow> supervisor_request \<Rightarrow> goal \<Rightarrow> scan_state \<Rightarrow> pyval" where
  "command_scope dump_goal r g st =
     PDict
       [(''kind'', PStr ''repeated_observed_command_failure''),
        (''session_id'', PStr (ses_id (rq_session r))),
        (''cwd'', optional_text (ses_cwd (rq_session r))),
        (''workspace_binding'', dict_get (ses_metadata (rq_session r)) ''workspace_binding''),
        (''goal'', dump_goal g),
        (''failure'', signature_json (signature st)),
        (''progress_anchor'', optional_text (progress_anchor st))]"

section \<open>The candidate\<close>

definition with_current :: "supervisor_request \<Rightarrow> harness_event list" where
  "with_current r =
     (let events = rq_recent_events r; current = rq_event r
      in if event_id current \<in> set (map event_id events) then events else events @ [current])"

text \<open>The history a review may look at, in time order; \<open>None\<close> where the code declines.\<close>

definition review_history :: "supervisor_request \<Rightarrow> (goal \<times> harness_event list) option" where
  "review_history r =
     (case rq_goal r of
        None \<Rightarrow> None
      | Some g \<Rightarrow>
          let current = rq_event r;
              matching = filter (\<lambda>e. event_id e = event_id current) (rq_recent_events r);
              events = by_time (with_current r)
          in if \<not> rq_trajectory_review_enabled r \<or> goal_paused g \<or> supervision_paused (rq_session r) \<or>
                ev_goal_id current \<noteq> Some (goal_id g) \<or>
                \<not> distinct (map event_id (rq_recent_events r)) \<or>
                (case matching of [] \<Rightarrow> False | e # _ \<Rightarrow> \<not> same_event e current) \<or>
                (\<exists>e \<in> set events. instant current < instant e) \<or>
                event_id (last events) \<noteq> event_id current
             then None else Some (g, events))"

definition trajectory_review_candidate ::
  "(string \<Rightarrow> string) \<Rightarrow> (rat \<Rightarrow> string) \<Rightarrow> (datetime \<Rightarrow> string) \<Rightarrow> (goal \<Rightarrow> pyval) \<Rightarrow> supervisor_request \<Rightarrow>
   review_candidate option" where
  "trajectory_review_candidate sha show_float show_time dump_goal r =
     (case review_history r of
        None \<Rightarrow> None
      | Some (g, events) \<Rightarrow>
          (case opencode_tool_failure_candidate sha show_float dump_goal r events of
             Some c \<Rightarrow> Some c
           | None \<Rightarrow>
               let st = scan_events show_time (ambiguous g events) g events
               in map_option
                    (\<lambda>three. \<lparr>cand_key = scope_key sha show_float (command_scope dump_goal r g st),
                              cand_event_ids = map event_id three,
                              cand_kind = ''repeated_observed_command_failure''\<rparr>)
                    (last_three r (failures st))))"

section \<open>The scan\<close>

text \<open>
  A stretch of the history without progress: nothing ambiguous, nothing outside the goal, no edit, and every
  command that ended failed with the one signature.
\<close>

definition stalled ::
  "(harness_event \<Rightarrow> bool) \<Rightarrow> goal \<Rightarrow> signature option \<Rightarrow> harness_event list \<Rightarrow> bool" where
  "stalled amb g s q =
     (\<forall>e \<in> set q. \<not> amb e \<and> in_scope g e \<and> event_type e \<noteq> ET_FILE_EDIT \<and>
        (if command_result e then failed_command e \<and> s = Some (observed_failure e) else True))"

lemma stalled_Nil [simp]: "stalled amb g s []"
  and stalled_snoc [simp]:
    "stalled amb g s (q @ [e]) \<longleftrightarrow> stalled amb g s q \<and> \<not> amb e \<and> in_scope g e \<and> event_type e \<noteq> ET_FILE_EDIT \<and>
       (if command_result e then failed_command e \<and> s = Some (observed_failure e) else True)"
  by (auto simp: stalled_def)

lemma scan_events_snoc [simp]:
  "scan_events show_time amb g [] = start_scan"
  "scan_events show_time amb g (events @ [e]) = scan_event show_time amb g (scan_events show_time amb g events) e"
  by (simp_all add: scan_events_def)

text \<open>The failures carried are those of a stalled stretch at the end of the history.\<close>

lemma scan_events_stalled:
  "\<exists>r q. events = r @ q \<and> stalled amb g (signature (scan_events show_time amb g events)) q \<and>
     failures (scan_events show_time amb g events) = filter command_result q"
proof (induction events rule: rev_induct)
  case Nil
  show ?case by (simp add: start_scan_def)
next
  case (snoc e events)
  let ?st = "scan_events show_time amb g events" and ?st' = "scan_events show_time amb g (events @ [e])"
  from snoc obtain r q where q: "events = r @ q" "stalled amb g (signature ?st) q"
    "failures ?st = filter command_result q" by blast
  have restart: ?case if "failures ?st' = []"
    using that by (intro exI [of _ "events @ [e]"] exI [of _ "[]"]) simp
  have extend: ?case if "stalled amb g (signature ?st') (q @ [e])"
    "failures ?st' = filter command_result (q @ [e])"
    using that q(1) by (intro exI [of _ r] exI [of _ "q @ [e]"]) simp
  show ?case
  proof (cases "amb e \<or> \<not> in_scope g e \<or> event_type e = ET_FILE_EDIT \<or> (command_result e \<and> \<not> failed_command e)")
    case True
    then have "failures ?st' = []" by (auto simp: scan_event_def)
    then show ?thesis by (rule restart)
  next
    case quiet: False
    show ?thesis
    proof (cases "command_result e \<and> signature ?st \<noteq> Some (observed_failure e)")
      case True
      then have "signature ?st' = Some (observed_failure e)" "failures ?st' = [e]"
        using quiet by (simp_all add: scan_event_def)
      with True quiet show ?thesis
        by (intro exI [of _ events] exI [of _ "[e]"]) (simp add: stalled_def)
    next
      case False
      then show ?thesis
        using quiet q(2,3) by (intro extend) (auto simp: scan_event_def)
    qed
  qed
qed

text \<open>Conversely every stalled stretch at the end of the history with a failure in it is carried.\<close>

lemma stalled_scan_events:
  assumes "stalled amb g s q" "filter command_result q \<noteq> []"
  shows "signature (scan_events show_time amb g (r @ q)) = s \<and>
    (\<exists>x. failures (scan_events show_time amb g (r @ q)) = x @ filter command_result q)"
  using assms
proof (induction q rule: rev_induct)
  case (snoc e q)
  have e: "\<not> amb e" "in_scope g e" "event_type e \<noteq> ET_FILE_EDIT" "stalled amb g s q"
    using snoc.prems(1) by auto
  let ?st = "scan_events show_time amb g (r @ q)"
  have step: "scan_events show_time amb g (r @ q @ [e]) = scan_event show_time amb g ?st e"
    using scan_events_snoc(2) [of show_time amb g "r @ q" e] by simp
  show ?case
  proof (cases "command_result e")
    case True
    then have f: "failed_command e" "s = Some (observed_failure e)" using snoc.prems(1) by auto
    show ?thesis
    proof (cases "filter command_result q = []")
      case True
      then show ?thesis using e f \<open>command_result e\<close> by (simp add: step scan_event_def)
    next
      case False
      with snoc.IH e(4) obtain x where "signature ?st = s" "failures ?st = x @ filter command_result q" by blast
      then show ?thesis using e f \<open>command_result e\<close> by (simp add: step scan_event_def)
    qed
  next
    case False
    then show ?thesis using snoc.IH snoc.prems e by (simp add: step scan_event_def)
  qed
qed simp

lemma length_three: "length xs = 3 \<Longrightarrow> \<exists>a b c. xs = [a, b, c]"
  by (auto simp: numeral_3_eq_3 length_Suc_conv)

lemma last_three_iff:
  "last_three r fs = Some three \<longleftrightarrow>
     (\<exists>x a b c. fs = x @ [a, b, c] \<and> three = [a, b, c] \<and> event_id c = event_id (rq_event r) \<and>
        instant (rq_event r) - instant a \<le> 600 * 1000000)"
proof
  assume h: "last_three r fs = Some three"
  then have len: "3 \<le> length fs" by (auto simp: last_three_def Let_def split: if_splits)
  define x where "x = take (length fs - 3) fs"
  have "length (drop (length fs - 3) fs) = 3" using len by simp
  then obtain a b c where d: "drop (length fs - 3) fs = [a, b, c]"
    using length_three by blast
  then have fs: "fs = x @ [a, b, c]" by (metis append_take_drop_id x_def)
  then have "last fs = c" by simp
  with h fs d show "\<exists>x a b c. fs = x @ [a, b, c] \<and> three = [a, b, c] \<and> event_id c = event_id (rq_event r) \<and>
        instant (rq_event r) - instant a \<le> 600 * 1000000"
    by (intro exI [of _ x] exI [of _ a] exI [of _ b] exI [of _ c])
      (auto simp: last_three_def Let_def split: if_splits)
qed (auto simp: last_three_def)

text \<open>
  Property C31. Outside OpenCode, a review is proposed exactly when the admitted history of the goal ends in a
  stretch without progress that holds at least three failures: no edit, no succeeding command, nothing of
  another goal and nothing ambiguous in time lies in the stretch, every command in it failed with the same
  command line, exit code and message, the last failure is the current event and the third from the end is at
  most ten minutes older. The candidate names these three failures. Without an admitted history (review off,
  goal or supervision paused, duplicate identifiers, another event under the current identifier, an event
  later than the current one) there is none.
\<close>

theorem command_review_iff:
  assumes "ses_harness (rq_session r) \<noteq> HT_OPENCODE"
  shows "map_option cand_event_ids (trajectory_review_candidate sha show_float show_time dump_goal r) = Some ids \<longleftrightarrow>
    (\<exists>g events before_it q s x a b c. review_history r = Some (g, events) \<and> events = before_it @ q \<and>
       stalled (ambiguous g events) g s q \<and> filter command_result q = x @ [a, b, c] \<and>
       event_id c = event_id (rq_event r) \<and> instant (rq_event r) - instant a \<le> 600 * 1000000 \<and>
       ids = map event_id [a, b, c])"
    (is "?L \<longleftrightarrow> ?R")
proof -
  have no_tool: "opencode_tool_failure_candidate sha show_float dump_goal r events = None" for events
    using assms by (simp add: opencode_tool_failure_candidate_def tool_failure_is_current_def Let_def
        split: option.split)
  have L: "?L \<longleftrightarrow> (\<exists>g events. review_history r = Some (g, events) \<and>
      (\<exists>three. last_three r (failures (scan_events show_time (ambiguous g events) g events)) = Some three \<and>
         ids = map event_id three))"
    by (auto simp: trajectory_review_candidate_def no_tool Let_def split: option.splits)
  have "(\<exists>three. last_three r (failures (scan_events show_time amb g events)) = Some three \<and> ids = map event_id three) \<longleftrightarrow>
      (\<exists>before_it q s x a b c. events = before_it @ q \<and> stalled amb g s q \<and>
         filter command_result q = x @ [a, b, c] \<and> event_id c = event_id (rq_event r) \<and>
         instant (rq_event r) - instant a \<le> 600 * 1000000 \<and> ids = map event_id [a, b, c])" (is "?A \<longleftrightarrow> ?B")
    for amb g events
  proof
    assume ?A
    then obtain x a b c where t: "failures (scan_events show_time amb g events) = x @ [a, b, c]"
      "event_id c = event_id (rq_event r)" "instant (rq_event r) - instant a \<le> 600 * 1000000"
      "ids = map event_id [a, b, c]" by (auto simp: last_three_iff)
    from scan_events_stalled [of events amb g show_time] obtain before_it q where
      "events = before_it @ q" "stalled amb g (signature (scan_events show_time amb g events)) q"
      "failures (scan_events show_time amb g events) = filter command_result q" by blast
    with t show ?B by metis
  next
    assume ?B
    then obtain before_it q s x a b c where b: "events = before_it @ q" "stalled amb g s q"
      "filter command_result q = x @ [a, b, c]" "event_id c = event_id (rq_event r)"
      "instant (rq_event r) - instant a \<le> 600 * 1000000" "ids = map event_id [a, b, c]" by blast
    obtain y where "failures (scan_events show_time amb g events) = (y @ x) @ [a, b, c]"
      using stalled_scan_events [OF b(2), of show_time before_it] b(1,3) by auto
    with b(4-6) show ?A unfolding last_three_iff by blast
  qed
  with L show ?thesis by (simp only:) blast
qed

definition example_failure :: "string \<Rightarrow> int \<Rightarrow> harness_event" where
  "example_failure identifier time =
     (new_event identifier (Aware time 0) HT_CODEX ''s'' ET_SHELL)\<lparr>ev_goal_id := Some ''g'', phase := EP_AFTER,
      command := Some ''make'', process_state := Some [(''exit_code'', PInt 2)]\<rparr>"

definition example_review_request :: supervisor_request where
  "example_review_request =
     example_request\<lparr>rq_event := example_failure ''e3'' 3,
       rq_recent_events := [example_failure ''e2'' 2, example_failure ''e1'' 1],
       rq_trajectory_review_enabled := True\<rparr>"

lemma example_review_history:
  "review_history example_review_request =
     Some (new_goal ''g'' ''/p'' ''Title'' ''Objective'' (Aware 0 0),
       [example_failure ''e1'' 1, example_failure ''e2'' 2, example_failure ''e3'' 3])"
  by (simp add: review_history_def example_review_request_def example_request_def new_session_def new_goal_def
      example_failure_def new_event_def with_current_def by_time_def instant_def)

theorem command_review_iff_witness:
  "map_option cand_event_ids
     (trajectory_review_candidate (\<lambda>t. t) (\<lambda>_. ''0'') (\<lambda>_. ''t'') (\<lambda>_. PNone) example_review_request) =
   Some [''e1'', ''e2'', ''e3'']"
proof -
  let ?g = "new_goal ''g'' ''/p'' ''Title'' ''Objective'' (Aware 0 0)"
    and ?es = "[example_failure ''e1'' 1, example_failure ''e2'' 2, example_failure ''e3'' 3]"
  have "ses_harness (rq_session example_review_request) \<noteq> HT_OPENCODE"
    by (simp add: example_review_request_def example_request_def new_session_def)
  moreover have "stalled (ambiguous ?g ?es) ?g (Some (observed_failure (example_failure ''e1'' 1))) ?es"
    by (simp add: stalled_def ambiguous_def material_def in_scope_def command_result_def failed_command_def
        observed_command_exit_code_def observed_failure_def example_failure_def new_event_def new_goal_def
        instant_def given_def text_or_empty_def state_of_def)
  moreover have "filter command_result ?es = [] @ ?es"
    by (simp add: command_result_def example_failure_def new_event_def given_def text_or_empty_def)
  moreover have "event_id (example_failure ''e3'' 3) = event_id (rq_event example_review_request)"
    "instant (rq_event example_review_request) - instant (example_failure ''e1'' 1) \<le> 600 * 1000000"
    by (simp_all add: example_review_request_def example_failure_def new_event_def instant_def)
  moreover have "[''e1'', ''e2'', ''e3''] = map event_id ?es"
    by (simp add: example_failure_def new_event_def)
  ultimately show ?thesis
    using command_review_iff [of example_review_request] example_review_history append_Nil by metis
qed

section \<open>The tool failures\<close>

lemma tool_failures_distinct:
  "subseq (tool_failures r g es seen) es \<and> list_all (same_tool_failure r g) (tool_failures r g es seen) \<and>
   distinct (map call_of (tool_failures r g es seen)) \<and>
   set (map call_of (tool_failures r g es seen)) \<inter> set seen = {}"
proof (induction es arbitrary: seen)
  case (Cons e es)
  show ?case using Cons.IH [of "call_of e # seen"] Cons.IH [of seen] by auto
qed simp

text \<open>
  A review for repeated tool failures names three events of the admitted history, in time order,
  that are failures of three different tool calls: same session, project, goal and user message, same tool, same
  error, reported over a contiguous stream. The last is the current event, the first at most ten minutes older.
\<close>

lemma tool_review_evidence:
  assumes "trajectory_review_candidate sha show_float show_time dump_goal r = Some c"
    "cand_kind c = ''repeated_opencode_tool_failure''"
  shows "\<exists>g events a b d. review_history r = Some (g, events) \<and> subseq [a, b, d] events \<and>
    cand_event_ids c = map event_id [a, b, d] \<and> distinct (map call_of [a, b, d]) \<and>
    list_all (same_tool_failure r g) [a, b, d] \<and> event_id d = event_id (rq_event r) \<and>
    instant (rq_event r) - instant a \<le> 600 * 1000000 \<and>
    given (tool_name (rq_event r)) \<and> given (ev_error (rq_event r))"
proof -
  from assms obtain g events where h: "review_history r = Some (g, events)"
    and c: "opencode_tool_failure_candidate sha show_float dump_goal r events = Some c"
    by (auto simp: trajectory_review_candidate_def Let_def split: option.splits)
  from h have g: "rq_goal r = Some g"
    by (auto simp: review_history_def Let_def split: option.splits if_splits)
  from c g obtain three where three: "last_three r (tool_failures r g events []) = Some three"
    "cand_event_ids c = map event_id three" "tool_failure_is_current r"
    by (auto simp: opencode_tool_failure_candidate_def split: if_splits)
  then obtain x a b d where fs: "tool_failures r g events [] = x @ [a, b, d]" "three = [a, b, d]"
    "event_id d = event_id (rq_event r)" "instant (rq_event r) - instant a \<le> 600 * 1000000"
    by (auto simp: last_three_iff)
  from tool_failures_distinct [of r g events "[]"] fs(1) have
    "subseq (x @ [a, b, d]) events" "list_all (same_tool_failure r g) [a, b, d]" "distinct (map call_of [a, b, d])"
    by auto
  moreover from this(1) have "subseq [a, b, d] events"
    using list_emb_append_mono [of "(=)" "[]" x "[a, b, d]" "[a, b, d]"] subseq_order.trans by force
  ultimately show ?thesis
    using h three fs
    by (intro exI [of _ g] exI [of _ events] exI [of _ a] exI [of _ b] exI [of _ d])
      (simp add: tool_failure_is_current_def Let_def)
qed

definition example_tool_failure :: "string \<Rightarrow> int \<Rightarrow> harness_event" where
  "example_tool_failure identifier time =
     (new_event identifier (Aware time 0) HT_OPENCODE ''s'' ET_TOOL_FAILURE)\<lparr>ev_project_id := Some ''/p'',
      ev_goal_id := Some ''g'', phase := EP_AFTER, tool_name := Some ''read'', ev_error := Some ''denied'',
      ev_metadata := [(''opencode_message_lineage'',
          PDict [(''stream_contiguous'', PBool True), (''parent_message_id'', PStr ''m'')]),
        (''opencode_tool_call_id'', PStr identifier), (''opencode_tool_status'', PStr ''error'')]\<rparr>"

definition example_tool_request :: supervisor_request where
  "example_tool_request =
     example_request\<lparr>rq_session := (new_session ''s'' HT_OPENCODE ''v'')\<lparr>ses_project_id := Some ''/p'',
         ses_goal_id := Some ''g''\<rparr>,
       rq_event := example_tool_failure ''e3'' 3,
       rq_recent_events := [example_tool_failure ''e2'' 2, example_tool_failure ''e1'' 1],
       rq_trajectory_review_enabled := True\<rparr>"

lemma example_tool_history:
  "review_history example_tool_request =
     Some (new_goal ''g'' ''/p'' ''Title'' ''Objective'' (Aware 0 0),
       [example_tool_failure ''e1'' 1, example_tool_failure ''e2'' 2, example_tool_failure ''e3'' 3])"
  by (simp add: review_history_def example_tool_request_def example_request_def new_session_def new_goal_def
      example_tool_failure_def new_event_def with_current_def by_time_def instant_def)

lemma example_tool_candidate:
  "\<exists>c. trajectory_review_candidate sha show_float show_time dump_goal example_tool_request = Some c \<and>
     cand_kind c = ''repeated_opencode_tool_failure''"
  by (simp add: trajectory_review_candidate_def example_tool_history opencode_tool_failure_candidate_def)
    (simp add: example_tool_request_def example_request_def new_session_def new_goal_def example_tool_failure_def
      new_event_def instant_def tool_failure_is_current_def same_tool_failure_def contiguous_def lineage_of_def
      parent_of_def call_of_def nonempty_text_def given_def text_or_empty_def last_three_def)

lemma tool_review_evidence_example:
  "\<exists>c. cand_event_ids c = [''e1'', ''e2'', ''e3''] \<and>
     trajectory_review_candidate (\<lambda>t. t) (\<lambda>_. ''0'') (\<lambda>_. ''t'') (\<lambda>_. PNone) example_tool_request = Some c"
proof -
  obtain c where c: "trajectory_review_candidate (\<lambda>t. t) (\<lambda>_. ''0'') (\<lambda>_. ''t'') (\<lambda>_. PNone) example_tool_request = Some c"
    "cand_kind c = ''repeated_opencode_tool_failure''"
    using example_tool_candidate by blast
  from tool_review_evidence [OF c] obtain a b d where
    "subseq [a, b, d] [example_tool_failure ''e1'' 1, example_tool_failure ''e2'' 2, example_tool_failure ''e3'' 3]"
    "cand_event_ids c = map event_id [a, b, d]"
    by (auto simp: example_tool_history)
  moreover from this(1) have
    "[a, b, d] = [example_tool_failure ''e1'' 1, example_tool_failure ''e2'' 2, example_tool_failure ''e3'' 3]"
    by (rule subseq_same_length) simp
  ultimately show ?thesis
    using c(1) by (intro exI [of _ c]) (simp add: example_tool_failure_def new_event_def)
qed

end
