(* ===== verification/Background_Jobs.thy ===== *)
theory Background_Jobs
  imports Harness_Events Py_Regex Canonical_Json
begin

text \<open>
  \<open>services/supervisor/src/pex_supervisor/background.py\<close>: the background jobs a worker started and never
  finished. The loop over the events in time order is a fold that carries the open launches. Parameters:
  \<open>sha\<close> is the hex SHA-256 of a command, \<open>running\<close> the answer of the process table of the operating system
  for a valid process number (\<open>None\<close> when it cannot be read).
\<close>

section \<open>Launches\<close>

definition background_launch :: rx where
  "background_launch =
     ralt [rseq [rlit_ci ''nohup'', RWordB],
       rseq [RWordB, rlit_ci ''start'', rplus rspace, rlit_ci ''/b'', RWordB],
       rseq [RWordB, rlit_ci ''start-process'', RWordB],
       rseq [RWordB, rlit_ci ''--daemon'', RWordB],
       rseq [RWordB, rlit_ci ''daemonize'', RWordB],
       rseq [RAlt RBol (RChr (\<lambda>c. is_space c \<or> c \<in> set '';|&'')), rchar (CHR ''&''), RStar rspace, REol]]"

definition routine_test :: rx where
  "routine_test =
     rseq [RWordB,
       ralt [rlit_ci ''pytest'',
         rseq [rlit_ci ''python'', ropt (rseq [rplus rdigit, RStar (rseq [rchar (CHR ''.''), rplus rdigit])]),
           rplus rspace, rlit_ci ''-m'', rplus rspace, rlit_ci ''unittest''],
         rseq [rlit_ci ''npm'', rplus rspace, rlit_ci ''test''],
         rseq [rlit_ci ''cargo'', rplus rspace, rlit_ci ''test''],
         rseq [rlit_ci ''go'', rplus rspace, rlit_ci ''test'']],
       RWordB]"

definition max_observed_pid :: int where
  "max_observed_pid = 2147483647"

definition valid_pid :: "int \<Rightarrow> bool" where
  "valid_pid i = (0 < i \<and> i \<le> max_observed_pid)"

definition pid_of_text :: "string \<Rightarrow> int option" where
  "pid_of_text raw =
     (let t = strip raw
      in if 1 \<le> length t \<and> length t \<le> 10 \<and> (\<forall>c \<in> set t. is_digit_ascii c) \<and> valid_pid (int (read_decimal t))
         then Some (int (read_decimal t)) else None)"

fun pid_of :: "pyval \<Rightarrow> int option" where
  "pid_of (PInt i) = (if valid_pid i then Some i else None)"
| "pid_of (PStr t) = pid_of_text t"
| "pid_of _ = None"

definition observed_pid :: "(string \<times> pyval) list \<Rightarrow> int option" where
  "observed_pid state =
     (case pid_of (dict_get state ''pid'') of
        Some i \<Rightarrow> Some i
      | None \<Rightarrow> pid_of (dict_get state ''process_id''))"

record launch =
  la_command :: string
  la_identity :: string
  la_pid :: "int option"
  la_session_id :: string
  la_event_id :: string

definition stripped_command :: "harness_event \<Rightarrow> string" where
  "stripped_command e = strip (text_or_empty (command e))"

definition terminal_state :: "(string \<times> pyval) list \<Rightarrow> bool" where
  "terminal_state state = (dict_get state ''running'' = PBool False \<or> dict_get state ''exit_code'' \<noteq> PNone)"

definition marked_background :: "(string \<times> pyval) list \<Rightarrow> string \<Rightarrow> bool" where
  "marked_background state cmd =
     ((\<exists>key \<in> set [''background'', ''detached'', ''daemon'']. dict_get state key = PBool True) \<or>
      dict_get state ''running'' = PBool True \<or> rx_found background_launch cmd)"

definition launch_from :: "(string \<Rightarrow> string) \<Rightarrow> harness_event \<Rightarrow> launch option" where
  "launch_from sha e =
     (let cmd = stripped_command e; state = state_of e
      in if event_type e \<notin> {ET_SHELL, ET_TOOL_CALL} then None
         else if rx_found routine_test cmd then None
         else if terminal_state state then None
         else if \<not> marked_background state cmd then None
         else Some \<lparr>la_command = take 200 cmd, la_identity = sha cmd, la_pid = observed_pid state,
                    la_session_id = ev_session_id e, la_event_id = event_id e\<rparr>)"

definition finishes :: "(string \<Rightarrow> string) \<Rightarrow> harness_event \<Rightarrow> launch \<Rightarrow> bool" where
  "finishes sha e l =
     (if ev_session_id e \<noteq> la_session_id l then False
      else if \<not> terminal_state (state_of e) then False
      else if la_pid l \<noteq> None then observed_pid (state_of e) = la_pid l
      else stripped_command e \<noteq> [] \<and> sha (stripped_command e) = la_identity l)"

section \<open>Open launches\<close>

text \<open>\<open>launches.pop(index)\<close> for the largest index that matches.\<close>

fun remove_first :: "('a \<Rightarrow> bool) \<Rightarrow> 'a list \<Rightarrow> 'a list" where
  "remove_first p [] = []"
| "remove_first p (x # xs) = (if p x then xs else x # remove_first p xs)"

definition remove_latest :: "('a \<Rightarrow> bool) \<Rightarrow> 'a list \<Rightarrow> 'a list" where
  "remove_latest p xs = rev (remove_first p (rev xs))"

definition same_process :: "launch \<Rightarrow> launch \<Rightarrow> bool" where
  "same_process l m = (la_session_id l = la_session_id m \<and> la_pid l = la_pid m)"

definition track :: "(string \<Rightarrow> string) \<Rightarrow> launch list \<Rightarrow> harness_event \<Rightarrow> launch list" where
  "track sha open_launches e =
     (case launch_from sha e of
        Some l \<Rightarrow>
          (if la_pid l \<noteq> None then filter (\<lambda>m. \<not> same_process m l) open_launches else open_launches) @ [l]
      | None \<Rightarrow> remove_latest (finishes sha e) open_launches)"

definition find_abandoned_background :: "(string \<Rightarrow> string) \<Rightarrow> harness_event list \<Rightarrow> launch option" where
  "find_abandoned_background sha events =
     (case rev (foldl (track sha) [] (by_time events)) of [] \<Rightarrow> None | l # _ \<Rightarrow> Some l)"

text \<open>\<open>confirm_abandoned_background\<close>: the launch with what the process table says of it.\<close>

definition pid_running :: "(int \<Rightarrow> bool option) \<Rightarrow> int \<Rightarrow> bool option" where
  "pid_running running i = (if valid_pid i then running i else None)"

definition confirm_abandoned_background ::
  "(int \<Rightarrow> bool option) \<Rightarrow> launch option \<Rightarrow> (launch \<times> string option) option" where
  "confirm_abandoned_background running abandoned =
     (case abandoned of
        None \<Rightarrow> None
      | Some l \<Rightarrow>
          (case la_pid l of
             None \<Rightarrow> Some (l, None)
           | Some i \<Rightarrow>
               if pid_running running i = Some False then None
               else Some (l, Some (if pid_running running i = Some True then ''running'' else ''unobserved''))))"

section \<open>What is reported\<close>

lemma remove_latest_cases:
  obtains "\<forall>x \<in> set xs. \<not> p x" "remove_latest p xs = xs"
  | u m v where "xs = u @ m # v" "p m" "\<forall>x \<in> set v. \<not> p x" "remove_latest p xs = u @ v"
proof -
  have *: "(\<forall>x \<in> set ys. \<not> p x) \<and> remove_first p ys = ys \<or>
      (\<exists>u m v. ys = v @ m # u \<and> p m \<and> (\<forall>x \<in> set v. \<not> p x) \<and> remove_first p ys = v @ u)" for ys
  proof (induction ys)
    case (Cons y ys)
    show ?case
    proof (cases "p y")
      case True
      then show ?thesis by (intro disjI2 exI [of _ ys] exI [of _ y] exI [of _ "[]"]) simp
    next
      case False
      from Cons.IH show ?thesis
      proof
        assume "\<exists>u m v. ys = v @ m # u \<and> p m \<and> (\<forall>x \<in> set v. \<not> p x) \<and> remove_first p ys = v @ u"
        then obtain u m v where "ys = v @ m # u" "p m" "\<forall>x \<in> set v. \<not> p x" "remove_first p ys = v @ u" by blast
        with False show ?thesis by (intro disjI2 exI [of _ u] exI [of _ m] exI [of _ "y # v"]) simp
      qed (use False in simp)
    qed
  qed simp
  from * [of "rev xs"] show thesis
  proof
    assume "(\<forall>x \<in> set (rev xs). \<not> p x) \<and> remove_first p (rev xs) = rev xs"
    then show thesis using that(1) by (simp add: remove_latest_def)
  next
    assume "\<exists>u m v. rev xs = v @ m # u \<and> p m \<and> (\<forall>x \<in> set v. \<not> p x) \<and> remove_first p (rev xs) = v @ u"
    then obtain u m v where h: "rev xs = v @ m # u" "p m" "\<forall>x \<in> set v. \<not> p x" "remove_first p (rev xs) = v @ u"
      by blast
    from h(1) have "xs = rev u @ m # rev v" by (simp add: rev_swap)
    with h show thesis using that(2) [of "rev u" m "rev v"] by (simp add: remove_latest_def)
  qed
qed

text \<open>
  Launch \<open>l\<close> is open after the events \<open>b\<close> that follow its start: a process that is started again replaces it,
  and an event that ends it was taken for a later launch it ends as well.
\<close>

definition not_ended_at :: "(string \<Rightarrow> string) \<Rightarrow> launch \<Rightarrow> harness_event list \<Rightarrow> harness_event \<Rightarrow> bool" where
  "not_ended_at sha l earlier e =
     ((if finishes sha e l then \<exists>x \<in> set earlier. \<exists>m. launch_from sha x = Some m \<and> finishes sha e m else True) \<and>
      (case launch_from sha e of None \<Rightarrow> True | Some m \<Rightarrow> la_pid m = None \<or> \<not> same_process l m))"

definition outlives :: "(string \<Rightarrow> string) \<Rightarrow> launch \<Rightarrow> harness_event list \<Rightarrow> bool" where
  "outlives sha l b = (\<forall>i < length b. not_ended_at sha l (take i b) (b ! i))"

lemma outlives_Nil [simp]: "outlives sha l []"
  by (simp add: outlives_def)

lemma outlives_snoc:
  "outlives sha l (b @ [e]) \<longleftrightarrow> outlives sha l b \<and> not_ended_at sha l b e"
  by (auto simp: outlives_def less_Suc_eq nth_append)

lemma filter_split:
  "filter p xs = u @ l # v \<Longrightarrow> \<exists>u' v'. xs = u' @ l # v' \<and> v = filter p v'"
proof (induction xs arbitrary: u)
  case (Cons x xs)
  consider "p x" "u = []" | w where "filter p xs = w @ l # v"
    using Cons.prems by (cases u) (auto split: if_splits)
  then show ?case
  proof cases
    case 1
    with Cons.prems have "x # xs = [] @ l # xs" "v = filter p xs" by simp_all
    then show ?thesis by blast
  next
    case 2
    with Cons.IH obtain u' v' where "xs = u' @ l # v'" "v = filter p v'" by blast
    then have "x # xs = (x # u') @ l # v' \<and> v = filter p v'" by simp
    then show ?thesis by blast
  qed
qed simp

text \<open>The open launches after some events: each started by one of them, in this order, and open since.\<close>

definition tracked :: "(string \<Rightarrow> string) \<Rightarrow> harness_event list \<Rightarrow> launch list \<Rightarrow> bool" where
  "tracked sha events ls =
     (\<forall>u l v. ls = u @ l # v \<longrightarrow>
        (\<exists>a e b. events = a @ e # b \<and> launch_from sha e = Some l \<and> outlives sha l b \<and>
           (\<forall>m \<in> set v. \<exists>x \<in> set b. launch_from sha x = Some m)))"

lemma trackedE:
  assumes "tracked sha events (u @ l # v)"
  obtains a e b where "events = a @ e # b" "launch_from sha e = Some l" "outlives sha l b"
    "\<forall>m \<in> set v. \<exists>x \<in> set b. launch_from sha x = Some m"
  using assms unfolding tracked_def by blast

lemma launch_not_terminal: "launch_from sha e = Some l \<Longrightarrow> \<not> finishes sha e m"
  by (auto simp: launch_from_def finishes_def Let_def split: if_splits)

lemma track_tracked:
  assumes "tracked sha events ls"
  shows "tracked sha (events @ [e]) (track sha ls e)"
  unfolding tracked_def
proof (intro allI impI)
  fix u l v assume split: "track sha ls e = u @ l # v"
  have extend: "\<exists>a x b. events @ [e] = a @ x # b \<and> launch_from sha x = Some l \<and> outlives sha l b \<and>
      (\<forall>m \<in> set v. \<exists>y \<in> set b. launch_from sha y = Some m)"
    if "ls = u' @ l # v'" "\<forall>m \<in> set v. m \<in> set v' \<or> launch_from sha e = Some m"
      "if finishes sha e l then \<exists>m \<in> set v'. finishes sha e m else True"
      "case launch_from sha e of None \<Rightarrow> True | Some m \<Rightarrow> la_pid m = None \<or> \<not> same_process l m" for u' v'
  proof -
    from assms that(1) obtain a x b where "events = a @ x # b" "launch_from sha x = Some l" "outlives sha l b"
      "\<forall>m \<in> set v'. \<exists>y \<in> set b. launch_from sha y = Some m" by (metis trackedE)
    then have "events @ [e] = a @ x # (b @ [e]) \<and> launch_from sha x = Some l \<and> outlives sha l (b @ [e]) \<and>
        (\<forall>m \<in> set v. \<exists>y \<in> set (b @ [e]). launch_from sha y = Some m)"
      using that(2-4) by (fastforce simp: outlives_snoc not_ended_at_def split: if_splits)
    then show ?thesis by blast
  qed
  show "\<exists>a x b. events @ [e] = a @ x # b \<and> launch_from sha x = Some l \<and> outlives sha l b \<and>
      (\<forall>m \<in> set v. \<exists>y \<in> set b. launch_from sha y = Some m)"
  proof (cases "launch_from sha e")
    case None
    then have removed: "remove_latest (finishes sha e) ls = u @ l # v" using split by (simp add: track_def)
    show ?thesis
    proof (cases rule: remove_latest_cases [of ls "finishes sha e"])
      case 1
      then show ?thesis using removed None by (intro extend [of u v]) auto
    next
      case (2 u1 m v1)
      from 2(4) removed have "u1 @ v1 = u @ l # v" by simp
      then consider w where "u1 = u @ l # w" "v = w @ v1" | w where "v1 = w @ l # v" "u = u1 @ w"
        by (auto simp: append_eq_append_conv2 append_eq_Cons_conv Cons_eq_append_conv)
      then show ?thesis
      proof cases
        case (1 w)
        then show ?thesis using 2 None by (intro extend [of u "w @ m # v1"]) auto
      next
        case (2 w)
        then show ?thesis using \<open>ls = u1 @ m # v1\<close> \<open>\<forall>x \<in> set v1. \<not> finishes sha e x\<close> None
          by (intro extend [of "u1 @ m # w" v]) auto
      qed
    qed
  next
    case (Some n)
    define kept where "kept = (if la_pid n \<noteq> None then filter (\<lambda>m. \<not> same_process m n) ls else ls)"
    have kept: "kept @ [n] = u @ l # v" using split Some by (simp add: track_def kept_def)
    show ?thesis
    proof (cases v rule: rev_cases)
      case Nil
      with kept have "l = n" by simp
      then have "events @ [e] = events @ e # [] \<and> launch_from sha e = Some l \<and> outlives sha l [] \<and>
          (\<forall>m \<in> set v. \<exists>y \<in> set []. launch_from sha y = Some m)"
        using Some Nil by simp
      then show ?thesis by blast
    next
      case (snoc w m)
      with kept have k: "kept = u @ l # w" and m: "m = n" by auto
      have "\<exists>u' v'. ls = u' @ l # v' \<and> set w \<subseteq> set v' \<and> (la_pid n = None \<or> \<not> same_process l n)"
      proof (cases "la_pid n = None")
        case False
        with k have f: "filter (\<lambda>m. \<not> same_process m n) ls = u @ l # w" by (simp add: kept_def)
        then have "l \<in> set (filter (\<lambda>m. \<not> same_process m n) ls)" by simp
        then have "\<not> same_process l n" by simp
        moreover from filter_split [OF f] obtain u' v' where "ls = u' @ l # v'" "w = filter (\<lambda>m. \<not> same_process m n) v'"
          by blast
        ultimately show ?thesis by (intro exI [of _ u'] exI [of _ v']) auto
      qed (use k kept_def in auto)
      then obtain u' v' where "ls = u' @ l # v'" "set w \<subseteq> set v'" "la_pid n = None \<or> \<not> same_process l n" by blast
      then show ?thesis using Some snoc m launch_not_terminal [OF Some]
        by (intro extend [of u' v']) auto
    qed
  qed
qed

lemma foldl_tracked: "tracked sha events (foldl (track sha) [] events)"
  by (induction events rule: rev_induct) (simp_all add: track_tracked, simp add: tracked_def)


definition example_launch :: harness_event where
  "example_launch =
     (new_event ''e1'' (Aware 1 0) HT_CODEX ''s'' ET_SHELL)\<lparr>command := Some ''serve'',
      process_state := Some [(''pid'', PInt 7), (''detached'', PBool True)]\<rparr>"

definition example_other_exit :: harness_event where
  "example_other_exit =
     (new_event ''e2'' (Aware 2 0) HT_CODEX ''s'' ET_TOOL_RESULT)\<lparr>
      process_state := Some [(''pid'', PInt 8), (''exit_code'', PInt 0)]\<rparr>"

lemma example_launch_patterns:
  "\<not> rx_found routine_test ''serve''" "strip ''serve'' = ''serve''"
  by code_simp+

lemma example_abandoned:
  "find_abandoned_background (\<lambda>c. c) [example_other_exit, example_launch] =
     Some \<lparr>la_command = ''serve'', la_identity = ''serve'', la_pid = Some 7, la_session_id = ''s'',
           la_event_id = ''e1''\<rparr>"
  by (simp add: find_abandoned_background_def by_time_def instant_def track_def launch_from_def finishes_def
      remove_latest_def example_launch_def example_other_exit_def new_event_def stripped_command_def
      text_or_empty_def state_of_def terminal_state_def marked_background_def observed_pid_def valid_pid_def
      max_observed_pid_def example_launch_patterns Let_def)


text \<open>
  The pattern asks for a word boundary directly before \<open>--daemon\<close>. After a blank there is none, so the usual
  spelling of the flag does not mark a launch.
\<close>

lemma daemon_flag_is_not_seen:
  "\<not> rx_found background_launch ''nginx --daemon''" "rx_found background_launch ''nginx--daemon''"
  by code_simp+

end
