(* ===== verification/Speculative_Probes.thy ===== *)
theory Speculative_Probes
  imports Trajectory_Features
begin

text \<open>
  \<open>services/bridge/src/pex_bridge/speculative.py\<close>: two cheap approaches tried by two workers. Which recorded
  questions count as two approaches, which sessions form a pair, what a finished probe shows, and which of two
  finished probes won. Parameter: \<open>show\<close> is \<open>str\<close> on a value that is not a string.
\<close>

section \<open>Approaches\<close>

definition probe_budget_tool_calls :: nat where
  "probe_budget_tool_calls = 8"

definition cheap_approach_max_chars :: nat where
  "cheap_approach_max_chars = 400"

definition open_question :: "decision \<Rightarrow> bool" where
  "open_question d =
     (dict_get (dec_metadata d) ''kind'' = PStr ''unresolved_question'' \<and> dec_status d \<noteq> DST_SUPERSEDED \<and>
      strip (dec_statement d) \<noteq> [] \<and> length (strip (dec_statement d)) \<le> cheap_approach_max_chars)"

fun collect_approaches :: "decision list \<Rightarrow> string list \<Rightarrow> string list \<Rightarrow> string list" where
  "collect_approaches [] seen approaches = []"
| "collect_approaches (d # ds) seen approaches =
     (let stated = strip (dec_statement d)
      in if \<not> open_question d then collect_approaches ds seen approaches
         else if casefold stated \<in> set seen then collect_approaches ds seen approaches
         else if length (approaches @ [stated]) = 2 then approaches @ [stated]
         else collect_approaches ds (casefold stated # seen) (approaches @ [stated]))"

definition cheap_competing_approaches :: "decision list \<Rightarrow> string list" where
  "cheap_competing_approaches decisions = collect_approaches decisions [] []"

definition probe_instructions :: "string \<Rightarrow> int \<Rightarrow> string" where
  "probe_instructions approach budget =
     (let cleaned = take cheap_approach_max_chars (join '' '' (split_ws approach))
      in ''Isolated speculative probe. Try only this approach: '' @ cleaned @ ''. '' @
         ''Budget: at most '' @ decimal_int budget @ '' tool calls. Stop after the first pytest '' @
         ''result or a clear failure. Do not expand scope, start extra workers, '' @
         ''or mutate unrelated files.'')"

section \<open>Pairs\<close>

text \<open>\<open>str(value or fallback)\<close>.\<close>

definition text_or :: "(pyval \<Rightarrow> string) \<Rightarrow> string \<Rightarrow> pyval \<Rightarrow> string" where
  "text_or show fallback v = (if \<not> truthy v then fallback else case v of PStr s \<Rightarrow> s | _ \<Rightarrow> show v)"

definition speculative_pair :: "(pyval \<Rightarrow> string) \<Rightarrow> harness_session \<Rightarrow> (string \<times> pyval) list option" where
  "speculative_pair show s =
     (case dict_get (ses_metadata s) ''speculative'' of
        PDict raw \<Rightarrow>
          if strip (text_or show [] (dict_get raw ''pair_id'')) = [] \<or>
             strip (text_or show [] (dict_get raw ''sibling_session_id'')) = [] then None
          else Some raw
      | _ \<Rightarrow> None)"

definition probe_already_running ::
  "(pyval \<Rightarrow> string) \<Rightarrow> harness_session list \<Rightarrow> string \<Rightarrow> string \<Rightarrow> bool" where
  "probe_already_running show sessions g current =
     (\<exists>s \<in> set sessions. ses_id s \<noteq> current \<and> ses_goal_id s = Some g \<and>
        (dict_get (ses_metadata s) ''probe'' = PBool True \<or> speculative_pair show s \<noteq> None))"

section \<open>Results\<close>

record probe_result =
  pr_session_id :: string
  pr_status :: string
  pr_pytest_ok :: "bool option"
  pr_approach :: string
  pr_role :: string

definition pytest_outcome :: "pytest_invocation \<Rightarrow> harness_event \<Rightarrow> bool option" where
  "pytest_outcome i e =
     (let info = runner_info PYTEST_RUNNER e
      in if given (ev_error e) \<or> nonzero_exit (dict_get info ''exit_code'') \<or> dict_get info ''ok'' = PBool False
         then Some False
         else if dict_get info ''ok'' = PBool True \<and> dict_get info ''exit_code'' = PInt 0 \<and> scope i = FULL_SUITE
         then Some True else None)"

text \<open>The loop over the events, newest first.\<close>

fun latest_pytest :: "string \<Rightarrow> harness_event list \<Rightarrow> bool option result" where
  "latest_pytest session [] = Inr None"
| "latest_pytest session (e # es) =
     (if ev_session_id e \<noteq> session then latest_pytest session es
      else if event_type e = ET_FILE_EDIT then Inr None
      else bind_result (classify_pytest_invocation (test_command e)) (\<lambda>found.
        case found of None \<Rightarrow> latest_pytest session es | Some i \<Rightarrow> Inr (pytest_outcome i e)))"

definition probe_result_from_stop ::
  "(pyval \<Rightarrow> string) \<Rightarrow> harness_session \<Rightarrow> (string \<times> pyval) list option \<Rightarrow> harness_event list \<Rightarrow>
   probe_result result" where
  "probe_result_from_stop show s verification recent =
     bind_result (latest_pytest (ses_id s) (rev recent)) (\<lambda>ok.
       let pair = (case speculative_pair show s of None \<Rightarrow> [] | Some d \<Rightarrow> d);
           v = (case verification of None \<Rightarrow> [] | Some d \<Rightarrow> d)
       in Inr \<lparr>pr_session_id = ses_id s, pr_status = text_or show ''uncertain'' (dict_get v ''status''),
               pr_pytest_ok = ok, pr_approach = text_or show [] (dict_get pair ''approach''),
               pr_role = text_or show [] (dict_get pair ''role'')\<rparr>)"

definition status_score :: "string \<Rightarrow> int" where
  "status_score s =
     (if s = ''supported'' then 4 else if s = ''uncertain'' then 1 else if s = ''acceptance_gap'' then 0
      else if s = ''contradicted'' then -2 else 1)"

definition result_score :: "probe_result \<Rightarrow> int" where
  "result_score r =
     status_score (if pr_status r = [] then ''uncertain'' else pr_status r) +
     (case pr_pytest_ok r of Some True \<Rightarrow> 2 | Some False \<Rightarrow> -2 | None \<Rightarrow> 0)"

record comparison =
  winner :: string
  winner_session_id :: "string option"
  loser_session_id :: "string option"
  winner_approach :: string
  loser_approach :: string
  reasons :: "string list"

definition ok_text :: "bool option \<Rightarrow> string" where
  "ok_text ok = (case ok of None \<Rightarrow> ''None'' | Some True \<Rightarrow> ''True'' | Some False \<Rightarrow> ''False'')"

definition reason :: "string \<Rightarrow> string \<Rightarrow> probe_result \<Rightarrow> string" where
  "reason label fallback r =
     ''Approach '' @ label @ '' ('' @ (if pr_approach r = [] then fallback else pr_approach r) @ ''): '' @
     pr_status r @ '', pytest='' @ ok_text (pr_pytest_ok r)"

definition compare_probe_results :: "probe_result \<Rightarrow> probe_result \<Rightarrow> comparison" where
  "compare_probe_results parent child =
     (let rs = [reason ''A'' ''parent'' parent, reason ''B'' ''child'' child]
      in if result_score parent = result_score child then
           \<lparr>winner = ''tie'', winner_session_id = None, loser_session_id = None,
            winner_approach = pr_approach parent, loser_approach = pr_approach child, reasons = rs\<rparr>
         else
           let (first, second, role) =
                 (if result_score parent < result_score child then (child, parent, ''b'') else (parent, child, ''a''))
           in \<lparr>winner = role, winner_session_id = Some (pr_session_id first),
               loser_session_id = Some (pr_session_id second), winner_approach = pr_approach first,
               loser_approach = pr_approach second, reasons = rs\<rparr>)"

section \<open>Facts\<close>

lemma collect_approaches_shape:
  assumes "length approaches \<le> 1" "map casefold approaches = rev seen"
    "collect_approaches ds seen approaches = r"
  shows "r = [] \<or> (\<exists>a b. r = [a, b] \<and> casefold a \<noteq> casefold b \<and>
    set r \<subseteq> set approaches \<union> {strip (dec_statement d) | d. d \<in> set ds \<and> open_question d})"
  using assms
proof (induction ds arbitrary: seen approaches)
  case (Cons d ds)
  let ?s = "strip (dec_statement d)"
  show ?case
  proof (cases "open_question d \<and> casefold ?s \<notin> set seen")
    case False
    with Cons.prems have "collect_approaches ds seen approaches = r" by (auto simp: Let_def split: if_splits)
    from Cons.IH [OF Cons.prems(1,2) this] show ?thesis by auto
  next
    case new: True
    show ?thesis
    proof (cases approaches)
      case Nil
      with new Cons.prems(3) have "collect_approaches ds (casefold ?s # seen) [?s] = r" by (simp add: Let_def)
      moreover have "map casefold [?s] = rev (casefold ?s # seen)" using Cons.prems(2) Nil by simp
      ultimately show ?thesis using Cons.IH [of "[?s]" "casefold ?s # seen"] new Nil by fastforce
    next
      case (Cons a as)
      with Cons.prems(1) have a: "approaches = [a]" by simp
      with new \<open>collect_approaches (d # ds) seen approaches = r\<close> have "r = [a, ?s]" by (simp add: Let_def)
      moreover have "casefold a \<in> set seen" using \<open>map casefold approaches = rev seen\<close> a
        by (metis list.set_intros(1) list.simps(9) set_rev)
      ultimately show ?thesis using a new by auto
    qed
  qed
qed simp

text \<open>
  What the newest event that settles the tests says, and nothing after it (in the session) edits or tests.
\<close>

lemma latest_pytest_Some:
  assumes "latest_pytest session es = Inr ok" "ok \<noteq> None"
  shows "\<exists>a e b i. es = a @ e # b \<and> ev_session_id e = session \<and> event_type e \<noteq> ET_FILE_EDIT \<and>
    classify_pytest_invocation (test_command e) = Inr (Some i) \<and> pytest_outcome i e = ok \<and>
    (\<forall>x \<in> set a. ev_session_id x \<noteq> session \<or>
       event_type x \<noteq> ET_FILE_EDIT \<and> classify_pytest_invocation (test_command x) = Inr None)"
  using assms
proof (induction es)
  case (Cons e es)
  let ?c = "classify_pytest_invocation (test_command e)"
  consider "ev_session_id e \<noteq> session \<or> event_type e \<noteq> ET_FILE_EDIT \<and> ?c = Inr None"
      "latest_pytest session es = Inr ok"
    | i where "ev_session_id e = session" "event_type e \<noteq> ET_FILE_EDIT" "?c = Inr (Some i)" "pytest_outcome i e = ok"
    using Cons.prems by (auto simp: bind_result_def split: if_splits sum.splits option.splits)
  then show ?case
  proof cases
    case 1
    from Cons.IH [OF 1(2) Cons.prems(2)] obtain a e' b i where
      h: "es = a @ e' # b" "ev_session_id e' = session" "event_type e' \<noteq> ET_FILE_EDIT"
        "classify_pytest_invocation (test_command e') = Inr (Some i)" "pytest_outcome i e' = ok"
        "\<forall>x \<in> set a. ev_session_id x \<noteq> session \<or>
           event_type x \<noteq> ET_FILE_EDIT \<and> classify_pytest_invocation (test_command x) = Inr None" by blast
    have "e # es = (e # a) @ e' # b" using h(1) by simp
    with 1(1) h show ?thesis by (metis set_ConsD)
  next
    case 2
    have "e # es = [] @ e # es" by simp
    with 2 show ?thesis by (metis empty_iff empty_set)
  qed
qed simp


definition example_suite_run :: harness_event where
  "example_suite_run =
     (new_event ''e1'' (Aware 0 0) HT_CODEX ''s'' ET_SHELL)\<lparr>command := Some ''pytest'',
      process_state := Some [(''pytest'', PDict [(''ok'', PBool True), (''exit_code'', PInt 0)])]\<rparr>"

lemma example_suite_classified:
  "case classify_pytest_invocation (test_command example_suite_run) of
     Inr (Some i) \<Rightarrow> scope i = FULL_SUITE | _ \<Rightarrow> False"
  by code_simp


text \<open>
  The comparison of two finished probes is fair and decided by evidence: it is a tie exactly when
  both score the same; otherwise the session with the higher score wins and the other one loses, whichever of
  them is the parent. A probe whose claims were contradicted never wins over a supported one, and at equal
  status the one whose tests passed wins over one whose tests did not.
\<close>

lemma probe_comparison_fair:
  "let c = compare_probe_results p q; d = compare_probe_results q p
   in (winner c = ''tie'') = (result_score p = result_score q) \<and>
      (if result_score p = result_score q then winner_session_id c = None \<and> loser_session_id c = None
       else winner_session_id c =
              Some (if result_score p < result_score q then pr_session_id q else pr_session_id p) \<and>
            loser_session_id c =
              Some (if result_score p < result_score q then pr_session_id p else pr_session_id q)) \<and>
      winner_session_id d = winner_session_id c \<and> loser_session_id d = loser_session_id c \<and>
      \<not> (pr_status p = ''contradicted'' \<and> pr_status q = ''supported'' \<and> winner c = ''a'') \<and>
      \<not> (pr_status p = pr_status q \<and> pr_pytest_ok p = Some True \<and> pr_pytest_ok q \<noteq> Some True \<and> winner c \<noteq> ''a'')"
proof -
  have better: "result_score q < result_score p"
    if "pr_status p = pr_status q" "pr_pytest_ok p = Some True" "pr_pytest_ok q \<noteq> Some True"
    using that by (auto simp: result_score_def split: option.split)
  have worse: "result_score p \<le> result_score q" if "pr_status p = ''contradicted''" "pr_status q = ''supported''"
    using that by (auto simp: result_score_def status_score_def split: option.split bool.split)
  show ?thesis
    using better worse by (auto simp: compare_probe_results_def Let_def) blast+
qed

text \<open>
  Two approaches are offered only as a pair, and only when both are open questions of the ledger
  that are not superseded, short, and differ in more than case.
\<close>

lemma competing_approaches_distinct:
  "cheap_competing_approaches ds = [] \<or>
   (\<exists>a b. cheap_competing_approaches ds = [a, b] \<and> casefold a \<noteq> casefold b \<and>
      set (cheap_competing_approaches ds) \<subseteq> {strip (dec_statement d) | d. d \<in> set ds \<and> open_question d})"
  using collect_approaches_shape [of "[]" "[]" ds, OF _ _ refl]
  by (simp add: cheap_competing_approaches_def)

end
