(* ===== verification/Redaction.thy ===== *)
theory Redaction
  imports Py_Regex
begin

text \<open>
  \<open>packages/protocol/src/pex_protocol/redaction.py\<close>: what is removed from text and payloads before they are
  stored or shown. The patterns are those of the source; the back reference of the private-key pattern is
  written out for its four labels. A value under a key that names a secret is replaced as a whole, every other
  string is searched for the patterns.
\<close>

section \<open>Patterns\<close>

definition alnum :: rx where
  "alnum = RChr is_alnum_ascii"

definition one_of :: "string \<Rightarrow> rx" where
  "one_of cs = RChr (\<lambda>c. is_alnum_ascii c \<or> c \<in> set cs)"

definition digit_or_upper :: rx where
  "digit_or_upper = RChr (\<lambda>c. is_digit_ascii c \<or> is_upper_ascii c)"

definition quote_mark :: rx where
  "quote_mark = RChr (\<lambda>c. c = CHR 0x27 \<or> c = CHR 0x22)"

definition aws_access_key :: rx where
  "aws_access_key = rseq [ralt [rlit ''AKIA'', rlit ''ASIA''], rtimes 16 digit_or_upper]"

definition aws_secret :: rx where
  "aws_secret =
     rseq [rlit_ci ''aws'', ropt (rupto 20 rdot), ralt [rlit_ci ''secret'', rlit_ci ''access''],
       rupto 20 rdot, quote_mark, rtimes 40 (one_of ''/+=''), quote_mark]"

definition bearer_token :: rx where
  "bearer_token = rseq [rlit_ci ''bearer'', rplus rspace, rplus (one_of ''-._~+/''), RStar (rchar (CHR ''=''))]"

definition credential_assignment :: rx where
  "credential_assignment =
     (let sep = ropt (RChr (\<lambda>c. c \<in> set ''_-''))
      in rseq [RWordB,
        RStar (rseq [RChr is_alpha_ascii, RStar alnum, RChr (\<lambda>c. c \<in> set ''_-'')]),
        ralt [rseq [rlit_ci ''api'', sep, rlit_ci ''key''], rlit_ci ''authorization'', rlit_ci ''credential'',
          rlit_ci ''password'', rseq [rlit_ci ''private'', sep, rlit_ci ''key''],
          rseq [rlit_ci ''client'', sep, rlit_ci ''secret''],
          rseq [rlit_ci ''secret'', ropt (rseq [sep, rlit_ci ''access'', sep, rlit_ci ''key''])],
          rseq [rlit_ci ''session'', sep, rlit_ci ''token''], rseq [rlit_ci ''access'', sep, rlit_ci ''token''],
          rseq [rlit_ci ''refresh'', sep, rlit_ci ''token''], rlit_ci ''token''],
        RWordB, RStar rspace, rset '':='', RStar rspace,
        ralt [rseq [quote_mark, ratleast 8 (RChr (\<lambda>c. c \<notin> {CHR 0x27, CHR 0x22, CHR 0x0D, CHR 0x0A})), quote_mark],
          ratleast 8 (RChr (\<lambda>c. \<not> is_space c \<and> c \<notin> set '',;}]''))]])"

definition url_credentials :: rx where
  "url_credentials =
     (let part = rplus (RChr (\<lambda>c. \<not> is_space c \<and> c \<notin> set ''/@:''))
      in rseq [RWordB,
        ralt [rseq [rlit_ci ''postgres'', ropt (rlit_ci ''ql'')], rlit_ci ''mysql'',
          rseq [rlit_ci ''mongodb'', ropt (rlit_ci ''+srv'')], rlit_ci ''redis''],
        rlit ''://'', part, rchar (CHR '':''), part, rchar (CHR ''@'')])"

definition private_key_block :: "string \<Rightarrow> rx" where
  "private_key_block label =
     rseq [rlit ''-----BEGIN '', rlit label, rlit ''-----'', RLazy (RChr (\<lambda>c. True)), rlit ''-----END '',
       rlit label, rlit ''-----'']"

definition private_key :: rx where
  "private_key =
     ralt [private_key_block ''RSA PRIVATE KEY'', private_key_block ''EC PRIVATE KEY'',
       private_key_block ''OPENSSH PRIVATE KEY'', private_key_block ''PRIVATE KEY'']"

definition github_pat :: rx where
  "github_pat =
     ralt [rseq [rlit ''ghp_'', ratleast 20 alnum], rseq [rlit ''github_pat_'', ratleast 20 (one_of ''_'')]]"

definition provider_api_key :: rx where
  "provider_api_key =
     rseq [RWordB,
       ralt [rseq [rlit ''sk-'', ropt (ralt [rlit ''proj-'', rseq [rlit ''ant-'', rplus alnum, rchar (CHR ''-'')]])],
         rlit ''gsk_'', rlit ''xai-''],
       ratleast 16 (one_of ''_-''), RWordB]"

definition secret_patterns :: "(string \<times> rx) list" where
  "secret_patterns =
     [(''aws_access_key'', aws_access_key), (''aws_secret'', aws_secret), (''bearer'', bearer_token),
      (''credential_assignment'', credential_assignment), (''url_credentials'', url_credentials),
      (''private_key'', private_key), (''github_pat'', github_pat),
      (''gitlab_pat'', rseq [rlit ''glpat-'', ratleast 20 (one_of ''_-'')]),
      (''google_api_key'', rseq [rlit ''AIza'', rtimes 35 (one_of ''_-'')]),
      (''huggingface_token'', rseq [rlit ''hf_'', ratleast 20 alnum]),
      (''slack_token'', rseq [rlit ''xox'', rset ''baprs'', rchar (CHR ''-''), ratleast 20 (one_of ''-'')]),
      (''provider_api_key'', provider_api_key),
      (''npm_token'', rseq [rlit ''npm_'', ratleast 20 alnum]),
      (''stripe_secret'',
        rseq [ralt [rlit ''sk'', rlit ''rk''], rchar (CHR ''_''), ralt [rlit ''live'', rlit ''test''],
          rchar (CHR ''_''), ratleast 16 alnum]),
      (''slack_webhook'', rseq [rlit ''https://hooks.slack.com/services/'', ratleast 20 (one_of ''/_-'')])]"

section \<open>Keys and values\<close>

definition sensitive_suffixes :: "string list" where
  "sensitive_suffixes =
     [''apikey'', ''authorization'', ''credential'', ''credentials'', ''password'', ''privatekey'',
      ''clientsecret'', ''secretkey'', ''secretaccesskey'', ''accesstoken'', ''refreshtoken'', ''sessiontoken'',
      ''token'']"

definition normalized_key :: "string \<Rightarrow> string" where
  "normalized_key key = filter (\<lambda>c. is_lower_ascii c \<or> is_digit_ascii c) (casefold key)"

definition sensitive_key :: "string \<Rightarrow> bool" where
  "sensitive_key key =
     ((\<exists>suffix \<in> set sensitive_suffixes. ends_with suffix (normalized_key key)) \<or>
      normalized_key key = ''secret'')"

definition redaction_mark :: "string \<Rightarrow> string" where
  "redaction_mark name = ''[REDACTED:'' @ name @ '']''"

fun redact_patterns :: "(string \<times> rx) list \<Rightarrow> string \<Rightarrow> string \<times> string list" where
  "redact_patterns [] t = (t, [])"
| "redact_patterns ((name, r) # ps) t =
     (if rx_found r t
      then (case redact_patterns ps (rx_sub r (redaction_mark name) t) of (u, found) \<Rightarrow> (u, name # found))
      else redact_patterns ps t)"

definition redact_text :: "string \<Rightarrow> string \<times> string list" where
  "redact_text t = (if t = [] then (t, []) else redact_patterns secret_patterns t)"

text \<open>
  \<open>_redact_value\<close> with a key, \<open>None\<close> where the code passes none; a dictionary is \<open>redact_mapping\<close>. An empty
  key counts as no key.
\<close>

definition hides :: "string option \<Rightarrow> pyval \<Rightarrow> bool" where
  "hides key v =
     (case key of None \<Rightarrow> False | Some k \<Rightarrow> k \<noteq> [] \<and> sensitive_key k \<and> v \<noteq> PNone \<and> v \<noteq> PStr [])"

fun redact_value :: "string option \<Rightarrow> pyval \<Rightarrow> pyval \<times> string list" where
  "redact_value key (PStr t) =
     (if hides key (PStr t) then (PStr (redaction_mark (the key)), [''key:'' @ the key])
      else (PStr (fst (redact_text t)), snd (redact_text t)))"
| "redact_value key (PDict kvs) =
     (if hides key (PDict kvs) then (PStr (redaction_mark (the key)), [''key:'' @ the key])
      else (PDict (map (\<lambda>kv. (fst kv, fst (redact_value (Some (fst kv)) (snd kv)))) kvs),
            concat (map (\<lambda>kv. snd (redact_value (Some (fst kv)) (snd kv))) kvs)))"
| "redact_value key (PList vs) =
     (if hides key (PList vs) then (PStr (redaction_mark (the key)), [''key:'' @ the key])
      else (PList (map (\<lambda>v. fst (redact_value None v)) vs), concat (map (\<lambda>v. snd (redact_value None v)) vs)))"
| "redact_value key v =
     (if hides key v then (PStr (redaction_mark (the key)), [''key:'' @ the key]) else (v, []))"

definition redact_mapping :: "(string \<times> pyval) list \<Rightarrow> (string \<times> pyval) list \<times> string list" where
  "redact_mapping kvs =
     (map (\<lambda>(k, v). (k, fst (redact_value (Some k) v))) kvs,
      concat (map (\<lambda>(k, v). snd (redact_value (Some k) v)) kvs))"

section \<open>What is left\<close>

text \<open>No value under a key that names a secret is left, at any depth.\<close>

fun hidden_under :: "string option \<Rightarrow> pyval \<Rightarrow> bool" where
  "hidden_under key (PDict kvs) =
     (\<not> hides key (PDict kvs) \<and> (\<forall>kv \<in> set kvs. hidden_under (Some (fst kv)) (snd kv)))"
| "hidden_under key (PList vs) = (\<not> hides key (PList vs) \<and> (\<forall>v \<in> set vs. hidden_under None v))"
| "hidden_under key v = (\<not> hides key v \<or> v = PStr (redaction_mark (the key)))"

text \<open>Same shape: containers keep their keys and lengths, scalars that are not strings stay.\<close>

fun same_shape_as :: "pyval \<Rightarrow> pyval \<Rightarrow> bool" where
  "same_shape_as (PDict kvs) (PDict lvs) =
     (map fst kvs = map fst lvs \<and> list_all2 (\<lambda>kv lv. same_shape_as (snd kv) (snd lv)) kvs lvs)"
| "same_shape_as (PList vs) (PList ws) = list_all2 same_shape_as vs ws"
| "same_shape_as v (PStr t) = True"
| "same_shape_as v w = (v = w)"

lemma redact_text_Nil [simp]: "redact_text [] = ([], [])"
  by (simp add: redact_text_def)

lemma hides_simps [simp]:
  "hides None v = False" "hides key PNone = False" "hides key (PStr []) = False"
  "hides (Some k) (PDict kvs) = (k \<noteq> [] \<and> sensitive_key k)"
  "hides (Some k) (PList vs) = (k \<noteq> [] \<and> sensitive_key k)"
  by (simp_all add: hides_def split: option.split)

lemma hides_text: "hides key (PStr t) \<Longrightarrow> t \<noteq> []" "t \<noteq> [] \<Longrightarrow> u \<noteq> [] \<Longrightarrow> hides key (PStr t) = hides key (PStr u)"
  by (auto simp: hides_def split: option.splits)

lemma redact_hidden: "hidden_under key (fst (redact_value key v))"
proof (induction key v rule: redact_value.induct)
  case (1 key t)
  show ?case
  proof (cases "t = []")
    case False
    then show ?thesis
      by (cases "fst (redact_text t) = []") (auto simp: hides_text(2) [of t "fst (redact_text t)"])
  qed simp
next
  case (2 key kvs)
  then show ?case by (cases key) auto
next
  case (3 key vs)
  then show ?case by (cases key) auto
qed simp_all

lemma redact_shape: "same_shape_as v (fst (redact_value key v))"
proof (induction key v rule: redact_value.induct)
  case (2 key kvs)
  then show ?case by (auto simp: list_all2_conv_all_nth comp_def)
next
  case (3 key vs)
  then show ?case by (auto simp: list_all2_conv_all_nth)
qed simp_all

lemma redact_patterns_unfound: "redact_patterns ps t = (u, []) \<Longrightarrow> u = t"
  by (induction ps arbitrary: t) (auto split: if_splits prod.splits)

lemma redact_text_unfound: "snd (redact_text t) = [] \<Longrightarrow> fst (redact_text t) = t"
  by (cases "redact_patterns secret_patterns t") (auto simp: redact_text_def dest: redact_patterns_unfound)

lemma redact_unfound: "snd (redact_value key v) = [] \<Longrightarrow> fst (redact_value key v) = v"
proof (induction key v rule: redact_value.induct)
  case (1 key t)
  then show ?case by (auto simp: redact_text_unfound split: if_splits)
next
  case (2 key kvs)
  then show ?case by (auto intro!: map_idI split: if_splits)
next
  case (3 key vs)
  then show ?case by (auto intro!: map_idI split: if_splits)
qed (auto split: if_splits)


end
