(* ===== verification/Observed_Values.thy ===== *)
theory Observed_Values
  imports Redaction Adapter_Contract
begin

text \<open>
  \<open>bounded_observed_text\<close> and \<open>bounded_observed_mapping\<close> of \<open>adapters/base.py\<close>: what a vendor reports is copied
  into a bounded, redacted value before a session keeps it. The copy spends two budgets, one for nodes and one
  for characters, that all parts of the value share; they are threaded through the recursion. A Python value
  that is not JSON-like has no counterpart in \<open>pyval\<close>, tuples are lists, floats are finite.
\<close>

definition max_observed_mapping_nodes :: int where
  "max_observed_mapping_nodes = 4096"

definition max_observed_mapping_depth :: nat where
  "max_observed_mapping_depth = 8"

definition max_observed_mapping_items :: nat where
  "max_observed_mapping_items = 128"

definition max_observed_mapping_text_chars :: int where
  "max_observed_mapping_text_chars = 65536"

definition max_observed_value_chars :: nat where
  "max_observed_value_chars = 32768"

definition bounded_observed_text :: "pyval \<Rightarrow> string \<Rightarrow> nat \<Rightarrow> string option" where
  "bounded_observed_text v field most =
     (case v of
        PStr t \<Rightarrow>
          if t = [] then None
          else (case bounded_adapter_text (PStr t) field most of
                  Inl _ \<Rightarrow> None
                | Inr u \<Rightarrow> Some (fst (redact_text u)))
      | _ \<Rightarrow> None)"

text \<open>The budgets left for nodes and for characters.\<close>

type_synonym budget = "int \<times> int"

definition unsafe_key :: "string \<Rightarrow> bool" where
  "unsafe_key key = (key = [] \<or> 128 < length key \<or> (\<exists>c \<in> set key. is_control c))"

definition wide_int :: "int \<Rightarrow> bool" where
  "wide_int i = (2 ^ 4096 \<le> abs i)"

definition spend_text :: "nat \<Rightarrow> budget \<Rightarrow> budget option" where
  "spend_text n b = (if snd b - int n < 0 then None else Some (fst b, snd b - int n))"

fun clean :: "nat \<Rightarrow> pyval \<Rightarrow> budget \<Rightarrow> (pyval \<times> budget) option"
  and clean_items :: "nat \<Rightarrow> (string \<times> pyval) list \<Rightarrow> budget \<Rightarrow> ((string \<times> pyval) list \<times> budget) option"
  and clean_list :: "nat \<Rightarrow> pyval list \<Rightarrow> budget \<Rightarrow> (pyval list \<times> budget) option" where
  "clean depth v (nodes, chars) =
     (let b = (nodes - 1, chars)
      in if nodes - 1 < 0 \<or> max_observed_mapping_depth < depth then None
         else case v of
           PNone \<Rightarrow> Some (v, b)
         | PBool _ \<Rightarrow> Some (v, b)
         | PInt i \<Rightarrow> if wide_int i then None else Some (v, b)
         | PFloat _ \<Rightarrow> Some (v, b)
         | PStr t \<Rightarrow>
             if max_observed_value_chars < length t \<or> CHR 0x00 \<in> set t then None
             else map_option (\<lambda>b'. (v, b')) (spend_text (length t) b)
         | PDict kvs \<Rightarrow>
             if max_observed_mapping_items < length kvs then None
             else map_option (\<lambda>(ws, b'). (PDict ws, b')) (clean_items depth kvs b)
         | PList vs \<Rightarrow>
             if max_observed_mapping_items < length vs then None
             else map_option (\<lambda>(ws, b'). (PList ws, b')) (clean_list depth vs b))"
| "clean_items depth [] b = Some ([], b)"
| "clean_items depth ((k, v) # kvs) b =
     (if unsafe_key k then None
      else case spend_text (length k) b of
        None \<Rightarrow> None
      | Some b1 \<Rightarrow>
          (case clean (Suc depth) v b1 of
             None \<Rightarrow> None
           | Some (w, b2) \<Rightarrow> map_option (\<lambda>(ws, b3). ((k, w) # ws, b3)) (clean_items depth kvs b2)))"
| "clean_list depth [] b = Some ([], b)"
| "clean_list depth (v # vs) b =
     (case clean (Suc depth) v b of
        None \<Rightarrow> None
      | Some (w, b2) \<Rightarrow> map_option (\<lambda>(ws, b3). (w # ws, b3)) (clean_list depth vs b2))"

definition bounded_observed_mapping :: "pyval \<Rightarrow> (string \<times> pyval) list option" where
  "bounded_observed_mapping v =
     (if \<not> (case v of PDict _ \<Rightarrow> True | _ \<Rightarrow> False) then None
      else case clean 0 v (max_observed_mapping_nodes, max_observed_mapping_text_chars) of
        Some (PDict d, _) \<Rightarrow> Some (fst (redact_mapping d))
      | _ \<Rightarrow> None)"

section \<open>The value a copy accepts\<close>

text \<open>The reference: sizes of a value, and the bounds that hold at each of its nodes.\<close>

fun node_count :: "pyval \<Rightarrow> nat" where
  "node_count (PDict kvs) = Suc (sum_list (map (\<lambda>kv. node_count (snd kv)) kvs))"
| "node_count (PList vs) = Suc (sum_list (map node_count vs))"
| "node_count v = 1"

fun char_count :: "pyval \<Rightarrow> nat" where
  "char_count (PStr t) = length t"
| "char_count (PDict kvs) = sum_list (map (\<lambda>kv. length (fst kv) + char_count (snd kv)) kvs)"
| "char_count (PList vs) = sum_list (map char_count vs)"
| "char_count v = 0"

fun bounded_below :: "nat \<Rightarrow> pyval \<Rightarrow> bool" where
  "bounded_below depth (PInt i) = (depth \<le> max_observed_mapping_depth \<and> \<not> wide_int i)"
| "bounded_below depth (PStr t) =
     (depth \<le> max_observed_mapping_depth \<and> length t \<le> max_observed_value_chars \<and> CHR 0x00 \<notin> set t)"
| "bounded_below depth (PDict kvs) =
     (depth \<le> max_observed_mapping_depth \<and> length kvs \<le> max_observed_mapping_items \<and>
      (\<forall>kv \<in> set kvs. \<not> unsafe_key (fst kv) \<and> bounded_below (Suc depth) (snd kv)))"
| "bounded_below depth (PList vs) =
     (depth \<le> max_observed_mapping_depth \<and> length vs \<le> max_observed_mapping_items \<and>
      (\<forall>v \<in> set vs. bounded_below (Suc depth) v))"
| "bounded_below depth v = (depth \<le> max_observed_mapping_depth)"

definition spent :: "bool \<Rightarrow> 'a \<Rightarrow> nat \<Rightarrow> nat \<Rightarrow> budget \<Rightarrow> ('a \<times> budget) option" where
  "spent ok x nodes chars b =
     (if ok \<and> int nodes \<le> fst b \<and> int chars \<le> snd b then Some (x, (fst b - int nodes, snd b - int chars))
      else None)"

lemma node_count_pos: "1 \<le> node_count v"
  by (cases v) simp_all

lemma spend_text_spent: "spend_text n b = (if int n \<le> snd b then Some (fst b, snd b - int n) else None)"
  by (simp add: spend_text_def)

text \<open>The copy is the value itself, accepted exactly within the budgets.\<close>

lemma clean_spent:
  "0 \<le> fst b \<Longrightarrow> 0 \<le> snd b \<Longrightarrow> clean d v b = spent (bounded_below d v) v (node_count v) (char_count v) b"
  "0 \<le> fst b \<Longrightarrow> 0 \<le> snd b \<Longrightarrow> clean_items d kvs b =
     spent (\<forall>kv \<in> set kvs. \<not> unsafe_key (fst kv) \<and> bounded_below (Suc d) (snd kv)) kvs
       (sum_list (map (\<lambda>kv. node_count (snd kv)) kvs))
       (sum_list (map (\<lambda>kv. length (fst kv) + char_count (snd kv)) kvs)) b"
  "0 \<le> fst b \<Longrightarrow> 0 \<le> snd b \<Longrightarrow> clean_list d vs b =
     spent (\<forall>v \<in> set vs. bounded_below (Suc d) v) vs (sum_list (map node_count vs))
       (sum_list (map char_count vs)) b"
proof (induction d v b and d kvs b and d vs b rule: clean_clean_items_clean_list.induct)
  case (1 depth v nodes chars)
  show ?case
  proof (cases "nodes - 1 < 0 \<or> max_observed_mapping_depth < depth")
    case True
    then show ?thesis using node_count_pos [of v] by (cases v) (auto simp: spent_def)
  next
    case False
    with 1 show ?thesis
      by (cases v) (auto simp: spent_def spend_text_spent Let_def simp del: clean_items.simps clean_list.simps)
  qed
next
  case (3 depth k v kvs b)
  show ?case
  proof (cases "unsafe_key k \<or> snd b < int (length k)")
    case True
    then show ?thesis by (auto simp: spent_def spend_text_spent)
  next
    case False
    with 3 show ?thesis
      by (auto simp: spent_def spend_text_spent simp del: clean.simps split: if_splits)
  qed
next
  case (5 depth v vs b)
  then show ?case by (auto simp: spent_def simp del: clean.simps split: if_splits)
qed (simp_all add: spent_def)

text \<open>
  The copy with its two shared budgets is equivalent to one test of the finished value: an
  observed object is kept exactly when it has at most 4096 nodes and 65536 characters in all (keys included),
  is nowhere deeper than 8 levels or wider than 128 entries, and every key, text and number in it is within its
  own bound. What is kept then is the object itself, redacted.
\<close>

lemma observed_mapping_bounds:
  "bounded_observed_mapping (PDict d) =
     (if bounded_below 0 (PDict d) \<and> node_count (PDict d) \<le> 4096 \<and> char_count (PDict d) \<le> 65536
      then Some (fst (redact_mapping d)) else None)"
  using clean_spent(1) [of "(max_observed_mapping_nodes, max_observed_mapping_text_chars)" 0 "PDict d"]
  by (simp add: bounded_observed_mapping_def spent_def max_observed_mapping_nodes_def
      max_observed_mapping_text_chars_def del: clean.simps bounded_below.simps node_count.simps char_count.simps)

end
