(* ===== verification/Agent_Fingerprints.thy ===== *)
theory Agent_Fingerprints
  imports Project_Locator
begin

text \<open>
  \<open>services/bridge/src/pex_bridge/fingerprints.py\<close>: what the history of a harness says about it, and when it may
  influence a decision. A bucket is a dictionary; the unforgeable marker the store adds to a validated cohort is
  the flag \<open>sealed\<close> beside it, since no value of the dictionary can be that object. Rates are rational.
\<close>

record bucket =
  sealed :: bool
  entries :: "(string \<times> pyval) list"

definition seal_store_fingerprint_cohort :: "bucket \<Rightarrow> bucket" where
  "seal_store_fingerprint_cohort b = b\<lparr>sealed := True\<rparr>"

definition field_of :: "bucket \<Rightarrow> string \<Rightarrow> pyval" where
  "field_of b key = dict_get (entries b) key"

definition count_of :: "bucket \<Rightarrow> string \<Rightarrow> int" where
  "count_of b key = (case field_of b key of PInt i \<Rightarrow> if 0 \<le> i then i else 0 | _ \<Rightarrow> 0)"

definition is_count :: "pyval \<Rightarrow> bool" where
  "is_count v = (case v of PInt i \<Rightarrow> 0 \<le> i | _ \<Rightarrow> False)"

text \<open>The pattern \<open>^[0-9a-f]{64}$\<close> under \<open>fullmatch\<close>.\<close>

definition is_authoritative_cohort :: "bucket \<Rightarrow> bool" where
  "is_authoritative_cohort b =
     (sealed b \<and> field_of b ''cohort_scoped'' = PBool True \<and> field_of b ''cohort_history_immutable'' = PBool True \<and>
      field_of b ''settings_identity_verified'' = PBool True \<and> field_of b ''project_binding_typed'' = PBool True \<and>
      (case field_of b ''model'' of
         PStr model \<Rightarrow> model \<noteq> [] \<and> field_of b ''models'' = PList [PStr model]
       | _ \<Rightarrow> False) \<and>
      (case field_of b ''model_settings_hash'' of PStr h \<Rightarrow> prefixed_hex [] 64 h | _ \<Rightarrow> False) \<and>
      (\<forall>key \<in> set [''observed_sessions'', ''premature_stop_sessions'', ''verified_stop_sessions'',
          ''overlay_sessions'', ''inspected_stop_sessions'']. is_count (field_of b key)) \<and>
      count_of b ''inspected_stop_sessions'' \<le> count_of b ''observed_sessions'' \<and>
      count_of b ''overlay_sessions'' \<le> count_of b ''observed_sessions'' \<and>
      count_of b ''premature_stop_sessions'' \<le> count_of b ''inspected_stop_sessions'' \<and>
      count_of b ''verified_stop_sessions'' \<le> count_of b ''inspected_stop_sessions'')"

record agent_fingerprint =
  fp_harness :: pyval
  fp_model :: pyval
  fp_observed_sessions :: int
  fp_models :: "pyval list"
  fp_premature :: int
  fp_verified :: int
  fp_overlays :: int
  fp_inspected :: int
  fp_premature_rate :: rat
  fp_verified_rate :: rat
  fp_strengths :: "string list"
  fp_failure_modes :: "string list"
  fp_recommended :: "string list"
  fp_settings_hash :: pyval
  fp_project_class :: pyval
  fp_sample_count :: int
  fp_confidence :: rat
  fp_cohort_scoped :: bool

definition session_noun :: "int \<Rightarrow> string" where
  "session_noun n = (if n = 1 then ''session'' else ''sessions'')"

definition inspected_count :: "bucket \<Rightarrow> int" where
  "inspected_count b =
     (if count_of b ''inspected_stop_sessions'' \<le> 0
      then count_of b ''verified_stop_sessions'' + count_of b ''premature_stop_sessions''
      else count_of b ''inspected_stop_sessions'')"

definition rate :: "int \<Rightarrow> int \<Rightarrow> rat" where
  "rate part whole = (if whole \<noteq> 0 then of_int part / of_int whole else 0)"

text \<open>\<open>list(value or [])\<close> and \<open>bucket["harness"]\<close>; both raise on values without such a reading.\<close>

definition list_of :: "pyval \<Rightarrow> pyval list result" where
  "list_of v =
     (if \<not> truthy v then Inr []
      else case v of
        PList vs \<Rightarrow> Inr vs
      | PStr s \<Rightarrow> Inr (map (\<lambda>c. PStr [c]) s)
      | PDict kvs \<Rightarrow> Inr (map (\<lambda>kv. PStr (fst kv)) kvs)
      | _ \<Rightarrow> Inl ''TypeError'')"

definition decorate_agent_fingerprint :: "bucket \<Rightarrow> agent_fingerprint result" where
  "decorate_agent_fingerprint b =
     (case map_of (entries b) ''harness'' of
        None \<Rightarrow> Inl ''KeyError''
      | Some harness \<Rightarrow>
          bind_result (list_of (field_of b ''models'')) (\<lambda>models.
            let premature = count_of b ''premature_stop_sessions'';
                verified = count_of b ''verified_stop_sessions'';
                inspected = inspected_count b
            in Inr
              \<lparr>fp_harness = harness, fp_model = field_of b ''model'',
               fp_observed_sessions = count_of b ''observed_sessions'', fp_models = models,
               fp_premature = premature, fp_verified = verified,
               fp_overlays = count_of b ''overlay_sessions'', fp_inspected = inspected,
               fp_premature_rate = rate premature inspected, fp_verified_rate = rate verified inspected,
               fp_strengths =
                 (if verified \<noteq> 0
                  then [decimal_int verified @ '' '' @ session_noun verified @ '' had a STOP supported by the verifier'']
                  else []),
               fp_failure_modes =
                 (if premature \<noteq> 0
                  then [decimal_int premature @ '' '' @ session_noun premature @
                        '' had a STOP that contradicted or left an acceptance gap'']
                  else []),
               fp_recommended =
                 (if is_authoritative_cohort b \<and> 2 \<le> premature then [''evidence-before-done''] else []),
               fp_settings_hash = field_of b ''model_settings_hash'',
               fp_project_class = field_of b ''project_class'', fp_sample_count = inspected,
               fp_confidence = min 1 (of_int inspected / 5),
               fp_cohort_scoped = (field_of b ''cohort_scoped'' = PBool True)\<rparr>))"

record score_features =
  sf_recommended :: "string list"
  sf_gap_stop_sessions :: int
  sf_inspected :: int
  sf_verified :: int
  sf_model :: pyval
  sf_settings_hash :: pyval
  sf_project_class :: pyval
  sf_sample_count :: int
  sf_confidence :: rat

definition no_score_features :: score_features where
  "no_score_features =
     \<lparr>sf_recommended = [], sf_gap_stop_sessions = 0, sf_inspected = 0, sf_verified = 0, sf_model = PNone,
      sf_settings_hash = PNone, sf_project_class = PNone, sf_sample_count = 0, sf_confidence = 0\<rparr>"

definition fingerprint_score_features :: "bucket \<Rightarrow> score_features result" where
  "fingerprint_score_features b =
     (if \<not> is_authoritative_cohort b then Inr no_score_features
      else bind_result (decorate_agent_fingerprint b) (\<lambda>f.
        Inr \<lparr>sf_recommended = fp_recommended f, sf_gap_stop_sessions = fp_premature f,
             sf_inspected = fp_inspected f, sf_verified = fp_verified f, sf_model = fp_model f,
             sf_settings_hash = fp_settings_hash f, sf_project_class = fp_project_class f,
             sf_sample_count = fp_sample_count f, sf_confidence = fp_confidence f\<rparr>))"

definition decorate_agent_fingerprints :: "bucket list \<Rightarrow> agent_fingerprint list result" where
  "decorate_agent_fingerprints rows = map_result decorate_agent_fingerprint rows"

section \<open>Properties\<close>

lemma count_of_nonneg: "0 \<le> count_of b key"
  by (simp add: count_of_def split: pyval.split)

lemma authoritative_counts:
  "is_authoritative_cohort b \<Longrightarrow>
     count_of b ''premature_stop_sessions'' \<le> inspected_count b \<and>
     count_of b ''verified_stop_sessions'' \<le> inspected_count b"
  using count_of_nonneg [of b "''premature_stop_sessions''"] count_of_nonneg [of b "''verified_stop_sessions''"]
  by (auto simp: is_authoritative_cohort_def inspected_count_def)

lemma rate_bounds: "0 \<le> part \<Longrightarrow> part \<le> whole \<Longrightarrow> 0 \<le> rate part whole \<and> rate part whole \<le> 1"
  by (auto simp: rate_def divide_le_eq)


definition example_cohort :: bucket where
  "example_cohort =
     \<lparr>sealed = False,
      entries = [(''harness'', PStr ''codex''), (''cohort_scoped'', PBool True),
        (''premature_stop_sessions'', PInt 3), (''inspected_stop_sessions'', PInt 4)]\<rparr>"


end
