(* ===== verification/Mcp_Requests.thy ===== *)
theory Mcp_Requests
  imports Supervisor_Context Project_Locator
begin

text \<open>
  \<open>packages/protocol/src/pex_protocol/context.py\<close>: the requests a worker may send over MCP, the durable context
  item, the bundle of a handoff and the evidence that a handoff was acted on. Parameter: \<open>nfkc\<close> is
  \<open>unicodedata.normalize("NFKC", text)\<close>.
\<close>

section \<open>Progress, claims, checks\<close>

text \<open>The pattern \<open>^[A-Za-z0-9][A-Za-z0-9._:-]*$\<close> with 8 to 128 characters.\<close>

definition valid_idempotency_key :: "string \<Rightarrow> bool" where
  "valid_idempotency_key key =
     (8 \<le> length key \<and> length key \<le> 128 \<and> is_alnum_ascii (hd key) \<and>
      (\<forall>c \<in> set key. is_alnum_ascii c \<or> c \<in> set ''._:-''))"

record evidence_reference =
  ref_type :: string
  ref_id :: string

definition validate_evidence_reference :: "evidence_reference \<Rightarrow> unit result" where
  "validate_evidence_reference r =
     first_failure
       [(ref_type r \<notin> {''event'', ''context''}, ''type''),
        (bad_length 1 512 (ref_id r), ''id''),
        (bad_context_id (ref_id r), ''evidence reference id must be a non-control string'')]"

record progress_report =
  pg_idempotency_key :: string
  pg_summary :: string
  pg_evidence_refs :: "evidence_reference list"

definition validate_progress_report :: "progress_report \<Rightarrow> unit result" where
  "validate_progress_report r =
     bind_result (map_result validate_evidence_reference (pg_evidence_refs r)) (\<lambda>_.
       first_failure
         [(\<not> valid_idempotency_key (pg_idempotency_key r), ''idempotency_key''),
          (bad_length 1 4000 (pg_summary r), ''summary''),
          (pg_evidence_refs r = [] \<or> 24 < length (pg_evidence_refs r), ''evidence_refs''),
          (\<not> distinct (map (\<lambda>x. (ref_type x, ref_id x)) (pg_evidence_refs r)),
             ''progress evidence references must be unique by type and id'')])"

record claim_request =
  cl_idempotency_key :: string
  cl_claim :: string

definition validate_claim_request :: "claim_request \<Rightarrow> unit result" where
  "validate_claim_request r =
     first_failure
       [(\<not> valid_idempotency_key (cl_idempotency_key r), ''idempotency_key''),
        (bad_length 1 4000 (cl_claim r), ''claim'')]"

record action_check =
  ac_idempotency_key :: string
  ac_intended_action :: string

definition validate_action_check :: "action_check \<Rightarrow> unit result" where
  "validate_action_check r =
     first_failure
       [(\<not> valid_idempotency_key (ac_idempotency_key r), ''idempotency_key''),
        (bad_length 1 4000 (ac_intended_action r), ''intended_action'')]"

section \<open>Human decisions and handoffs\<close>

record human_request =
  hr_idempotency_key :: string
  hr_question :: string
  hr_options :: "string list"
  hr_urgency :: string
  hr_context :: string

definition folded_options :: "(string \<Rightarrow> string) \<Rightarrow> string list \<Rightarrow> string list" where
  "folded_options nfkc vs = map (\<lambda>v. casefold (nfkc v)) vs"

definition validate_human_request :: "(string \<Rightarrow> string) \<Rightarrow> human_request \<Rightarrow> unit result" where
  "validate_human_request nfkc r =
     first_failure
       [(\<not> valid_idempotency_key (hr_idempotency_key r), ''idempotency_key''),
        (bad_length 1 4000 (hr_question r), ''question''),
        (bad_context_id (hr_question r), ''decision text must be trimmed and contain no controls''),
        (16 < length (hr_options r), ''options''),
        (\<exists>v \<in> set (hr_options r). bad_length 1 500 v \<or> bad_context_id v,
           ''decision options must be nonblank trimmed strings of at most 500 characters''),
        (\<not> distinct (folded_options nfkc (hr_options r)),
           ''decision options must be distinct after Unicode normalization and case folding''),
        (hr_urgency r \<notin> {''normal'', ''high'', ''blocking''}, ''urgency''),
        (bad_length 0 4000 (hr_context r), ''context''),
        (bad_context_id (hr_context r), ''decision text must be trimmed and contain no controls'')]"

record handoff_request =
  ho_idempotency_key :: string
  ho_target_session_id :: string
  ho_token_budget :: int

definition validate_handoff_request :: "handoff_request \<Rightarrow> unit result" where
  "validate_handoff_request r =
     first_failure
       [(\<not> valid_idempotency_key (ho_idempotency_key r), ''idempotency_key''),
        (bad_length 1 512 (ho_target_session_id r), ''target_session_id''),
        (bad_context_id (ho_target_session_id r), ''target session id must be trimmed and contain no controls''),
        (ho_token_budget r < 256 \<or> 12000 < ho_token_budget r, ''token_budget'')]"

section \<open>Durable context\<close>

record durable_item =
  cx_id :: string
  cx_project_id :: string
  cx_goal_id :: "string option"
  cx_kind :: context_kind
  cx_content :: string
  cx_source_refs :: "string list"
  cx_provenance :: source_kind
  cx_confidence :: rat
  cx_relevance_tags :: "string list"
  cx_valid_from :: datetime
  cx_stale_after :: "datetime option"
  cx_supersedes :: "string option"
  cx_sensitivity :: sensitivity
  cx_metadata :: "(string \<times> pyval) list"

definition new_durable_item ::
  "string \<Rightarrow> string \<Rightarrow> context_kind \<Rightarrow> string \<Rightarrow> datetime \<Rightarrow> durable_item" where
  "new_durable_item identifier project kind content time =
     \<lparr>cx_id = identifier, cx_project_id = project, cx_goal_id = None, cx_kind = kind, cx_content = content,
      cx_source_refs = [], cx_provenance = SK_PEX, cx_confidence = 1 / 2, cx_relevance_tags = [],
      cx_valid_from = time, cx_stale_after = None, cx_supersedes = None, cx_sensitivity = SEN_INTERNAL,
      cx_metadata = []\<rparr>"

definition is_shared_human_constraint :: "durable_item \<Rightarrow> bool" where
  "is_shared_human_constraint x =
     (cx_goal_id x = None \<and> cx_kind x = CK_CONSTRAINT \<and> cx_provenance x = SK_HUMAN)"

record context_bundle =
  bu_goal_id :: string
  bu_target_session_id :: string
  bu_source_session_ids :: "string list"
  bu_goal_summary :: string
  bu_acceptance_criteria :: "string list"
  bu_critical_decisions :: "string list"
  bu_relevant_artifacts :: "string list"
  bu_direct_evidence :: "string list"
  bu_recent_progress :: "string list"
  bu_next_objective :: string
  bu_do_not_redo :: "string list"
  bu_deep_links :: "string list"
  bu_items :: "durable_item list"
  bu_token_estimate :: int
  bu_created_at :: datetime

section \<open>Evidence of a handoff\<close>

record assimilation_evidence =
  as_schema :: string
  as_evidence_id :: string
  as_effect_id :: string
  as_handoff_intervention_id :: string
  as_bundle_digest :: string
  as_dispatch_started_at :: datetime
  as_dispatch_version :: int
  as_dispatch_seq_through :: int
  as_source_session_id :: string
  as_source_vendor_session_id :: string
  as_source_harness :: harness_type
  as_target_session_id :: string
  as_target_vendor_session_id :: string
  as_target_harness :: harness_type
  as_source_project_id :: string
  as_target_project_id :: string
  as_source_project_binding :: string
  as_target_project_binding :: string
  as_goal_project_binding :: string
  as_goal_id :: string
  as_target_event_id :: string
  as_target_event_type :: event_type
  as_target_event_accept_seq :: "int option"
  as_target_mutation_id :: "string option"
  as_evidence_kind :: string
  as_evidence_strength :: string
  as_matched_context_item_ids :: "string list"
  as_matched_artifact_paths :: "string list"
  as_target_event_ts :: datetime
  as_observed_at :: datetime
  as_status :: string
  as_verified :: bool
  as_assimilation_proven :: bool

definition assimilation_fields :: "assimilation_evidence \<Rightarrow> unit result" where
  "assimilation_fields x =
     first_failure
       [(as_schema x \<noteq> ''pex.handoff-assimilation-evidence.v1'', ''schema''),
        (\<exists>v \<in> {as_evidence_id x, as_effect_id x, as_handoff_intervention_id x}. bad_length 1 128 v, ''ids''),
        (\<not> prefixed_hex [] 64 (as_bundle_digest x), ''bundle_digest''),
        (as_dispatch_version x < 1, ''dispatch_version''),
        (as_dispatch_seq_through x < 0, ''dispatch_target_accept_seq_through''),
        (\<exists>v \<in> {as_source_session_id x, as_source_vendor_session_id x, as_target_session_id x,
               as_target_vendor_session_id x, as_source_project_binding x, as_target_project_binding x,
               as_goal_project_binding x, as_goal_id x, as_target_event_id x}. bad_length 1 512 v, ''bindings''),
        (\<exists>v \<in> {as_source_project_id x, as_target_project_id x}. bad_length 1 4096 v, ''project_id''),
        (bad_optional (\<lambda>i. i < 1) (as_target_event_accept_seq x), ''target_event_accept_seq''),
        (bad_optional (bad_length 1 128) (as_target_mutation_id x), ''target_mutation_id''),
        (as_evidence_kind x \<notin> {''artifact_read'', ''artifact_edit'', ''target_acknowledgement''}, ''evidence_kind''),
        (as_evidence_strength x \<notin> {''behavioral'', ''self_attested''}, ''evidence_strength''),
        (as_matched_context_item_ids x = [] \<or> 256 < length (as_matched_context_item_ids x),
           ''matched_context_item_ids''),
        (256 < length (as_matched_artifact_paths x), ''matched_artifact_paths''),
        (as_status x \<noteq> ''observed'', ''status''),
        (as_verified x, ''verified''),
        (as_assimilation_proven x, ''assimilation_proven'')]"

definition assimilation_shape :: "assimilation_evidence \<Rightarrow> unit result" where
  "assimilation_shape x =
     first_failure
       [(\<not> distinct (as_matched_context_item_ids x), ''matched handoff context item ids must be unique''),
        (\<not> distinct (as_matched_artifact_paths x), ''matched handoff artifact paths must be unique''),
        (as_evidence_kind x \<in> {''artifact_read'', ''artifact_edit''} \<and>
           (as_evidence_strength x \<noteq> ''behavioral'' \<or> as_matched_artifact_paths x = [] \<or>
            as_target_event_accept_seq x = None \<or> as_target_mutation_id x \<noteq> None),
           ''artifact action evidence requires behavioral path evidence''),
        (as_evidence_kind x \<notin> {''artifact_read'', ''artifact_edit''} \<and>
           (as_evidence_strength x \<noteq> ''self_attested'' \<or> as_matched_artifact_paths x \<noteq> [] \<or>
            as_target_mutation_id x = None \<or> as_target_event_accept_seq x \<noteq> None),
           ''explicit context reference evidence cannot claim artifact action paths'')]"

definition validate_assimilation :: "assimilation_evidence \<Rightarrow> unit result" where
  "validate_assimilation x = bind_result (assimilation_fields x) (\<lambda>_. assimilation_shape x)"

text \<open>
  A worker's own word never counts as behaviour: evidence names paths exactly when it comes from an accepted
  event, and a mutation exactly when it is self-attested; neither is ever marked as verified.
\<close>

lemma assimilation_kinds:
  assumes "validate_assimilation x = Inr u"
  shows "(as_evidence_strength x = ''behavioral'') = (as_target_event_accept_seq x \<noteq> None)"
    "(as_evidence_strength x = ''behavioral'') = (as_matched_artifact_paths x \<noteq> [])"
    "(as_evidence_strength x = ''self_attested'') = (as_target_mutation_id x \<noteq> None)"
    "\<not> as_verified x" "\<not> as_assimilation_proven x" "distinct (as_matched_context_item_ids x)"
  using assms by (auto simp: validate_assimilation_def bind_result_Inr_iff assimilation_fields_def
      assimilation_shape_def)

end
