(* ===== verification/Store_Rows.thy ===== *)
theory Store_Rows
  imports Project_Identity Action_Model Harness_Events Mcp_Requests "HOL-Library.List_Lexorder"
begin

text \<open>
  The durable rows of \<open>services/bridge/src/pex_bridge/store.py\<close> that authority rests on, and the helpers that
  read them. A table is the list of its rows; a primary key, which SQLite enforces, is a well-formedness
  condition. A transaction (\<open>BEGIN IMMEDIATE\<close>, statements, commit or rollback) is a function from the store to
  a result: on an error nothing is written. A row that holds a model as JSON holds the model; \<open>digest\<close> is
  SHA-256 in hexadecimal.
\<close>

section \<open>Errors\<close>

text \<open>The exception classes the callers tell apart. An \<open>Identity_Blocked\<close> is a \<open>ValueError\<close>, too.\<close>

datatype store_error =
    Lookup_Error string
  | Runtime_Error string
  | Permission_Error string
  | Value_Error string
  | Identity_Blocked (blocked_message: string) (blocked_code: string)

type_synonym 'a stored = "store_error + 'a"

definition bind_stored :: "'a stored \<Rightarrow> ('a \<Rightarrow> 'b stored) \<Rightarrow> 'b stored" where
  "bind_stored r f = (case r of Inl e \<Rightarrow> Inl e | Inr x \<Rightarrow> f x)"

definition refuse :: "bool \<Rightarrow> store_error \<Rightarrow> unit stored" where
  "refuse bad e = (if bad then Inl e else Inr ())"

lemma bind_stored_simps [simp]: "bind_stored (Inl e) f = Inl e" "bind_stored (Inr x) f = f x"
  by (simp_all add: bind_stored_def)

lemma bind_stored_Inr_iff: "bind_stored r f = Inr y \<longleftrightarrow> (\<exists>x. r = Inr x \<and> f x = Inr y)"
  by (cases r) simp_all

lemma bind_stored_InrE:
  assumes "bind_stored r f = Inr y"
  obtains x where "r = Inr x" "f x = Inr y"
  using assms by (auto simp: bind_stored_Inr_iff)

lemma refuse_Inr_iff [simp]: "refuse bad e = Inr u \<longleftrightarrow> \<not> bad"
  by (simp add: refuse_def)

lemma refuse_known [simp]: "refuse False e = Inr ()" "refuse True e = Inl e"
  by (simp_all add: refuse_def)

lemma bind_refuse_Inr [simp]: "bind_stored (refuse bad e) f = Inr y \<longleftrightarrow> \<not> bad \<and> f () = Inr y"
  by (simp add: refuse_def)

fun map_stored :: "('a \<Rightarrow> 'b stored) \<Rightarrow> 'a list \<Rightarrow> 'b list stored" where
  "map_stored f [] = Inr []"
| "map_stored f (x # xs) = bind_stored (f x) (\<lambda>y. bind_stored (map_stored f xs) (\<lambda>ys. Inr (y # ys)))"

lemma map_stored_Inr_iff: "map_stored f xs = Inr ys \<longleftrightarrow> list_all2 (\<lambda>x y. f x = Inr y) xs ys"
proof (induction xs arbitrary: ys)
  case (Cons x xs)
  then show ?case by (cases ys) (auto simp: bind_stored_Inr_iff)
qed (auto dest: sym)

definition is_value_error :: "store_error \<Rightarrow> bool" where
  "is_value_error e = (case e of Value_Error m \<Rightarrow> True | Identity_Blocked m c \<Rightarrow> True | _ \<Rightarrow> False)"

section \<open>Rows\<close>

record artifact_binding =
  bound_project :: string
  bound_key :: string

datatype binding_state = Binding_Active | Binding_Quarantined

record legacy_binding =
  lb_project :: string
  lb_identity :: "string option"
  lb_state :: binding_state

record goal_row =
  gr_id :: string
  gr_project :: "string option"
  gr_binding :: "string option"
  gr_revision :: "int option"
  gr_hash :: "string option"
  gr_goal :: goal

record decision_row =
  dr_id :: string
  dr_goal_id :: string
  dr_project :: "string option"
  dr_binding :: "string option"
  dr_decision :: decision

record context_row =
  cr_id :: string
  cr_project :: string
  cr_binding :: "string option"
  cr_goal_id :: "string option"
  cr_item :: durable_item

record session_row =
  sr_id :: string
  sr_vendor :: string
  sr_harness :: string
  sr_binding :: "string option"
  sr_revision :: int
  sr_control_revision :: int
  sr_session :: harness_session

record credential_row =
  kr_id :: string
  kr_session_id :: string
  kr_issued_at :: int
  kr_revoked_at :: "int option"

text \<open>The envelope \<open>pex.intervention-bound.v1\<close> repeats the columns beside the payload.\<close>

record bound_columns =
  bc_project :: "string option"
  bc_binding :: "string option"
  bc_vendor :: "string option"
  bc_harness :: "string option"
  bc_hash :: "string option"
  bc_version :: int

record intervention_row =
  ir_id :: string
  ir_session_id :: string
  ir_goal_id :: "string option"
  ir_time :: datetime
  ir_columns :: bound_columns
  ir_envelope :: bound_columns
  ir_payload :: intervention

record overlay_target =
  ot_session_id :: string
  ot_vendor :: string
  ot_harness :: string
  ot_project :: "string option"
  ot_goal_id :: "string option"
  ot_cwd :: "string option"

record session_target =
  st_target :: overlay_target
  st_capabilities :: "(string \<times> pyval) list"

record action_target =
  at_intervention_id :: string
  at_session_id :: string
  at_goal_id :: "string option"
  at_created_at :: datetime
  at_action :: proposed_action

text \<open>
  One human ruling on a permission or a lifecycle action. A permission carries the request it answers, a
  lifecycle ruling the type of its action. The constant entries \<open>schema\<close>, \<open>source\<close> and \<open>channel\<close> are left out.
\<close>

record resolution =
  rs_intervention_id :: string
  rs_session_id :: string
  rs_goal_id :: string
  rs_dispatch_binding :: string
  rs_columns :: bound_columns
  rs_request_id :: "string option"
  rs_action_type :: "intervention_type option"
  rs_decision :: string
  rs_status :: string
  rs_reserved_at :: datetime
  rs_dispatch_started_at :: "datetime option"
  rs_dispatcher :: "string option"
  rs_finished_at :: "datetime option"
  rs_delivery_result :: "string option"
  rs_authority_reducing :: bool
  rs_intervention_binding :: action_target
  rs_session_binding :: session_target
  rs_goal_binding :: "string \<times> string"

record resolution_row =
  rr_intervention_id :: string
  rr_session_id :: string
  rr_goal_id :: string
  rr_columns :: bound_columns
  rr_request_id :: "string option"
  rr_decision :: string
  rr_status :: string
  rr_record :: resolution

record audit_row =
  au_intervention :: intervention
  au_type :: string

record store =
  legacy_bindings :: "legacy_binding list"
  goal_rows :: "goal_row list"
  decision_rows :: "decision_row list"
  context_rows :: "context_row list"
  session_rows :: "session_row list"
  mcp_rows :: "credential_row list"
  hook_rows :: "credential_row list"
  intervention_rows :: "intervention_row list"
  permission_rows :: "resolution_row list"
  lifecycle_rows :: "resolution_row list"
  audit_rows :: "audit_row list"

section \<open>Project bindings\<close>

definition project_key :: "string \<Rightarrow> string" where
  "project_key v =
     casefold (rstrip_where (\<lambda>c. c = CHR ''/'') (replace_char (CHR 0x5C) (CHR ''/'') (strip v)))"

definition same_project :: "string \<Rightarrow> string \<Rightarrow> bool" where
  "same_project left right = (project_binding_key left = project_binding_key right)"

definition find_binding :: "store \<Rightarrow> string \<Rightarrow> legacy_binding option" where
  "find_binding db project = find (\<lambda>b. lb_project b = project) (legacy_bindings db)"

definition quarantined_error :: store_error where
  "quarantined_error = Identity_Blocked ''project identity is quarantined'' ''project_identity_quarantined''"

definition identity_changed :: "string \<Rightarrow> store_error" where
  "identity_changed message = Identity_Blocked message ''artifact_project_identity_changed''"

definition identity_unbound :: "string \<Rightarrow> store_error" where
  "identity_unbound label =
     Identity_Blocked (label @ '' has no immutable project identity'') ''artifact_project_identity_unbound''"

definition reject_quarantined :: "store \<Rightarrow> string \<Rightarrow> unit stored" where
  "reject_quarantined db project =
     (case find_binding db project of
        Some b \<Rightarrow> refuse (lb_state b = Binding_Quarantined) quarantined_error
      | None \<Rightarrow>
          let aliases = map lb_project (legacy_bindings db)
          in bind_stored (refuse (10000 < length aliases) (Runtime_Error ''project identity alias scan is bounded''))
               (\<lambda>_. refuse (\<exists>candidate \<in> set aliases. candidate \<noteq> project \<and> project_key candidate = project_key project)
                  (Identity_Blocked ''project identity alias requires explicit registration''
                     ''project_identity_unresolved'')))"

definition is_quarantined :: "legacy_binding option \<Rightarrow> bool" where
  "is_quarantined b = (case b of None \<Rightarrow> False | Some x \<Rightarrow> lb_state x = Binding_Quarantined)"

definition same_live_binding :: "store \<Rightarrow> string \<Rightarrow> string \<Rightarrow> bool stored" where
  "same_live_binding db left right =
     (if left = right then bind_stored (reject_quarantined db left) (\<lambda>_. Inr True)
      else let l = find_binding db left; r = find_binding db right
        in if is_quarantined l \<or> is_quarantined r then Inl quarantined_error
           else if l \<noteq> None \<or> r \<noteq> None
             then Inr (case (l, r) of
               (Some a, Some b) \<Rightarrow> lb_identity a \<noteq> None \<and> lb_identity a = lb_identity b
             | _ \<Rightarrow> False)
           else Inr (same_project left right))"

text \<open>\<open>_project_binding_snapshot\<close>: an untyped key is distinct from the same key once it is typed.\<close>

definition binding_snapshot :: "(string \<Rightarrow> string) \<Rightarrow> store \<Rightarrow> string \<Rightarrow> string stored" where
  "binding_snapshot digest db project =
     bind_stored (reject_quarantined db project) (\<lambda>_.
       case find_binding db project of
         None \<Rightarrow> Inr (''legacy:'' @ digest project)
       | Some b \<Rightarrow>
           (case (lb_state b, lb_identity b) of
              (Binding_Active, Some identity) \<Rightarrow> Inr (''identity:'' @ identity)
            | _ \<Rightarrow> Inl quarantined_error))"

definition containment_snapshot :: "(string \<Rightarrow> string) \<Rightarrow> string \<Rightarrow> string" where
  "containment_snapshot digest project = ''containment:'' @ digest project"

definition stored_binding :: "string option \<Rightarrow> string option \<Rightarrow> string \<Rightarrow> artifact_binding stored" where
  "stored_binding project binding label =
     (case (project, binding) of
        (Some p, Some b) \<Rightarrow> Inr \<lparr>bound_project = p, bound_key = b\<rparr>
      | _ \<Rightarrow> Inl (identity_unbound label))"

definition require_live_binding ::
  "(string \<Rightarrow> string) \<Rightarrow> store \<Rightarrow> artifact_binding \<Rightarrow> string \<Rightarrow> unit stored" where
  "require_live_binding digest db b label =
     bind_stored (binding_snapshot digest db (bound_project b)) (\<lambda>current.
       refuse (current \<noteq> bound_key b) (identity_changed (label @ '' project identity changed after creation'')))"

text \<open>\<open>session.project_id or session.cwd\<close>.\<close>

definition session_key :: "harness_session \<Rightarrow> string option" where
  "session_key s = (if given (ses_project_id s) then ses_project_id s else ses_cwd s)"

definition max_project_id_length :: nat where "max_project_id_length = 4096"
definition max_store_id_length :: nat where "max_store_id_length = 512"

definition session_project :: "harness_session \<Rightarrow> string stored" where
  "session_project s =
     (let project = text_or_empty (session_key s)
      in bind_stored
           (refuse (project = [] \<or> max_project_id_length < length project) (Value_Error ''session has no project binding''))
           (\<lambda>_. Inr project))"

definition validate_store_id :: "string \<Rightarrow> string \<Rightarrow> unit stored" where
  "validate_store_id v label =
     refuse (strip v = [] \<or> max_store_id_length < length v) (Value_Error (label @ '' is invalid''))"

section \<open>Frozen targets\<close>

definition overlay_session_binding :: "harness_session \<Rightarrow> overlay_target" where
  "overlay_session_binding s =
     \<lparr>ot_session_id = ses_id s, ot_vendor = vendor_session_id s, ot_harness = harness_type_value (ses_harness s),
      ot_project = ses_project_id s, ot_goal_id = ses_goal_id s, ot_cwd = ses_cwd s\<rparr>"

definition decision_session_binding :: "harness_session \<Rightarrow> session_target" where
  "decision_session_binding s =
     \<lparr>st_target = overlay_session_binding s, st_capabilities = ses_capabilities s\<rparr>"

definition resolution_target_matches :: "session_target \<Rightarrow> harness_session \<Rightarrow> bool" where
  "resolution_target_matches frozen s = (st_target frozen = overlay_session_binding s)"

definition decision_intervention_binding :: "intervention \<Rightarrow> action_target" where
  "decision_intervention_binding i =
     \<lparr>at_intervention_id = int_id i, at_session_id = int_session_id i, at_goal_id = int_goal_id i,
      at_created_at = int_created_at i, at_action = int_action i\<rparr>"

section \<open>Facts\<close>

lemma binding_snapshot_Inr:
  assumes "binding_snapshot digest db project = Inr b"
  shows "\<not> is_quarantined (find_binding db project) \<and>
    (b = ''legacy:'' @ digest project \<and> find_binding db project = None \<or>
     (\<exists>x identity. find_binding db project = Some x \<and> lb_state x = Binding_Active \<and>
        lb_identity x = Some identity \<and> b = ''identity:'' @ identity))"
  using assms
  by (auto simp: binding_snapshot_def bind_stored_Inr_iff reject_quarantined_def is_quarantined_def
      split: option.splits binding_state.splits)

lemma require_live_binding_Inr [simp]:
  "require_live_binding digest db b label = Inr u \<longleftrightarrow>
   binding_snapshot digest db (bound_project b) = Inr (bound_key b)"
  by (auto simp: require_live_binding_def bind_stored_Inr_iff)

lemma stored_binding_Inr [simp]:
  "stored_binding project binding label = Inr b \<longleftrightarrow>
   project = Some (bound_project b) \<and> binding = Some (bound_key b)"
  by (cases b) (auto simp: stored_binding_def split: option.splits)

end
