(* ===== verification/Public_Task.thy ===== *)
theory Public_Task
  imports Harness_Events Py_Regex
begin

text \<open>
  \<open>services/supervisor/src/pex_supervisor/public_task.py\<close>: the labelled lists of a task text. The loop over the
  lines is a fold over a state of the lists found so far, the section being read and the marker of an open
  fence. A label without an entry in the table raises \<open>KeyError\<close>, which is an \<open>Inl\<close>.
\<close>

section \<open>Patterns\<close>

definition section_names :: rx where
  "section_names =
     ralt [rlit_ci ''Acceptance criteria'', rlit_ci ''Constraints'', rlit_ci ''Non-goals'', rlit_ci ''Preferences'',
       rseq [rlit_ci ''Evidence'', ropt (rseq [rlit_ci '' requirement'', ropt (rlit_ci ''s'')])],
       rseq [ropt (ralt [rlit_ci ''Current '', rlit_ci ''Important '']), rlit_ci ''Decisions''],
       rseq [rlit_ci ''Rejected'', ropt (rseq [rlit_ci '' approache'', ropt (rlit_ci ''s'')])],
       rseq [ralt [rlit_ci ''Unresolved'', rlit_ci ''Open''], rlit_ci '' question'', ropt (rlit_ci ''s'')]]"

definition section_pattern :: rx where
  "section_pattern = rseq [RGroup ''name'' section_names, RStar rspace, rchar (CHR '':''), RStar rspace, REol]"

definition bullet_pattern :: rx where
  "bullet_pattern =
     rseq [RStar rspace, ralt [rset ''-*'', rseq [rplus rdigit, rset ''.)'']], rplus rspace,
       RGroup ''item'' (rseq [rnonspace, RStar rdot]), REol]"

definition fence_pattern :: rx where
  "fence_pattern =
     rseq [rupto 3 (rchar (CHR '' '')),
       RGroup ''marker'' (ralt [ratleast 3 (rchar (CHR 0x60)), ratleast 3 (rchar (CHR ''~''))]),
       RGroup ''info'' (RStar rdot), REol]"

definition atx_heading :: rx where
  "atx_heading =
     rseq [rupto 3 (rchar (CHR '' '')), RSeq (rchar (CHR ''#'')) (rupto 5 (rchar (CHR ''#''))),
       rplus (RChr (\<lambda>c. c = CHR '' '' \<or> c = CHR 0x09)), RGroup ''body'' (RStar rdot), REol]"

definition closing_marks :: rx where
  "closing_marks =
     rseq [rplus (RChr (\<lambda>c. c = CHR '' '' \<or> c = CHR 0x09)), rplus (rchar (CHR ''#'')),
       RStar (RChr (\<lambda>c. c = CHR '' '' \<or> c = CHR 0x09)), REol]"

text \<open>\<open>match.group(name)\<close>.\<close>

definition group_text :: "string \<Rightarrow> rstate \<Rightarrow> string" where
  "group_text name st = (case group_of st name of None \<Rightarrow> [] | Some t \<Rightarrow> t)"

section \<open>Sections\<close>

definition section_keys :: "(string \<times> string) list" where
  "section_keys =
     [(''acceptance criteria'', ''acceptance_criteria''), (''constraints'', ''constraints''),
      (''non-goals'', ''non_goals''), (''preferences'', ''preferences''), (''evidence'', ''evidence_requirements''),
      (''evidence requirement'', ''evidence_requirements''), (''evidence requirements'', ''evidence_requirements''),
      (''decisions'', ''decisions''), (''current decisions'', ''decisions''),
      (''important decisions'', ''decisions''), (''rejected'', ''rejected_approaches''),
      (''rejected approach'', ''rejected_approaches''), (''rejected approaches'', ''rejected_approaches''),
      (''unresolved question'', ''unresolved_questions''), (''unresolved questions'', ''unresolved_questions''),
      (''open question'', ''unresolved_questions''), (''open questions'', ''unresolved_questions'')]"

definition max_items :: nat where "max_items = 40"

definition max_item_chars :: nat where "max_item_chars = 500"

definition max_objective_chars :: nat where "max_objective_chars = 20000"

definition max_title_chars :: nat where "max_title_chars = 80"

definition list_fields :: "string list" where
  "list_fields =
     [''acceptance_criteria'', ''constraints'', ''non_goals'', ''preferences'', ''evidence_requirements'']"

definition ledger_decision_fields :: "string list" where
  "ledger_decision_fields = [''decisions'', ''rejected_approaches'', ''unresolved_questions'']"

type_synonym sections = "string \<Rightarrow> string list"

record parse_state =
  ps_sections :: sections
  ps_current :: "string option"
  ps_fence :: "string option"

definition closes_fence :: "string \<Rightarrow> string \<Rightarrow> bool" where
  "closes_fence marker line =
     (case rx_match fence_pattern line of
        None \<Rightarrow> False
      | Some m \<Rightarrow>
          hd (group_text ''marker'' m) = hd marker \<and> length marker \<le> length (group_text ''marker'' m) \<and>
          strip (group_text ''info'' m) = [])"

definition opens_fence :: "string \<Rightarrow> string option" where
  "opens_fence line =
     (case rx_match fence_pattern line of
        None \<Rightarrow> None
      | Some m \<Rightarrow>
          if starts_with [CHR 0x60] (group_text ''marker'' m) \<and> CHR 0x60 \<in> set (group_text ''info'' m) then None
          else Some (group_text ''marker'' m))"

definition section_label :: "string \<Rightarrow> string" where
  "section_label line =
     (case rx_match atx_heading line of
        None \<Rightarrow> strip line
      | Some m \<Rightarrow>
          let t = strip (rx_sub closing_marks [] (group_text ''body'' m))
          in if ends_with '':'' t then t else t @ '':'')"

definition heading_of :: "string \<Rightarrow> string option" where
  "heading_of line = map_option (\<lambda>m. casefold (group_text ''name'' m)) (rx_match section_pattern (section_label line))"

definition bullet_item :: "string \<Rightarrow> string option" where
  "bullet_item line = map_option (\<lambda>m. strip (group_text ''item'' m)) (rx_match bullet_pattern line)"

definition add_item :: "string \<Rightarrow> string \<Rightarrow> sections \<Rightarrow> sections" where
  "add_item key item s =
     (if item \<noteq> [] \<and> length (s key) < max_items then s(key := s key @ [take max_item_chars item]) else s)"

definition parse_line :: "parse_state \<Rightarrow> string \<Rightarrow> parse_state result" where
  "parse_line st line =
     (case ps_fence st of
        Some marker \<Rightarrow> Inr (if closes_fence marker line then st\<lparr>ps_fence := None\<rparr> else st)
      | None \<Rightarrow>
          (case opens_fence line of
             Some marker \<Rightarrow> Inr (st\<lparr>ps_fence := Some marker, ps_current := None\<rparr>)
           | None \<Rightarrow>
               (case heading_of line of
                  Some name \<Rightarrow>
                    (case map_of section_keys name of
                       None \<Rightarrow> Inl ''KeyError''
                     | Some key \<Rightarrow> Inr (st\<lparr>ps_current := Some key\<rparr>))
                | None \<Rightarrow>
                    (case ps_current st of
                       None \<Rightarrow> Inr st
                     | Some key \<Rightarrow>
                         (case bullet_item line of
                            Some item \<Rightarrow> Inr (st\<lparr>ps_sections := add_item key item (ps_sections st)\<rparr>)
                          | None \<Rightarrow> Inr (if strip line = [] then st else st\<lparr>ps_current := None\<rparr>))))))"

fun parse_lines :: "parse_state \<Rightarrow> string list \<Rightarrow> parse_state result" where
  "parse_lines st [] = Inr st"
| "parse_lines st (line # ls) = bind_result (parse_line st line) (\<lambda>st'. parse_lines st' ls)"

definition start_parse :: parse_state where
  "start_parse = \<lparr>ps_sections = (\<lambda>_. []), ps_current = None, ps_fence = None\<rparr>"

record public_task =
  pt_title :: string
  pt_objective :: string
  pt_sections :: sections

definition task_lines :: "string \<Rightarrow> string list" where
  "task_lines task = split_char (CHR 0x0A) (replace_all [CHR 0x0D, CHR 0x0A] [CHR 0x0A] task)"

definition task_objective :: "string \<Rightarrow> string" where
  "task_objective task =
     take max_objective_chars (strip (replace_all [CHR 0x0D, CHR 0x0A] [CHR 0x0A] task))"

definition task_title :: "string \<Rightarrow> string" where
  "task_title aim =
     take max_title_chars
       (case filter (\<lambda>p. strip p \<noteq> []) (split_char (CHR 0x0A) aim) of [] \<Rightarrow> ''Task'' | p # _ \<Rightarrow> strip p)"

definition parse_public_task :: "string \<Rightarrow> public_task result" where
  "parse_public_task task =
     bind_result (parse_lines start_parse (task_lines task)) (\<lambda>st.
       Inr \<lparr>pt_title = task_title (task_objective task), pt_objective = task_objective task,
            pt_sections = ps_sections st\<rparr>)"

section \<open>Goals\<close>

text \<open>\<open>getattr(goal, key)\<close> and \<open>model_copy(update=...)\<close> for the five list fields.\<close>

definition goal_list :: "goal \<Rightarrow> string \<Rightarrow> string list" where
  "goal_list g key =
     (if key = ''acceptance_criteria'' then acceptance_criteria g
      else if key = ''constraints'' then constraints g
      else if key = ''non_goals'' then non_goals g
      else if key = ''preferences'' then preferences g
      else if key = ''evidence_requirements'' then evidence_requirements g else [])"

definition nonblank :: "string list \<Rightarrow> string list" where
  "nonblank items = filter (\<lambda>t. strip t \<noteq> []) items"

definition filled_list :: "goal \<Rightarrow> string set \<Rightarrow> sections \<Rightarrow> string \<Rightarrow> string list" where
  "filled_list g skipped s key =
     (if key \<in> skipped \<or> goal_list g key \<noteq> [] then goal_list g key
      else if nonblank (s key) \<noteq> [] then nonblank (s key) else goal_list g key)"

definition fill_empty_goal_lists_from_objective :: "goal \<Rightarrow> string set \<Rightarrow> goal result" where
  "fill_empty_goal_lists_from_objective g skipped =
     bind_result (parse_public_task (objective g)) (\<lambda>t.
       let f = filled_list g skipped (pt_sections t)
       in Inr (g\<lparr>acceptance_criteria := f ''acceptance_criteria'', constraints := f ''constraints'',
                 non_goals := f ''non_goals'', preferences := f ''preferences'',
                 evidence_requirements := f ''evidence_requirements''\<rparr>))"

definition extracted_ledger_lists :: "string \<Rightarrow> (string \<Rightarrow> string list) result" where
  "extracted_ledger_lists aim =
     bind_result (parse_public_task aim) (\<lambda>t.
       Inr (\<lambda>key. if key \<in> set ledger_decision_fields then nonblank (pt_sections t key) else []))"

section \<open>Facts\<close>

definition bounded_sections :: "sections \<Rightarrow> bool" where
  "bounded_sections s =
     (\<forall>key. length (s key) \<le> max_items \<and> (\<forall>t \<in> set (s key). t \<noteq> [] \<and> length t \<le> max_item_chars))"

lemma add_item_bounded: "bounded_sections s \<Longrightarrow> bounded_sections (add_item key item s)"
  by (auto simp: bounded_sections_def add_item_def max_item_chars_def)

lemma parse_line_bounded:
  "parse_line st line = Inr st' \<Longrightarrow> bounded_sections (ps_sections st) \<Longrightarrow> bounded_sections (ps_sections st')"
  by (auto simp: parse_line_def add_item_bounded split: option.splits if_splits)

lemma parse_lines_bounded:
  "parse_lines st ls = Inr st' \<Longrightarrow> bounded_sections (ps_sections st) \<Longrightarrow> bounded_sections (ps_sections st')"
  by (induction ls arbitrary: st) (auto simp: bind_result_Inr_iff dest: parse_line_bounded)

lemma parse_lines_append:
  "parse_lines st (xs @ ys) = bind_result (parse_lines st xs) (\<lambda>st'. parse_lines st' ys)"
  by (induction xs arbitrary: st) (auto simp: bind_result_def split: sum.splits)

text \<open>Inside a fence nothing is read.\<close>

lemma parse_lines_fenced:
  "ps_fence st = Some marker \<Longrightarrow> list_all (\<lambda>x. \<not> closes_fence marker x) body \<Longrightarrow> parse_lines st body = Inr st"
  by (induction body) (simp_all add: parse_line_def)

lemma parse_lines_block:
  assumes "list_all (\<lambda>x. \<not> closes_fence marker x) body" "ps_fence st = None" "opens_fence line = Some marker"
  shows "parse_lines st (line # body @ post) =
    parse_lines (st\<lparr>ps_fence := Some marker, ps_current := None\<rparr>) post"
  using assms parse_lines_fenced [of "st\<lparr>ps_fence := Some marker, ps_current := None\<rparr>" marker body]
  by (simp add: parse_line_def parse_lines_append)

definition task_lists :: "string \<Rightarrow> sections result" where
  "task_lists task = bind_result (parse_public_task task) (\<lambda>t. Inr (pt_sections t))"

lemma task_lists_lines:
  "task_lists task = bind_result (parse_lines start_parse (task_lines task)) (\<lambda>st. Inr (ps_sections st))"
  by (cases "parse_lines start_parse (task_lines task)") (simp_all add: task_lists_def parse_public_task_def)

text \<open>
  An example in a fence is never read as a list of the task: two task texts that differ only in the
  lines between an opening and its closing fence have the same lists (or fail in the same way).
\<close>

lemma fenced_text_is_not_read:
  assumes "opens_fence line = Some marker" "closes_fence marker close_line"
    "list_all (\<lambda>x. \<not> closes_fence marker x) body" "list_all (\<lambda>x. \<not> closes_fence marker x) body'"
    "parse_lines start_parse pre = Inr st" "ps_fence st = None"
    "task_lines task = pre @ line # body @ close_line # post"
    "task_lines task' = pre @ line # body' @ close_line # post"
  shows "task_lists task = task_lists task'"
  using assms parse_lines_block [of marker body st line "close_line # post"]
    parse_lines_block [of marker body' st line "close_line # post"]
  by (simp add: task_lists_lines parse_lines_append)

definition example_task :: "string \<Rightarrow> string" where
  "example_task inner =
     join [CHR 0x0A] [''Constraints:'', ''- a'', replicate 3 (CHR ''~''), inner, replicate 3 (CHR ''~'')]"

lemma example_task_parts:
  "opens_fence ''~~~'' = Some ''~~~''" "closes_fence ''~~~'' ''~~~''" "\<not> closes_fence ''~~~'' ''- b''"
  "\<not> closes_fence ''~~~'' ''- c''"
  "task_lines (example_task ''- b'') = [''Constraints:'', ''- a'', ''~~~'', ''- b'', ''~~~'']"
  "task_lines (example_task ''- c'') = [''Constraints:'', ''- a'', ''~~~'', ''- c'', ''~~~'']"
  by code_simp+

lemma example_task_prefix:
  "parse_lines start_parse [''Constraints:'', ''- a''] =
     Inr \<lparr>ps_sections = (\<lambda>_. [])(''constraints'' := [''a'']), ps_current = Some ''constraints'', ps_fence = None\<rparr>"
proof -
  have "opens_fence ''Constraints:'' = None" "opens_fence ''- a'' = None"
    "heading_of ''Constraints:'' = Some ''constraints''" "heading_of ''- a'' = None"
    "bullet_item ''- a'' = Some ''a''"
    by code_simp+
  then show ?thesis
    by (simp add: parse_line_def start_parse_def section_keys_def add_item_def max_items_def max_item_chars_def)
qed

lemma fenced_text_is_not_read_example:
  "task_lists (example_task ''- b'') = task_lists (example_task ''- c'')"
  using fenced_text_is_not_read [OF example_task_parts(1,2), of "[''- b'']" "[''- c'']"
      "[''Constraints:'', ''- a'']" _ "example_task ''- b''" "[]" "example_task ''- c''"]
    example_task_parts(3-6) example_task_prefix
  by simp

text \<open>
  What a task text contributes is bounded: at most 40 entries per list, each non-empty and at most
  500 characters, an objective of at most 20000 and a title of at most 80 characters.
\<close>

lemma task_lists_bounded:
  assumes "parse_public_task task = Inr t"
  shows "length (pt_sections t key) \<le> 40 \<and> list_all (\<lambda>x. x \<noteq> [] \<and> length x \<le> 500) (pt_sections t key) \<and>
    length (pt_objective t) \<le> 20000 \<and> length (pt_title t) \<le> 80"
proof -
  from assms obtain st where st: "parse_lines start_parse (task_lines task) = Inr st"
    "t = \<lparr>pt_title = task_title (task_objective task), pt_objective = task_objective task,
          pt_sections = ps_sections st\<rparr>"
    by (auto simp: parse_public_task_def bind_result_Inr_iff)
  have "bounded_sections (ps_sections start_parse)" by (simp add: bounded_sections_def start_parse_def)
  with st(1) have "bounded_sections (ps_sections st)" by (rule parse_lines_bounded)
  with st(2) show ?thesis
    by (simp add: bounded_sections_def max_items_def max_item_chars_def task_objective_def task_title_def
        max_objective_chars_def max_title_chars_def list_all_iff)
qed

lemma task_lists_bounded_example: "\<exists>t. parse_public_task [] = Inr t \<and> length (pt_title t) \<le> 80"
proof -
  have "opens_fence [] = None" "heading_of [] = None" by code_simp+
  then have "parse_lines start_parse (task_lines []) = Inr start_parse"
    by (simp add: task_lines_def parse_line_def start_parse_def)
  then obtain t where t: "parse_public_task [] = Inr t" by (simp add: parse_public_task_def)
  from task_lists_bounded [OF t] t show ?thesis by blast
qed

text \<open>Lists a goal already has, or that were given explicitly, stay as they are.\<close>

lemma filled_list_keeps: "key \<in> skipped \<or> goal_list g key \<noteq> [] \<Longrightarrow> filled_list g skipped s key = goal_list g key"
  by (simp add: filled_list_def)

lemma filled_goal_objective:
  "fill_empty_goal_lists_from_objective g skipped = Inr g' \<Longrightarrow> objective g' = objective g \<and> goal_id g' = goal_id g"
  by (cases "parse_public_task (objective g)")
    (auto simp: fill_empty_goal_lists_from_objective_def Let_def simp del: filled_list_def)

text \<open>
  The pattern spells the singular of \<open>Rejected approaches\<close> as \<open>Rejected approache\<close>: that heading is accepted
  but has no entry in the table, and \<open>Rejected approach\<close>, which has one, is not accepted.
\<close>

lemma rejected_approach_heading:
  "heading_of ''Rejected approache:'' = Some ''rejected approache''"
  "map_of section_keys ''rejected approache'' = None" "heading_of ''Rejected approach:'' = None"
  by code_simp+

end
