(* ===== verification/Goal_Ledger.thy ===== *)
theory Goal_Ledger
  imports Public_Task Mcp_Requests
begin

text \<open>
  \<open>services/bridge/src/pex_bridge/ledger.py\<close>: decisions, rejected approaches and open questions of a goal, from
  explicit entries or from the objective, and their projection to durable context. Parameters: \<open>dec_ids\<close> and
  \<open>ctx_ids\<close> are the identifiers \<open>new_id\<close> draws, in the order they are drawn, \<open>now\<close> is the clock, \<open>show\<close> is
  \<open>str\<close> on a value that is not a string. Writing the pairs is the store's part and left out.
\<close>

fun kind_by_field :: "string \<Rightarrow> string" where
  "kind_by_field field =
     (if field = ''decisions'' then ''decision''
      else if field = ''rejected_approaches'' then ''rejected_approach'' else ''unresolved_question'')"

definition ledger_kinds_for_fields :: "string list \<Rightarrow> string set" where
  "ledger_kinds_for_fields fs = set (map kind_by_field (filter (\<lambda>f. f \<in> set ledger_decision_fields) fs))"

text \<open>\<open>(explicit or {}).get(field) or []\<close>, each item stripped, blank ones dropped.\<close>

definition provided_items :: "(string \<times> string list) list \<Rightarrow> string \<Rightarrow> string list" where
  "provided_items given_lists field =
     map strip (filter (\<lambda>t. strip t \<noteq> []) (case map_of given_lists field of None \<Rightarrow> [] | Some vs \<Rightarrow> vs))"

definition merged_items ::
  "(string \<times> string list) list \<Rightarrow> string set \<Rightarrow> (string \<Rightarrow> string list) \<Rightarrow> string \<Rightarrow> string list" where
  "merged_items given_lists skipped extracted field =
     (let provided = provided_items given_lists field
      in if field \<in> skipped then provided else if provided \<noteq> [] then provided else extracted field)"

definition merge_ledger_lists ::
  "string \<Rightarrow> (string \<times> string list) list \<Rightarrow> string set \<Rightarrow> (string \<times> string list) list result" where
  "merge_ledger_lists aim given_lists skipped =
     bind_result (extracted_ledger_lists aim) (\<lambda>extracted.
       Inr (map (\<lambda>field. (field, merged_items given_lists skipped extracted field)) ledger_decision_fields))"

definition ledger_rationale :: "string \<Rightarrow> string" where
  "ledger_rationale kind =
     (if kind = ''unresolved_question'' then ''Unresolved question recorded on the persistent intent ledger.''
      else if kind = ''rejected_approach'' then ''Rejected approach recorded on the persistent intent ledger.''
      else ''Decision recorded on the persistent intent ledger.'')"

definition ledger_decision :: "string \<Rightarrow> string \<Rightarrow> datetime \<Rightarrow> string \<Rightarrow> string \<Rightarrow> decision" where
  "ledger_decision identifier g now kind stated =
     (new_decision identifier g stated now)
       \<lparr>dec_rationale := ledger_rationale kind,
        dec_alternatives_rejected := (if kind = ''rejected_approach'' then [stated] else []),
        dec_source := DSRC_HUMAN,
        dec_status := (if kind = ''unresolved_question'' then DST_UNCERTAIN else DST_ACTIVE),
        dec_metadata := [(''kind'', PStr kind)]\<rparr>"

text \<open>The statements in the order of the loops, each with its kind.\<close>

definition ledger_statements :: "(string \<times> string list) list \<Rightarrow> (string \<times> string) list" where
  "ledger_statements entries =
     concat (map (\<lambda>field.
       map (\<lambda>item. (kind_by_field field, strip item))
         (filter (\<lambda>item. strip item \<noteq> []) (case map_of entries field of None \<Rightarrow> [] | Some vs \<Rightarrow> vs)))
       ledger_decision_fields)"

definition decisions_from_lists ::
  "(nat \<Rightarrow> string) \<Rightarrow> datetime \<Rightarrow> string \<Rightarrow> (string \<times> string list) list \<Rightarrow> decision list" where
  "decisions_from_lists dec_ids now g entries =
     map (\<lambda>(i, kind, stated). ledger_decision (dec_ids i) g now kind stated)
       (enumerate 0 (ledger_statements entries))"

definition decision_kind :: "decision \<Rightarrow> string" where
  "decision_kind d = (case dict_get (dec_metadata d) ''kind'' of PStr s \<Rightarrow> if s = [] then ''decision'' else s | _ \<Rightarrow> ''decision'')"

definition decision_context :: "string \<Rightarrow> goal \<Rightarrow> decision \<Rightarrow> durable_item" where
  "decision_context identifier g d =
     (let kind = decision_kind d
      in (new_durable_item identifier (goal_project_id g) CK_DECISION (dec_statement d) (dec_created_at d))
        \<lparr>cx_goal_id := Some (goal_id g), cx_source_refs := [dec_id d], cx_provenance := SK_HUMAN,
         cx_confidence := 9 / 10, cx_relevance_tags := [''decision'', kind], cx_sensitivity := SEN_INTERNAL,
         cx_metadata :=
           [(''decision_id'', PStr (dec_id d)), (''kind'', PStr kind),
            (''status'', PStr (decision_status_value (dec_status d))),
            (''unresolved'', PBool (kind = ''unresolved_question''))]\<rparr>)"

definition ledger_projections ::
  "(nat \<Rightarrow> string) \<Rightarrow> (nat \<Rightarrow> string) \<Rightarrow> datetime \<Rightarrow> goal \<Rightarrow> (string \<times> string list) list \<Rightarrow> string set \<Rightarrow>
   (decision \<times> durable_item) list result" where
  "ledger_projections dec_ids ctx_ids now g given_lists skipped =
     bind_result (merge_ledger_lists (objective g) given_lists skipped) (\<lambda>entries.
       Inr (map (\<lambda>(i, d). (d, decision_context (ctx_ids i) g d))
              (enumerate 0 (decisions_from_lists dec_ids now (goal_id g) entries))))"

definition show_item :: "(pyval \<Rightarrow> string) \<Rightarrow> pyval \<Rightarrow> string" where
  "show_item show v = (case v of PStr s \<Rightarrow> s | _ \<Rightarrow> show v)"

text \<open>\<open>data.pop(field, None) or []\<close>: the entries, and the body without them. A value that cannot be iterated raises.\<close>

definition popped_items :: "(pyval \<Rightarrow> string) \<Rightarrow> pyval \<Rightarrow> string list result" where
  "popped_items show v =
     (if \<not> truthy v then Inr []
      else case v of
        PList vs \<Rightarrow> Inr (filter (\<lambda>t. strip t \<noteq> []) (map (show_item show) vs))
      | PStr s \<Rightarrow> Inr (filter (\<lambda>t. strip t \<noteq> []) (map (\<lambda>c. [c]) s))
      | PDict kvs \<Rightarrow> Inr (filter (\<lambda>t. strip t \<noteq> []) (map fst kvs))
      | _ \<Rightarrow> Inl ''TypeError'')"

definition ledger_lists_from_body ::
  "(pyval \<Rightarrow> string) \<Rightarrow> (string \<times> pyval) list \<Rightarrow> ((string \<times> string list) list \<times> (string \<times> pyval) list) result" where
  "ledger_lists_from_body show data =
     bind_result (map_result (\<lambda>field. bind_result (popped_items show (dict_get data field)) (\<lambda>vs. Inr (field, vs)))
       ledger_decision_fields) (\<lambda>entries.
         Inr (entries, filter (\<lambda>kv. fst kv \<notin> set ledger_decision_fields) data))"

section \<open>Facts\<close>

lemma strip_not_Nil: "strip t \<noteq> [] \<Longrightarrow> strip (strip t) \<noteq> []"
  by simp

lemma ledger_statement_kinds:
  "(kind, stated) \<in> set (ledger_statements entries) \<Longrightarrow>
   kind \<in> {''decision'', ''rejected_approach'', ''unresolved_question''} \<and> stated \<noteq> [] \<and> strip stated = stated"
  by (auto simp: ledger_statements_def ledger_decision_fields_def)

lemma decision_kind_of:
  "kind \<noteq> [] \<Longrightarrow> decision_kind (ledger_decision identifier g now kind stated) = kind"
  by (simp add: decision_kind_def ledger_decision_def)

lemma ledger_decision_fields [simp]:
  "dec_id (ledger_decision identifier g now kind stated) = identifier"
  "dec_goal_id (ledger_decision identifier g now kind stated) = g"
  "dec_statement (ledger_decision identifier g now kind stated) = stated"
  "dec_created_at (ledger_decision identifier g now kind stated) = now"
  by (simp_all add: ledger_decision_def new_decision_def)

text \<open>
  What one projected pair says: the context item repeats the decision of this goal, names it as its only
  source and carries its kind and status; only an open question is uncertain, only a rejected approach lists
  itself as rejected.
\<close>

definition faithful_pair :: "goal \<Rightarrow> datetime \<Rightarrow> decision \<times> durable_item \<Rightarrow> bool" where
  "faithful_pair g now p =
     (case p of (d, x) \<Rightarrow>
        dec_goal_id d = goal_id g \<and> dec_statement d \<noteq> [] \<and> dec_source d = DSRC_HUMAN \<and>
        decision_kind d \<in> {''decision'', ''rejected_approach'', ''unresolved_question''} \<and>
        (dec_status d = (if decision_kind d = ''unresolved_question'' then DST_UNCERTAIN else DST_ACTIVE)) \<and>
        dec_alternatives_rejected d = (if decision_kind d = ''rejected_approach'' then [dec_statement d] else []) \<and>
        cx_project_id x = goal_project_id g \<and> cx_goal_id x = Some (goal_id g) \<and> cx_kind x = CK_DECISION \<and>
        cx_content x = dec_statement d \<and> cx_source_refs x = [dec_id d] \<and> cx_valid_from x = now \<and>
        dict_get (cx_metadata x) ''decision_id'' = PStr (dec_id d) \<and>
        dict_get (cx_metadata x) ''unresolved'' = PBool (dec_status d = DST_UNCERTAIN))"

lemma ledger_pair_faithful:
  assumes "(kind, stated) \<in> set (ledger_statements entries)"
  shows "faithful_pair g now (ledger_decision identifier (goal_id g) now kind stated,
    decision_context identifier' g (ledger_decision identifier (goal_id g) now kind stated))"
proof -
  from ledger_statement_kinds [OF assms] have k: "kind \<in> {''decision'', ''rejected_approach'', ''unresolved_question''}"
    "stated \<noteq> []" by blast+
  then have "decision_kind (ledger_decision identifier (goal_id g) now kind stated) = kind"
    by (intro decision_kind_of) auto
  with k show ?thesis
    by (simp add: faithful_pair_def decision_context_def new_durable_item_def Let_def)
      (auto simp: ledger_decision_def new_decision_def)
qed

text \<open>
  Property C35. Every pair the ledger of a goal is projected to is faithful, and nothing else is projected: there
  is exactly one pair per recorded statement, in the order of the three lists. A list given explicitly replaces
  what the objective says, and a field that is marked as written is never filled from the objective.
\<close>

theorem ledger_projection_faithful:
  assumes "ledger_projections dec_ids ctx_ids now g given_lists skipped = Inr pairs"
  shows "list_all (faithful_pair g now) pairs \<and>
    (\<exists>extracted. extracted_ledger_lists (objective g) = Inr extracted \<and>
       map (\<lambda>p. (decision_kind (fst p), dec_statement (fst p))) pairs =
         ledger_statements (map (\<lambda>f. (f, if f \<in> skipped \<or> provided_items given_lists f \<noteq> []
           then provided_items given_lists f else extracted f)) ledger_decision_fields))"
proof -
  from assms obtain entries where l: "merge_ledger_lists (objective g) given_lists skipped = Inr entries"
    "pairs = map (\<lambda>(i, d). (d, decision_context (ctx_ids i) g d))
       (enumerate 0 (decisions_from_lists dec_ids now (goal_id g) entries))"
    by (auto simp: ledger_projections_def bind_result_Inr_iff)
  from l(1) obtain extracted where e: "extracted_ledger_lists (objective g) = Inr extracted"
    "entries = map (\<lambda>f. (f, if f \<in> skipped \<or> provided_items given_lists f \<noteq> []
           then provided_items given_lists f else extracted f)) ledger_decision_fields"
    by (auto simp: merge_ledger_lists_def merged_items_def bind_result_Inr_iff Let_def)
  let ?ss = "ledger_statements entries"
  have nth: "length pairs = length ?ss"
    "i < length ?ss \<Longrightarrow> pairs ! i =
      (let d = ledger_decision (dec_ids i) (goal_id g) now (fst (?ss ! i)) (snd (?ss ! i))
       in (d, decision_context (ctx_ids i) g d))" for i
    by (simp_all add: l(2) decisions_from_lists_def nth_enumerate_eq case_prod_beta Let_def)
  have "faithful_pair g now (pairs ! i) \<and>
      (decision_kind (fst (pairs ! i)), dec_statement (fst (pairs ! i))) = ?ss ! i" if i: "i < length ?ss" for i
  proof -
    have mem: "(fst (?ss ! i), snd (?ss ! i)) \<in> set ?ss" using nth_mem [OF i] by simp
    with ledger_statement_kinds [OF mem] have "fst (?ss ! i) \<noteq> []" by auto
    with ledger_pair_faithful [OF mem] show ?thesis
      by (simp add: nth(2) [OF i] Let_def decision_kind_of)
  qed
  then have "list_all (faithful_pair g now) pairs"
    "map (\<lambda>p. (decision_kind (fst p), dec_statement (fst p))) pairs = ?ss"
    by (auto simp: list_all_length nth(1) intro!: nth_equalityI)
  with e show ?thesis by blast
qed

theorem ledger_projection_faithful_witness:
  "\<exists>pairs. ledger_projections (\<lambda>_. ''d'') (\<lambda>_. ''c'') (Aware 0 0) (new_goal ''g'' ''p'' ''t'' [] (Aware 0 0))
     [(''decisions'', [''use x''])] {} = Inr pairs \<and>
     list_all (faithful_pair (new_goal ''g'' ''p'' ''t'' [] (Aware 0 0)) (Aware 0 0)) pairs"
proof -
  let ?g = "new_goal ''g'' ''p'' ''t'' [] (Aware 0 0)"
  have "opens_fence [] = None" "heading_of [] = None" by code_simp+
  then have "parse_lines start_parse (task_lines []) = Inr start_parse"
    by (simp add: task_lines_def parse_line_def start_parse_def)
  then obtain pairs where
    p: "ledger_projections (\<lambda>_. ''d'') (\<lambda>_. ''c'') (Aware 0 0) ?g [(''decisions'', [''use x''])] {} = Inr pairs"
    by (simp add: ledger_projections_def merge_ledger_lists_def extracted_ledger_lists_def parse_public_task_def
        new_goal_def)
  with ledger_projection_faithful [OF p] show ?thesis by blast
qed

end
