(* ===== verification/Goal_Intent.thy ===== *)
theory Goal_Intent
  imports Store_Rows Goal_Ledger Canonical_Json "HOL-Library.Product_Lexorder"
begin

text \<open>
  The persistent intent of a goal in \<open>store.py\<close>: the ledger of live human rulings read from the paired decision
  and context rows, the canonical payload, its SHA-256, and the hash predicted for a mutation before it is
  written. \<open>digest\<close> is SHA-256, \<open>show_time\<close> is \<open>isoformat\<close> of an instant in UTC, \<open>show\<close> is \<open>repr\<close> of a float (no
  payload holds one).
\<close>

record ledger_entry =
  le_kind :: string
  le_status :: string
  le_statement :: string

definition goal_ledger_kinds :: "string list" where
  "goal_ledger_kinds = [''decision'', ''rejected_approach'', ''unresolved_question'']"

text \<open>
  \<open>str(metadata.get("kind") or "")\<close>, which the code only tests for membership in the ledger kinds and, after
  that, for equality with one: \<open>str\<close> of a value that is not a string is none of them.
\<close>

definition metadata_kind :: "(string \<times> pyval) list \<Rightarrow> string" where
  "metadata_kind m = (case dict_get m ''kind'' of PStr s \<Rightarrow> s | _ \<Rightarrow> [])"

definition is_managed :: "(string \<times> pyval) list \<Rightarrow> bool" where
  "is_managed m = (metadata_kind m \<in> set goal_ledger_kinds)"

definition reject_managed_artifact :: "(string \<times> pyval) list \<Rightarrow> string \<Rightarrow> unit stored" where
  "reject_managed_artifact m label =
     refuse (is_managed m)
       (Value_Error (''managed goal ledger '' @ label @ '' must use the atomic goal mutation boundary''))"

section \<open>The live ledger\<close>

text \<open>The decisions a context item may belong to: the one its metadata names, and its only source.\<close>

definition is_candidate :: "string \<Rightarrow> durable_item \<Rightarrow> bool" where
  "is_candidate d x =
     (d \<noteq> [] \<and> (dict_get (cx_metadata x) ''decision_id'' = PStr d \<or> cx_source_refs x = [d]))"

definition expected_status :: "string \<Rightarrow> decision_status" where
  "expected_status kind = (if kind = ''unresolved_question'' then DST_UNCERTAIN else DST_ACTIVE)"

definition statement_key :: "string \<Rightarrow> string" where
  "statement_key s = casefold (strip s)"

definition entry_key :: "ledger_entry \<Rightarrow> string \<times> string" where
  "entry_key e = (le_kind e, statement_key (le_statement e))"

definition projection_inconsistent :: "goal \<Rightarrow> decision \<Rightarrow> durable_item \<Rightarrow> bool" where
  "projection_inconsistent g d x =
     (let kind = metadata_kind (dec_metadata d);
          status = (if dec_status d = DST_SUPERSEDED then DST_SUPERSEDED else expected_status kind)
      in cx_goal_id x \<noteq> Some (goal_id g) \<or> cx_project_id x \<noteq> goal_project_id g \<or> cx_kind x \<noteq> CK_DECISION \<or>
         cx_content x \<noteq> dec_statement d \<or> cx_source_refs x \<noteq> [dec_id d] \<or> cx_provenance x \<noteq> SK_HUMAN \<or>
         cx_sensitivity x \<noteq> SEN_INTERNAL \<or> dict_get (cx_metadata x) ''decision_id'' \<noteq> PStr (dec_id d) \<or>
         dict_get (cx_metadata x) ''kind'' \<noteq> PStr kind \<or>
         dict_get (cx_metadata x) ''status'' \<noteq> PStr (decision_status_value status) \<or>
         dict_get (cx_metadata x) ''unresolved'' \<noteq> PBool (kind = ''unresolved_question'') \<or>
         as_utc (cx_valid_from x) \<noteq> as_utc (dec_created_at d))"

definition entry_of :: "decision \<Rightarrow> ledger_entry" where
  "entry_of d =
     (let kind = metadata_kind (dec_metadata d)
      in \<lparr>le_kind = kind, le_status = decision_status_value (expected_status kind),
          le_statement = strip (dec_statement d)\<rparr>)"

text \<open>One round of the loop over the managed decisions: the entry, if the decision is live.\<close>

definition read_decision :: "goal \<Rightarrow> durable_item list \<Rightarrow> decision \<Rightarrow> ledger_entry option stored" where
  "read_decision g items d =
     bind_stored (refuse (dec_goal_id d \<noteq> goal_id g)
       (Value_Error ''goal intent Decision goal binding is inconsistent'')) (\<lambda>_.
     bind_stored (refuse (dec_source d \<noteq> DSRC_HUMAN)
       (Value_Error ''goal intent Decision must have human provenance'')) (\<lambda>_.
     bind_stored (refuse (dec_sensitivity d \<noteq> SEN_INTERNAL)
       (Value_Error ''goal intent Decision sensitivity is inconsistent'')) (\<lambda>_.
     case filter (is_candidate (dec_id d)) items of
       [x] \<Rightarrow>
         bind_stored (refuse (projection_inconsistent g d x)
           (Value_Error ''goal intent Decision/ContextItem projection is inconsistent'')) (\<lambda>_.
         if dec_status d = DST_SUPERSEDED
         then bind_stored (refuse (cx_stale_after x = None)
                (Value_Error ''superseded goal intent ContextItem is still live'')) (\<lambda>_. Inr None)
         else
           bind_stored (refuse (dec_status d \<noteq> expected_status (metadata_kind (dec_metadata d)))
             (Value_Error ''live goal intent Decision status is inconsistent'')) (\<lambda>_.
           bind_stored (refuse (dict_get (dec_metadata d) ''superseded_at'' \<noteq> PNone \<or> cx_stale_after x \<noteq> None)
             (Value_Error ''live goal intent projection is marked superseded'')) (\<lambda>_.
           bind_stored (refuse (strip (dec_statement d) = [])
             (Value_Error ''goal intent Decision statement is empty'')) (\<lambda>_.
           Inr (Some (entry_of d))))))
     | _ \<Rightarrow> Inl (Value_Error ''goal intent Decision must have exactly one ContextItem projection''))))"

fun read_decisions ::
  "goal \<Rightarrow> durable_item list \<Rightarrow> ledger_entry list \<Rightarrow> decision list \<Rightarrow> ledger_entry list stored" where
  "read_decisions g items seen [] = Inr seen"
| "read_decisions g items seen (d # ds) =
     bind_stored (read_decision g items d) (\<lambda>r.
       case r of
         None \<Rightarrow> read_decisions g items seen ds
       | Some e \<Rightarrow>
           bind_stored (refuse (entry_key e \<in> set (map entry_key seen))
             (Value_Error ''goal intent contains a duplicate live semantic entry''))
             (\<lambda>_. read_decisions g items (seen @ [e]) ds))"

definition managed_decisions :: "decision list \<Rightarrow> decision list" where
  "managed_decisions ds = filter (\<lambda>d. is_managed (dec_metadata d)) ds"

definition orphan_item :: "decision list \<Rightarrow> durable_item \<Rightarrow> bool" where
  "orphan_item ds x =
     (is_managed (cx_metadata x) \<and>
      (\<forall>d \<in> set (managed_decisions ds). dict_get (cx_metadata x) ''decision_id'' \<noteq> PStr (dec_id d)))"

definition entry_order :: "ledger_entry \<Rightarrow> string \<times> string \<times> string" where
  "entry_order e = (le_kind e, casefold (le_statement e), le_statement e)"

definition canonical_active_ledger :: "goal \<Rightarrow> decision list \<Rightarrow> durable_item list \<Rightarrow> ledger_entry list stored" where
  "canonical_active_ledger g ds items =
     bind_stored (refuse (\<not> distinct (map dec_id ds))
       (Value_Error ''goal intent contains a duplicate Decision id'')) (\<lambda>_.
     bind_stored (refuse (\<not> distinct (map cx_id items))
       (Value_Error ''goal intent contains a duplicate ContextItem id'')) (\<lambda>_.
     bind_stored (refuse (\<exists>x \<in> set items. orphan_item ds x)
       (Value_Error ''goal intent contains an orphan managed ContextItem'')) (\<lambda>_.
     bind_stored (read_decisions g items [] (managed_decisions ds)) (\<lambda>entries.
     Inr (sort_key entry_order entries)))))"

section \<open>Payload and hash\<close>

definition entry_value :: "ledger_entry \<Rightarrow> pyval" where
  "entry_value e =
     PDict [(''kind'', PStr (le_kind e)), (''status'', PStr (le_status e)), (''statement'', PStr (le_statement e))]"

definition strings :: "string list \<Rightarrow> pyval" where
  "strings ss = PList (map PStr ss)"

definition intent_value :: "(int \<Rightarrow> string) \<Rightarrow> goal \<Rightarrow> ledger_entry list \<Rightarrow> pyval" where
  "intent_value show_time g ledger =
     PDict
       ([(''schema'', PStr ''pex.goal-intent-state.v1''), (''title'', PStr (title g)),
         (''objective'', PStr (objective g)), (''acceptance_criteria'', strings (acceptance_criteria g)),
         (''constraints'', strings (constraints g)), (''preferences'', strings (preferences g)),
         (''forbidden_outcomes'', strings (forbidden_outcomes g)), (''non_goals'', strings (non_goals g)),
         (''priority'', PInt (priority g)),
         (''deadline'', case deadline g of None \<Rightarrow> PNone | Some t \<Rightarrow> PStr (show_time (as_utc t))),
         (''evidence_requirements'', strings (evidence_requirements g)), (''paused'', PBool (goal_paused g))]
        @ (if observation_only g then [(''observation_only'', PBool True)] else [])
        @ [(''ledger'', PList (map entry_value ledger))])"

definition canonical_intent_payload ::
  "(int \<Rightarrow> string) \<Rightarrow> goal \<Rightarrow> decision list \<Rightarrow> durable_item list \<Rightarrow> pyval stored" where
  "canonical_intent_payload show_time g ds items =
     bind_stored (canonical_active_ledger g ds items) (\<lambda>ledger. Inr (intent_value show_time g ledger))"

definition intent_digest ::
  "(string \<Rightarrow> string) \<Rightarrow> (int \<Rightarrow> string) \<Rightarrow> (rat \<Rightarrow> string) \<Rightarrow> goal \<Rightarrow> ledger_entry list \<Rightarrow> string" where
  "intent_digest digest show_time show g ledger = digest (json_dumps False show (intent_value show_time g ledger))"

definition intent_semantic_hash ::
  "(string \<Rightarrow> string) \<Rightarrow> (int \<Rightarrow> string) \<Rightarrow> (rat \<Rightarrow> string) \<Rightarrow> goal \<Rightarrow> decision list \<Rightarrow> durable_item list \<Rightarrow>
   string stored" where
  "intent_semantic_hash digest show_time show g ds items =
     bind_stored (canonical_active_ledger g ds items) (\<lambda>ledger. Inr (intent_digest digest show_time show g ledger))"

text \<open>The ledger a mutation will leave: what is kept, then what is new, one entry per kind and statement.\<close>

fun add_entries :: "ledger_entry list \<Rightarrow> ledger_entry list \<Rightarrow> ledger_entry list" where
  "add_entries ledger [] = ledger"
| "add_entries ledger (e # es) =
     add_entries (if entry_key e \<in> set (map entry_key ledger) then ledger else ledger @ [e]) es"

definition prospective_ledger ::
  "ledger_entry list \<Rightarrow> string set \<Rightarrow> ledger_entry list \<Rightarrow> ledger_entry list" where
  "prospective_ledger current replaced incoming =
     sort_key entry_order (add_entries (filter (\<lambda>e. le_kind e \<notin> replaced) current) incoming)"

definition check_replaced :: "string set \<Rightarrow> unit stored" where
  "check_replaced replaced =
     refuse (\<not> replaced \<subseteq> set goal_ledger_kinds) (Value_Error ''goal ledger replacement kind is invalid'')"

definition prospective_intent_hash ::
  "(string \<Rightarrow> string) \<Rightarrow> (int \<Rightarrow> string) \<Rightarrow> (rat \<Rightarrow> string) \<Rightarrow> goal \<Rightarrow> ledger_entry list \<Rightarrow>
   (decision \<times> durable_item) list \<Rightarrow> string set \<Rightarrow> string stored" where
  "prospective_intent_hash digest show_time show g current pairs replaced =
     bind_stored (check_replaced replaced) (\<lambda>_.
     bind_stored (canonical_active_ledger g (map fst pairs) (map snd pairs)) (\<lambda>incoming.
     Inr (intent_digest digest show_time show g (prospective_ledger current replaced incoming))))"

text \<open>\<open>_goal_ledger_projections_from_entries\<close>: the entries cloned onto a successor goal.\<close>

definition cloned_pair :: "string \<Rightarrow> string \<Rightarrow> datetime \<Rightarrow> goal \<Rightarrow> ledger_entry \<Rightarrow> (decision \<times> durable_item) stored" where
  "cloned_pair dec ctx now g e =
     (let kind = le_kind e; stated = strip (le_statement e)
      in bind_stored (refuse (kind \<notin> set goal_ledger_kinds) (Value_Error ''goal ledger inheritance kind is invalid'')) (\<lambda>_.
         bind_stored (refuse (le_status e \<noteq> decision_status_value (expected_status kind))
           (Value_Error ''goal ledger inheritance status is invalid'')) (\<lambda>_.
         bind_stored (refuse (stated = []) (Value_Error ''goal ledger inheritance statement is empty'')) (\<lambda>_.
         Inr ((new_decision dec (goal_id g) stated now)
                \<lparr>dec_rationale := ''Inherited from the superseded persistent intent ledger.'',
                 dec_alternatives_rejected := (if kind = ''rejected_approach'' then [stated] else []),
                 dec_source := DSRC_HUMAN, dec_status := expected_status kind,
                 dec_sensitivity := SEN_INTERNAL, dec_metadata := [(''kind'', PStr kind)]\<rparr>,
              (new_durable_item ctx (goal_project_id g) CK_DECISION stated now)
                \<lparr>cx_goal_id := Some (goal_id g), cx_source_refs := [dec], cx_provenance := SK_HUMAN,
                 cx_confidence := 9 / 10, cx_relevance_tags := [''decision'', kind],
                 cx_sensitivity := SEN_INTERNAL,
                 cx_metadata :=
                   [(''decision_id'', PStr dec), (''kind'', PStr kind),
                    (''status'', PStr (decision_status_value (expected_status kind))),
                    (''unresolved'', PBool (kind = ''unresolved_question''))]\<rparr>)))))"

definition projections_from_entries ::
  "(nat \<Rightarrow> string) \<Rightarrow> (nat \<Rightarrow> string) \<Rightarrow> datetime \<Rightarrow> goal \<Rightarrow> ledger_entry list \<Rightarrow> (decision \<times> durable_item) list stored" where
  "projections_from_entries dec_ids ctx_ids now g entries =
     map_stored (\<lambda>(i, e). cloned_pair (dec_ids i) (ctx_ids i) now g e) (enumerate 0 entries)"

section \<open>Reading the rows\<close>

definition by_id :: "('a \<Rightarrow> string) \<Rightarrow> 'a list \<Rightarrow> 'a list" where
  "by_id row_id rows = sort_key row_id rows"

definition load_decision :: "goal \<Rightarrow> artifact_binding \<Rightarrow> decision_row \<Rightarrow> decision stored" where
  "load_decision g b r =
     bind_stored (refuse
       (dec_id (dr_decision r) \<noteq> dr_id r \<or> dec_goal_id (dr_decision r) \<noteq> dr_goal_id r \<or>
        dec_goal_id (dr_decision r) \<noteq> goal_id g \<or> dr_project r \<noteq> Some (bound_project b) \<or>
        dr_binding r \<noteq> Some (bound_key b))
       (Runtime_Error ''stored goal intent Decision binding is corrupt'')) (\<lambda>_. Inr (dr_decision r))"

definition load_item :: "goal \<Rightarrow> artifact_binding \<Rightarrow> context_row \<Rightarrow> durable_item stored" where
  "load_item g b r =
     bind_stored (refuse
       (cx_id (cr_item r) \<noteq> cr_id r \<or> cx_project_id (cr_item r) \<noteq> cr_project r \<or>
        cr_binding r \<noteq> Some (bound_key b) \<or> cx_goal_id (cr_item r) \<noteq> cr_goal_id r)
       (Runtime_Error ''stored goal intent ContextItem binding is corrupt'')) (\<lambda>_.
     bind_stored (refuse (cx_goal_id (cr_item r) \<noteq> Some (goal_id g))
       (Runtime_Error ''stored goal intent ContextItem goal binding is corrupt'')) (\<lambda>_. Inr (cr_item r)))"

definition decision_scope :: "store \<Rightarrow> goal \<Rightarrow> artifact_binding \<Rightarrow> decision_row list" where
  "decision_scope db g b =
     by_id dr_id (filter (\<lambda>r. dr_goal_id r = goal_id g \<and> dr_binding r = Some (bound_key b)) (decision_rows db))"

definition context_scope :: "store \<Rightarrow> goal \<Rightarrow> artifact_binding \<Rightarrow> context_row list" where
  "context_scope db g b =
     by_id cr_id (filter (\<lambda>r. cr_binding r = Some (bound_key b) \<and> cr_goal_id r = Some (goal_id g)) (context_rows db))"

definition load_intent_artifacts ::
  "store \<Rightarrow> goal \<Rightarrow> artifact_binding \<Rightarrow> (decision list \<times> durable_item list) stored" where
  "load_intent_artifacts db g b =
     bind_stored (refuse (10000 < length (decision_scope db g b))
       (Runtime_Error ''goal intent Decision scan is bounded'')) (\<lambda>_.
     bind_stored (map_stored (load_decision g b) (decision_scope db g b)) (\<lambda>ds.
     bind_stored (refuse (10000 < length (context_scope db g b))
       (Runtime_Error ''goal intent ContextItem scan is bounded'')) (\<lambda>_.
     bind_stored (map_stored (load_item g b) (context_scope db g b)) (\<lambda>items.
     Inr (ds, items)))))"

definition stored_ledger :: "store \<Rightarrow> goal \<Rightarrow> artifact_binding \<Rightarrow> ledger_entry list stored" where
  "stored_ledger db g b =
     bind_stored (load_intent_artifacts db g b) (\<lambda>(ds, items). canonical_active_ledger g ds items)"

definition stored_intent_hash ::
  "(string \<Rightarrow> string) \<Rightarrow> (int \<Rightarrow> string) \<Rightarrow> (rat \<Rightarrow> string) \<Rightarrow> store \<Rightarrow> goal \<Rightarrow> artifact_binding \<Rightarrow> string stored" where
  "stored_intent_hash digest show_time show db g b =
     bind_stored (load_intent_artifacts db g b) (\<lambda>(ds, items). intent_semantic_hash digest show_time show g ds items)"

definition is_lower_hex :: "string \<Rightarrow> bool" where
  "is_lower_hex s = (length s = 64 \<and> (\<forall>c \<in> set s. (48 \<le> code c \<and> code c \<le> 57) \<or> (97 \<le> code c \<and> code c \<le> 102)))"

definition intent_scalar_pair :: "int option \<Rightarrow> string option \<Rightarrow> (int \<times> string) stored" where
  "intent_scalar_pair revision hash =
     (case (revision, hash) of
        (Some r, Some h) \<Rightarrow>
          if r < 0 \<or> \<not> is_lower_hex h then Inl (Runtime_Error ''stored goal intent authority is corrupt'') else Inr (r, h)
      | _ \<Rightarrow> Inl (Runtime_Error ''stored goal intent authority is corrupt''))"

section \<open>Facts\<close>

definition is_live :: "decision \<Rightarrow> bool" where
  "is_live d = (dec_status d \<noteq> DST_SUPERSEDED)"

lemma read_decision_Inr:
  "read_decision g items d = Inr r \<Longrightarrow> r = (if is_live d then Some (entry_of d) else None)"
  by (auto simp: read_decision_def is_live_def bind_stored_Inr_iff split: list.splits if_splits)

lemma read_decisions_Inr:
  "read_decisions g items seen ds = Inr es \<longleftrightarrow>
   (\<forall>d \<in> set ds. \<exists>r. read_decision g items d = Inr r) \<and>
   es = seen @ map entry_of (filter is_live ds) \<and>
   distinct (map (entry_key \<circ> entry_of) (filter is_live ds)) \<and>
   (\<forall>d \<in> set (filter is_live ds). entry_key (entry_of d) \<notin> set (map entry_key seen))"
proof (induction ds arbitrary: seen)
  case (Cons d ds)
  show ?case
  proof (cases "read_decision g items d")
    case (Inr r)
    then have r: "r = (if is_live d then Some (entry_of d) else None)" by (rule read_decision_Inr)
    show ?thesis
    proof (cases "is_live d")
      case True
      with Inr r have "read_decision g items d = Inr (Some (entry_of d))" by simp
      with True show ?thesis
        by (simp add: Cons.IH bind_stored_Inr_iff) (auto simp: image_iff)
    qed (use Inr r Cons.IH in simp)
  qed simp
qed auto

lemma canonical_active_ledger_Inr:
  "canonical_active_ledger g ds items = Inr ledger \<longleftrightarrow>
   distinct (map dec_id ds) \<and> distinct (map cx_id items) \<and> (\<forall>x \<in> set items. \<not> orphan_item ds x) \<and>
   (\<forall>d \<in> set (managed_decisions ds). \<exists>r. read_decision g items d = Inr r) \<and>
   distinct (map (entry_key \<circ> entry_of) (filter is_live (managed_decisions ds))) \<and>
   ledger = sort_key entry_order (map entry_of (filter is_live (managed_decisions ds)))"
  by (auto simp: canonical_active_ledger_def read_decisions_Inr bind_stored_Inr_iff)

lemma intent_semantic_hash_Inr:
  "intent_semantic_hash digest show_time show g ds items = Inr h \<longleftrightarrow>
   (\<exists>ledger. canonical_active_ledger g ds items = Inr ledger \<and> h = intent_digest digest show_time show g ledger)"
  by (auto simp: intent_semantic_hash_def bind_stored_Inr_iff)

text \<open>What a goal asks for, without its identity and its history.\<close>

definition same_intent :: "goal \<Rightarrow> goal \<Rightarrow> bool" where
  "same_intent g g' =
     (title g = title g' \<and> objective g = objective g' \<and> acceptance_criteria g = acceptance_criteria g' \<and>
      constraints g = constraints g' \<and> preferences g = preferences g' \<and>
      forbidden_outcomes g = forbidden_outcomes g' \<and> non_goals g = non_goals g' \<and> priority g = priority g' \<and>
      map_option as_utc (deadline g) = map_option as_utc (deadline g') \<and>
      evidence_requirements g = evidence_requirements g' \<and> goal_paused g = goal_paused g' \<and>
      observation_only g = observation_only g')"

lemma intent_value_dict: "\<exists>d. intent_value show_time g ledger = PDict d \<and> distinct (map fst d)"
  by (simp add: intent_value_def)

definition intent_field :: "pyval \<Rightarrow> string \<Rightarrow> pyval" where
  "intent_field v k = dict_get (dict_or_empty v) k"

lemma intent_value_fields:
  "intent_field (intent_value show_time g ledger) ''title'' = PStr (title g)"
  "intent_field (intent_value show_time g ledger) ''objective'' = PStr (objective g)"
  "intent_field (intent_value show_time g ledger) ''acceptance_criteria'' = strings (acceptance_criteria g)"
  "intent_field (intent_value show_time g ledger) ''constraints'' = strings (constraints g)"
  "intent_field (intent_value show_time g ledger) ''preferences'' = strings (preferences g)"
  "intent_field (intent_value show_time g ledger) ''forbidden_outcomes'' = strings (forbidden_outcomes g)"
  "intent_field (intent_value show_time g ledger) ''non_goals'' = strings (non_goals g)"
  "intent_field (intent_value show_time g ledger) ''priority'' = PInt (priority g)"
  "intent_field (intent_value show_time g ledger) ''deadline'' =
     (case deadline g of None \<Rightarrow> PNone | Some t \<Rightarrow> PStr (show_time (as_utc t)))"
  "intent_field (intent_value show_time g ledger) ''evidence_requirements'' = strings (evidence_requirements g)"
  "intent_field (intent_value show_time g ledger) ''paused'' = PBool (goal_paused g)"
  "intent_field (intent_value show_time g ledger) ''observation_only'' = (if observation_only g then PBool True else PNone)"
  "intent_field (intent_value show_time g ledger) ''ledger'' = PList (map entry_value ledger)"
  by (simp_all add: intent_field_def intent_value_def)

lemma float_free_intent: "float_free (intent_value show_time g ledger)"
  by (auto simp: intent_value_def strings_def entry_value_def split: option.split)

lemma sort_keys_strings: "sort_keys (strings ss) = strings ss"
  by (simp add: strings_def o_def)

lemma strings_inj: "strings ss = strings ss' \<longleftrightarrow> ss = ss'"
proof -
  have "inj PStr" by (simp add: inj_def)
  then show ?thesis by (simp add: strings_def inj_map_eq_map)
qed

lemma entry_value_inj:
  assumes "sort_keys (entry_value e) = sort_keys (entry_value e')"
  shows "e = e'"
proof -
  have "sort_keys (dict_get [(''kind'', PStr (le_kind e)), (''status'', PStr (le_status e)), (''statement'', PStr (le_statement e))] k) =
      sort_keys (dict_get [(''kind'', PStr (le_kind e')), (''status'', PStr (le_status e')), (''statement'', PStr (le_statement e'))] k)" for k
    using assms unfolding entry_value_def by (rule sort_keys_dict) simp_all
  from this [of "''kind''"] this [of "''status''"] this [of "''statement''"]
  show ?thesis by (cases e; cases e') simp
qed

lemma intent_text_inj:
  assumes "json_dumps False show (intent_value show_time g ledger) = json_dumps False show (intent_value show_time g' ledger')"
    and "inj show_time"
  shows "same_intent g g' \<and> ledger = ledger'"
proof -
  obtain d d' where d: "intent_value show_time g ledger = PDict d" "distinct (map fst d)"
    "intent_value show_time g' ledger' = PDict d'" "distinct (map fst d')"
    using intent_value_dict by metis
  have same: "sort_keys (intent_field (intent_value show_time g ledger) x) =
      sort_keys (intent_field (intent_value show_time g' ledger') x)" for x
    using sort_keys_dict [OF json_dumps_inj [OF assms(1) float_free_intent float_free_intent, unfolded d(1,3)] d(2,4)]
    by (simp add: d intent_field_def)
  have "map (sort_keys \<circ> entry_value) ledger = map (sort_keys \<circ> entry_value) ledger'"
    using same [of "''ledger''"] by (simp add: intent_value_fields)
  then have ledgers: "ledger = ledger'"
    by (rule map_injective) (simp add: inj_def entry_value_inj)
  have deadlines: "map_option as_utc (deadline g) = map_option as_utc (deadline g')"
    using same [of "''deadline''"] assms(2)
    by (cases "deadline g"; cases "deadline g'") (simp_all add: intent_value_fields inj_eq)
  have "observation_only g = observation_only g'"
    using same [of "''observation_only''"] by (simp add: intent_value_fields split: if_splits)
  with deadlines ledgers show ?thesis
    using same [of "''title''"] same [of "''objective''"] same [of "''acceptance_criteria''"]
      same [of "''constraints''"] same [of "''preferences''"] same [of "''forbidden_outcomes''"]
      same [of "''non_goals''"] same [of "''priority''"] same [of "''evidence_requirements''"] same [of "''paused''"]
    by (simp add: same_intent_def intent_value_fields sort_keys_strings strings_inj)
qed

lemma intent_value_cong: "same_intent g g' \<Longrightarrow> intent_value show_time g ledger = intent_value show_time g' ledger"
  by (cases "deadline g"; cases "deadline g'") (simp_all add: same_intent_def intent_value_def)

section \<open>Properties\<close>


definition example_goal :: goal where
  "example_goal = new_goal ''g1'' ''/work'' ''Ship'' ''Ship it'' (Aware 0 0)"

definition example_decision :: decision where
  "example_decision =
     (new_decision ''d1'' ''g1'' ''Use SQLite'' (Aware 5 0))\<lparr>dec_metadata := [(''kind'', PStr ''decision'')]\<rparr>"

definition example_item :: durable_item where
  "example_item = decision_context ''c1'' example_goal example_decision"

lemma example_ledger:
  "canonical_active_ledger example_goal [example_decision] [example_item] =
     Inr [\<lparr>le_kind = ''decision'', le_status = ''active'', le_statement = ''Use SQLite''\<rparr>]"
  by code_simp

lemma example_hash:
  "intent_semantic_hash (\<lambda>s. s) decimal_int show example_goal [example_decision] [example_item] =
     Inr (intent_digest (\<lambda>s. s) decimal_int show example_goal
       [\<lparr>le_kind = ''decision'', le_status = ''active'', le_statement = ''Use SQLite''\<rparr>])"
  by (simp add: intent_semantic_hash_def example_ledger)

lemma example_paused_ledger:
  "canonical_active_ledger (example_goal\<lparr>goal_paused := True\<rparr>) [example_decision] [example_item] =
     Inr [\<lparr>le_kind = ''decision'', le_status = ''active'', le_statement = ''Use SQLite''\<rparr>]"
  by code_simp


end
