(* ===== verification/Store_Authority.thy ===== *)
theory Store_Authority
  imports Goal_Intent
begin

text \<open>
  Reading a row together with the authority it rests on (\<open>store.py\<close>): a goal with its intent hash, a session
  with its project and its goal, an intervention with the session and the goal it is bound to, a human ruling
  with all of these, and whether a goal has an authoritative successor. Each of them is a query inside one
  transaction. A \<open>codec\<close> holds what the code imports: SHA-256, \<open>isoformat\<close> in UTC,
  \<open>repr\<close> of a float and \<open>repr\<close> of a value that is not a string.
\<close>

record codec =
  sha_text :: "string \<Rightarrow> string"
  time_text :: "int \<Rightarrow> string"
  float_text :: "rat \<Rightarrow> string"
  repr_text :: "pyval \<Rightarrow> string"

definition goal_intent_hash :: "codec \<Rightarrow> store \<Rightarrow> goal \<Rightarrow> artifact_binding \<Rightarrow> string stored" where
  "goal_intent_hash k db g b = stored_intent_hash (sha_text k) (time_text k) (float_text k) db g b"

definition live_binding :: "codec \<Rightarrow> store \<Rightarrow> artifact_binding \<Rightarrow> string \<Rightarrow> unit stored" where
  "live_binding k db b label = require_live_binding (sha_text k) db b label"

definition live_key :: "codec \<Rightarrow> store \<Rightarrow> string \<Rightarrow> string stored" where
  "live_key k db project = binding_snapshot (sha_text k) db project"

section \<open>Goals\<close>

definition find_goal_row :: "store \<Rightarrow> string \<Rightarrow> goal_row option" where
  "find_goal_row db g = find (\<lambda>r. gr_id r = g) (goal_rows db)"

definition load_bound_goal :: "codec \<Rightarrow> store \<Rightarrow> string \<Rightarrow> bool \<Rightarrow> (goal \<times> artifact_binding) stored" where
  "load_bound_goal k db identifier live =
     (case find_goal_row db identifier of
        None \<Rightarrow> Inl (Lookup_Error ''goal not found'')
      | Some r \<Rightarrow>
          bind_stored (stored_binding (gr_project r) (gr_binding r) ''goal'') (\<lambda>b.
          bind_stored (refuse (goal_id (gr_goal r) \<noteq> gr_id r \<or> goal_project_id (gr_goal r) \<noteq> bound_project b)
            (Runtime_Error ''stored goal project binding is corrupt'')) (\<lambda>_.
          bind_stored (intent_scalar_pair (gr_revision r) (gr_hash r)) (\<lambda>(revision, stored_hash).
          bind_stored (goal_intent_hash k db (gr_goal r) b) (\<lambda>calculated.
          bind_stored (refuse (calculated \<noteq> stored_hash)
            (Runtime_Error ''stored goal intent hash is corrupt'')) (\<lambda>_.
          bind_stored (if live then live_binding k db b ''goal'' else Inr ()) (\<lambda>_.
          Inr (gr_goal r, b))))))))"

definition goal_scalars :: "store \<Rightarrow> string \<Rightarrow> string \<Rightarrow> (int \<times> string) stored" where
  "goal_scalars db identifier missing =
     (case find_goal_row db identifier of
        None \<Rightarrow> Inl (Runtime_Error missing)
      | Some r \<Rightarrow> intent_scalar_pair (gr_revision r) (gr_hash r))"

text \<open>
  One candidate row of \<open>_has_authoritative_goal_successor\<close>: \<open>True\<close> when it is a successor of this goal in the
  project the goal is bound to, \<open>False\<close> when its project has moved away. A missing goal or a \<open>ValueError\<close> on
  the way is reported as corruption.
\<close>

definition check_successor ::
  "codec \<Rightarrow> store \<Rightarrow> goal \<Rightarrow> artifact_binding \<Rightarrow> int \<Rightarrow> goal_row \<Rightarrow> bool stored" where
  "check_successor k db g b parent_revision r =
     (let corrupt = Runtime_Error ''same-binding successor authority is corrupt'';
          wrong_lineage = Runtime_Error ''same-binding successor intent lineage is corrupt'';
          lineage = (\<lambda>s sb.
            bind_stored (intent_scalar_pair (gr_revision r) (gr_hash r)) (\<lambda>(revision, stored_hash).
            bind_stored (refuse (\<not> (revision = parent_revision + 1 \<or> parent_revision = 0 \<and> revision = 0)) wrong_lineage) (\<lambda>_.
            bind_stored (goal_intent_hash k db s sb) (\<lambda>calculated.
            bind_stored (refuse (calculated \<noteq> stored_hash) wrong_lineage) (\<lambda>_. Inr True)))));
          body =
            bind_stored (load_bound_goal k db (gr_id r) False) (\<lambda>(s, sb).
            bind_stored (refuse (goal_id s \<noteq> gr_id r \<or> goal_project_id s \<noteq> bound_project sb \<or>
                supersedes s \<noteq> Some (goal_id g) \<or> bound_key sb \<noteq> bound_key b)
              (Runtime_Error ''same-binding successor identity is corrupt'')) (\<lambda>_.
            case live_key k db (goal_project_id s) of
              Inl (Identity_Blocked m c) \<Rightarrow>
                if c = ''project_identity_quarantined'' then lineage s sb else Inl (Identity_Blocked m c)
            | Inl e \<Rightarrow> Inl e
            | Inr key \<Rightarrow> if key \<noteq> bound_key sb then Inr False else lineage s sb))
      in case body of
           Inl (Lookup_Error m) \<Rightarrow> Inl corrupt
         | Inl (Value_Error m) \<Rightarrow> Inl corrupt
         | Inl (Identity_Blocked m c) \<Rightarrow> Inl corrupt
         | other \<Rightarrow> other)"

fun scan_successors :: "(goal_row \<Rightarrow> bool stored) \<Rightarrow> bool \<Rightarrow> goal_row list \<Rightarrow> bool stored" where
  "scan_successors check found [] = Inr found"
| "scan_successors check found (r # rs) =
     bind_stored (check r) (\<lambda>authoritative.
       if \<not> authoritative then scan_successors check found rs
       else if found then Inl (Runtime_Error ''goal has multiple authoritative successors'')
       else scan_successors check True rs)"

definition successor_rows :: "store \<Rightarrow> goal \<Rightarrow> artifact_binding \<Rightarrow> goal_row list" where
  "successor_rows db g b =
     by_id gr_id (filter (\<lambda>r. supersedes (gr_goal r) = Some (goal_id g) \<and> gr_binding r = Some (bound_key b))
       (goal_rows db))"

definition has_successor :: "codec \<Rightarrow> store \<Rightarrow> goal \<Rightarrow> artifact_binding \<Rightarrow> bool stored" where
  "has_successor k db g b =
     bind_stored (goal_scalars db (goal_id g) ''goal successor parent authority disappeared'') (\<lambda>(revision, stored_hash).
     bind_stored (goal_intent_hash k db g b) (\<lambda>calculated.
     bind_stored (refuse (calculated \<noteq> stored_hash)
       (Runtime_Error ''goal successor parent intent hash is corrupt'')) (\<lambda>_.
     bind_stored (refuse (1000 < length (successor_rows db g b))
       (Runtime_Error ''goal successor authority scan exceeds its safety bound'')) (\<lambda>_.
     scan_successors (check_successor k db g b revision) False (successor_rows db g b)))))"

definition reject_superseded :: "codec \<Rightarrow> store \<Rightarrow> goal \<Rightarrow> artifact_binding \<Rightarrow> unit stored" where
  "reject_superseded k db g b =
     bind_stored (has_successor k db g b) (\<lambda>found. refuse found (Value_Error ''goal has been superseded''))"

text \<open>\<open>_live_goal_successor\<close>: the first successor row whose project has not moved.\<close>

fun first_live_successor ::
  "codec \<Rightarrow> store \<Rightarrow> goal \<Rightarrow> artifact_binding \<Rightarrow> goal_row list \<Rightarrow> (goal \<times> artifact_binding) option stored" where
  "first_live_successor k db g b [] = Inr None"
| "first_live_successor k db g b (r # rs) =
     bind_stored (load_bound_goal k db (gr_id r) False) (\<lambda>(s, sb).
       if supersedes s \<noteq> Some (goal_id g) \<or> bound_key sb \<noteq> bound_key b then first_live_successor k db g b rs
       else case live_key k db (goal_project_id s) of
         Inl (Identity_Blocked m c) \<Rightarrow> first_live_successor k db g b rs
       | Inl e \<Rightarrow> Inl e
       | Inr key \<Rightarrow> if key \<noteq> bound_key sb then first_live_successor k db g b rs else Inr (Some (s, sb)))"

definition live_goal_successor ::
  "codec \<Rightarrow> store \<Rightarrow> goal \<Rightarrow> artifact_binding \<Rightarrow> (goal \<times> artifact_binding) option stored" where
  "live_goal_successor k db g b = first_live_successor k db g b (take 1001 (successor_rows db g b))"

section \<open>Sessions\<close>

definition find_session_row :: "store \<Rightarrow> string \<Rightarrow> session_row option" where
  "find_session_row db s = find (\<lambda>r. sr_id r = s) (session_rows db)"

definition check_session_project :: "codec \<Rightarrow> store \<Rightarrow> session_row \<Rightarrow> bool \<Rightarrow> unit stored" where
  "check_session_project k db r live =
     (if given (session_key (sr_session r))
      then case sr_binding r of
             None \<Rightarrow> Inl (identity_unbound ''session'')
           | Some stored \<Rightarrow>
               if live
               then bind_stored (live_key k db (text_or_empty (session_key (sr_session r)))) (\<lambda>current.
                 refuse (current \<noteq> stored) (identity_changed ''session project identity changed after creation''))
               else Inr ()
      else refuse (sr_binding r \<noteq> None) (Runtime_Error ''project-less session has a corrupt project binding''))"

definition check_session_goal :: "codec \<Rightarrow> store \<Rightarrow> session_row \<Rightarrow> string \<Rightarrow> bool \<Rightarrow> unit stored" where
  "check_session_goal k db r identifier live =
     (let differ = identity_changed ''session and goal immutable project identities differ''
      in bind_stored (load_bound_goal k db identifier live) (\<lambda>(g, b).
         if session_key (sr_session r) = None \<or> sr_binding r \<noteq> Some (bound_key b) then Inl differ
         else if live
           then bind_stored (same_live_binding db (text_or_empty (session_key (sr_session r))) (goal_project_id g))
                  (\<lambda>same. refuse (\<not> same) differ)
         else Inr ()))"

definition load_bound_session ::
  "codec \<Rightarrow> store \<Rightarrow> string \<Rightarrow> bool \<Rightarrow> bool \<Rightarrow> (harness_session \<times> string option) stored" where
  "load_bound_session k db identifier need_goal live =
     (case find_session_row db identifier of
        None \<Rightarrow> Inl (Lookup_Error ''session not found'')
      | Some r \<Rightarrow>
          let s = sr_session r
          in bind_stored (refuse (ses_id s \<noteq> sr_id r \<or> vendor_session_id s \<noteq> sr_vendor r \<or>
                 harness_type_value (ses_harness s) \<noteq> sr_harness r)
               (Runtime_Error ''stored session authority binding is corrupt'')) (\<lambda>_.
             bind_stored (check_session_project k db r live) (\<lambda>_.
             bind_stored (case ses_goal_id s of
                 Some g \<Rightarrow> check_session_goal k db r g live
               | None \<Rightarrow> refuse need_goal (Permission_Error ''session has no attached persistent goal'')) (\<lambda>_.
             Inr (s, sr_binding r)))))"

section \<open>Interventions\<close>

text \<open>\<open>model_dump(mode="json")\<close> of an action, and the hash of its canonical text.\<close>

definition action_value :: "proposed_action \<Rightarrow> pyval" where
  "action_value a =
     PDict [(''type'', PStr (intervention_type_value (act_type a))), (''session_id'', PStr (act_session_id a)),
       (''goal_id'', case act_goal_id a of None \<Rightarrow> PNone | Some g \<Rightarrow> PStr g),
       (''payload'', PDict (act_payload a)), (''rationale'', PStr (act_rationale a)),
       (''evidence'', strings (act_evidence a)), (''confidence'', PFloat (act_confidence a)),
       (''risk'', PStr (risk_level_value (act_risk a))), (''reversible'', PBool (act_reversible a)),
       (''expected_benefit'', PStr (act_expected_benefit a)),
       (''cooldown_seconds'', PInt (act_cooldown_seconds a)),
       (''authority_required'', PStr (authority_value (act_authority a))),
       (''requires_capability'', case act_requires_capability a of None \<Rightarrow> PNone | Some c \<Rightarrow> PStr c)]"

definition intervention_action_hash :: "codec \<Rightarrow> intervention \<Rightarrow> string" where
  "intervention_action_hash k i = sha_text k (json_dumps False (float_text k) (action_value (int_action i)))"

definition validate_intervention_identity :: "intervention \<Rightarrow> intervention option \<Rightarrow> unit stored" where
  "validate_intervention_identity i existing =
     bind_stored (refuse (act_session_id (int_action i) \<noteq> int_session_id i)
       (Value_Error ''intervention/action session identity mismatch'')) (\<lambda>_.
     bind_stored (refuse (act_goal_id (int_action i) \<noteq> int_goal_id i)
       (Value_Error ''intervention/action goal identity mismatch'')) (\<lambda>_.
     case existing of
       None \<Rightarrow> Inr ()
     | Some e \<Rightarrow>
         bind_stored (refuse (int_session_id e \<noteq> int_session_id i)
           (Value_Error ''an intervention update cannot change session identity'')) (\<lambda>_.
         bind_stored (refuse (int_goal_id e \<noteq> int_goal_id i)
           (Value_Error ''an intervention update cannot change goal identity'')) (\<lambda>_.
         bind_stored (refuse (as_utc (int_created_at e) \<noteq> as_utc (int_created_at i))
           (Value_Error ''an intervention update cannot change its creation timestamp'')) (\<lambda>_.
         refuse (int_action e \<noteq> int_action i)
           (Value_Error ''an intervention update cannot change its proposed action''))))))"

record bound_intervention =
  bi_intervention :: intervention
  bi_binding :: artifact_binding
  bi_session :: harness_session
  bi_goal :: goal
  bi_version :: int

definition find_intervention_row :: "store \<Rightarrow> string \<Rightarrow> intervention_row option" where
  "find_intervention_row db i = find (\<lambda>r. ir_id r = i) (intervention_rows db)"

definition corrupt_intervention :: "codec \<Rightarrow> intervention_row \<Rightarrow> bool" where
  "corrupt_intervention k r =
     (let i = ir_payload r
      in bc_version (ir_columns r) < 0 \<or> int_id i \<noteq> ir_id r \<or> int_session_id i \<noteq> ir_session_id r \<or>
         int_goal_id i \<noteq> ir_goal_id r \<or> ir_envelope r \<noteq> ir_columns r \<or>
         bc_hash (ir_columns r) \<noteq> Some (intervention_action_hash k i) \<or>
         as_utc (int_created_at i) \<noteq> as_utc (ir_time r))"

definition load_bound_intervention :: "codec \<Rightarrow> store \<Rightarrow> string \<Rightarrow> bool \<Rightarrow> bound_intervention stored" where
  "load_bound_intervention k db identifier live =
     (case find_intervention_row db identifier of
        None \<Rightarrow> Inl (Lookup_Error ''intervention not found'')
      | Some r \<Rightarrow>
          let i = ir_payload r
          in bind_stored (stored_binding (bc_project (ir_columns r)) (bc_binding (ir_columns r)) ''intervention'') (\<lambda>b.
             bind_stored (refuse (corrupt_intervention k r)
               (Runtime_Error ''stored intervention authority binding is corrupt'')) (\<lambda>_.
             bind_stored (load_bound_session k db (int_session_id i) True live) (\<lambda>(s, session_binding).
             case int_goal_id i of
               None \<Rightarrow> Inl (Identity_Blocked ''intervention has no immutable goal identity''
                        ''artifact_project_identity_unbound'')
             | Some goal_identifier \<Rightarrow>
                 bind_stored (load_bound_goal k db goal_identifier live) (\<lambda>(g, goal_binding).
                 bind_stored (refuse
                   (ses_goal_id s \<noteq> Some (goal_id g) \<or> session_binding \<noteq> Some (bound_key b) \<or>
                    bound_key goal_binding \<noteq> bound_key b \<or>
                    bc_vendor (ir_columns r) \<noteq> Some (vendor_session_id s) \<or>
                    bc_harness (ir_columns r) \<noteq> Some (harness_type_value (ses_harness s)))
                   (identity_changed ''intervention immutable target binding changed'')) (\<lambda>_.
                 bind_stored (if live then live_binding k db b ''intervention'' else Inr ()) (\<lambda>_.
                 Inr \<lparr>bi_intervention = i, bi_binding = b, bi_session = s, bi_goal = g,
                      bi_version = bc_version (ir_columns r)\<rparr>)))))))"

text \<open>
  \<open>_update_bound_intervention\<close>: the payload is replaced under the version that was read, everything the row is
  bound to stays.
\<close>

definition put_intervention :: "string \<Rightarrow> int \<Rightarrow> (intervention_row \<Rightarrow> intervention_row) \<Rightarrow> store \<Rightarrow> store" where
  "put_intervention identifier version f db =
     db\<lparr>intervention_rows :=
       map (\<lambda>r. if ir_id r = identifier \<and> bc_version (ir_columns r) = version then f r else r) (intervention_rows db)\<rparr>"

definition update_bound_intervention :: "codec \<Rightarrow> store \<Rightarrow> intervention \<Rightarrow> bool \<Rightarrow> (int \<times> store) stored" where
  "update_bound_intervention k db i live =
     bind_stored (load_bound_intervention k db (int_id i) live) (\<lambda>e.
     bind_stored (validate_intervention_identity i (Some (bi_intervention e))) (\<lambda>_.
     let version = bi_version e; next = version + 1;
         columns = \<lparr>bc_project = Some (bound_project (bi_binding e)), bc_binding = Some (bound_key (bi_binding e)),
           bc_vendor = Some (vendor_session_id (bi_session e)),
           bc_harness = Some (harness_type_value (ses_harness (bi_session e))),
           bc_hash = Some (intervention_action_hash k (bi_intervention e)), bc_version = next\<rparr>;
         hits = filter (\<lambda>r. ir_id r = int_id i \<and> bc_version (ir_columns r) = version) (intervention_rows db)
     in bind_stored (refuse (length hits \<noteq> 1) (Runtime_Error ''intervention update CAS was lost'')) (\<lambda>_.
        Inr (next, put_intervention (int_id i) version
          (\<lambda>r. r\<lparr>ir_columns := (ir_columns r)\<lparr>bc_version := next\<rparr>, ir_envelope := columns, ir_payload := i\<rparr>) db))))"

section \<open>Human rulings\<close>

datatype ruling_table = Permission_Table | Lifecycle_Table

fun ruling_rows :: "ruling_table \<Rightarrow> store \<Rightarrow> resolution_row list" where
  "ruling_rows Permission_Table db = permission_rows db"
| "ruling_rows Lifecycle_Table db = lifecycle_rows db"

fun set_ruling_rows :: "ruling_table \<Rightarrow> resolution_row list \<Rightarrow> store \<Rightarrow> store" where
  "set_ruling_rows Permission_Table rows db = db\<lparr>permission_rows := rows\<rparr>"
| "set_ruling_rows Lifecycle_Table rows db = db\<lparr>lifecycle_rows := rows\<rparr>"

definition find_ruling :: "ruling_table \<Rightarrow> store \<Rightarrow> string \<Rightarrow> resolution_row option" where
  "find_ruling table db i = find (\<lambda>r. rr_intervention_id r = i) (ruling_rows table db)"

record bound_resolution =
  br_record :: resolution
  br_row :: resolution_row
  br_bound :: bound_intervention

definition corrupt_ruling :: "ruling_table \<Rightarrow> resolution_row \<Rightarrow> bool" where
  "corrupt_ruling table r =
     (let x = rr_record r
      in bc_version (rr_columns r) < 0 \<or> rs_intervention_id x \<noteq> rr_intervention_id r \<or>
         rs_session_id x \<noteq> rr_session_id r \<or> rs_goal_id x \<noteq> rr_goal_id r \<or> rs_columns x \<noteq> rr_columns r \<or>
         rs_decision x \<noteq> rr_decision r \<or> rs_status x \<noteq> rr_status r \<or>
         (table = Permission_Table \<and> rs_request_id x \<noteq> rr_request_id r))"

text \<open>The last checks of \<open>_load_bound_resolution\<close>: the ruling is on this request or on this type of action.\<close>

definition check_ruling_action :: "ruling_table \<Rightarrow> resolution \<Rightarrow> intervention \<Rightarrow> unit stored" where
  "check_ruling_action table x i =
     (case table of
        Permission_Table \<Rightarrow>
          refuse
            (act_type (int_action i) \<noteq> IT_RESPOND_PERMISSION \<or>
             (case rs_request_id x of None \<Rightarrow> PNone | Some t \<Rightarrow> PStr t) \<noteq>
               dict_get (act_payload (int_action i)) ''request_id'' \<or>
             rs_authority_reducing x \<noteq> (rs_decision x = ''deny''))
            (Permission_Error ''permission resolution action binding changed'')
      | Lifecycle_Table \<Rightarrow>
          refuse
            (rs_action_type x \<noteq> Some (act_type (int_action i)) \<or>
             rs_authority_reducing x \<noteq> (rs_decision x = ''deny'' \<or> act_type (int_action i) = IT_STOP_AGENT))
            (Permission_Error ''lifecycle resolution action binding changed''))"

definition load_bound_resolution ::
  "codec \<Rightarrow> store \<Rightarrow> ruling_table \<Rightarrow> string \<Rightarrow> bool \<Rightarrow> bool \<Rightarrow> bound_resolution stored" where
  "load_bound_resolution k db table identifier live snapshot =
     (case find_ruling table db identifier of
        None \<Rightarrow> Inl (Lookup_Error ''resolution was not reserved'')
      | Some r \<Rightarrow>
          let x = rr_record r
          in bind_stored (stored_binding (bc_project (rr_columns r)) (bc_binding (rr_columns r)) ''resolution'') (\<lambda>b.
             bind_stored (refuse (corrupt_ruling table r)
               (Runtime_Error ''stored resolution authority binding is corrupt'')) (\<lambda>_.
             bind_stored (load_bound_intervention k db identifier live) (\<lambda>bi.
             let i = bi_intervention bi
             in bind_stored (refuse
                  (b \<noteq> bi_binding bi \<or> rr_session_id r \<noteq> int_session_id i \<or> Some (rr_goal_id r) \<noteq> int_goal_id i \<or>
                   bc_vendor (rr_columns r) \<noteq> Some (vendor_session_id (bi_session bi)) \<or>
                   bc_harness (rr_columns r) \<noteq> Some (harness_type_value (ses_harness (bi_session bi))) \<or>
                   bc_hash (rr_columns r) \<noteq> Some (intervention_action_hash k i) \<or>
                   rs_intervention_binding x \<noteq> decision_intervention_binding i \<or>
                   rs_goal_binding x \<noteq> (goal_id (bi_goal bi), goal_project_id (bi_goal bi)))
                  (identity_changed ''resolution immutable target identity changed'')) (\<lambda>_.
                bind_stored (refuse (snapshot \<and> rs_session_binding x \<noteq> decision_session_binding (bi_session bi))
                  (Permission_Error ''resolution vendor session binding changed'')) (\<lambda>_.
                bind_stored (check_ruling_action table x i) (\<lambda>_.
                Inr \<lparr>br_record = x, br_row = r, br_bound = bi\<rparr>)))))))"

text \<open>
  \<open>_merge_resolution_session_state\<close>: what the end of a delivery may say about the session. \<open>requested\<close> is
  the session as the resolver saw it, \<open>current\<close> the stored one.
\<close>

definition latest_activity :: "harness_session \<Rightarrow> harness_session \<Rightarrow> datetime option" where
  "latest_activity current requested =
     (case ses_last_activity requested of
        None \<Rightarrow> ses_last_activity current
      | Some t \<Rightarrow>
          (case ses_last_activity current of
             None \<Rightarrow> Some t
           | Some u \<Rightarrow> if as_utc u < as_utc t then Some t else Some u))"

definition status_may_follow :: "codec \<Rightarrow> store \<Rightarrow> harness_session \<Rightarrow> resolution \<Rightarrow> bool stored" where
  "status_may_follow k db current x =
     bind_stored (session_project current) (\<lambda>project.
     case bind_stored (reject_quarantined db project) (\<lambda>_.
            if rs_authority_reducing x then Inr (containment_snapshot (sha_text k) project) else live_key k db project) of
       Inl (Identity_Blocked m c) \<Rightarrow> Inr False
     | Inl e \<Rightarrow> Inl e
     | Inr key \<Rightarrow>
         if Some key \<noteq> (if rs_authority_reducing x then Some (rs_dispatch_binding x) else bc_binding (rs_columns x))
         then Inr False
         else case load_bound_goal k db (text_or_empty (ses_goal_id current)) (\<not> rs_authority_reducing x) of
           Inl (Permission_Error m) \<Rightarrow> Inl (Permission_Error m)
         | Inl _ \<Rightarrow> Inr False
         | Inr (g, b) \<Rightarrow>
             if goal_paused g then Inr False
             else case has_successor k db g b of
               Inl (Lookup_Error m) \<Rightarrow> Inl (Lookup_Error m)
             | Inl (Permission_Error m) \<Rightarrow> Inl (Permission_Error m)
             | Inl _ \<Rightarrow> Inr False
             | Inr superseded \<Rightarrow> Inr (\<not> superseded))"

definition merge_resolution_session ::
  "codec \<Rightarrow> store \<Rightarrow> harness_session \<Rightarrow> harness_session \<Rightarrow> resolution \<Rightarrow> bool \<Rightarrow> harness_session stored" where
  "merge_resolution_session k db current requested x allow_stop =
     bind_stored (refuse (ses_id current \<noteq> ses_id requested) (Value_Error ''resolution session identity changed'')) (\<lambda>_.
     let merged = current\<lparr>ses_last_activity := latest_activity current requested\<rparr>
     in if allow_stop \<and> ses_status requested = SS_STOPPED then Inr (merged\<lparr>ses_status := SS_STOPPED\<rparr>)
        else if ses_status current = SS_STOPPED \<or> supervision_paused current \<or>
                rs_session_binding x \<noteq> decision_session_binding current
          then Inr merged
        else bind_stored (status_may_follow k db current x) (\<lambda>may.
          Inr (if may then merged\<lparr>ses_status := ses_status requested\<rparr> else merged)))"

end
