(* ===== verification/Human_Rulings.thy ===== *)
theory Human_Rulings
  imports Store_Authority
begin

text \<open>
  The durable state machine of a human ruling in \<open>store.py\<close>: \<open>reserve\<close>, \<open>start_dispatch\<close> and \<open>finalize\<close> for
  permission responses and for lifecycle actions. A ruling is reserved once, one dispatch is granted by a
  compare-and-swap from \<open>reserved\<close>, and the outcome is recorded with the intervention and the session. \<open>boot\<close>
  identifies the process; times are arguments.
\<close>

section \<open>Reserving\<close>

definition bad_id :: "nat \<Rightarrow> string \<Rightarrow> bool" where
  "bad_id limit s = (s = [] \<or> limit < length s)"

definition closed_status :: "harness_session \<Rightarrow> bool" where
  "closed_status s = (ses_status s \<in> {SS_STOPPED, SS_ERROR, SS_DETACHED})"

definition observed_only :: "harness_session \<Rightarrow> bool" where
  "observed_only s =
     (dict_get (ses_metadata s) ''not_live_control'' = PBool True \<or> truthy (dict_get (ses_metadata s) ''observe_only''))"

definition new_ruling ::
  "codec \<Rightarrow> ruling_table \<Rightarrow> bound_intervention \<Rightarrow> string \<Rightarrow> string option \<Rightarrow> string \<Rightarrow> datetime \<Rightarrow> bool \<Rightarrow> resolution" where
  "new_ruling k table bi dispatch_binding request ruling now containment =
     (let i = bi_intervention bi; s = bi_session bi; g = bi_goal bi
      in \<lparr>rs_intervention_id = int_id i, rs_session_id = ses_id s, rs_goal_id = goal_id g,
          rs_dispatch_binding = dispatch_binding,
          rs_columns = \<lparr>bc_project = Some (bound_project (bi_binding bi)), bc_binding = Some (bound_key (bi_binding bi)),
            bc_vendor = Some (vendor_session_id s), bc_harness = Some (harness_type_value (ses_harness s)),
            bc_hash = Some (intervention_action_hash k i), bc_version = 0\<rparr>,
          rs_request_id = request,
          rs_action_type = (case table of Permission_Table \<Rightarrow> None | Lifecycle_Table \<Rightarrow> Some (act_type (int_action i))),
          rs_decision = ruling, rs_status = ''reserved'', rs_reserved_at = now, rs_dispatch_started_at = None,
          rs_dispatcher = None, rs_finished_at = None, rs_delivery_result = None,
          rs_authority_reducing = containment, rs_intervention_binding = decision_intervention_binding i,
          rs_session_binding = decision_session_binding s, rs_goal_binding = (goal_id g, goal_project_id g)\<rparr>)"

definition ruling_row :: "resolution \<Rightarrow> resolution_row" where
  "ruling_row x =
     \<lparr>rr_intervention_id = rs_intervention_id x, rr_session_id = rs_session_id x, rr_goal_id = rs_goal_id x,
      rr_columns = rs_columns x, rr_request_id = rs_request_id x, rr_decision = rs_decision x,
      rr_status = rs_status x, rr_record = x\<rparr>"

fun table_label :: "ruling_table \<Rightarrow> string" where
  "table_label Permission_Table = ''permission''"
| "table_label Lifecycle_Table = ''lifecycle''"

fun paused_message :: "ruling_table \<Rightarrow> string" where
  "paused_message Permission_Table = ''permission allow is paused''"
| "paused_message Lifecycle_Table = ''lifecycle action is paused''"

text \<open>
  What both reservations do once the pending action is found: a ruling that only reduces authority freezes the
  raw project key; any other needs the live binding, no pause and no successor goal.
\<close>

definition authorize_ruling ::
  "codec \<Rightarrow> store \<Rightarrow> ruling_table \<Rightarrow> string \<Rightarrow> bound_intervention \<Rightarrow> bool \<Rightarrow> (bound_intervention \<times> string) stored" where
  "authorize_ruling k db table identifier bi containment =
     bind_stored (session_project (bi_session bi)) (\<lambda>project.
     if containment then Inr (bi, containment_snapshot (sha_text k) project)
     else
       bind_stored (load_bound_intervention k db identifier True) (\<lambda>now.
       bind_stored (refuse (supervision_paused (bi_session now) \<or> goal_paused (bi_goal now))
         (Permission_Error (paused_message table))) (\<lambda>_.
       bind_stored (has_successor k db (bi_goal now) (bi_binding now)) (\<lambda>superseded.
       bind_stored (refuse superseded (Permission_Error (table_label table @ '' goal was superseded''))) (\<lambda>_.
       Inr (now, bound_key (bi_binding now)))))))"

definition request_text :: "codec \<Rightarrow> intervention \<Rightarrow> string" where
  "request_text k i = strip (str_or_empty (repr_text k) (dict_get (act_payload (int_action i)) ''request_id''))"

definition permission_target :: "codec \<Rightarrow> intervention \<Rightarrow> string \<Rightarrow> string \<Rightarrow> bool" where
  "permission_target k i session request =
     (let a = int_action i
      in int_session_id i = session \<and> act_session_id a = session \<and> act_goal_id a = int_goal_id i \<and>
         act_type a = IT_RESPOND_PERMISSION \<and> int_action_taken i = intervention_type_value IT_RESPOND_PERMISSION \<and>
         int_verdict i = PV_ASK_HUMAN \<and> int_result i = ''permission_awaiting_human'' \<and>
         request_text k i = request)"

definition same_request :: "string \<Rightarrow> string \<Rightarrow> string \<Rightarrow> resolution_row \<Rightarrow> bool" where
  "same_request identifier session request r =
     (rr_intervention_id r = identifier \<or> rr_session_id r = session \<and> rr_request_id r = Some request)"

definition reserve_permission ::
  "codec \<Rightarrow> store \<Rightarrow> string \<Rightarrow> string \<Rightarrow> string \<Rightarrow> string \<Rightarrow> datetime \<Rightarrow> ((bool \<times> resolution) \<times> store) stored" where
  "reserve_permission k db identifier session request ruling now =
     bind_stored (refuse (bad_id 512 identifier) (Value_Error ''permission intervention id is invalid'')) (\<lambda>_.
     bind_stored (refuse (bad_id 512 session) (Value_Error ''permission session id is invalid'')) (\<lambda>_.
     bind_stored (refuse (bad_id 1024 request) (Value_Error ''permission request id is invalid'')) (\<lambda>_.
     bind_stored (refuse (ruling \<notin> {''allow'', ''deny''}) (Value_Error ''permission decision is invalid'')) (\<lambda>_.
     bind_stored (refuse (\<not> is_aware now) (Value_Error ''permission resolution time must be timezone-aware'')) (\<lambda>_.
     case by_id rr_intervention_id (filter (same_request identifier session request) (permission_rows db)) of
       r # _ \<Rightarrow>
         bind_stored (load_bound_resolution k db Permission_Table (rr_intervention_id r) False True)
           (\<lambda>br. Inr ((False, br_record br), db))
     | [] \<Rightarrow>
         bind_stored (load_bound_intervention k db identifier False) (\<lambda>bi.
         bind_stored (refuse (\<not> permission_target k (bi_intervention bi) session request)
           (Value_Error ''permission reservation target is not the pending action'')) (\<lambda>_.
         bind_stored (refuse (closed_status (bi_session bi) \<or> observed_only (bi_session bi))
           (Permission_Error ''permission session is not live'')) (\<lambda>_.
         bind_stored (authorize_ruling k db Permission_Table identifier bi (ruling = ''deny'')) (\<lambda>(now_bi, key).
         let x = new_ruling k Permission_Table now_bi key (Some request) ruling now (ruling = ''deny'')
         in Inr ((True, x), db\<lparr>permission_rows := permission_rows db @ [ruling_row x]\<rparr>))))))))))"

definition lifecycle_types :: "intervention_type list" where
  "lifecycle_types = [IT_START_AGENT, IT_STOP_AGENT, IT_FORK_PROBE, IT_CLEANUP]"

definition lifecycle_target :: "intervention \<Rightarrow> string \<Rightarrow> bool" where
  "lifecycle_target i session =
     (let a = int_action i
      in int_session_id i = session \<and> act_session_id a = session \<and> act_goal_id a = int_goal_id i \<and>
         act_type a \<in> set lifecycle_types \<and> int_action_taken i = intervention_type_value (act_type a) \<and>
         int_verdict i = PV_ASK_HUMAN \<and> int_result i = ''awaiting_human'')"

text \<open>A cleanup needs a stopped session, every other lifecycle action one that is not stopped.\<close>

definition check_lifecycle_session :: "harness_session \<Rightarrow> intervention_type \<Rightarrow> unit stored" where
  "check_lifecycle_session s kind =
     bind_stored (refuse (ses_status s \<in> {SS_ERROR, SS_DETACHED} \<or> observed_only s)
       (Permission_Error ''lifecycle session is not controllable'')) (\<lambda>_.
     if kind = IT_CLEANUP
     then refuse (ses_status s \<noteq> SS_STOPPED) (Permission_Error ''cleanup source session is not stopped'')
     else refuse (ses_status s = SS_STOPPED) (Permission_Error ''lifecycle source session is already stopped''))"

definition reserve_lifecycle ::
  "codec \<Rightarrow> store \<Rightarrow> string \<Rightarrow> string \<Rightarrow> string \<Rightarrow> datetime \<Rightarrow> ((bool \<times> resolution) \<times> store) stored" where
  "reserve_lifecycle k db identifier session ruling now =
     bind_stored (refuse (bad_id 512 identifier) (Value_Error ''lifecycle intervention id is invalid'')) (\<lambda>_.
     bind_stored (refuse (bad_id 512 session) (Value_Error ''lifecycle session id is invalid'')) (\<lambda>_.
     bind_stored (refuse (ruling \<notin> {''allow'', ''deny''}) (Value_Error ''lifecycle decision is invalid'')) (\<lambda>_.
     bind_stored (refuse (\<not> is_aware now) (Value_Error ''lifecycle resolution time must be timezone-aware'')) (\<lambda>_.
     case find_ruling Lifecycle_Table db identifier of
       Some r \<Rightarrow>
         bind_stored (load_bound_resolution k db Lifecycle_Table identifier False True)
           (\<lambda>br. Inr ((False, br_record br), db))
     | None \<Rightarrow>
         bind_stored (load_bound_intervention k db identifier False) (\<lambda>bi.
         let kind = act_type (int_action (bi_intervention bi)); containment = (ruling = ''deny'' \<or> kind = IT_STOP_AGENT)
         in bind_stored (refuse (\<not> lifecycle_target (bi_intervention bi) session)
              (Value_Error ''lifecycle reservation target is not the pending action'')) (\<lambda>_.
            bind_stored (check_lifecycle_session (bi_session bi) kind) (\<lambda>_.
            bind_stored (authorize_ruling k db Lifecycle_Table identifier bi containment) (\<lambda>(now_bi, key).
            let x = new_ruling k Lifecycle_Table now_bi key None ruling now containment
            in Inr ((True, x), db\<lparr>lifecycle_rows := lifecycle_rows db @ [ruling_row x]\<rparr>)))))))))"

section \<open>Granting the dispatch\<close>

datatype start_result =
    Dispatch_Granted (granted_ruling: resolution) (granted_session: harness_session) (granted_intervention: intervention)
  | Dispatch_Refused resolution

text \<open>The compare-and-swap of one row: it must hit exactly one.\<close>

definition swap_ruling ::
  "ruling_table \<Rightarrow> string \<Rightarrow> string \<Rightarrow> int \<Rightarrow> resolution \<Rightarrow> string \<Rightarrow> store \<Rightarrow> store stored" where
  "swap_ruling table identifier status version x lost db =
     (let hit = (\<lambda>r. rr_intervention_id r = identifier \<and> rr_status r = status \<and> bc_version (rr_columns r) = version)
      in bind_stored (refuse (length (filter hit (ruling_rows table db)) \<noteq> 1) (Runtime_Error lost)) (\<lambda>_.
         Inr (set_ruling_rows table
           (map (\<lambda>r. if hit r
                     then r\<lparr>rr_status := rs_status x, rr_columns := (rr_columns r)\<lparr>bc_version := version + 1\<rparr>, rr_record := x\<rparr>
                     else r)
             (ruling_rows table db)) db)))"

definition dispatching :: "int \<Rightarrow> string \<Rightarrow> datetime \<Rightarrow> resolution \<Rightarrow> resolution" where
  "dispatching version boot now x =
     x\<lparr>rs_status := ''dispatching'', rs_dispatcher := Some boot, rs_dispatch_started_at := Some now,
       rs_columns := (rs_columns x)\<lparr>bc_version := version + 1\<rparr>\<rparr>"

text \<open>An identity that blocks is reported as a refused permission.\<close>

definition blocked_as_permission :: "'a stored \<Rightarrow> 'a stored" where
  "blocked_as_permission r = (case r of Inl (Identity_Blocked m c) \<Rightarrow> Inl (Permission_Error m) | other \<Rightarrow> other)"

definition reload_authority ::
  "codec \<Rightarrow> store \<Rightarrow> ruling_table \<Rightarrow> string \<Rightarrow> bound_resolution \<Rightarrow> bool \<Rightarrow>
   (bound_resolution \<times> string) stored" where
  "reload_authority k db table identifier br containment =
     bind_stored (session_project (bi_session (br_bound br))) (\<lambda>project.
     if containment then Inr (br, containment_snapshot (sha_text k) project)
     else
       bind_stored (load_bound_resolution k db table identifier True True) (\<lambda>now.
       bind_stored (refuse (supervision_paused (bi_session (br_bound now)) \<or> goal_paused (bi_goal (br_bound now)))
         (Permission_Error (paused_message table))) (\<lambda>_.
       bind_stored (has_successor k db (bi_goal (br_bound now)) (bi_binding (br_bound now))) (\<lambda>superseded.
       bind_stored (refuse superseded (Permission_Error (table_label table @ '' goal was superseded''))) (\<lambda>_.
       Inr (now, bound_key (bi_binding (br_bound now))))))))"

definition grant_dispatch ::
  "store \<Rightarrow> ruling_table \<Rightarrow> string \<Rightarrow> string \<Rightarrow> datetime \<Rightarrow> bound_resolution \<Rightarrow> string \<Rightarrow> (start_result \<times> store) stored" where
  "grant_dispatch db table identifier boot now br key =
     bind_stored (refuse (rs_dispatch_binding (br_record br) \<noteq> key)
       (Permission_Error (table_label table @ '' project identity changed before dispatch''))) (\<lambda>_.
     let version = bc_version (rr_columns (br_row br)); x = dispatching version boot now (br_record br)
     in bind_stored (swap_ruling table identifier ''reserved'' version x (table_label table @ '' dispatch CAS was lost'') db) (\<lambda>db'.
        Inr (Dispatch_Granted x (bi_session (br_bound br)) (bi_intervention (br_bound br)), db')))"

definition start_permission ::
  "codec \<Rightarrow> string \<Rightarrow> store \<Rightarrow> string \<Rightarrow> datetime \<Rightarrow> (start_result \<times> store) stored" where
  "start_permission k boot db identifier now =
     bind_stored (validate_store_id identifier ''permission intervention id'') (\<lambda>_.
     bind_stored (refuse (\<not> is_aware now) (Value_Error ''permission dispatch time must be timezone-aware'')) (\<lambda>_.
     blocked_as_permission (
       bind_stored (load_bound_resolution k db Permission_Table identifier False False) (\<lambda>br.
       let x = br_record br; s = bi_session (br_bound br)
       in if rs_status x \<noteq> ''reserved'' then Inr (Dispatch_Refused x, db)
          else
            bind_stored (refuse (rs_session_binding x \<noteq> decision_session_binding s)
              (Permission_Error ''permission vendor session binding changed'')) (\<lambda>_.
            bind_stored (refuse (closed_status s) (Permission_Error ''permission session is not live'')) (\<lambda>_.
            bind_stored (reload_authority k db Permission_Table identifier br (rs_authority_reducing x)) (\<lambda>(now_br, key).
            grant_dispatch db Permission_Table identifier boot now now_br key)))))))"

definition start_lifecycle ::
  "codec \<Rightarrow> string \<Rightarrow> store \<Rightarrow> string \<Rightarrow> datetime \<Rightarrow> (start_result \<times> store) stored" where
  "start_lifecycle k boot db identifier now =
     bind_stored (validate_store_id identifier ''lifecycle intervention id'') (\<lambda>_.
     bind_stored (refuse (\<not> is_aware now) (Value_Error ''lifecycle dispatch time must be timezone-aware'')) (\<lambda>_.
     blocked_as_permission (
       bind_stored (load_bound_resolution k db Lifecycle_Table identifier False False) (\<lambda>br.
       let x = br_record br; s = bi_session (br_bound br); kind = act_type (int_action (bi_intervention (br_bound br)))
       in bind_stored (refuse (rs_decision x \<noteq> ''allow'')
            (Value_Error ''denied lifecycle resolution has no dispatch'')) (\<lambda>_.
          if rs_status x \<noteq> ''reserved'' then Inr (Dispatch_Refused x, db)
          else
            bind_stored (refuse (rs_session_binding x \<noteq> decision_session_binding s)
              (Permission_Error ''lifecycle vendor session binding changed'')) (\<lambda>_.
            bind_stored (check_lifecycle_session s kind) (\<lambda>_.
            bind_stored (reload_authority k db Lifecycle_Table identifier br (kind = IT_STOP_AGENT)) (\<lambda>(now_br, key).
            grant_dispatch db Lifecycle_Table identifier boot now now_br key))))))))"

text \<open>\<open>validate_lifecycle_dispatch_grant\<close>: the grant is read again just before the effect.\<close>

datatype grant_check =
    Grant_Stands resolution harness_session intervention
  | Grant_Missing (missing_reason: string) resolution

definition validate_lifecycle_grant ::
  "codec \<Rightarrow> string \<Rightarrow> store \<Rightarrow> string \<Rightarrow> proposed_action \<Rightarrow> grant_check stored" where
  "validate_lifecycle_grant k boot db identifier a =
     (let containment = (act_type a = IT_STOP_AGENT)
      in bind_stored (validate_store_id identifier ''lifecycle intervention id'') (\<lambda>_.
         bind_stored (load_bound_resolution k db Lifecycle_Table identifier (\<not> containment) True) (\<lambda>br.
         let x = br_record br; s = bi_session (br_bound br); g = bi_goal (br_bound br)
         in if rs_decision x \<noteq> ''allow'' then Inr (Grant_Missing ''lifecycle_resolution_denied'' x)
            else if rs_status x \<noteq> ''dispatching'' then Inr (Grant_Missing ''lifecycle_resolution_not_dispatching'' x)
            else if rs_dispatcher x \<noteq> Some boot then Inr (Grant_Missing ''lifecycle_dispatch_owner_changed'' x)
            else if int_action (bi_intervention (br_bound br)) \<noteq> a
              then Inr (Grant_Missing ''lifecycle_dispatch_action_changed'' x)
            else
              bind_stored (refuse (rs_session_binding x \<noteq> decision_session_binding s)
                (Permission_Error ''lifecycle vendor session binding changed'')) (\<lambda>_.
              bind_stored (check_lifecycle_session s (act_type a)) (\<lambda>_.
              bind_stored
                (if containment
                 then bind_stored (session_project s) (\<lambda>project. Inr (containment_snapshot (sha_text k) project))
                 else
                   bind_stored (refuse (supervision_paused s \<or> goal_paused g)
                     (Permission_Error ''lifecycle action is paused'')) (\<lambda>_.
                   bind_stored (has_successor k db g (bi_binding (br_bound br))) (\<lambda>superseded.
                   bind_stored (refuse superseded (Permission_Error ''lifecycle goal was superseded'')) (\<lambda>_.
                   Inr (bound_key (bi_binding (br_bound br))))))) (\<lambda>key.
              bind_stored (refuse (rs_dispatch_binding x \<noteq> key)
                (Permission_Error ''lifecycle project identity changed before dispatch'')) (\<lambda>_.
              Inr (Grant_Stands x s (bi_intervention (br_bound br))))))))))"

section \<open>Recording the outcome\<close>

definition store_session :: "harness_session \<Rightarrow> store \<Rightarrow> store stored" where
  "store_session s db =
     bind_stored (refuse (length (filter (\<lambda>r. sr_id r = ses_id s) (session_rows db)) \<noteq> 1)
       (Runtime_Error ''session update was lost'')) (\<lambda>_.
     Inr (db\<lparr>session_rows :=
       map (\<lambda>r. if sr_id r = ses_id s then r\<lparr>sr_session := s, sr_revision := sr_revision r + 1\<rparr> else r)
         (session_rows db)\<rparr>))"

definition project_outcome ::
  "codec \<Rightarrow> store \<Rightarrow> intervention \<Rightarrow> harness_session \<Rightarrow> resolution \<Rightarrow> bool \<Rightarrow> string \<Rightarrow> store stored" where
  "project_outcome k db i s x allow_stop record_type =
     (case find_session_row db (ses_id s) of
        None \<Rightarrow> Inl (Runtime_Error ''session disappeared'')
      | Some r \<Rightarrow>
          bind_stored (merge_resolution_session k db (sr_session r) s x allow_stop) (\<lambda>merged.
          bind_stored (update_bound_intervention k db i False) (\<lambda>(_, db').
          bind_stored (store_session merged db') (\<lambda>db''.
          Inr (db''\<lparr>audit_rows := audit_rows db'' @ [\<lparr>au_intervention = i, au_type = record_type\<rparr>]\<rparr>)))))"

definition finalize_permission ::
  "codec \<Rightarrow> store \<Rightarrow> intervention \<Rightarrow> harness_session \<Rightarrow> string \<Rightarrow> string \<Rightarrow> datetime \<Rightarrow> string \<Rightarrow>
   (resolution \<times> store) stored" where
  "finalize_permission k db i s status delivery now record_type =
     bind_stored (refuse (ses_id s \<noteq> int_session_id i) (Value_Error ''permission session identity mismatch'')) (\<lambda>_.
     bind_stored (refuse (\<not> is_aware now)
       (Value_Error ''permission resolution finish time must be timezone-aware'')) (\<lambda>_.
     bind_stored (load_bound_resolution k db Permission_Table (int_id i) False False) (\<lambda>br.
     bind_stored (validate_intervention_identity i (Some (bi_intervention (br_bound br)))) (\<lambda>_.
     let x = br_record br; version = bc_version (rr_columns (br_row br))
     in if rs_status x \<noteq> ''dispatching'' then Inr (x, db)
        else
          bind_stored (refuse (\<not> resolution_target_matches (rs_session_binding x) s)
            (Permission_Error ''permission finalization target changed'')) (\<lambda>_.
          let y = x\<lparr>rs_status := status, rs_delivery_result := Some delivery, rs_finished_at := Some now,
                    rs_columns := (rs_columns x)\<lparr>bc_version := version + 1\<rparr>\<rparr>
          in bind_stored (swap_ruling Permission_Table (int_id i) ''dispatching'' version y
               ''permission finalization CAS was lost'' db) (\<lambda>db'.
             bind_stored (project_outcome k db' i s y False record_type) (\<lambda>db''. Inr (y, db''))))))))"

text \<open>What the caller of the lifecycle finalisation hands in beside the terminal status: the ruling as it saw it.\<close>

definition same_frozen_target :: "resolution \<Rightarrow> resolution \<Rightarrow> bool" where
  "same_frozen_target x y =
     (rs_intervention_id x = rs_intervention_id y \<and> rs_session_id x = rs_session_id y \<and> rs_goal_id x = rs_goal_id y \<and>
      rs_columns x = (rs_columns y)\<lparr>bc_version := bc_version (rs_columns x)\<rparr> \<and>
      rs_dispatch_binding x = rs_dispatch_binding y \<and> rs_decision x = rs_decision y \<and>
      rs_action_type x = rs_action_type y \<and> rs_intervention_binding x = rs_intervention_binding y \<and>
      rs_session_binding x = rs_session_binding y \<and> rs_goal_binding x = rs_goal_binding y)"

definition finalize_lifecycle ::
  "codec \<Rightarrow> store \<Rightarrow> intervention \<Rightarrow> harness_session \<Rightarrow> resolution \<Rightarrow> string \<Rightarrow> (resolution \<times> store) stored" where
  "finalize_lifecycle k db i s claimed record_type =
     bind_stored (refuse (ses_id s \<noteq> int_session_id i) (Value_Error ''lifecycle session identity mismatch'')) (\<lambda>_.
     bind_stored (load_bound_resolution k db Lifecycle_Table (int_id i) False False) (\<lambda>br.
     bind_stored (validate_intervention_identity i (Some (bi_intervention (br_bound br)))) (\<lambda>_.
     let x = br_record br; version = bc_version (rr_columns (br_row br));
         expected = (if rs_decision x = ''allow'' then ''dispatching'' else ''reserved'')
     in bind_stored (refuse (\<not> resolution_target_matches (rs_session_binding x) s)
          (Permission_Error ''lifecycle finalization target changed'')) (\<lambda>_.
        if rs_status x \<noteq> expected then Inr (x, db)
        else
          bind_stored (refuse (\<not> same_frozen_target claimed x)
            (Permission_Error ''lifecycle finalization target changed'')) (\<lambda>_.
          bind_stored (refuse (rs_status claimed \<in> {[], ''reserved'', ''dispatching''})
            (Value_Error ''lifecycle terminal status is invalid'')) (\<lambda>_.
          let y = x\<lparr>rs_status := rs_status claimed, rs_delivery_result := rs_delivery_result claimed,
                    rs_finished_at := rs_finished_at claimed,
                    rs_columns := (rs_columns x)\<lparr>bc_version := version + 1\<rparr>\<rparr>
          in bind_stored (swap_ruling Lifecycle_Table (int_id i) expected version y
               ''lifecycle finalization CAS was lost'' db) (\<lambda>db'.
             bind_stored (project_outcome k db' i s y
               (act_type (int_action i) = IT_STOP_AGENT \<and> rs_status y = ''delivered'') record_type) (\<lambda>db''.
             Inr (y, db'')))))))))"

section \<open>Facts\<close>

lemma find_Some: "find P xs = Some x \<Longrightarrow> x \<in> set xs \<and> P x"
  by (metis find_Some_iff nth_mem)

lemma load_bound_session_Inr:
  assumes "load_bound_session k db identifier need_goal live = Inr (s, b)"
  shows "ses_id s = identifier"
  using assms
  by (auto simp: load_bound_session_def find_session_row_def Let_def bind_stored_Inr_iff
      split: option.splits dest!: find_Some)

lemma load_bound_intervention_Inr:
  assumes "load_bound_intervention k db identifier live = Inr bi"
  shows "int_id (bi_intervention bi) = identifier \<and> ses_id (bi_session bi) = int_session_id (bi_intervention bi) \<and>
    ses_goal_id (bi_session bi) = Some (goal_id (bi_goal bi)) \<and>
    find_intervention_row db identifier \<noteq> None \<and> bi_intervention bi = ir_payload (the (find_intervention_row db identifier))"
proof -
  from assms obtain r where r: "find_intervention_row db identifier = Some r"
    by (auto simp: load_bound_intervention_def split: option.splits)
  then have i: "ir_id r = identifier" by (auto simp: find_intervention_row_def dest: find_Some)
  from assms r show ?thesis
    by (auto simp: load_bound_intervention_def Let_def bind_stored_Inr_iff corrupt_intervention_def i
        split: option.splits prod.splits dest!: load_bound_session_Inr)
qed

lemma load_bound_resolution_Inr:
  assumes "load_bound_resolution k db table identifier live snapshot = Inr br"
  shows "find_ruling table db identifier = Some (br_row br) \<and> br_record br = rr_record (br_row br) \<and>
    \<not> corrupt_ruling table (br_row br) \<and> load_bound_intervention k db identifier live = Inr (br_bound br) \<and>
    rr_intervention_id (br_row br) = identifier \<and>
    check_ruling_action table (br_record br) (bi_intervention (br_bound br)) = Inr () \<and>
    \<not> (snapshot \<and> rs_session_binding (br_record br) \<noteq> decision_session_binding (bi_session (br_bound br)))"
proof -
  from assms obtain r where r: "find_ruling table db identifier = Some r"
    by (auto simp: load_bound_resolution_def split: option.splits)
  then have "rr_intervention_id r = identifier" by (auto simp: find_ruling_def dest: find_Some)
  with assms r show ?thesis
    by (auto simp: load_bound_resolution_def Let_def bind_stored_Inr_iff split: option.splits)
qed

lemma load_bound_resolution_record:
  assumes "load_bound_resolution k db table identifier live snapshot = Inr br"
  shows "rs_intervention_id (br_record br) = identifier \<and> rs_session_id (br_record br) = rr_session_id (br_row br) \<and>
    rs_status (br_record br) = rr_status (br_row br) \<and> rs_decision (br_record br) = rr_decision (br_row br) \<and>
    rs_columns (br_record br) = rr_columns (br_row br) \<and>
    (if table = Permission_Table then rs_request_id (br_record br) = rr_request_id (br_row br) else True)"
  using load_bound_resolution_Inr [OF assms] by (auto simp: corrupt_ruling_def Let_def)

definition swap_row :: "string \<Rightarrow> string \<Rightarrow> int \<Rightarrow> resolution \<Rightarrow> resolution_row \<Rightarrow> resolution_row" where
  "swap_row identifier status version x r =
     (if rr_intervention_id r = identifier \<and> rr_status r = status \<and> bc_version (rr_columns r) = version
      then r\<lparr>rr_status := rs_status x, rr_columns := (rr_columns r)\<lparr>bc_version := version + 1\<rparr>, rr_record := x\<rparr>
      else r)"

lemma swap_row_keys [simp]:
  "rr_intervention_id (swap_row i st v x r) = rr_intervention_id r"
  "rr_session_id (swap_row i st v x r) = rr_session_id r"
  "rr_request_id (swap_row i st v x r) = rr_request_id r"
  "rr_decision (swap_row i st v x r) = rr_decision r"
  by (simp_all add: swap_row_def)

lemma ruling_rows_set [simp]:
  "ruling_rows t (set_ruling_rows table rows db) = (if t = table then rows else ruling_rows t db)"
  by (cases t; cases table) simp_all

lemma swap_ruling_Inr:
  "swap_ruling table i st v x lost db = Inr db' \<Longrightarrow>
   db' = set_ruling_rows table (map (swap_row i st v x) (ruling_rows table db)) db"
proof -
  have "swap_row i st v x = (\<lambda>r. if rr_intervention_id r = i \<and> rr_status r = st \<and> bc_version (rr_columns r) = v
      then r\<lparr>rr_status := rs_status x, rr_columns := (rr_columns r)\<lparr>bc_version := v + 1\<rparr>, rr_record := x\<rparr> else r)"
    by (rule ext) (simp add: swap_row_def)
  moreover assume "swap_ruling table i st v x lost db = Inr db'"
  ultimately show ?thesis by (auto simp: swap_ruling_def Let_def)
qed

lemma blocked_as_permission_Inr [simp]: "blocked_as_permission r = Inr y \<longleftrightarrow> r = Inr y"
  by (auto simp: blocked_as_permission_def split: sum.splits store_error.splits)

lemma reload_authority_Inr:
  assumes "reload_authority k db table identifier br containment = Inr (now_br, key)"
  shows "if containment then now_br = br \<and>
      (\<exists>project. session_project (bi_session (br_bound br)) = Inr project \<and> key = containment_snapshot (sha_text k) project)
    else load_bound_resolution k db table identifier True True = Inr now_br \<and>
      \<not> supervision_paused (bi_session (br_bound now_br)) \<and> \<not> goal_paused (bi_goal (br_bound now_br)) \<and>
      has_successor k db (bi_goal (br_bound now_br)) (bi_binding (br_bound now_br)) = Inr False \<and>
      key = bound_key (bi_binding (br_bound now_br))"
  using assms by (auto simp: reload_authority_def bind_stored_Inr_iff)

lemma grant_dispatch_Inr:
  assumes "grant_dispatch db table identifier boot now br key = Inr (r, db')"
  shows "rs_dispatch_binding (br_record br) = key \<and>
    r = Dispatch_Granted (dispatching (bc_version (rr_columns (br_row br))) boot now (br_record br))
          (bi_session (br_bound br)) (bi_intervention (br_bound br)) \<and>
    db' = set_ruling_rows table
      (map (swap_row identifier ''reserved'' (bc_version (rr_columns (br_row br)))
             (dispatching (bc_version (rr_columns (br_row br))) boot now (br_record br))) (ruling_rows table db)) db"
  using assms by (auto simp: grant_dispatch_def Let_def bind_stored_Inr_iff dest: swap_ruling_Inr)

text \<open>A grant, for either table: the row was reserved and the session is the one the ruling was frozen on.\<close>

definition granted_from :: "codec \<Rightarrow> store \<Rightarrow> ruling_table \<Rightarrow> string \<Rightarrow> resolution \<Rightarrow> harness_session \<Rightarrow> intervention \<Rightarrow>
    store \<Rightarrow> bool" where
  "granted_from k db table identifier x s i db' =
     (\<exists>row. find_ruling table db identifier = Some row \<and> rr_status row = ''reserved'' \<and>
        rs_intervention_id x = identifier \<and> rs_session_id x = rr_session_id row \<and> rs_decision x = rr_decision row \<and>
        (if table = Permission_Table then rs_request_id x = rr_request_id row else True) \<and>
        rs_status x = ''dispatching'' \<and>
        rs_session_binding x = decision_session_binding s \<and>
        db' = set_ruling_rows table (map (swap_row identifier ''reserved'' (bc_version (rr_columns row)) x)
                (ruling_rows table db)) db)"

lemma granted_from_grant:
  assumes "load_bound_resolution k db table identifier live snapshot = Inr br"
    and "rs_status (br_record br) = ''reserved''"
    and "rs_session_binding (br_record br) = decision_session_binding (bi_session (br_bound br))"
    and "grant_dispatch db table identifier boot now br key = Inr (Dispatch_Granted x s i, db')"
  shows "granted_from k db table identifier x s i db'"
proof -
  have r: "find_ruling table db identifier = Some (br_row br)"
    using load_bound_resolution_Inr [OF assms(1)] by blast
  have x: "x = dispatching (bc_version (rr_columns (br_row br))) boot now (br_record br)"
    "s = bi_session (br_bound br)"
    "db' = set_ruling_rows table
      (map (swap_row identifier ''reserved'' (bc_version (rr_columns (br_row br))) x) (ruling_rows table db)) db"
    using grant_dispatch_Inr [OF assms(4)] by auto
  show ?thesis
    using load_bound_resolution_record [OF assms(1)] assms(2,3) r x(3)
    unfolding granted_from_def by (intro exI [of _ "br_row br"]) (simp add: x(1,2) dispatching_def)
qed

lemma granted_from_reload:
  assumes br: "load_bound_resolution k db table identifier False False = Inr br"
    "rs_status (br_record br) = ''reserved''"
    "rs_session_binding (br_record br) = decision_session_binding (bi_session (br_bound br))"
    and rest: "bind_stored (reload_authority k db table identifier br containment)
      (\<lambda>(now_br, key). grant_dispatch db table identifier boot now now_br key) = Inr (Dispatch_Granted x s i, db')"
  shows "granted_from k db table identifier x s i db'"
proof -
  from rest obtain now_br key where n: "reload_authority k db table identifier br containment = Inr (now_br, key)"
    and g: "grant_dispatch db table identifier boot now now_br key = Inr (Dispatch_Granted x s i, db')"
    by (auto simp: bind_stored_Inr_iff)
  show ?thesis
  proof (cases containment)
    case True
    with reload_authority_Inr [OF n] have "now_br = br" by simp
    with br g show ?thesis by (blast intro: granted_from_grant)
  next
    case False
    with reload_authority_Inr [OF n] have l: "load_bound_resolution k db table identifier True True = Inr now_br"
      by simp
    have "br_record now_br = br_record br"
      using load_bound_resolution_Inr [OF l] load_bound_resolution_Inr [OF br(1)] by auto
    moreover have "rs_session_binding (br_record now_br) = decision_session_binding (bi_session (br_bound now_br))"
      using load_bound_resolution_Inr [OF l] by blast
    ultimately show ?thesis using granted_from_grant [OF l] br(2) g by simp
  qed
qed

lemma start_permission_granted:
  assumes "start_permission k boot db identifier now = Inr (Dispatch_Granted x s i, db')"
  shows "granted_from k db Permission_Table identifier x s i db'"
proof -
  from assms obtain br where "load_bound_resolution k db Permission_Table identifier False False = Inr br"
    "rs_status (br_record br) = ''reserved''"
    "rs_session_binding (br_record br) = decision_session_binding (bi_session (br_bound br))"
    "bind_stored (reload_authority k db Permission_Table identifier br (rs_authority_reducing (br_record br)))
      (\<lambda>(now_br, key). grant_dispatch db Permission_Table identifier boot now now_br key) =
      Inr (Dispatch_Granted x s i, db')"
    by (auto simp: start_permission_def Let_def bind_stored_Inr_iff split: if_splits)
  then show ?thesis by (rule granted_from_reload)
qed

lemma start_lifecycle_granted:
  assumes "start_lifecycle k boot db identifier now = Inr (Dispatch_Granted x s i, db')"
  shows "granted_from k db Lifecycle_Table identifier x s i db'"
proof -
  from assms obtain br where "load_bound_resolution k db Lifecycle_Table identifier False False = Inr br"
    "rs_status (br_record br) = ''reserved''"
    "rs_session_binding (br_record br) = decision_session_binding (bi_session (br_bound br))"
    "bind_stored (reload_authority k db Lifecycle_Table identifier br
        (act_type (int_action (bi_intervention (br_bound br))) = IT_STOP_AGENT))
      (\<lambda>(now_br, key). grant_dispatch db Lifecycle_Table identifier boot now now_br key) =
      Inr (Dispatch_Granted x s i, db')"
    by (auto simp: start_lifecycle_def Let_def bind_stored_Inr_iff split: if_splits)
  then show ?thesis by (rule granted_from_reload)
qed

lemma grant_dispatch_not_refused: "grant_dispatch db table identifier boot now br key \<noteq> Inr (Dispatch_Refused x, db')"
  using grant_dispatch_Inr by fastforce

lemma start_refused:
  "start_permission k boot db identifier now = Inr (Dispatch_Refused x, db') \<Longrightarrow> db' = db"
  "start_lifecycle k boot db identifier now = Inr (Dispatch_Refused x, db') \<Longrightarrow> db' = db"
  by (auto simp: start_permission_def start_lifecycle_def Let_def bind_stored_Inr_iff grant_dispatch_not_refused
      split: if_splits)

lemma store_session_Inr: "store_session s db = Inr db' \<Longrightarrow> ruling_rows t db' = ruling_rows t db"
  by (cases t) (auto simp: store_session_def)

lemma update_bound_intervention_Inr:
  "update_bound_intervention k db i live = Inr (v, db') \<Longrightarrow> ruling_rows t db' = ruling_rows t db"
  by (cases t) (auto simp: update_bound_intervention_def Let_def bind_stored_Inr_iff put_intervention_def)

lemma ruling_rows_audit [simp]: "ruling_rows t (db\<lparr>audit_rows := a\<rparr>) = ruling_rows t db"
  by (cases t) simp_all

lemma project_outcome_rulings:
  assumes "project_outcome k db i s x allow_stop record_type = Inr db'"
  shows "ruling_rows t db' = ruling_rows t db"
  using assms
  by (auto simp: project_outcome_def bind_stored_Inr_iff dest!: store_session_Inr [where t = t] update_bound_intervention_Inr [where t = t]
      split: option.splits)

text \<open>Finalising leaves the rulings alone or takes one row out of the status it was in.\<close>

definition finalized_from :: "store \<Rightarrow> ruling_table \<Rightarrow> string \<Rightarrow> string \<Rightarrow> store \<Rightarrow> bool" where
  "finalized_from db table identifier status db' =
     ((\<forall>t. ruling_rows t db' = ruling_rows t db) \<or>
      (\<exists>expected v y. rs_status y = status \<and>
         (\<forall>t. ruling_rows t db' =
            (if t = table then map (swap_row identifier expected v y) (ruling_rows t db) else ruling_rows t db))))"

lemma finalized_from_swap:
  assumes "swap_ruling table identifier expected v y lost db = Inr mid"
    and "project_outcome k mid i s y allow_stop record_type = Inr db'"
  shows "finalized_from db table identifier (rs_status y) db'"
  using swap_ruling_Inr [OF assms(1)] project_outcome_rulings [OF assms(2)]
  unfolding finalized_from_def
  by (intro disjI2 exI [of _ expected] exI [of _ v] exI [of _ y]) simp

lemma finalized_from_same: "finalized_from db table identifier status db"
  by (simp add: finalized_from_def)

lemma finalize_permission_cases:
  assumes "finalize_permission k db i s status delivery now record_type = Inr (x, db')"
  shows "db' = db \<or> (\<exists>v y mid. rs_status y = status \<and>
    swap_ruling Permission_Table (int_id i) ''dispatching'' v y ''permission finalization CAS was lost'' db = Inr mid \<and>
    project_outcome k mid i s y False record_type = Inr db')"
proof -
  from assms obtain br where br: "load_bound_resolution k db Permission_Table (int_id i) False False = Inr br"
    by (auto simp: finalize_permission_def Let_def bind_stored_Inr_iff)
  show ?thesis
  proof (cases "rs_status (br_record br) = ''dispatching''")
    case True
    define v y where "v = bc_version (rr_columns (br_row br))"
      and "y = (br_record br)\<lparr>rs_status := status, rs_delivery_result := Some delivery, rs_finished_at := Some now,
        rs_columns := (rs_columns (br_record br))\<lparr>bc_version := v + 1\<rparr>\<rparr>"
    from assms br True obtain mid where
      "swap_ruling Permission_Table (int_id i) ''dispatching'' v y ''permission finalization CAS was lost'' db = Inr mid"
      "project_outcome k mid i s y False record_type = Inr db'"
      unfolding finalize_permission_def v_def y_def by (auto simp: Let_def bind_stored_Inr_iff)
    moreover have "rs_status y = status" by (simp add: y_def)
    ultimately show ?thesis by blast
  qed (use assms br in \<open>auto simp: finalize_permission_def Let_def bind_stored_Inr_iff\<close>)
qed

lemma finalize_lifecycle_cases:
  assumes "finalize_lifecycle k db i s claimed record_type = Inr (x, db')"
  shows "db' = db \<or> rs_status claimed \<notin> {[], ''reserved'', ''dispatching''} \<and>
    (\<exists>e v y mid. rs_status y = rs_status claimed \<and>
      swap_ruling Lifecycle_Table (int_id i) e v y ''lifecycle finalization CAS was lost'' db = Inr mid \<and>
      project_outcome k mid i s y (act_type (int_action i) = IT_STOP_AGENT \<and> rs_status y = ''delivered'')
        record_type = Inr db')"
proof -
  from assms obtain br where br: "load_bound_resolution k db Lifecycle_Table (int_id i) False False = Inr br"
    by (auto simp: finalize_lifecycle_def Let_def bind_stored_Inr_iff)
  define e where "e = (if rs_decision (br_record br) = ''allow'' then ''dispatching'' else ''reserved'')"
  show ?thesis
  proof (cases "rs_status (br_record br) = e")
    case True
    define v y where "v = bc_version (rr_columns (br_row br))"
      and "y = (br_record br)\<lparr>rs_status := rs_status claimed, rs_delivery_result := rs_delivery_result claimed,
        rs_finished_at := rs_finished_at claimed,
        rs_columns := (rs_columns (br_record br))\<lparr>bc_version := v + 1\<rparr>\<rparr>"
    from assms br True obtain mid where
      "swap_ruling Lifecycle_Table (int_id i) e v y ''lifecycle finalization CAS was lost'' db = Inr mid"
      "project_outcome k mid i s y (act_type (int_action i) = IT_STOP_AGENT \<and> rs_status y = ''delivered'')
         record_type = Inr db'" "rs_status claimed \<notin> {[], ''reserved'', ''dispatching''}"
      unfolding finalize_lifecycle_def v_def y_def e_def by (auto simp: Let_def bind_stored_Inr_iff simp del: not_None_eq)
    moreover have "rs_status y = rs_status claimed" by (simp add: y_def)
    ultimately show ?thesis by blast
  qed (use assms br in \<open>auto simp: finalize_lifecycle_def e_def Let_def bind_stored_Inr_iff split: if_splits\<close>)
qed

lemma finalize_permission_rulings:
  "finalize_permission k db i s status delivery now record_type = Inr (x, db') \<Longrightarrow>
   finalized_from db Permission_Table (int_id i) status db'"
  using finalize_permission_cases finalized_from_swap finalized_from_same by metis

lemma finalize_lifecycle_rulings:
  "finalize_lifecycle k db i s claimed record_type = Inr (x, db') \<Longrightarrow>
   finalized_from db Lifecycle_Table (int_id i) (rs_status claimed) db' \<and>
   (db' = db \<or> rs_status claimed \<notin> {[], ''reserved'', ''dispatching''})"
  using finalize_lifecycle_cases finalized_from_swap finalized_from_same by metis

end
