(* ===== verification/Ruling_Steps.thy ===== *)
theory Ruling_Steps
  imports Human_Rulings
begin

text \<open>
  The rulings of \<open>Human_Rulings\<close> as a transition system: any number of processes reserve, start and finalise,
  transactions interleave in any order, and everything else in the store (sessions, goals, interventions,
  projects) changes freely in between. The locale \<open>single_grant\<close> is the contract "one grant per key"; both
  tables interpret it.
\<close>

datatype ruling_event = Grant ruling_table resolution | Quiet

text \<open>The part of a row that no other writer changes: a cleanup only adds to the record of a dispatching ruling.\<close>

definition row_face :: "resolution_row \<Rightarrow> string \<times> string \<times> string option \<times> string \<times> string" where
  "row_face r = (rr_intervention_id r, rr_session_id r, rr_request_id r, rr_decision r, rr_status r)"

definition permission_outcomes :: "string list" where
  "permission_outcomes = [''delivered'', ''delivery_uncertain'', ''failed'']"

inductive ruling_step :: "codec \<Rightarrow> store \<Rightarrow> ruling_event \<Rightarrow> store \<Rightarrow> bool" for k :: codec where
  reserve_permission_step:
    "reserve_permission k db i s r d now = Inr ((created, x), db') \<Longrightarrow> ruling_step k db Quiet db'"
| reserve_lifecycle_step:
    "reserve_lifecycle k db i s d now = Inr ((created, x), db') \<Longrightarrow> ruling_step k db Quiet db'"
| grant_permission_step:
    "start_permission k boot db i now = Inr (Dispatch_Granted x s v, db') \<Longrightarrow>
     ruling_step k db (Grant Permission_Table x) db'"
| refuse_permission_step:
    "start_permission k boot db i now = Inr (Dispatch_Refused x, db') \<Longrightarrow> ruling_step k db Quiet db'"
| grant_lifecycle_step:
    "start_lifecycle k boot db i now = Inr (Dispatch_Granted x s v, db') \<Longrightarrow>
     ruling_step k db (Grant Lifecycle_Table x) db'"
| refuse_lifecycle_step:
    "start_lifecycle k boot db i now = Inr (Dispatch_Refused x, db') \<Longrightarrow> ruling_step k db Quiet db'"
| finalize_permission_step:
    "status \<in> set permission_outcomes \<Longrightarrow>
     finalize_permission k db i s status delivery now record_type = Inr (x, db') \<Longrightarrow> ruling_step k db Quiet db'"
| finalize_lifecycle_step:
    "finalize_lifecycle k db i s claimed record_type = Inr (x, db') \<Longrightarrow> ruling_step k db Quiet db'"
| other_writer_step:
    "map row_face (permission_rows db') = map row_face (permission_rows db) \<Longrightarrow>
     map row_face (lifecycle_rows db') = map row_face (lifecycle_rows db) \<Longrightarrow> ruling_step k db Quiet db'"

inductive_cases ruling_stepE: "ruling_step k db e db'"

inductive runs :: "('s \<Rightarrow> 'e \<Rightarrow> 's \<Rightarrow> bool) \<Rightarrow> 's \<Rightarrow> 'e list \<Rightarrow> 's \<Rightarrow> bool" for step :: "'s \<Rightarrow> 'e \<Rightarrow> 's \<Rightarrow> bool" where
  runs_Nil: "runs step s [] s"
| runs_Cons: "step s e t \<Longrightarrow> runs step t es u \<Longrightarrow> runs step s (e # es) u"

inductive_cases runs_ConsE: "runs step s (e # es) u"

lemma runs_append: "runs step s es t \<Longrightarrow> runs step t es' u \<Longrightarrow> runs step s (es @ es') u"
  by (induction rule: runs.induct) (auto intro: runs.intros)

lemma runs_appendE: "runs step s (es @ es') u \<Longrightarrow> \<exists>t. runs step s es t \<and> runs step t es' u"
proof (induction es arbitrary: s)
  case Nil
  then show ?case by (auto intro: runs_Nil)
next
  case (Cons e es)
  then obtain t where "step s e t" "runs step t (es @ es') u" by (auto elim: runs_ConsE)
  with Cons.IH show ?case by (blast intro: runs_Cons)
qed

section \<open>One grant per key\<close>

locale single_grant =
  fixes ready :: "'s \<Rightarrow> bool" and step :: "'s \<Rightarrow> 'e \<Rightarrow> 's \<Rightarrow> bool"
    and open_for :: "'s \<Rightarrow> 'k \<Rightarrow> bool" and grants :: "'e \<Rightarrow> 'k \<Rightarrow> bool"
  assumes step_ready: "ready s \<Longrightarrow> step s e t \<Longrightarrow> ready t"
    and grant_closes: "ready s \<Longrightarrow> step s e t \<Longrightarrow> grants e key \<Longrightarrow> open_for s key \<and> \<not> open_for t key"
    and closed_stays: "ready s \<Longrightarrow> step s e t \<Longrightarrow> \<not> open_for s key \<Longrightarrow> \<not> open_for t key"
begin

lemma runs_ready: "runs step s es t \<Longrightarrow> ready s \<Longrightarrow> ready t"
  by (induction rule: runs.induct) (auto dest: step_ready)

lemma grants_at_most_once:
  "runs step s es t \<Longrightarrow> ready s \<Longrightarrow>
   length (filter (\<lambda>e. grants e key) es) \<le> (if open_for s key then 1 else 0)"
proof (induction rule: runs.induct)
  case (runs_Cons s e t es u)
  then have ih: "length (filter (\<lambda>e. grants e key) es) \<le> (if open_for t key then 1 else 0)"
    by (blast dest: step_ready)
  show ?case
  proof (cases "grants e key")
    case True
    with grant_closes [OF \<open>ready s\<close> \<open>step s e t\<close>] ih show ?thesis by simp
  next
    case False
    with closed_stays [OF \<open>ready s\<close> \<open>step s e t\<close>, of key] ih show ?thesis by (auto split: if_splits)
  qed
qed simp

lemma closed_forever: "runs step s es t \<Longrightarrow> ready s \<Longrightarrow> \<not> open_for s key \<Longrightarrow> \<not> open_for t key"
  by (induction rule: runs.induct) (auto dest: step_ready closed_stays)

lemma grant_is_alone:
  assumes "runs step s (es @ e # es') u" "ready s" "grants e key"
  shows "(\<forall>e' \<in> set (es @ es'). \<not> grants e' key) \<and> \<not> open_for u key"
proof -
  have "length (filter (\<lambda>e. grants e key) (es @ e # es')) \<le> 1"
    using grants_at_most_once [OF assms(1,2), of key] by (simp split: if_splits)
  with assms(3) have alone: "\<forall>e' \<in> set (es @ es'). \<not> grants e' key" by (auto simp: filter_empty_conv)
  obtain t v where "runs step s es t" "step t e v" "runs step v es' u"
    using runs_appendE [OF assms(1)] by (auto elim: runs_ConsE)
  then have "\<not> open_for u key"
    using assms(2,3) grant_closes step_ready runs_ready closed_forever by metis
  with alone show ?thesis by blast
qed

end

section \<open>How a step changes the rows\<close>

definition row_key :: "ruling_table \<Rightarrow> resolution_row \<Rightarrow> string \<times> string option" where
  "row_key table r =
     (case table of Permission_Table \<Rightarrow> (rr_session_id r, rr_request_id r)
      | Lifecycle_Table \<Rightarrow> (rr_intervention_id r, None))"

definition ruling_key :: "ruling_table \<Rightarrow> resolution \<Rightarrow> string \<times> string option" where
  "ruling_key table x =
     (case table of Permission_Table \<Rightarrow> (rs_session_id x, rs_request_id x)
      | Lifecycle_Table \<Rightarrow> (rs_intervention_id x, None))"

text \<open>The primary key and the unique index of the two tables.\<close>

definition unique_rulings :: "store \<Rightarrow> bool" where
  "unique_rulings db =
     (\<forall>t. distinct (map rr_intervention_id (ruling_rows t db)) \<and> distinct (map (row_key t) (ruling_rows t db)))"

definition ruling_open :: "ruling_table \<Rightarrow> store \<Rightarrow> string \<times> string option \<Rightarrow> bool" where
  "ruling_open table db key = (\<forall>r \<in> set (ruling_rows table db). row_key table r = key \<longrightarrow> rr_status r = ''reserved'')"

definition grants_ruling :: "ruling_table \<Rightarrow> ruling_event \<Rightarrow> string \<times> string option \<Rightarrow> bool" where
  "grants_ruling table e key = (case e of Grant t x \<Rightarrow> t = table \<and> ruling_key t x = key | Quiet \<Rightarrow> False)"

text \<open>Old rows keep their keys and decisions, a row that has left \<open>reserved\<close> never returns to it.\<close>

definition row_follows :: "resolution_row \<Rightarrow> resolution_row \<Rightarrow> bool" where
  "row_follows r r' =
     (rr_intervention_id r' = rr_intervention_id r \<and> rr_session_id r' = rr_session_id r \<and>
      rr_request_id r' = rr_request_id r \<and> rr_decision r' = rr_decision r \<and>
      \<not> (rr_status r \<noteq> ''reserved'' \<and> rr_status r' = ''reserved''))"

lemma row_follows_key: "row_follows r r' \<Longrightarrow> row_key t r' = row_key t r"
  by (cases t) (simp_all add: row_follows_def row_key_def)

lemma row_follows_refl: "row_follows r r"
  by (simp add: row_follows_def)

lemma rows_follow_map:
  "list_all2 row_follows rows rows' \<Longrightarrow>
   map rr_intervention_id rows' = map rr_intervention_id rows \<and> map (row_key t) rows' = map (row_key t) rows"
  by (induction rule: list_all2_induct) (auto simp: row_follows_key, auto simp: row_follows_def)

lemma rows_follow_closed:
  assumes "list_all2 row_follows rows rows'" "r \<in> set rows" "rr_status r \<noteq> ''reserved''"
  shows "\<exists>r' \<in> set rows'. row_key t r' = row_key t r \<and> rr_status r' \<noteq> ''reserved''"
proof -
  from assms(2) obtain n where n: "n < length rows" "r = rows ! n" by (auto simp: in_set_conv_nth)
  with assms(1) have f: "row_follows r (rows' ! n)" by (simp add: list_all2_nthD)
  moreover have "rows' ! n \<in> set rows'" using assms(1) n by (simp add: list_all2_lengthD)
  moreover have "rr_status (rows' ! n) \<noteq> ''reserved''" using f assms(3) unfolding row_follows_def by blast
  ultimately show ?thesis using row_follows_key by blast
qed

lemma rows_follow_swap:
  assumes "rs_status x \<noteq> ''reserved''"
  shows "list_all2 row_follows rows (map (swap_row i st v x) rows)"
  using assms by (induction rows) (auto simp: row_follows_def swap_row_def)

lemma rows_follow_face: "map row_face rows' = map row_face rows \<Longrightarrow> list_all2 row_follows rows rows'"
  by (induction rows arbitrary: rows') (auto simp: row_face_def row_follows_def Cons_eq_map_conv)

lemma rows_follow_refl: "list_all2 row_follows rows rows"
  by (simp add: list.rel_refl row_follows_refl)

text \<open>The request of a ruling on a permission is stored without surrounding space.\<close>

definition clean_request :: "ruling_table \<Rightarrow> resolution_row \<Rightarrow> bool" where
  "clean_request t r = (t = Permission_Table \<longrightarrow> (\<exists>q. rr_request_id r = Some q \<and> strip q = q))"

definition clean_requests :: "store \<Rightarrow> bool" where
  "clean_requests db = (\<forall>t. \<forall>r \<in> set (ruling_rows t db). clean_request t r)"

text \<open>Every step: the old rows follow, and at most one row with a fresh key is added to a table.\<close>

definition rulings_follow :: "store \<Rightarrow> store \<Rightarrow> bool" where
  "rulings_follow db db' =
     (\<forall>t. \<exists>olds news. ruling_rows t db' = olds @ news \<and> list_all2 row_follows (ruling_rows t db) olds \<and>
        (news = [] \<or>
         (\<exists>r. news = [r] \<and> rr_intervention_id r \<notin> set (map rr_intervention_id (ruling_rows t db)) \<and>
            row_key t r \<notin> set (map (row_key t) (ruling_rows t db)) \<and> clean_request t r)))"

lemma rulings_follow_rows:
  "(\<And>t. list_all2 row_follows (ruling_rows t db) (ruling_rows t db')) \<Longrightarrow> rulings_follow db db'"
  unfolding rulings_follow_def by (metis append_Nil2)

lemma rulings_follow_refl: "rulings_follow db db"
  by (rule rulings_follow_rows) (rule rows_follow_refl)

lemma rulings_follow_unique: "rulings_follow db db' \<Longrightarrow> unique_rulings db \<Longrightarrow> unique_rulings db'"
  unfolding unique_rulings_def
proof (intro allI)
  fix t
  assume f: "rulings_follow db db'"
    and u: "\<forall>t. distinct (map rr_intervention_id (ruling_rows t db)) \<and> distinct (map (row_key t) (ruling_rows t db))"
  from f obtain olds news where o: "ruling_rows t db' = olds @ news" "list_all2 row_follows (ruling_rows t db) olds"
    and n: "news = [] \<or> (\<exists>r. news = [r] \<and> rr_intervention_id r \<notin> set (map rr_intervention_id (ruling_rows t db)) \<and>
            row_key t r \<notin> set (map (row_key t) (ruling_rows t db)) \<and> clean_request t r)"
    using f [unfolded rulings_follow_def, rule_format, of t] by blast
  have same: "map rr_intervention_id olds = map rr_intervention_id (ruling_rows t db)"
    "map (row_key t) olds = map (row_key t) (ruling_rows t db)"
    using rows_follow_map [OF o(2)] by blast+
  have keep: "distinct (map rr_intervention_id olds)" "distinct (map (row_key t) olds)"
    using u same by simp_all
  from n show "distinct (map rr_intervention_id (ruling_rows t db')) \<and> distinct (map (row_key t) (ruling_rows t db'))"
  proof
    assume "news = []"
    with o(1) keep show ?thesis by simp
  next
    assume "\<exists>r. news = [r] \<and> rr_intervention_id r \<notin> set (map rr_intervention_id (ruling_rows t db)) \<and>
      row_key t r \<notin> set (map (row_key t) (ruling_rows t db)) \<and> clean_request t r"
    then obtain r where r: "news = [r]" "rr_intervention_id r \<notin> set (map rr_intervention_id olds)"
      "row_key t r \<notin> set (map (row_key t) olds)" using same by metis
    with o(1) keep show ?thesis by (simp add: distinct_append)
  qed
qed

lemma rows_follow_clean:
  "list_all2 row_follows rows rows' \<Longrightarrow> (\<And>r. r \<in> set rows \<Longrightarrow> clean_request t r) \<Longrightarrow> r' \<in> set rows' \<Longrightarrow> clean_request t r'"
  by (induction rule: list_all2_induct) (auto simp: clean_request_def, auto simp: row_follows_def)

lemma rulings_follow_clean:
  assumes "rulings_follow db db'" "clean_requests db"
  shows "clean_requests db'"
  unfolding clean_requests_def
proof (intro allI ballI)
  fix t r
  assume r: "r \<in> set (ruling_rows t db')"
  obtain olds news where o: "ruling_rows t db' = olds @ news" "list_all2 row_follows (ruling_rows t db) olds"
    and n: "news = [] \<or> (\<exists>r. news = [r] \<and> clean_request t r)"
    using assms(1) [unfolded rulings_follow_def, rule_format, of t] by blast
  have "clean_request t x" if "x \<in> set (ruling_rows t db)" for x
    using assms(2) that unfolding clean_requests_def by blast
  with o n r rows_follow_clean [OF o(2), of t] show "clean_request t r" by auto
qed

text \<open>The row of an intervention stays the row of that intervention.\<close>

lemma rows_follow_find:
  "list_all2 row_follows rows rows' \<Longrightarrow> find (\<lambda>r. rr_intervention_id r = i) rows = Some r \<Longrightarrow>
   \<exists>r'. find (\<lambda>r. rr_intervention_id r = i) (rows' @ news) = Some r' \<and> row_follows r r'"
  by (induction rule: list_all2_induct) (auto simp: row_follows_def split: if_splits)

lemma rulings_follow_find:
  assumes "rulings_follow db db'" "find_ruling t db i = Some r"
  shows "\<exists>r'. find_ruling t db' i = Some r' \<and> row_follows r r'"
proof -
  obtain olds news where "ruling_rows t db' = olds @ news" "list_all2 row_follows (ruling_rows t db) olds"
    using assms(1) [unfolded rulings_follow_def, rule_format, of t] by blast
  with rows_follow_find assms(2) show ?thesis by (simp add: find_ruling_def)
qed

lemma rulings_follow_closed:
  assumes "rulings_follow db db'" "\<not> ruling_open t db key"
  shows "\<not> ruling_open t db' key"
proof -
  from assms(2) obtain r where r: "r \<in> set (ruling_rows t db)" "row_key t r = key" "rr_status r \<noteq> ''reserved''"
    by (auto simp: ruling_open_def)
  from assms(1) obtain olds news where o: "ruling_rows t db' = olds @ news" "list_all2 row_follows (ruling_rows t db) olds"
    unfolding rulings_follow_def by blast
  from rows_follow_closed [OF o(2) r(1,3), of t] r(2) o(1) show ?thesis
    by (auto simp: ruling_open_def)
qed

lemma ruling_key_record:
  "ruling_key t x = (case t of Permission_Table \<Rightarrow> (rs_session_id x, rs_request_id x) | _ \<Rightarrow> (rs_intervention_id x, None))"
  by (cases t) (simp_all add: ruling_key_def)

lemma rulings_follow_add:
  assumes "\<And>t. ruling_rows t db' = (if t = table then ruling_rows t db @ [r] else ruling_rows t db)"
    and "rr_intervention_id r \<notin> set (map rr_intervention_id (ruling_rows table db))"
    and "row_key table r \<notin> set (map (row_key table) (ruling_rows table db))" "clean_request table r"
  shows "rulings_follow db db'"
  unfolding rulings_follow_def
proof
  fix t
  show "\<exists>olds news. ruling_rows t db' = olds @ news \<and> list_all2 row_follows (ruling_rows t db) olds \<and>
    (news = [] \<or> (\<exists>r. news = [r] \<and> rr_intervention_id r \<notin> set (map rr_intervention_id (ruling_rows t db)) \<and>
       row_key t r \<notin> set (map (row_key t) (ruling_rows t db)) \<and> clean_request t r))"
  proof (cases "t = table")
    case True
    with assms rows_follow_refl show ?thesis
      by (intro exI [of _ "ruling_rows t db"] exI [of _ "[r]"]) auto
  next
    case False
    with assms rows_follow_refl show ?thesis
      by (intro exI [of _ "ruling_rows t db"] exI [of _ "[]"]) auto
  qed
qed

lemma authorize_ruling_Inr:
  assumes "authorize_ruling k db table identifier bi containment = Inr (now_bi, key)"
    and "load_bound_intervention k db identifier False = Inr bi"
  shows "bi_intervention now_bi = bi_intervention bi \<and> int_id (bi_intervention bi) = identifier \<and>
    ses_id (bi_session now_bi) = int_session_id (bi_intervention bi) \<and>
    (if containment then now_bi = bi else load_bound_intervention k db identifier True = Inr now_bi \<and>
       \<not> supervision_paused (bi_session now_bi) \<and> \<not> goal_paused (bi_goal now_bi) \<and>
       has_successor k db (bi_goal now_bi) (bi_binding now_bi) = Inr False)"
  using assms(1) load_bound_intervention_Inr [OF assms(2)]
  by (auto simp: authorize_ruling_def bind_stored_Inr_iff split: if_splits dest: load_bound_intervention_Inr)

lemma reserve_permission_follows:
  assumes "reserve_permission k db i s r d now = Inr ((created, x), db')"
  shows "rulings_follow db db'"
proof (cases "by_id rr_intervention_id (filter (same_request i s r) (permission_rows db))")
  case (Cons row rest)
  with assms have "db' = db"
    by (auto simp: reserve_permission_def bind_stored_Inr_iff)
  then show ?thesis by (simp add: rulings_follow_refl)
next
  case Nil
  then have none: "filter (same_request i s r) (permission_rows db) = []"
    by (metis by_id_def length_0_conv length_sort)
  from assms Nil obtain bi now_bi key where bi: "load_bound_intervention k db i False = Inr bi"
    and target: "permission_target k (bi_intervention bi) s r"
    and auth: "authorize_ruling k db Permission_Table i bi (d = ''deny'') = Inr (now_bi, key)"
    and db': "db' = db\<lparr>permission_rows := permission_rows db @
      [ruling_row (new_ruling k Permission_Table now_bi key (Some r) d now (d = ''deny''))]\<rparr>"
    by (auto simp: reserve_permission_def Let_def bind_stored_Inr_iff)
  let ?row = "ruling_row (new_ruling k Permission_Table now_bi key (Some r) d now (d = ''deny''))"
  have keys: "rr_intervention_id ?row = i" "rr_session_id ?row = s" "rr_request_id ?row = Some r"
    using authorize_ruling_Inr [OF auth bi] target
    by (simp_all add: ruling_row_def new_ruling_def Let_def permission_target_def)
  show ?thesis
  proof (rule rulings_follow_add)
    show "ruling_rows t db' = (if t = Permission_Table then ruling_rows t db @ [?row] else ruling_rows t db)" for t
      by (cases t) (simp_all add: db')
    show "rr_intervention_id ?row \<notin> set (map rr_intervention_id (ruling_rows Permission_Table db))"
      "row_key Permission_Table ?row \<notin> set (map (row_key Permission_Table) (ruling_rows Permission_Table db))"
      using none by (auto simp: keys row_key_def filter_empty_conv same_request_def)
    have "strip r = r" using target by (auto simp: permission_target_def Let_def request_text_def)
    then show "clean_request Permission_Table ?row" by (simp add: clean_request_def keys)
  qed
qed

lemma reserve_lifecycle_follows:
  assumes "reserve_lifecycle k db i s d now = Inr ((created, x), db')"
  shows "rulings_follow db db'"
proof (cases "find_ruling Lifecycle_Table db i")
  case (Some row)
  with assms have "db' = db"
    by (auto simp: reserve_lifecycle_def bind_stored_Inr_iff)
  then show ?thesis by (simp add: rulings_follow_refl)
next
  case None
  then have none: "i \<notin> set (map rr_intervention_id (lifecycle_rows db))"
    by (auto simp: find_ruling_def find_None_iff)
  from assms None obtain bi now_bi key containment where bi: "load_bound_intervention k db i False = Inr bi"
    and auth: "authorize_ruling k db Lifecycle_Table i bi containment = Inr (now_bi, key)"
    and db': "db' = db\<lparr>lifecycle_rows := lifecycle_rows db @
      [ruling_row (new_ruling k Lifecycle_Table now_bi key None d now containment)]\<rparr>"
    by (auto simp: reserve_lifecycle_def Let_def bind_stored_Inr_iff)
  let ?row = "ruling_row (new_ruling k Lifecycle_Table now_bi key None d now containment)"
  have keys: "rr_intervention_id ?row = i"
    using authorize_ruling_Inr [OF auth bi]
    by (simp add: ruling_row_def new_ruling_def Let_def)
  show ?thesis
  proof (rule rulings_follow_add)
    show "ruling_rows t db' = (if t = Lifecycle_Table then ruling_rows t db @ [?row] else ruling_rows t db)" for t
      by (cases t) (simp_all add: db')
    show "rr_intervention_id ?row \<notin> set (map rr_intervention_id (ruling_rows Lifecycle_Table db))"
      "row_key Lifecycle_Table ?row \<notin> set (map (row_key Lifecycle_Table) (ruling_rows Lifecycle_Table db))"
      using none by (auto simp: keys row_key_def)
    show "clean_request Lifecycle_Table ?row" by (simp add: clean_request_def)
  qed
qed

lemma granted_follows:
  assumes "granted_from k db table i x s v db'"
  shows "rulings_follow db db'"
proof (rule rulings_follow_rows)
  fix t
  show "list_all2 row_follows (ruling_rows t db) (ruling_rows t db')"
    using assms rows_follow_swap [of x] rows_follow_refl by (auto simp: granted_from_def)
qed

lemma finalized_follows:
  assumes "finalized_from db table i status db'" "status \<noteq> ''reserved''"
  shows "rulings_follow db db'"
proof (rule rulings_follow_rows)
  fix t
  show "list_all2 row_follows (ruling_rows t db) (ruling_rows t db')"
    using assms rows_follow_swap rows_follow_refl unfolding finalized_from_def by (metis (full_types))
qed

lemma ruling_step_follows: "ruling_step k db e db' \<Longrightarrow> rulings_follow db db'"
proof (induction rule: ruling_step.induct)
  case (finalize_permission_step status db i s delivery now record_type x db')
  then show ?case
    by (intro finalized_follows [OF finalize_permission_rulings]) (auto simp: permission_outcomes_def)
next
  case (finalize_lifecycle_step db i s claimed record_type x db')
  from finalize_lifecycle_rulings [OF this] show ?case
    by (auto intro: finalized_follows rulings_follow_refl)
next
  case (other_writer_step db' db)
  show ?case
  proof (rule rulings_follow_rows)
    fix t
    show "list_all2 row_follows (ruling_rows t db) (ruling_rows t db')"
      by (cases t) (use other_writer_step rows_follow_face in simp_all)
  qed
next
  case (refuse_permission_step boot db i now x db')
  then show ?case using start_refused(1) rulings_follow_refl by metis
next
  case (refuse_lifecycle_step boot db i now x db')
  then show ?case using start_refused(2) rulings_follow_refl by metis
qed (blast intro: reserve_permission_follows reserve_lifecycle_follows granted_follows
  start_permission_granted start_lifecycle_granted)+

lemma granted_closes:
  assumes "granted_from k db table i x s v db'" "unique_rulings db"
  shows "ruling_open table db (ruling_key table x) \<and> \<not> ruling_open table db' (ruling_key table x)"
proof -
  from assms(1) obtain row where row: "find_ruling table db i = Some row" "rr_status row = ''reserved''"
    "rs_intervention_id x = i" "rs_session_id x = rr_session_id row"
    "if table = Permission_Table then rs_request_id x = rr_request_id row else True" "rs_status x = ''dispatching''"
    "db' = set_ruling_rows table (map (swap_row i ''reserved'' (bc_version (rr_columns row)) x) (ruling_rows table db)) db"
    unfolding granted_from_def by blast
  from row(1) have r: "row \<in> set (ruling_rows table db)" "rr_intervention_id row = i"
    by (auto simp: find_ruling_def dest: find_Some)
  have key: "row_key table row = ruling_key table x"
    using row r by (cases table) (simp_all add: row_key_def ruling_key_def)
  have only: "r' = row" if "r' \<in> set (ruling_rows table db)" "row_key table r' = row_key table row" for r'
    using assms(2) that r(1) unfolding unique_rulings_def distinct_map by (meson inj_onD)
  have "ruling_open table db (ruling_key table x)"
    unfolding ruling_open_def using only row(2) key by metis
  moreover have "swap_row i ''reserved'' (bc_version (rr_columns row)) x row \<in> set (ruling_rows table db')"
    using r(1) by (simp add: row(7))
  moreover have "rr_status (swap_row i ''reserved'' (bc_version (rr_columns row)) x row) = ''dispatching''"
    using row r by (simp add: swap_row_def)
  moreover have "row_key table (swap_row i ''reserved'' (bc_version (rr_columns row)) x row) = ruling_key table x"
    using key by (cases table) (simp_all add: row_key_def)
  moreover have "''dispatching'' \<noteq> ''reserved''" by simp
  ultimately show ?thesis unfolding ruling_open_def by metis
qed

lemma ruling_step_grants:
  assumes "ruling_step k db e db'" "unique_rulings db" "grants_ruling table e key"
  shows "ruling_open table db key \<and> \<not> ruling_open table db' key"
  using assms
  by (cases rule: ruling_step.cases)
    (auto simp: grants_ruling_def split: ruling_event.splits
      dest!: start_permission_granted start_lifecycle_granted dest: granted_closes)

interpretation ruling: single_grant unique_rulings "ruling_step k" "ruling_open table" "grants_ruling table" for k table
proof
  show "unique_rulings db \<Longrightarrow> ruling_step k db e db' \<Longrightarrow> unique_rulings db'" for db e db'
    using ruling_step_follows rulings_follow_unique by blast
  show "unique_rulings db \<Longrightarrow> ruling_step k db e db' \<Longrightarrow> grants_ruling table e key \<Longrightarrow>
      ruling_open table db key \<and> \<not> ruling_open table db' key" for db e db' key
    using ruling_step_grants by blast
  show "unique_rulings db \<Longrightarrow> ruling_step k db e db' \<Longrightarrow> \<not> ruling_open table db key \<Longrightarrow>
      \<not> ruling_open table db' key" for db e db' key
    using ruling_step_follows rulings_follow_closed by blast
qed

section \<open>Example\<close>

definition example_sha :: string where
  "example_sha = replicate 64 (CHR ''a'')"

definition example_codec :: codec where
  "example_codec = \<lparr>sha_text = (\<lambda>_. example_sha), time_text = (\<lambda>_. []), float_text = (\<lambda>_. []),
     repr_text = (\<lambda>_. [])\<rparr>"

definition example_key :: string where
  "example_key = ''legacy:'' @ example_sha"

definition example_ask :: "string \<Rightarrow> intervention" where
  "example_ask request =
     \<lparr>int_id = ''i1'', int_session_id = ''s1'', int_goal_id = Some ''g1'', int_trigger = ''t'', int_evidence = [],
      int_diagnosis = [],
      int_action = \<lparr>act_type = IT_RESPOND_PERMISSION, act_session_id = ''s1'', act_goal_id = Some ''g1'',
        act_payload = [(''request_id'', PStr request)], act_rationale = ''r'', act_evidence = [],
        act_confidence = 1 / 2, act_risk = RL_LOW, act_reversible = False, act_expected_benefit = [],
        act_cooldown_seconds = 30, act_authority = AUTH_LOCAL_POLICY, act_requires_capability = None\<rparr>,
      int_confidence = 1 / 2, int_risk = ''low'', int_reversible = False, int_authority_required = ''local_policy'',
      int_action_taken = ''RESPOND_PERMISSION'', int_verdict = PV_ASK_HUMAN, int_result = ''permission_awaiting_human'',
      int_worker_response = [], int_outcome = [], int_helped = None, int_created_at = Aware 0 0, int_metadata = []\<rparr>"

definition example_columns :: bound_columns where
  "example_columns = \<lparr>bc_project = Some ''/work'', bc_binding = Some example_key, bc_vendor = Some ''v1'',
     bc_harness = Some ''codex'', bc_hash = Some example_sha, bc_version = 0\<rparr>"

definition example_session :: harness_session where
  "example_session = (new_session ''s1'' HT_CODEX ''v1'')
     \<lparr>ses_project_id := Some ''/work'', ses_goal_id := Some ''g1'', ses_status := SS_WORKING\<rparr>"

definition example_store :: "string \<Rightarrow> resolution_row list \<Rightarrow> store" where
  "example_store request rows =
     \<lparr>legacy_bindings = [],
      goal_rows = [\<lparr>gr_id = ''g1'', gr_project = Some ''/work'', gr_binding = Some example_key, gr_revision = Some 1,
        gr_hash = Some example_sha, gr_goal = example_goal\<rparr>],
      decision_rows = [], context_rows = [],
      session_rows = [\<lparr>sr_id = ''s1'', sr_vendor = ''v1'', sr_harness = ''codex'', sr_binding = Some example_key,
        sr_revision = 0, sr_control_revision = 0,
        sr_session = example_session\<rparr>],
      mcp_rows = [], hook_rows = [],
      intervention_rows = [\<lparr>ir_id = ''i1'', ir_session_id = ''s1'', ir_goal_id = Some ''g1'', ir_time = Aware 0 0,
        ir_columns = example_columns, ir_envelope = example_columns, ir_payload = example_ask request\<rparr>],
      permission_rows = rows, lifecycle_rows = [], audit_rows = []\<rparr>"

definition example_binding :: artifact_binding where
  "example_binding = \<lparr>bound_project = ''/work'', bound_key = example_key\<rparr>"

lemma example_sha_hex: "is_lower_hex example_sha"
  by (simp add: is_lower_hex_def example_sha_def)

lemma example_goal_fields:
  "goal_id example_goal = ''g1''" "goal_project_id example_goal = ''/work''" "goal_paused example_goal = False"
  "supersedes example_goal = None"
  by (simp_all add: example_goal_def new_goal_def)

lemma example_session_fields:
  "ses_id example_session = ''s1''" "vendor_session_id example_session = ''v1''"
  "ses_harness example_session = HT_CODEX" "ses_goal_id example_session = Some ''g1''"
  "ses_status example_session = SS_WORKING" "supervision_paused example_session = False"
  "ses_project_id example_session = Some ''/work''" "ses_metadata example_session = []"
  by (simp_all add: example_session_def new_session_def)

lemma example_goal_hash: "goal_intent_hash example_codec (example_store request rows) example_goal b = Inr example_sha"
  by (simp add: goal_intent_hash_def stored_intent_hash_def load_intent_artifacts_def decision_scope_def
      context_scope_def by_id_def example_store_def intent_semantic_hash_def canonical_active_ledger_def
      managed_decisions_def intent_digest_def example_codec_def)

lemma example_live_key: "live_key example_codec (example_store request rows) ''/work'' = Inr example_key"
  by (simp add: live_key_def binding_snapshot_def reject_quarantined_def find_binding_def example_store_def
      example_codec_def example_key_def)

lemma example_goal_row:
  "find_goal_row (example_store request rows) ''g1'' =
     Some \<lparr>gr_id = ''g1'', gr_project = Some ''/work'', gr_binding = Some example_key, gr_revision = Some 1,
        gr_hash = Some example_sha, gr_goal = example_goal\<rparr>"
  by (simp add: find_goal_row_def example_store_def)

lemma example_bound_goal:
  "load_bound_goal example_codec (example_store request rows) ''g1'' live = Inr (example_goal, example_binding)"
  using example_live_key [of request rows]
  by (simp add: load_bound_goal_def example_goal_row stored_binding_def example_goal_fields intent_scalar_pair_def
      example_sha_hex example_goal_hash live_binding_def live_key_def require_live_binding_def example_binding_def)

lemma example_no_successor:
  "has_successor example_codec (example_store request rows) example_goal example_binding = Inr False"
  by (simp add: has_successor_def goal_scalars_def example_goal_fields example_goal_row intent_scalar_pair_def
      example_sha_hex example_goal_hash successor_rows_def by_id_def) (simp add: example_store_def example_goal_fields)

lemma example_bound_session:
  "load_bound_session example_codec (example_store request rows) ''s1'' need live = Inr (example_session, Some example_key)"
proof -
  have row: "find_session_row (example_store request rows) ''s1'' =
      Some \<lparr>sr_id = ''s1'', sr_vendor = ''v1'', sr_harness = ''codex'', sr_binding = Some example_key,
        sr_revision = 0, sr_control_revision = 0, sr_session = example_session\<rparr>"
    by (simp add: find_session_row_def example_store_def)
  have "reject_quarantined (example_store request rows) ''/work'' = Inr ()"
    by (simp add: reject_quarantined_def find_binding_def example_store_def)
  then show ?thesis
    by (simp add: load_bound_session_def row Let_def example_session_fields check_session_project_def session_key_def
        given_def text_or_empty_def example_live_key check_session_goal_def example_bound_goal example_binding_def
        example_goal_fields same_live_binding_def)
qed

definition example_bound :: "string \<Rightarrow> bound_intervention" where
  "example_bound request =
     \<lparr>bi_intervention = example_ask request, bi_binding = example_binding, bi_session = example_session,
      bi_goal = example_goal, bi_version = 0\<rparr>"

lemma example_bound_intervention:
  "load_bound_intervention example_codec (example_store request rows) ''i1'' live = Inr (example_bound request)"
proof -
  have row: "find_intervention_row (example_store request rows) ''i1'' =
      Some \<lparr>ir_id = ''i1'', ir_session_id = ''s1'', ir_goal_id = Some ''g1'', ir_time = Aware 0 0,
        ir_columns = example_columns, ir_envelope = example_columns, ir_payload = example_ask request\<rparr>"
    by (simp add: find_intervention_row_def example_store_def)
  have fields: "int_id (example_ask request) = ''i1''" "int_session_id (example_ask request) = ''s1''"
    "int_goal_id (example_ask request) = Some ''g1''" "int_created_at (example_ask request) = Aware 0 0"
    by (simp_all add: example_ask_def)
  have columns: "bc_project example_columns = Some ''/work''" "bc_binding example_columns = Some example_key"
    "bc_vendor example_columns = Some ''v1''" "bc_harness example_columns = Some ''codex''"
    "bc_hash example_columns = Some example_sha" "bc_version example_columns = 0"
    by (simp_all add: example_columns_def)
  have "intervention_action_hash example_codec (example_ask request) = example_sha"
    by (simp add: intervention_action_hash_def example_codec_def)
  then show ?thesis
    using example_live_key [of request rows]
    by (simp add: load_bound_intervention_def row Let_def stored_binding_def columns corrupt_intervention_def fields
        example_bound_session example_bound_goal example_session_fields example_goal_fields example_binding_def
        live_binding_def live_key_def require_live_binding_def example_bound_def)
qed

definition example_ruling :: "string \<Rightarrow> string \<Rightarrow> resolution" where
  "example_ruling payload request =
     new_ruling example_codec Permission_Table (example_bound payload) example_key (Some request) ''allow'' (Aware 1 0) False"

lemma example_project: "session_project example_session = Inr ''/work''"
  by (simp add: session_project_def session_key_def given_def text_or_empty_def example_session_fields
      max_project_id_length_def)

lemma example_authorized:
  "authorize_ruling example_codec (example_store request []) Permission_Table ''i1'' (example_bound request) False =
     Inr (example_bound request, example_key)"
  by (simp add: authorize_ruling_def example_bound_intervention) (simp add: example_bound_def example_project
      example_session_fields example_goal_fields example_no_successor, simp add: example_binding_def)

lemma example_reserved:
  assumes "strip payload = request" "request \<noteq> []" "length request \<le> 1024"
  shows "reserve_permission example_codec (example_store payload []) ''i1'' ''s1'' request ''allow'' (Aware 1 0) =
    Inr ((True, example_ruling payload request), example_store payload [ruling_row (example_ruling payload request)])"
proof -
  have "payload \<noteq> []" using assms(1,2) by (auto simp: strip_def strip_where_def rstrip_where_def)
  then have target: "permission_target example_codec (example_ask payload) ''s1'' request"
    using assms(1) by (simp add: permission_target_def Let_def example_ask_def request_text_def str_or_empty_def)
  have rows: "permission_rows (example_store payload []) = []" by (simp add: example_store_def)
  have insert: "(example_store payload [])\<lparr>permission_rows := rs\<rparr> = example_store payload rs" for rs
    by (simp add: example_store_def)
  have "bi_intervention (example_bound payload) = example_ask payload" "bi_session (example_bound payload) = example_session"
    by (simp_all add: example_bound_def)
  then show ?thesis
    using assms(2,3) target
    by (simp add: reserve_permission_def bad_id_def by_id_def rows example_bound_intervention closed_status_def
        observed_only_def example_session_fields example_authorized insert Let_def example_ruling_def)
qed

lemma example_granted:
  assumes "request \<noteq> []"
  shows "\<exists>x s i db'. start_permission example_codec ''boot'' (example_store request [ruling_row (example_ruling request request)])
      ''i1'' (Aware 2 0) = Inr (Dispatch_Granted x s i, db') \<and> ruling_key Permission_Table x = (''s1'', Some request) \<and>
      rs_authority_reducing x = False"
proof -
  let ?x = "example_ruling request request" and ?db = "example_store request [ruling_row (example_ruling request request)]"
  have rows: "permission_rows (example_store request rs) = rs" for rs
    by (simp add: example_store_def)
  have bound: "bi_intervention (example_bound request) = example_ask request"
    "bi_session (example_bound request) = example_session" "bi_goal (example_bound request) = example_goal"
    "bi_binding (example_bound request) = example_binding"
    by (simp_all add: example_bound_def)
  have ids: "int_id (example_ask request) = ''i1''" "int_session_id (example_ask request) = ''s1''"
    "int_goal_id (example_ask request) = Some ''g1''" "act_type (int_action (example_ask request)) = IT_RESPOND_PERMISSION"
    "dict_get (act_payload (int_action (example_ask request))) ''request_id'' = PStr request"
    by (simp_all add: example_ask_def)
  have hash: "intervention_action_hash example_codec (example_ask request) = example_sha"
    by (simp add: intervention_action_hash_def example_codec_def)
  have x: "rs_intervention_id ?x = ''i1''" "rs_session_id ?x = ''s1''" "rs_goal_id ?x = ''g1''"
    "rs_dispatch_binding ?x = example_key" "rs_request_id ?x = Some request" "rs_decision ?x = ''allow''"
    "rs_status ?x = ''reserved''" "rs_authority_reducing ?x = False"
    "rs_intervention_binding ?x = decision_intervention_binding (example_ask request)"
    "rs_session_binding ?x = decision_session_binding example_session" "rs_goal_binding ?x = (''g1'', ''/work'')"
    "bc_project (rs_columns ?x) = Some ''/work''" "bc_binding (rs_columns ?x) = Some example_key"
    "bc_vendor (rs_columns ?x) = Some ''v1''" "bc_harness (rs_columns ?x) = Some ''codex''"
    "bc_hash (rs_columns ?x) = Some example_sha" "bc_version (rs_columns ?x) = 0"
    by (simp_all add: example_ruling_def new_ruling_def Let_def bound ids example_session_fields example_goal_fields hash
        example_binding_def)
  have load: "load_bound_resolution example_codec ?db Permission_Table ''i1'' live snapshot =
      Inr \<lparr>br_record = ?x, br_row = ruling_row ?x, br_bound = example_bound request\<rparr>" for live snapshot
    by (simp add: load_bound_resolution_def find_ruling_def rows ruling_row_def x stored_binding_def corrupt_ruling_def
        Let_def example_bound_intervention bound ids example_session_fields example_goal_fields hash check_ruling_action_def
        example_binding_def)
  have "\<exists>db'. swap_ruling Permission_Table ''i1'' ''reserved'' 0 y ''permission dispatch CAS was lost'' ?db = Inr db'" for y
    by (simp add: swap_ruling_def rows ruling_row_def x)
  then obtain db' where swap: "swap_ruling Permission_Table ''i1'' ''reserved'' 0 (dispatching 0 ''boot'' (Aware 2 0) ?x)
      ''permission dispatch CAS was lost'' ?db = Inr db'" by blast
  have version: "bc_version (rr_columns (ruling_row ?x)) = 0" by (simp add: ruling_row_def x)
  have key: "bound_key example_binding = example_key" by (simp add: example_binding_def)
  have id: "validate_store_id ''i1'' ''permission intervention id'' = Inr ()"
    by code_simp
  have "start_permission example_codec ''boot'' ?db ''i1'' (Aware 2 0) =
      Inr (Dispatch_Granted (dispatching 0 ''boot'' (Aware 2 0) ?x) example_session (example_ask request), db')"
    by (simp add: start_permission_def id load Let_def x bound closed_status_def example_session_fields
        reload_authority_def example_project example_goal_fields example_no_successor key
        grant_dispatch_def version swap)
  moreover have "ruling_key Permission_Table (dispatching 0 ''boot'' (Aware 2 0) ?x) = (''s1'', Some request)"
    "rs_authority_reducing (dispatching 0 ''boot'' (Aware 2 0) ?x) = False"
    by (simp_all add: dispatching_def ruling_key_def x)
  ultimately show ?thesis by blast
qed

section \<open>Properties\<close>

text \<open>
  Property C4. However reservations, starts, finalisations and other writes interleave, each permission request of
  a session and each lifecycle action is granted at most one dispatch, and none once its ruling has left the
  reserved state.
\<close>

theorem ruling_dispatched_at_most_once:
  assumes "runs (ruling_step k) db events db'" and "unique_rulings db"
  shows "length (filter (\<lambda>e. grants_ruling table e key) events) \<le> (if ruling_open table db key then 1 else 0) \<and>
    unique_rulings db'"
  using ruling.grants_at_most_once [OF assms] ruling.runs_ready [OF assms] by blast

theorem ruling_dispatched_at_most_once_witness:
  "\<exists>x db'. runs (ruling_step example_codec) (example_store ''r1'' []) [Quiet, Grant Permission_Table x] db' \<and>
     length (filter (\<lambda>e. grants_ruling Permission_Table e (''s1'', Some ''r1'')) [Quiet, Grant Permission_Table x]) = 1"
proof -
  obtain x s i db' where x: "start_permission example_codec ''boot''
      (example_store ''r1'' [ruling_row (example_ruling ''r1'' ''r1'')]) ''i1'' (Aware 2 0) = Inr (Dispatch_Granted x s i, db')"
    "ruling_key Permission_Table x = (''s1'', Some ''r1'')"
    using example_granted [of "''r1''"] by auto
  have "strip ''r1'' = ''r1''" by code_simp
  then have "reserve_permission example_codec (example_store ''r1'' []) ''i1'' ''s1'' ''r1'' ''allow'' (Aware 1 0) =
      Inr ((True, example_ruling ''r1'' ''r1''), example_store ''r1'' [ruling_row (example_ruling ''r1'' ''r1'')])"
    by (rule example_reserved) simp_all
  then have run: "runs (ruling_step example_codec) (example_store ''r1'' []) [Quiet, Grant Permission_Table x] db'"
    using x(1) by (blast intro: runs.intros ruling_step.intros)
  have "ruling_rows t (example_store ''r1'' []) = []" for t by (cases t) (simp_all add: example_store_def)
  then have "unique_rulings (example_store ''r1'' [])" by (simp add: unique_rulings_def)
  from ruling_dispatched_at_most_once [OF run this, of Permission_Table "(''s1'', Some ''r1'')"]
  have "length (filter (\<lambda>e. grants_ruling Permission_Table e (''s1'', Some ''r1'')) [Quiet, Grant Permission_Table x]) \<le> 1"
    by (simp split: if_splits)
  moreover have "grants_ruling Permission_Table (Grant Permission_Table x) (''s1'', Some ''r1'')"
    using x(2) by (simp add: grants_ruling_def)
  ultimately have "length (filter (\<lambda>e. grants_ruling Permission_Table e (''s1'', Some ''r1'')) [Quiet, Grant Permission_Table x]) = 1"
    by (simp add: grants_ruling_def)
  with run show ?thesis by blast
qed

lemma load_bound_goal_id: "load_bound_goal k db identifier live = Inr (g, b) \<Longrightarrow> goal_id g = identifier"
  by (auto simp: load_bound_goal_def find_goal_row_def bind_stored_Inr_iff split: option.splits dest!: find_Some)

lemma load_bound_intervention_live:
  assumes "load_bound_intervention k db identifier True = Inr bi"
  shows "live_key k db (bound_project (bi_binding bi)) = Inr (bound_key (bi_binding bi)) \<and>
    (\<exists>b. load_bound_goal k db (goal_id (bi_goal bi)) True = Inr (bi_goal bi, b) \<and> bound_key b = bound_key (bi_binding bi))"
  using assms
  by (auto simp: load_bound_intervention_def Let_def bind_stored_Inr_iff live_binding_def live_key_def
      split: option.splits prod.splits) (auto simp: load_bound_goal_id)

lemma load_bound_intervention_session:
  assumes "load_bound_intervention k db identifier live = Inr bi"
  shows "find_session_row db (int_session_id (ir_payload (the (find_intervention_row db identifier)))) \<noteq> None \<and>
    bi_session bi = sr_session (the (find_session_row db (int_session_id (ir_payload (the (find_intervention_row db identifier))))))"
  using assms
  by (auto simp: load_bound_intervention_def load_bound_session_def Let_def bind_stored_Inr_iff
      split: option.splits prod.splits)

text \<open>What a grant rests on, beside the reserved row: the frozen target, and for an allow the live authority.\<close>

definition grant_authority ::
  "codec \<Rightarrow> store \<Rightarrow> string \<Rightarrow> resolution \<Rightarrow> harness_session \<Rightarrow> intervention \<Rightarrow> bool" where
  "grant_authority k db identifier x s i =
     (int_id i = identifier \<and>
      rs_session_binding x = decision_session_binding s \<and>
      ses_status s \<notin> {SS_ERROR, SS_DETACHED} \<and>
      (if rs_authority_reducing x
       then \<exists>project. session_project s = Inr project \<and> rs_dispatch_binding x = containment_snapshot (sha_text k) project
       else \<not> supervision_paused s \<and>
         (\<exists>g b b'. load_bound_goal k db (goal_id g) True = Inr (g, b) \<and> ses_goal_id s = Some (goal_id g) \<and>
            \<not> goal_paused g \<and> has_successor k db g b' = Inr False \<and> bound_key b' = bound_key b \<and>
            live_key k db (bound_project b') = Inr (rs_dispatch_binding x))))"

lemma grant_authority_reload:
  assumes br: "load_bound_resolution k db table identifier False False = Inr br"
    "rs_session_binding (br_record br) = decision_session_binding (bi_session (br_bound br))"
    "ses_status (bi_session (br_bound br)) \<notin> {SS_ERROR, SS_DETACHED}"
    and rest: "bind_stored (reload_authority k db table identifier br (rs_authority_reducing (br_record br)))
      (\<lambda>(now_br, key). grant_dispatch db table identifier boot now now_br key) = Inr (Dispatch_Granted x s i, db')"
  shows "grant_authority k db identifier x s i"
proof -
  from rest obtain now_br key where
    n: "reload_authority k db table identifier br (rs_authority_reducing (br_record br)) = Inr (now_br, key)"
    and g: "grant_dispatch db table identifier boot now now_br key = Inr (Dispatch_Granted x s i, db')"
    by (auto simp: bind_stored_Inr_iff)
  from grant_dispatch_Inr [OF g] have x: "rs_dispatch_binding (br_record now_br) = key"
    "x = dispatching (bc_version (rr_columns (br_row now_br))) boot now (br_record now_br)"
    "s = bi_session (br_bound now_br)" "i = bi_intervention (br_bound now_br)" by auto
  have fields: "rs_session_binding x = rs_session_binding (br_record now_br)"
    "rs_authority_reducing x = rs_authority_reducing (br_record now_br)" "rs_dispatch_binding x = key"
    using x(1) by (simp_all add: x(2) dispatching_def)
  show ?thesis
  proof (cases "rs_authority_reducing (br_record br)")
    case True
    with reload_authority_Inr [OF n] have c: "now_br = br"
      "\<exists>project. session_project s = Inr project \<and> key = containment_snapshot (sha_text k) project"
      by (simp_all add: x(3))
    have "int_id i = identifier"
      using load_bound_resolution_Inr [OF br(1)] load_bound_intervention_Inr x(4) c(1) by blast
    with br(2,3) c True show ?thesis unfolding grant_authority_def fields by (simp add: x(3))
  next
    case False
    with reload_authority_Inr [OF n] have l: "load_bound_resolution k db table identifier True True = Inr now_br"
      and live: "\<not> supervision_paused s" "\<not> goal_paused (bi_goal (br_bound now_br))"
      "has_successor k db (bi_goal (br_bound now_br)) (bi_binding (br_bound now_br)) = Inr False"
      "key = bound_key (bi_binding (br_bound now_br))"
      by (simp_all add: x(3))
    note new = load_bound_resolution_Inr [OF l] and old = load_bound_resolution_Inr [OF br(1)]
    have same: "br_record now_br = br_record br" using new old by auto
    have bi: "load_bound_intervention k db identifier True = Inr (br_bound now_br)" using new by blast
    have "ses_status s = ses_status (bi_session (br_bound br))"
      using load_bound_intervention_session [OF bi] load_bound_intervention_session old x(3) by metis
    then have status: "ses_status s \<notin> {SS_ERROR, SS_DETACHED}" using br(3) by simp
    have ids: "int_id i = identifier" "ses_goal_id s = Some (goal_id (bi_goal (br_bound now_br)))"
      using load_bound_intervention_Inr [OF bi] x(3,4) by blast+
    have target: "rs_session_binding (br_record now_br) = decision_session_binding s" using new x(3) by blast
    obtain b where "load_bound_goal k db (goal_id (bi_goal (br_bound now_br))) True = Inr (bi_goal (br_bound now_br), b)"
      "bound_key b = bound_key (bi_binding (br_bound now_br))"
      "live_key k db (bound_project (bi_binding (br_bound now_br))) = Inr key"
      using load_bound_intervention_live [OF bi] live(4) by blast
    then have "\<exists>g b b'. load_bound_goal k db (goal_id g) True = Inr (g, b) \<and> ses_goal_id s = Some (goal_id g) \<and>
        \<not> goal_paused g \<and> has_successor k db g b' = Inr False \<and> bound_key b' = bound_key b \<and>
        live_key k db (bound_project b') = Inr key"
      using ids(2) live(2,3) by metis
    with status ids(1) target live(1) False same show ?thesis unfolding grant_authority_def fields by simp
  qed
qed



text \<open>
  Property C11. Recording the end of a delivery changes nothing of a session but its status and, forward only, its
  last activity. The status changes only to stopped by a delivered stop, or as requested when the session is not
  stopped, not paused and still the target the ruling was frozen on.
\<close>

theorem outcome_never_revives_session:
  assumes "merge_resolution_session k db current requested x allow_stop = Inr merged"
  shows "merged = current\<lparr>ses_status := ses_status merged, ses_last_activity := ses_last_activity merged\<rparr> \<and>
    \<not> (\<exists>t u. ses_last_activity current = Some t \<and> ses_last_activity merged = Some u \<and> as_utc u < as_utc t) \<and>
    (ses_status merged = ses_status current \<or>
     (if allow_stop \<and> ses_status requested = SS_STOPPED then ses_status merged = SS_STOPPED
      else ses_status merged = ses_status requested \<and> ses_status current \<noteq> SS_STOPPED \<and>
        \<not> supervision_paused current \<and> rs_session_binding x = decision_session_binding current \<and>
        status_may_follow k db current x = Inr True))"
proof -
  let ?merged = "current\<lparr>ses_last_activity := latest_activity current requested\<rparr>"
  have activity: "\<not> (\<exists>t u. ses_last_activity current = Some t \<and> latest_activity current requested = Some u \<and> as_utc u < as_utc t)"
    by (auto simp: latest_activity_def split: option.splits if_splits)
  consider (stop) "allow_stop \<and> ses_status requested = SS_STOPPED" "merged = ?merged\<lparr>ses_status := SS_STOPPED\<rparr>"
    | (kept) "merged = ?merged"
    | (moved) "\<not> (allow_stop \<and> ses_status requested = SS_STOPPED)" "merged = ?merged\<lparr>ses_status := ses_status requested\<rparr>"
        "ses_status current \<noteq> SS_STOPPED" "\<not> supervision_paused current"
        "rs_session_binding x = decision_session_binding current" "status_may_follow k db current x = Inr True"
  proof (cases "allow_stop \<and> ses_status requested = SS_STOPPED")
    case False
    show thesis
    proof (cases "ses_status current = SS_STOPPED \<or> supervision_paused current \<or>
        rs_session_binding x \<noteq> decision_session_binding current")
      case True
      with False assms have "merged = ?merged" by (auto simp: merge_resolution_session_def Let_def)
      then show thesis by (rule kept)
    next
      case open_target: False
      with False assms obtain may where may: "status_may_follow k db current x = Inr may"
        "merged = (if may then ?merged\<lparr>ses_status := ses_status requested\<rparr> else ?merged)"
        by (auto simp: merge_resolution_session_def Let_def bind_stored_Inr_iff)
      show thesis
      proof (cases may)
        case True
        then show thesis by (intro moved) (use False open_target may in simp_all)
      next
        case no: False
        show thesis by (rule kept) (use may(2) no in simp)
      qed
    qed
  qed (use assms stop in \<open>simp add: merge_resolution_session_def Let_def\<close>)
  note cases = this
  have fields: "merged = current\<lparr>ses_status := ses_status merged, ses_last_activity := ses_last_activity merged\<rparr> \<and>
      ses_last_activity merged = latest_activity current requested"
    by (rule cases) (cases current; simp)+
  with activity have "\<not> (\<exists>t u. ses_last_activity current = Some t \<and> ses_last_activity merged = Some u \<and> as_utc u < as_utc t)"
    by simp
  moreover have "ses_status merged = ses_status current \<or>
     (if allow_stop \<and> ses_status requested = SS_STOPPED then ses_status merged = SS_STOPPED
      else ses_status merged = ses_status requested \<and> ses_status current \<noteq> SS_STOPPED \<and>
        \<not> supervision_paused current \<and> rs_session_binding x = decision_session_binding current \<and>
        status_may_follow k db current x = Inr True)"
    by (rule cases) simp_all
  ultimately show ?thesis using fields by blast
qed

theorem outcome_never_revives_session_witness:
  "merge_resolution_session example_codec (example_store ''r1'' [])
     (example_session\<lparr>ses_status := SS_STOPPED\<rparr>) example_session (example_ruling ''r1'' ''r1'') False =
     Inr (example_session\<lparr>ses_status := SS_STOPPED\<rparr>) \<and>
   ses_status (example_session\<lparr>ses_status := SS_STOPPED\<rparr>) = SS_STOPPED"
proof -
  have stopped: "merge_resolution_session example_codec (example_store ''r1'' [])
      (example_session\<lparr>ses_status := SS_STOPPED\<rparr>) example_session (example_ruling ''r1'' ''r1'') False =
      Inr (example_session\<lparr>ses_status := SS_STOPPED\<rparr>)"
    by (simp add: merge_resolution_session_def latest_activity_def example_session_def new_session_def)
  from outcome_never_revives_session [OF this] stopped show ?thesis by simp
qed

text \<open>
  A request identifier with surrounding space strands its ruling: the reservation compares the stripped text with
  the caller's, every later read compares the record with the raw entry of the payload and refuses.
\<close>

lemma padded_request_never_dispatched:
  assumes "find_ruling Permission_Table db identifier = Some (ruling_row x)" "rs_request_id x = Some request"
    and "find_intervention_row db identifier = Some r"
    and "dict_get (act_payload (int_action (ir_payload r))) ''request_id'' \<noteq> PStr request"
  shows "start_permission k boot db identifier later \<noteq> Inr y"
proof
  assume "start_permission k boot db identifier later = Inr y"
  then obtain br where br: "load_bound_resolution k db Permission_Table identifier False False = Inr br"
    by (auto simp: start_permission_def bind_stored_Inr_iff)
  note l = load_bound_resolution_Inr [OF br]
  have "rr_record (ruling_row x) = x" by (simp add: ruling_row_def)
  moreover have "br_row br = ruling_row x" using l assms(1) by simp
  ultimately have request: "rs_request_id (br_record br) = Some request" using l assms(2) by metis
  have "load_bound_intervention k db identifier False = Inr (br_bound br)" using l by blast
  then have "bi_intervention (br_bound br) = ir_payload r"
    using load_bound_intervention_Inr assms(3) by (metis option.sel)
  moreover have "check_ruling_action Permission_Table (br_record br) (bi_intervention (br_bound br)) = Inr ()"
    using l by blast
  ultimately show False using assms(4) request by (simp add: check_ruling_action_def)
qed

lemma padded_request_is_reserved_and_stranded:
  "reserve_permission example_codec (example_store '' r1'' []) ''i1'' ''s1'' ''r1'' ''allow'' (Aware 1 0) =
     Inr ((True, example_ruling '' r1'' ''r1''), example_store '' r1'' [ruling_row (example_ruling '' r1'' ''r1'')]) \<and>
   start_permission example_codec boot (example_store '' r1'' [ruling_row (example_ruling '' r1'' ''r1'')]) ''i1'' later \<noteq> Inr y"
proof -
  let ?db = "example_store '' r1'' [ruling_row (example_ruling '' r1'' ''r1'')]"
  have "strip '' r1'' = ''r1''" by code_simp
  moreover have "find_ruling Permission_Table ?db ''i1'' = Some (ruling_row (example_ruling '' r1'' ''r1''))"
    by (simp add: find_ruling_def example_store_def ruling_row_def example_ruling_def new_ruling_def Let_def
        example_bound_def example_ask_def)
  moreover have "find_intervention_row ?db ''i1'' = Some \<lparr>ir_id = ''i1'', ir_session_id = ''s1'', ir_goal_id = Some ''g1'',
      ir_time = Aware 0 0, ir_columns = example_columns, ir_envelope = example_columns, ir_payload = example_ask '' r1''\<rparr>"
    by (simp add: find_intervention_row_def example_store_def)
  moreover have "rs_request_id (example_ruling '' r1'' ''r1'') = Some ''r1''"
    by (simp add: example_ruling_def new_ruling_def Let_def)
  moreover have "dict_get (act_payload (int_action (example_ask '' r1''))) ''request_id'' \<noteq> PStr ''r1''"
    by (simp add: example_ask_def)
  ultimately show ?thesis
    using example_reserved [of "'' r1''" "''r1''"] padded_request_never_dispatched [of ?db "''i1''"] by simp
qed

end
