(* ===== verification/Decision_Resolution.thy ===== *)
theory Decision_Resolution
  imports Ruling_Steps
begin

text \<open>
  \<open>services/bridge/src/pex_bridge/decisions.py\<close>: one authenticated human decision on a permission request or on a
  lifecycle action, from the classification of the intervention to the recorded outcome. The resolver runs its
  transactions one after another and talks to an adapter or to the executor in between; a run yields the store it
  leaves, the external calls it made and its result. What lies outside is a record of parameters: what other
  processes write before the n-th transaction of the run (\<open>rv_gap\<close>), the adapter found for a session and what it
  answers, the executor with its effect on the store, the clock, and the JSON texts of a ruling and of capabilities. \<open>HTTP\<close> status and code are those of \<open>DecisionResolutionError\<close>.
\<close>

datatype resolution_error =
    Resolution_Error (error_status: nat) (error_code: string) (error_detail: string)
  | Store_Raised store_error
  | Task_Cancelled

datatype probe_outcome = Probed adapter_capabilities | Probe_Cancelled | Probe_Raised string
datatype reply_outcome = Replied bool | Reply_Cancelled | Reply_Raised string
datatype execution = Executed string | Execution_Cancelled | Execution_Raised string

record permission_adapter =
  pa_name :: string
  pa_probe :: probe_outcome
  pa_respond :: "harness_session \<Rightarrow> string \<Rightarrow> string \<Rightarrow> reply_outcome"

datatype external_call = Probe_Call | Respond_Call string string string | Execute_Call string proposed_action

record resolver =
  rv_codec :: codec
  rv_boot :: string
  rv_gap :: "nat \<Rightarrow> store \<Rightarrow> store"
  rv_reserve_at :: datetime
  rv_start_at :: datetime
  rv_finish_at :: datetime
  rv_adapter :: "string \<Rightarrow> permission_adapter option"
  rv_execute :: "store \<Rightarrow> proposed_action \<Rightarrow> string \<Rightarrow> store \<times> execution"
  rv_ruling_json :: "resolution \<Rightarrow> (string \<times> pyval) list"
  rv_capabilities_json :: "adapter_capabilities \<Rightarrow> (string \<times> pyval) list"

type_synonym 'a resolved = "resolution_error + 'a"

definition bind_resolved :: "'a resolved \<Rightarrow> ('a \<Rightarrow> 'b resolved) \<Rightarrow> 'b resolved" where
  "bind_resolved r f = (case r of Inl e \<Rightarrow> Inl e | Inr x \<Rightarrow> f x)"

definition reject_if :: "bool \<Rightarrow> nat \<Rightarrow> string \<Rightarrow> string \<Rightarrow> unit resolved" where
  "reject_if bad status code_name detail = (if bad then Inl (Resolution_Error status code_name detail) else Inr ())"

lemma bind_resolved_simps [simp]: "bind_resolved (Inl e) f = Inl e" "bind_resolved (Inr x) f = f x"
  by (simp_all add: bind_resolved_def)

lemma bind_resolved_Inr_iff: "bind_resolved r f = Inr y \<longleftrightarrow> (\<exists>x. r = Inr x \<and> f x = Inr y)"
  by (cases r) simp_all

lemma reject_if_Inr [simp]: "reject_if bad status code_name detail = Inr u \<longleftrightarrow> \<not> bad"
  by (simp add: reject_if_def)

text \<open>A run: the store it leaves, the external calls in order, and its result.\<close>

type_synonym 'a run = "store \<times> external_call list \<times> 'a resolved"

definition bind_run :: "'a run \<Rightarrow> (store \<Rightarrow> 'a \<Rightarrow> 'b run) \<Rightarrow> 'b run" where
  "bind_run m f =
     (case m of (db, calls, r) \<Rightarrow>
        (case r of Inl e \<Rightarrow> (db, calls, Inl e)
         | Inr x \<Rightarrow> (case f db x of (db', more_calls, r') \<Rightarrow> (db', calls @ more_calls, r'))))"

definition local_run :: "store \<Rightarrow> 'a resolved \<Rightarrow> 'a run" where
  "local_run db r = (db, [], r)"

text \<open>A reading transaction and a writing one, each after what others have written.\<close>

definition read_run :: "resolver \<Rightarrow> nat \<Rightarrow> store \<Rightarrow> (store \<Rightarrow> 'a resolved) \<Rightarrow> 'a run" where
  "read_run rv n db f = (let seen = rv_gap rv n db in (seen, [], f seen))"

definition write_run ::
  "resolver \<Rightarrow> nat \<Rightarrow> store \<Rightarrow> (store \<Rightarrow> ('a \<times> store) stored) \<Rightarrow> (store_error \<Rightarrow> resolution_error) \<Rightarrow> 'a run" where
  "write_run rv n db f wrap =
     (let seen = rv_gap rv n db
      in case f seen of Inl e \<Rightarrow> (seen, [], Inl (wrap e)) | Inr (x, db') \<Rightarrow> (db', [], Inr x))"

fun error_message :: "store_error \<Rightarrow> string" where
  "error_message (Lookup_Error m) = m"
| "error_message (Runtime_Error m) = m"
| "error_message (Permission_Error m) = m"
| "error_message (Value_Error m) = m"
| "error_message (Identity_Blocked m c) = m"

section \<open>Loading the target\<close>

text \<open>Both loads of an intervention: \<open>changed\<close> is the code for every error but a blocked identity or a missing row.\<close>

definition load_intervention :: "codec \<Rightarrow> store \<Rightarrow> string \<Rightarrow> bool \<Rightarrow> string \<Rightarrow> intervention resolved" where
  "load_intervention k db identifier live changed =
     (case bind_stored (validate_store_id identifier ''intervention id'')
             (\<lambda>_. load_bound_intervention k db identifier live) of
        Inr bi \<Rightarrow> Inr (bi_intervention bi)
      | Inl (Identity_Blocked m c) \<Rightarrow> Inl (Resolution_Error 409 c m)
      | Inl (Lookup_Error m) \<Rightarrow> Inl (Resolution_Error 404 ''decision_not_found'' ''Decision not found.'')
      | Inl e \<Rightarrow> Inl (Resolution_Error 409 changed (error_message e)))"

definition intervention_for_authority :: "codec \<Rightarrow> store \<Rightarrow> string \<Rightarrow> intervention resolved" where
  "intervention_for_authority k db identifier = load_intervention k db identifier True ''decision_binding_changed''"

definition intervention_for_classification :: "codec \<Rightarrow> store \<Rightarrow> string \<Rightarrow> string \<Rightarrow> intervention resolved" where
  "intervention_for_classification k db identifier kind =
     load_intervention k db identifier False (kind @ ''_binding_changed'')"

definition validate_binding :: "intervention \<Rightarrow> harness_session \<Rightarrow> string \<Rightarrow> unit resolved" where
  "validate_binding i s kind =
     bind_resolved (reject_if (act_session_id (int_action i) \<noteq> int_session_id i \<or> ses_id s \<noteq> int_session_id i)
       409 (kind @ ''_session_mismatch'')
       (''The stored '' @ kind @ '' action is not bound to the intervention session.'')) (\<lambda>_.
     reject_if (act_goal_id (int_action i) \<noteq> int_goal_id i \<or> ses_goal_id s \<noteq> int_goal_id i)
       409 (kind @ ''_goal_mismatch'')
       (''The stored '' @ kind @ '' action is no longer bound to the session's active goal.''))"

definition session_for_authority ::
  "codec \<Rightarrow> store \<Rightarrow> intervention \<Rightarrow> string \<Rightarrow> string \<Rightarrow> harness_session resolved" where
  "session_for_authority k db i code_name detail =
     (case bind_stored (validate_store_id (int_session_id i) ''session id'')
             (\<lambda>_. load_bound_session k db (int_session_id i) (int_goal_id i \<noteq> None) True) of
        Inr (s, _) \<Rightarrow> Inr s
      | Inl (Identity_Blocked m c) \<Rightarrow> Inl (Resolution_Error 409 c m)
      | Inl (Lookup_Error m) \<Rightarrow> Inl (Resolution_Error 409 code_name detail)
      | Inl e \<Rightarrow> Inl (Store_Raised e))"

definition session_for_classification :: "store \<Rightarrow> intervention \<Rightarrow> string \<Rightarrow> harness_session resolved" where
  "session_for_classification db i kind =
     (case find_session_row db (int_session_id i) of
        None \<Rightarrow> Inl (Resolution_Error 409 (kind @ ''_session_missing'')
                  (''The session for this '' @ kind @ '' decision is no longer available.''))
      | Some r \<Rightarrow> bind_resolved (validate_binding i (sr_session r) kind) (\<lambda>_. Inr (sr_session r)))"

section \<open>Pending decisions\<close>

definition is_pending_permission :: "intervention \<Rightarrow> bool" where
  "is_pending_permission i =
     (act_type (int_action i) = IT_RESPOND_PERMISSION \<and>
      int_action_taken i = intervention_type_value IT_RESPOND_PERMISSION \<and> int_verdict i = PV_ASK_HUMAN \<and>
      int_result i = ''permission_awaiting_human'')"

definition is_pending_lifecycle :: "intervention \<Rightarrow> bool" where
  "is_pending_lifecycle i =
     (act_type (int_action i) \<in> set lifecycle_types \<and>
      int_action_taken i = intervention_type_value (act_type (int_action i)) \<and> int_verdict i = PV_ASK_HUMAN \<and>
      int_result i = ''awaiting_human'')"

definition is_pending_mcp_decision :: "intervention \<Rightarrow> bool" where
  "is_pending_mcp_decision i =
     (act_type (int_action i) = IT_ASK_HUMAN \<and> int_action_taken i = intervention_type_value IT_ASK_HUMAN \<and>
      int_verdict i = PV_ASK_HUMAN \<and> int_result i = ''awaiting_human'' \<and>
      dict_get (int_metadata i) ''decision_kind'' = PStr ''mcp_human_request'')"

text \<open>
  \<open>has_pending_human_intervention\<close>. \<open>LIKE\<close> compares ASCII letters without case; the result text of a row is
  always present.
\<close>

definition pending_result :: "string \<Rightarrow> bool" where
  "pending_result t =
     (t \<in> {''permission_awaiting_human'', ''awaiting_human'', ''escalated''} \<or>
      ends_with ''_failed'' (ascii_lower t) \<or> ends_with ''_delivery_uncertain'' (ascii_lower t))"

definition has_pending :: "store \<Rightarrow> string \<Rightarrow> string \<Rightarrow> bool" where
  "has_pending db session excluding =
     (\<exists>r \<in> set (intervention_rows db).
        ir_session_id r = session \<and> int_verdict (ir_payload r) = PV_ASK_HUMAN \<and> ir_id r \<noteq> excluding \<and>
        pending_result (int_result (ir_payload r)))"

section \<open>Replays\<close>

record permission_result =
  pr_intervention :: intervention
  pr_session :: harness_session
  pr_ruling :: resolution
  pr_delivered :: bool
  pr_replayed :: bool
  pr_exception :: "string option"

definition existing_permission_result ::
  "intervention \<Rightarrow> harness_session \<Rightarrow> resolution \<Rightarrow> string \<Rightarrow> permission_result resolved" where
  "existing_permission_result i s x ruling =
     bind_resolved (reject_if (rs_intervention_id x \<noteq> int_id i) 409 ''permission_request_already_claimed''
       ''This permission request is already bound to another intervention.'') (\<lambda>_.
     bind_resolved (reject_if (rs_decision x \<noteq> ruling) 409 ''permission_decision_conflict''
       ''This permission request already has a different human decision.'') (\<lambda>_.
     if rs_status x = ''delivered''
     then Inr \<lparr>pr_intervention = i, pr_session = s, pr_ruling = x, pr_delivered = True, pr_replayed = True,
               pr_exception = None\<rparr>
     else if rs_status x \<in> {''reserved'', ''dispatching'', ''delivering''}
       then Inl (Resolution_Error 409 ''permission_delivery_in_progress''
              ''This permission decision is already being delivered.'')
     else Inl (Resolution_Error 409 ''permission_delivery_not_retriable''
            (''The prior delivery did not complete successfully. PEX will not replay it because ''
             @ ''the harness may already have received the response; wait for a fresh permission request.''))))"

record lifecycle_result =
  lr_intervention :: intervention
  lr_session :: harness_session
  lr_ruling :: resolution
  lr_executed :: bool
  lr_replayed :: bool

definition existing_lifecycle_result ::
  "intervention \<Rightarrow> harness_session \<Rightarrow> resolution \<Rightarrow> string \<Rightarrow> lifecycle_result resolved" where
  "existing_lifecycle_result i s x ruling =
     bind_resolved (reject_if (rs_decision x \<noteq> ruling) 409 ''lifecycle_decision_conflict''
       ''This lifecycle action already has a different human decision.'') (\<lambda>_.
     if rs_status x \<in> {''delivered'', ''denied''}
     then Inr \<lparr>lr_intervention = i, lr_session = s, lr_ruling = x, lr_executed = (rs_status x = ''delivered''),
               lr_replayed = True\<rparr>
     else if rs_status x \<in> {''reserved'', ''dispatching'', ''delivering'', ''denying''}
       then Inl (Resolution_Error 409 ''lifecycle_delivery_in_progress''
              ''This lifecycle decision is already being applied.'')
     else Inl (Resolution_Error 409 ''lifecycle_delivery_not_retriable''
            (''The prior lifecycle delivery did not complete safely. PEX will not replay ''
             @ ''a start, stop, fork, or cleanup because the first attempt may have changed state.'')))"

fun lifecycle_succeeded :: "intervention_type \<Rightarrow> string \<Rightarrow> bool" where
  "lifecycle_succeeded kind result =
     (if kind = IT_START_AGENT then starts_with ''agent_started:'' result
      else if kind = IT_STOP_AGENT then result = ''agent_stopped''
      else if kind = IT_FORK_PROBE then starts_with ''probe_forked:'' result
      else if kind = IT_CLEANUP then starts_with ''cleanup_quarantined:'' result
      else False)"

definition lifecycle_uncertain :: "string \<Rightarrow> bool" where
  "lifecycle_uncertain result =
     (contains ''uncertain'' result \<or> contains ''persist_failed'' result \<or> contains ''persist_conflict'' result \<or>
      contains ''identity_invalid'' result)"

section \<open>Permissions\<close>

definition put_entry :: "string \<Rightarrow> pyval \<Rightarrow> (string \<times> pyval) list \<Rightarrow> (string \<times> pyval) list" where
  "put_entry key v d =
     (if key \<in> set (map fst d) then map (\<lambda>(a, w). if a = key then (a, v) else (a, w)) d else d @ [(key, v)])"

text \<open>The error of a reservation or a start that the resolver reports as a changed binding; a missing row passes.\<close>

definition reservation_error :: "string \<Rightarrow> store_error \<Rightarrow> resolution_error" where
  "reservation_error code_name e =
     (case e of Lookup_Error m \<Rightarrow> Store_Raised e | _ \<Rightarrow> Resolution_Error 409 code_name (error_message e))"

definition dispatch_error :: "string \<Rightarrow> store_error \<Rightarrow> resolution_error" where
  "dispatch_error code_name e =
     (case e of Runtime_Error m \<Rightarrow> Store_Raised e | _ \<Rightarrow> Resolution_Error 409 code_name (error_message e))"

record delivery_attempt =
  da_delivered :: bool
  da_uncertain :: bool
  da_cancelled :: bool
  da_exception :: "string option"
  da_error :: "resolution_error option"
  da_session :: harness_session

definition attempt :: "harness_session \<Rightarrow> delivery_attempt" where
  "attempt s = \<lparr>da_delivered = False, da_uncertain = False, da_cancelled = False, da_exception = None,
     da_error = None, da_session = s\<rparr>"

definition asynchronous :: "adapter_capabilities \<Rightarrow> string \<Rightarrow> bool" where
  "asynchronous c ruling =
     (supports c (if ruling = ''allow'' then ''approve'' else ''deny'') \<and>
      response_mode c \<in> {PRM_ASYNC, PRM_BOTH})"

definition deliver_permission ::
  "resolver \<Rightarrow> harness_session \<Rightarrow> string \<Rightarrow> string \<Rightarrow> external_call list \<times> delivery_attempt" where
  "deliver_permission rv s request ruling =
     (case rv_adapter rv (ses_id s) of
        None \<Rightarrow> ([], (attempt s)\<lparr>da_error := Some (Resolution_Error 409 ''permission_adapter_missing''
                  ''The adapter for this permission request is no longer available.'')\<rparr>)
      | Some a \<Rightarrow>
          (case pa_probe a of
             Probe_Cancelled \<Rightarrow>
               ([Probe_Call], (attempt s)\<lparr>da_cancelled := True, da_exception := Some ''CancelledError''\<rparr>)
           | Probe_Raised name \<Rightarrow>
               ([Probe_Call], (attempt s)\<lparr>da_exception := Some name,
                  da_error := Some (Resolution_Error 409 ''permission_adapter_unavailable''
                    (''The adapter capability probe failed ('' @ name @ '').''))\<rparr>)
           | Probed c \<Rightarrow>
               if \<not> asynchronous c ruling
               then ([Probe_Call], (attempt s)\<lparr>da_error := Some (Resolution_Error 409 ''permission_delivery_unsupported''
                       (''The '' @ pa_name a @ '' adapter cannot deliver an asynchronous '' @ ruling
                        @ '' response. Use the harness's own active permission prompt.''))\<rparr>)
               else
                 let target = s\<lparr>ses_capabilities := rv_capabilities_json rv c\<rparr>;
                     calls = [Probe_Call, Respond_Call (ses_id s) request ruling]
                 in (case pa_respond a target request ruling of
                       Replied ok \<Rightarrow> (calls, (attempt target)\<lparr>da_delivered := ok\<rparr>)
                     | Reply_Cancelled \<Rightarrow>
                         (calls, (attempt target)\<lparr>da_exception := Some ''CancelledError'', da_uncertain := True,
                            da_cancelled := True\<rparr>)
                     | Reply_Raised name \<Rightarrow>
                         (calls, (attempt target)\<lparr>da_exception := Some name, da_uncertain := True\<rparr>))))"

definition permission_status :: "delivery_attempt \<Rightarrow> string" where
  "permission_status d =
     (if da_delivered d then ''delivered'' else if da_uncertain d then ''delivery_uncertain'' else ''failed'')"

definition permission_result_text :: "string \<Rightarrow> delivery_attempt \<Rightarrow> string" where
  "permission_result_text ruling d =
     (if da_delivered d then ''permission_'' @ ruling
      else if da_uncertain d then ''permission_'' @ ruling @ ''_delivery_uncertain''
      else ''permission_'' @ ruling @ ''_failed'')"

definition permission_record_type :: "delivery_attempt \<Rightarrow> string" where
  "permission_record_type d =
     (if da_delivered d then ''human_decision_resolved''
      else if da_uncertain d then ''human_decision_delivery_uncertain'' else ''human_decision_delivery_failed'')"

definition permission_outcome :: "delivery_attempt \<Rightarrow> string" where
  "permission_outcome d =
     (if da_delivered d then ''human_permission_delivered''
      else if da_uncertain d then ''human_permission_delivery_uncertain'' else ''human_permission_delivery_failed'')"

text \<open>The intervention and the session as the resolver hands them to the finalisation.\<close>

definition answered_intervention ::
  "resolver \<Rightarrow> intervention \<Rightarrow> resolution \<Rightarrow> string \<Rightarrow> string \<Rightarrow> delivery_attempt \<Rightarrow> intervention" where
  "answered_intervention rv i x request ruling d =
     (let final = x\<lparr>rs_status := permission_status d, rs_delivery_result := Some (permission_result_text ruling d),
                   rs_finished_at := Some (rv_finish_at rv)\<rparr>;
          audit = rv_ruling_json rv final @ (case da_exception d of None \<Rightarrow> [] | Some n \<Rightarrow> [(''exception_type'', PStr n)])
      in i\<lparr>int_metadata := put_entry ''permission_resolution'' (PDict audit)
             (put_entry ''permission_request_id'' (PStr request) (int_metadata i)),
           int_result := permission_result_text ruling d, int_outcome := permission_outcome d\<rparr>)"

definition answered_session :: "resolver \<Rightarrow> bool \<Rightarrow> delivery_attempt \<Rightarrow> harness_session" where
  "answered_session rv pending d =
     (let s = da_session d
      in if da_delivered d
         then s\<lparr>ses_status := (if pending then SS_NEEDS_DECISION else SS_WORKING),
                ses_last_activity := Some (rv_finish_at rv)\<rparr>
         else s\<lparr>ses_status := SS_NEEDS_DECISION\<rparr>)"

text \<open>The session of the result is read once more; a row that is gone leaves the one at hand.\<close>

definition persisted_session :: "store \<Rightarrow> harness_session \<Rightarrow> harness_session" where
  "persisted_session db s = (case find_session_row db (ses_id s) of None \<Rightarrow> s | Some r \<Rightarrow> sr_session r)"

text \<open>
  A cancelled task finalises first and raises the cancellation whatever the finalisation does. Pending decisions
  are counted only after a delivery.
\<close>

definition finish_permission ::
  "resolver \<Rightarrow> store \<Rightarrow> intervention \<Rightarrow> resolution \<Rightarrow> string \<Rightarrow> string \<Rightarrow> delivery_attempt \<Rightarrow> permission_result run" where
  "finish_permission rv db i x request ruling d =
     bind_run
       (if da_delivered d then read_run rv 7 db (\<lambda>db. Inr (has_pending db (ses_id (da_session d)) (int_id i)))
        else local_run db (Inr False)) (\<lambda>db pending.
     let answered = answered_intervention rv i x request ruling d; s = answered_session rv pending d
     in bind_run
          (write_run rv 8 db
            (\<lambda>db. finalize_permission (rv_codec rv) db answered s (permission_status d) (permission_result_text ruling d)
              (rv_finish_at rv) (permission_record_type d))
            (\<lambda>e. if da_cancelled d then Task_Cancelled else Store_Raised e)) (\<lambda>db final.
        bind_run
          (if da_cancelled d then local_run db (Inl Task_Cancelled)
           else read_run rv 9 db (\<lambda>db. Inr (persisted_session db s))) (\<lambda>db s.
        local_run db
          (case da_error d of
             Some e \<Rightarrow> Inl e
           | None \<Rightarrow>
               Inr \<lparr>pr_intervention = answered, pr_session = s, pr_ruling = final, pr_delivered = da_delivered d,
                    pr_replayed = False, pr_exception = da_exception d\<rparr>))))"

definition stored_ruling :: "ruling_table \<Rightarrow> store \<Rightarrow> string \<Rightarrow> resolution option" where
  "stored_ruling table db identifier = map_option rr_record (find_ruling table db identifier)"

definition call_run :: "store \<Rightarrow> external_call list \<times> 'a \<Rightarrow> 'a run" where
  "call_run db c = (case c of (calls, x) \<Rightarrow> (db, calls, Inr x))"

text \<open>From a reserved ruling to the end: the start, the delivery, the finalisation.\<close>

definition dispatch_permission ::
  "resolver \<Rightarrow> store \<Rightarrow> intervention \<Rightarrow> harness_session \<Rightarrow> string \<Rightarrow> string \<Rightarrow> permission_result run" where
  "dispatch_permission rv db i s request ruling =
     bind_run
       (write_run rv 6 db (\<lambda>db. start_permission (rv_codec rv) (rv_boot rv) db (int_id i) (rv_start_at rv))
         (dispatch_error ''permission_binding_changed_before_dispatch'')) (\<lambda>db started.
     case started of
       Dispatch_Refused x \<Rightarrow> local_run db (existing_permission_result i s x ruling)
     | Dispatch_Granted x s' i' \<Rightarrow>
         bind_run (call_run db (deliver_permission rv s' request ruling)) (\<lambda>db d.
         finish_permission rv db i' x request ruling d))"

definition check_permission :: "resolver \<Rightarrow> store \<Rightarrow> string \<Rightarrow> string \<Rightarrow> (intervention \<times> harness_session) run" where
  "check_permission rv db identifier ruling =
     bind_run (local_run db (reject_if (ruling \<notin> {''allow'', ''deny''}) 422 ''invalid_permission_decision''
       ''Permission decision must be exactly 'allow' or 'deny'.'')) (\<lambda>db _.
     bind_run (read_run rv 1 db (\<lambda>db. intervention_for_classification (rv_codec rv) db identifier ''permission''))
       (\<lambda>db classified.
     if ruling = ''deny''
     then bind_run (read_run rv 2 db (\<lambda>db. session_for_classification db classified ''permission''))
       (\<lambda>db s. local_run db (Inr (classified, s)))
     else
       bind_run (read_run rv 2 db (\<lambda>db. intervention_for_authority (rv_codec rv) db identifier)) (\<lambda>db i.
       bind_run (read_run rv 3 db (\<lambda>db. session_for_authority (rv_codec rv) db i ''permission_session_missing''
         ''The session for this permission request is no longer available.'')) (\<lambda>db s.
       local_run db (Inr (i, s))))))"

definition check_request ::
  "resolver \<Rightarrow> intervention \<Rightarrow> harness_session \<Rightarrow> bool \<Rightarrow> string resolved" where
  "check_request rv i s resuming =
     bind_resolved (reject_if (\<not> resuming \<and> \<not> is_pending_permission i) 409 ''decision_not_pending_permission''
       ''This intervention is not an unresolved human permission decision.'') (\<lambda>_.
     bind_resolved (validate_binding i s ''permission'') (\<lambda>_.
     let request = request_text (rv_codec rv) i;
         recorded = strip (str_or_empty (repr_text (rv_codec rv)) (dict_get (int_metadata i) ''permission_request_id''))
     in bind_resolved (reject_if (request = []) 409 ''permission_request_id_missing''
          ''The pending permission does not contain a harness request id.'') (\<lambda>_.
        bind_resolved (reject_if (recorded \<noteq> [] \<and> recorded \<noteq> request) 409 ''permission_request_mismatch''
          ''The permission request id does not match its immutable audit metadata.'') (\<lambda>_. Inr request))))"

text \<open>No ruling is stored yet: reserve one; a reservation that was lost to another call may still be dispatched.\<close>

definition claim_permission ::
  "resolver \<Rightarrow> store \<Rightarrow> intervention \<Rightarrow> harness_session \<Rightarrow> string \<Rightarrow> permission_result run" where
  "claim_permission rv db i s ruling =
     bind_run (local_run db (check_request rv i s False)) (\<lambda>db request.
     bind_run
       (write_run rv 5 db
         (\<lambda>db. reserve_permission (rv_codec rv) db (int_id i) (ses_id s) request ruling (rv_reserve_at rv))
         (reservation_error ''permission_binding_changed_before_reservation'')) (\<lambda>db (reserved, x).
     if \<not> reserved \<and> rs_status x \<noteq> ''reserved''
     then local_run db (existing_permission_result i s x ruling)
     else dispatch_permission rv db i s request ruling))"

definition settle_permission ::
  "resolver \<Rightarrow> store \<Rightarrow> intervention \<Rightarrow> harness_session \<Rightarrow> string \<Rightarrow> resolution option \<Rightarrow> permission_result run" where
  "settle_permission rv db i s ruling existing =
     (case existing of
        None \<Rightarrow> claim_permission rv db i s ruling
      | Some x \<Rightarrow>
          if rs_decision x \<noteq> ruling \<or> rs_status x \<noteq> ''reserved''
          then local_run db (existing_permission_result i s x ruling)
          else bind_run (local_run db (check_request rv i s True)) (\<lambda>db request.
               dispatch_permission rv db i s request ruling))"

definition resolve_permission :: "resolver \<Rightarrow> store \<Rightarrow> string \<Rightarrow> string \<Rightarrow> permission_result run" where
  "resolve_permission rv db identifier ruling =
     bind_run (check_permission rv db identifier ruling) (\<lambda>db (i, s).
     bind_run (read_run rv 4 db (\<lambda>db. Inr (stored_ruling Permission_Table db (int_id i)))) (\<lambda>db existing.
     settle_permission rv db i s ruling existing))"

section \<open>Lifecycle actions\<close>

definition check_lifecycle :: "resolver \<Rightarrow> store \<Rightarrow> string \<Rightarrow> string \<Rightarrow> (intervention \<times> harness_session) run" where
  "check_lifecycle rv db identifier ruling =
     bind_run (local_run db (reject_if (ruling \<notin> {''allow'', ''deny''}) 422 ''invalid_lifecycle_decision''
       ''Lifecycle decision must be exactly 'allow' or 'deny'.'')) (\<lambda>db _.
     bind_run (read_run rv 1 db (\<lambda>db. intervention_for_classification (rv_codec rv) db identifier ''lifecycle''))
       (\<lambda>db classified.
     if ruling = ''deny'' \<or> act_type (int_action classified) = IT_STOP_AGENT
     then bind_run (read_run rv 2 db (\<lambda>db. session_for_classification db classified ''lifecycle''))
       (\<lambda>db s. local_run db (Inr (classified, s)))
     else
       bind_run (read_run rv 2 db (\<lambda>db. intervention_for_authority (rv_codec rv) db identifier)) (\<lambda>db i.
       bind_run (read_run rv 3 db (\<lambda>db. session_for_authority (rv_codec rv) db i ''lifecycle_session_missing''
         ''The source session for this lifecycle action is no longer available.'')) (\<lambda>db s.
       local_run db (Inr (i, s))))))"

definition restored_status :: "resolver \<Rightarrow> intervention \<Rightarrow> session_status" where
  "restored_status rv i =
     (let v = dict_get (act_payload (int_action i)) ''previous_session_status'';
          previous = (if truthy v then str_of (repr_text (rv_codec rv)) v else ''working'')
      in case parse_enum session_status_value all_session_status previous of
           Inl _ \<Rightarrow> SS_WORKING
         | Inr st \<Rightarrow> if st = SS_NEEDS_DECISION then SS_WORKING else st)"

text \<open>How a lifecycle ruling ended: status, result text, whether it was executed, record type, outcome.\<close>

record lifecycle_end =
  le_end_status :: string
  le_result :: string
  le_executed :: bool
  le_record_type :: string
  le_outcome :: string
  le_cancelled :: bool

definition denied_end :: lifecycle_end where
  "denied_end = \<lparr>le_end_status = ''denied'', le_result = ''denied_by_human'', le_executed = False,
     le_record_type = ''human_lifecycle_denied'', le_outcome = ''human_lifecycle_denied'', le_cancelled = False\<rparr>"

definition executed_end :: "intervention_type \<Rightarrow> execution \<Rightarrow> lifecycle_end" where
  "executed_end kind e =
     (let result = (case e of Executed t \<Rightarrow> t | Execution_Cancelled \<Rightarrow> ''lifecycle_delivery_uncertain:CancelledError''
                    | Execution_Raised n \<Rightarrow> ''lifecycle_delivery_uncertain:'' @ n);
          ok = lifecycle_succeeded kind result; uncertain = lifecycle_uncertain result
      in \<lparr>le_end_status = (if ok then ''delivered'' else if uncertain then ''delivery_uncertain'' else ''failed''),
          le_result = result, le_executed = ok,
          le_record_type = (if ok then ''human_lifecycle_resolved''
            else if uncertain then ''human_lifecycle_delivery_uncertain'' else ''human_lifecycle_delivery_failed''),
          le_outcome = (if ok then ''human_lifecycle_delivered''
            else if uncertain then ''human_lifecycle_delivery_uncertain'' else ''human_lifecycle_delivery_failed''),
          le_cancelled = (e = Execution_Cancelled)\<rparr>)"

definition lifecycle_session ::
  "resolver \<Rightarrow> bool \<Rightarrow> intervention \<Rightarrow> harness_session \<Rightarrow> string \<Rightarrow> lifecycle_end \<Rightarrow> harness_session" where
  "lifecycle_session rv pending i s ruling e =
     (if ruling = ''allow'' \<and> le_executed e \<and> act_type (int_action i) = IT_STOP_AGENT
      then s\<lparr>ses_status := SS_STOPPED, ses_last_activity := Some (rv_finish_at rv)\<rparr>
      else if ses_status s \<noteq> SS_STOPPED
        then s\<lparr>ses_status :=
                 (if pending \<or> ruling = ''allow'' \<and> \<not> le_executed e
                  then SS_NEEDS_DECISION else restored_status rv i),
               ses_last_activity := Some (rv_finish_at rv)\<rparr>
      else s)"

definition ruled_intervention :: "resolver \<Rightarrow> intervention \<Rightarrow> resolution \<Rightarrow> lifecycle_end \<Rightarrow> intervention" where
  "ruled_intervention rv i final e =
     i\<lparr>int_metadata := put_entry ''lifecycle_resolution'' (PDict (rv_ruling_json rv final)) (int_metadata i),
       int_result := le_result e, int_outcome := le_outcome e\<rparr>"

definition finish_lifecycle ::
  "resolver \<Rightarrow> store \<Rightarrow> intervention \<Rightarrow> harness_session \<Rightarrow> resolution \<Rightarrow> string \<Rightarrow> lifecycle_end \<Rightarrow> lifecycle_result run" where
  "finish_lifecycle rv db i s x ruling e =
     (let final = x\<lparr>rs_status := le_end_status e, rs_delivery_result := Some (le_result e),
                   rs_finished_at := Some (rv_finish_at rv), rs_action_type := Some (act_type (int_action i))\<rparr>;
          answered = ruled_intervention rv i final e;
          stopped = (ruling = ''allow'' \<and> le_executed e \<and> act_type (int_action i) = IT_STOP_AGENT)
      in bind_run
           (if \<not> stopped \<and> ses_status s \<noteq> SS_STOPPED
            then read_run rv 7 db (\<lambda>db. Inr (has_pending db (ses_id s) (int_id i)))
            else local_run db (Inr False)) (\<lambda>db pending.
         let current = lifecycle_session rv pending i s ruling e
         in bind_run
              (write_run rv 8 db
                (\<lambda>db. finalize_lifecycle (rv_codec rv) db answered current final (le_record_type e))
                (\<lambda>err. if le_cancelled e then Task_Cancelled else Store_Raised err)) (\<lambda>db recorded.
            bind_run
              (if le_cancelled e then local_run db (Inl Task_Cancelled)
               else read_run rv 9 db (\<lambda>db. Inr (persisted_session db current))) (\<lambda>db s.
            local_run db
              (Inr \<lparr>lr_intervention = answered, lr_session = s, lr_ruling = recorded, lr_executed = le_executed e,
                    lr_replayed = False\<rparr>)))))"

definition execute_run :: "resolver \<Rightarrow> store \<Rightarrow> intervention \<Rightarrow> execution run" where
  "execute_run rv db i =
     (case rv_execute rv db (int_action i) (int_id i) of
        (db', e) \<Rightarrow> (db', [Execute_Call (int_id i) (int_action i)], Inr e))"

definition apply_lifecycle ::
  "resolver \<Rightarrow> store \<Rightarrow> intervention \<Rightarrow> harness_session \<Rightarrow> resolution \<Rightarrow> string \<Rightarrow> lifecycle_result run" where
  "apply_lifecycle rv db i s x ruling =
     (if ruling = ''deny''
      then finish_lifecycle rv db i s x ruling denied_end
      else
        bind_run
          (write_run rv 6 db (\<lambda>db. start_lifecycle (rv_codec rv) (rv_boot rv) db (int_id i) (rv_start_at rv))
            (dispatch_error ''lifecycle_binding_changed_before_dispatch'')) (\<lambda>db started.
        case started of
          Dispatch_Refused y \<Rightarrow> local_run db (existing_lifecycle_result i s y ruling)
        | Dispatch_Granted y s' i' \<Rightarrow>
            bind_run (execute_run rv db i') (\<lambda>db e.
            finish_lifecycle rv db i' s' y ruling (executed_end (act_type (int_action i')) e))))"

definition check_pending_lifecycle :: "intervention \<Rightarrow> harness_session \<Rightarrow> bool \<Rightarrow> unit resolved" where
  "check_pending_lifecycle i s resuming =
     bind_resolved (reject_if (\<not> resuming \<and> \<not> is_pending_lifecycle i) 409 ''decision_not_pending_lifecycle''
       ''This intervention is not an unresolved lifecycle decision.'') (\<lambda>_. validate_binding i s ''lifecycle'')"

definition claim_lifecycle ::
  "resolver \<Rightarrow> store \<Rightarrow> intervention \<Rightarrow> harness_session \<Rightarrow> string \<Rightarrow> lifecycle_result run" where
  "claim_lifecycle rv db i s ruling =
     bind_run (local_run db (check_pending_lifecycle i s False)) (\<lambda>db _.
     bind_run
       (write_run rv 5 db
         (\<lambda>db. reserve_lifecycle (rv_codec rv) db (int_id i) (ses_id s) ruling (rv_reserve_at rv))
         (reservation_error ''lifecycle_binding_changed_before_reservation'')) (\<lambda>db (reserved, x).
     if \<not> reserved \<and> rs_status x \<noteq> ''reserved''
     then local_run db (existing_lifecycle_result i s x ruling)
     else apply_lifecycle rv db i s x ruling))"

definition settle_lifecycle ::
  "resolver \<Rightarrow> store \<Rightarrow> intervention \<Rightarrow> harness_session \<Rightarrow> string \<Rightarrow> resolution option \<Rightarrow> lifecycle_result run" where
  "settle_lifecycle rv db i s ruling existing =
     (case existing of
        None \<Rightarrow> claim_lifecycle rv db i s ruling
      | Some x \<Rightarrow>
          if rs_decision x \<noteq> ruling \<or> rs_status x \<noteq> ''reserved''
          then local_run db (existing_lifecycle_result i s x ruling)
          else bind_run (local_run db (check_pending_lifecycle i s True)) (\<lambda>db _. apply_lifecycle rv db i s x ruling))"

definition resolve_lifecycle :: "resolver \<Rightarrow> store \<Rightarrow> string \<Rightarrow> string \<Rightarrow> lifecycle_result run" where
  "resolve_lifecycle rv db identifier ruling =
     bind_run (check_lifecycle rv db identifier ruling) (\<lambda>db (i, s).
     bind_run (read_run rv 4 db (\<lambda>db. Inr (stored_ruling Lifecycle_Table db (int_id i)))) (\<lambda>db existing.
     settle_lifecycle rv db i s ruling existing))"

end
