(* ===== verification/Resolution_Effects.thy ===== *)
theory Resolution_Effects
  imports Decision_Resolution
begin

text \<open>
  What a run of \<open>decisions.py\<close> does outside the store is covered by the rulings of the store. The world around a
  resolver is any environment whose writes are steps of the ruling system of \<open>Ruling_Steps\<close> (other resolvers
  included) and which never rewrites the action of a stored intervention. A response to a harness or an execution
  of an action then rests on a grant of its own, and no other run is ever granted the same request or action.
\<close>

section \<open>Runs of the store around a resolver\<close>

definition reaches :: "codec \<Rightarrow> store \<Rightarrow> store \<Rightarrow> bool" where
  "reaches k db db' = (\<exists>es. runs (ruling_step k) db es db')"

text \<open>The action of a stored intervention is immutable.\<close>

definition keeps_actions :: "store \<Rightarrow> store \<Rightarrow> bool" where
  "keeps_actions db db' =
     (\<forall>i r. find_intervention_row db i = Some r \<longrightarrow>
        (\<exists>r'. find_intervention_row db' i = Some r' \<and> int_action (ir_payload r') = int_action (ir_payload r)))"

definition fair_world :: "resolver \<Rightarrow> bool" where
  "fair_world rv =
     ((\<forall>n db. reaches (rv_codec rv) db (rv_gap rv n db) \<and> keeps_actions db (rv_gap rv n db)) \<and>
      (\<forall>db a i. reaches (rv_codec rv) db (fst (rv_execute rv db a i))))"

definition sound_rulings :: "store \<Rightarrow> bool" where
  "sound_rulings db = (unique_rulings db \<and> clean_requests db)"

lemma reaches_refl [simp]: "reaches k db db"
  unfolding reaches_def by (blast intro: runs_Nil)

lemma reaches_trans: "reaches k a b \<Longrightarrow> reaches k b c \<Longrightarrow> reaches k a c"
  unfolding reaches_def by (blast intro: runs_append)

lemma reaches_step: "ruling_step k a e b \<Longrightarrow> reaches k a b"
  unfolding reaches_def by (blast intro: runs.intros)

lemma reaches_sound: "reaches k db db' \<Longrightarrow> sound_rulings db \<Longrightarrow> sound_rulings db'"
proof -
  have "runs (ruling_step k) db es db' \<Longrightarrow> sound_rulings db \<Longrightarrow> sound_rulings db'" for es
    by (induction rule: runs.induct)
      (auto simp: sound_rulings_def dest: ruling_step_follows rulings_follow_unique rulings_follow_clean)
  then show "reaches k db db' \<Longrightarrow> sound_rulings db \<Longrightarrow> sound_rulings db'" by (auto simp: reaches_def)
qed

lemma reaches_find:
  assumes "reaches k db db'" "find_ruling t db i = Some r"
  shows "\<exists>r'. find_ruling t db' i = Some r' \<and> row_follows r r'"
proof -
  have "runs (ruling_step k) db es db' \<Longrightarrow> find_ruling t db i = Some r \<Longrightarrow>
      \<exists>r'. find_ruling t db' i = Some r' \<and> row_follows r r'" for es
  proof (induction arbitrary: r rule: runs.induct)
    case (runs_Cons s e s' es u)
    then obtain r' where "find_ruling t s' i = Some r'" "row_follows r r'"
      using ruling_step_follows rulings_follow_find by blast
    moreover from this runs_Cons.IH obtain r'' where "find_ruling t u i = Some r''" "row_follows r' r''" by blast
    ultimately show ?case by (auto simp: row_follows_def)
  qed (simp add: row_follows_refl)
  with assms show ?thesis by (auto simp: reaches_def)
qed

lemma keeps_actions_refl [simp]: "keeps_actions db db"
  by (simp add: keeps_actions_def)

lemma keeps_actions_trans: "keeps_actions a b \<Longrightarrow> keeps_actions b c \<Longrightarrow> keeps_actions a c"
  unfolding keeps_actions_def by metis

definition moves :: "codec \<Rightarrow> store \<Rightarrow> store \<Rightarrow> bool" where
  "moves k db db' = (reaches k db db' \<and> keeps_actions db db')"

lemma moves_refl [simp]: "moves k db db"
  by (simp add: moves_def)

lemma moves_trans: "moves k a b \<Longrightarrow> moves k b c \<Longrightarrow> moves k a c"
  unfolding moves_def using reaches_trans keeps_actions_trans by blast

lemma fair_gap: "fair_world rv \<Longrightarrow> moves (rv_codec rv) db (rv_gap rv n db)"
  by (simp add: fair_world_def moves_def)

section \<open>Quiet runs\<close>

text \<open>A part of a resolver that makes no external call and leaves the store by steps of the ruling system.\<close>

definition quiet :: "(store \<Rightarrow> store \<Rightarrow> bool) \<Rightarrow> store \<Rightarrow> 'a run \<Rightarrow> bool" where
  "quiet rel db m = (rel db (fst m) \<and> fst (snd m) = [])"

lemma bind_run_simps [simp]:
  "bind_run (db, calls, Inl e) f = (db, calls, Inl e)"
  "bind_run (db, [], Inr x) f = f db x"
  by (auto simp: bind_run_def split: prod.splits)

lemma bind_run_cases:
  assumes "bind_run m f = (db', calls, r)"
  obtains (stop) e where "m = (db', calls, Inl e)" "r = Inl e"
  | (go) mid first x rest where "m = (mid, first, Inr x)" "f mid x = (db', rest, r)" "calls = first @ rest"
  using assms by (cases m) (auto simp: bind_run_def split: sum.splits prod.splits)

lemma quiet_local [simp]: "quiet rel db (local_run db r) = rel db db"
  by (simp add: quiet_def local_run_def)

lemma quiet_bind:
  assumes "quiet rel db m" and "\<And>mid x. m = (mid, [], Inr x) \<Longrightarrow> rel db mid \<Longrightarrow> quiet rel mid (f mid x)"
    and "\<And>a b c. rel a b \<Longrightarrow> rel b c \<Longrightarrow> rel a c"
  shows "quiet rel db (bind_run m f)"
proof -
  obtain mid calls r where m: "m = (mid, calls, r)" by (cases m) auto
  with assms(1) have q: "calls = []" "rel db mid" by (auto simp: quiet_def)
  show ?thesis
  proof (cases r)
    case (Inl e)
    with m q show ?thesis by (simp add: quiet_def)
  next
    case (Inr x)
    with m q assms(2) have "quiet rel mid (f mid x)" by simp
    with m q Inr assms(3) show ?thesis by (auto simp: quiet_def)
  qed
qed

lemma quiet_read: "fair_world rv \<Longrightarrow> quiet (moves (rv_codec rv)) db (read_run rv n db f)"
  by (simp add: quiet_def read_run_def Let_def fair_gap)

lemma quiet_write:
  assumes "fair_world rv" "\<And>seen x db'. f seen = Inr (x, db') \<Longrightarrow> moves (rv_codec rv) seen db'"
  shows "quiet (moves (rv_codec rv)) db (write_run rv n db f wrap)"
  using fair_gap [OF assms(1), of db n] assms(2)
  by (auto simp: quiet_def write_run_def Let_def split: sum.splits intro: moves_trans)

lemma quiet_reaches: "quiet (moves k) db m \<Longrightarrow> quiet (reaches k) db m"
  by (simp add: quiet_def moves_def)

lemma quiet_write_reaches:
  assumes "fair_world rv" "\<And>seen x db'. f seen = Inr (x, db') \<Longrightarrow> reaches (rv_codec rv) seen db'"
  shows "quiet (reaches (rv_codec rv)) db (write_run rv n db f wrap)"
  using fair_gap [OF assms(1), of db n] assms(2)
  by (auto simp: quiet_def write_run_def Let_def moves_def split: sum.splits intro: reaches_trans)

lemma quiet_finish_permission:
  assumes "fair_world rv"
  shows "quiet (reaches (rv_codec rv)) db (finish_permission rv db i x request ruling d)"
proof -
  have "permission_status d \<in> set permission_outcomes"
    by (simp add: permission_status_def permission_outcomes_def)
  then show ?thesis
    unfolding finish_permission_def Let_def
    by (intro quiet_bind quiet_write_reaches assms)
      (auto intro: reaches_trans reaches_step finalize_permission_step quiet_reaches quiet_read assms)
qed

lemma quiet_finish_lifecycle:
  assumes "fair_world rv"
  shows "quiet (reaches (rv_codec rv)) db (finish_lifecycle rv db i s x ruling e)"
  unfolding finish_lifecycle_def Let_def
  by (intro quiet_bind quiet_write_reaches assms)
    (auto intro: reaches_trans reaches_step finalize_lifecycle_step quiet_reaches quiet_read assms)

lemma quiet_check_permission:
  assumes "fair_world rv"
  shows "quiet (moves (rv_codec rv)) db (check_permission rv db identifier ruling)"
  unfolding check_permission_def
  by (intro quiet_bind) (auto intro!: quiet_bind quiet_read assms intro: moves_trans)

lemma quiet_check_lifecycle:
  assumes "fair_world rv"
  shows "quiet (moves (rv_codec rv)) db (check_lifecycle rv db identifier ruling)"
  unfolding check_lifecycle_def
  by (intro quiet_bind) (auto intro!: quiet_bind quiet_read assms intro: moves_trans)

section \<open>What is delivered\<close>

definition shows_action :: "store \<Rightarrow> intervention \<Rightarrow> bool" where
  "shows_action db i =
     (\<exists>r. find_intervention_row db (int_id i) = Some r \<and> int_action (ir_payload r) = int_action i)"

lemma shows_action_moves: "shows_action db i \<Longrightarrow> moves k db db' \<Longrightarrow> shows_action db' i"
  unfolding shows_action_def moves_def keeps_actions_def by metis

lemma load_intervention_shows:
  assumes "load_intervention k db identifier live changed = Inr i"
  shows "shows_action db i \<and> int_id i = identifier"
proof -
  from assms obtain bi where "load_bound_intervention k db identifier live = Inr bi" "i = bi_intervention bi"
    by (auto simp: load_intervention_def bind_stored_Inr_iff split: sum.splits store_error.splits)
  with load_bound_intervention_Inr show ?thesis unfolding shows_action_def by fastforce
qed

lemma bind_run_Inr:
  assumes "bind_run m f = (db', calls, Inr y)"
  obtains mid first x rest where "m = (mid, first, Inr x)" "f mid x = (db', rest, Inr y)" "calls = first @ rest"
  using assms by (rule bind_run_cases) auto

lemma read_run_result: "read_run rv n db f = (db', calls, r) \<longleftrightarrow> db' = rv_gap rv n db \<and> calls = [] \<and> f db' = r"
  by (auto simp: read_run_def Let_def)

lemma local_run_result [simp]: "local_run db r = (db', calls, r') \<longleftrightarrow> db' = db \<and> calls = [] \<and> r = r'"
  by (auto simp: local_run_def)

lemma check_permission_shows:
  assumes "fair_world rv" "check_permission rv db identifier ruling = (db', calls, Inr (i, s))"
  shows "shows_action db' i \<and> int_id i = identifier"
proof (cases "ruling = ''deny''")
  case True
  with assms(2) have "load_intervention (rv_codec rv) (rv_gap rv 1 db) identifier False ''permission_binding_changed'' = Inr i"
    "db' = rv_gap rv 2 (rv_gap rv 1 db)"
    by (auto simp: check_permission_def read_run_result local_run_result intervention_for_classification_def
        elim!: bind_run_Inr)
  with load_intervention_shows shows_action_moves fair_gap [OF assms(1)] show ?thesis by blast
next
  case False
  with assms(2) obtain mid where "load_intervention (rv_codec rv) mid identifier True ''decision_binding_changed'' = Inr i"
    "db' = rv_gap rv 3 mid"
    by (auto simp: check_permission_def read_run_result local_run_result intervention_for_authority_def
        elim!: bind_run_Inr)
  with load_intervention_shows shows_action_moves fair_gap [OF assms(1)] show ?thesis by blast
qed

text \<open>A granted permission names the request in the action of the intervention and goes to its session.\<close>

lemma start_permission_request:
  assumes "start_permission k boot db identifier now = Inr (Dispatch_Granted x s v, db')"
    and "shows_action db i" "int_id i = identifier" "clean_requests db"
  shows "ses_id s = rs_session_id x \<and> rs_request_id x = Some (request_text k i)"
proof -
  from assms(1) obtain br0 where br0: "load_bound_resolution k db Permission_Table identifier False False = Inr br0"
    and reload: "bind_stored (reload_authority k db Permission_Table identifier br0 (rs_authority_reducing (br_record br0)))
      (\<lambda>(now_br, key). grant_dispatch db Permission_Table identifier boot now now_br key) =
      Inr (Dispatch_Granted x s v, db')"
    by (auto simp: start_permission_def Let_def bind_stored_Inr_iff split: if_splits)
  from reload obtain br key live snapshot where
    br: "load_bound_resolution k db Permission_Table identifier live snapshot = Inr br"
    and g: "grant_dispatch db Permission_Table identifier boot now br key = Inr (Dispatch_Granted x s v, db')"
    using br0 reload_authority_Inr
    by (auto simp: bind_stored_Inr_iff) metis
  have x: "x = dispatching (bc_version (rr_columns (br_row br))) boot now (br_record br)" "s = bi_session (br_bound br)"
    using grant_dispatch_Inr [OF g] by auto
  have loaded: "load_bound_intervention k db identifier live = Inr (br_bound br)"
    "check_ruling_action Permission_Table (br_record br) (bi_intervention (br_bound br)) = Inr ()"
    "find_ruling Permission_Table db identifier = Some (br_row br)"
    using load_bound_resolution_Inr [OF br] by blast+
  have session: "rr_session_id (br_row br) = int_session_id (bi_intervention (br_bound br))"
    using br by (auto simp: load_bound_resolution_def Let_def bind_stored_Inr_iff split: option.splits)
  have "br_row br \<in> set (permission_rows db)" using loaded(3) by (auto simp: find_ruling_def dest: find_Some)
  with assms(4) have clean: "clean_request Permission_Table (br_row br)"
    unfolding clean_requests_def by (metis ruling_rows.simps(1))
  then obtain q where q: "rr_request_id (br_row br) = Some q" "strip q = q" by (auto simp: clean_request_def)
  have recorded: "rs_request_id (br_record br) = Some q" "rs_session_id (br_record br) = rr_session_id (br_row br)"
    using load_bound_resolution_record [OF br] q by auto
  have action: "int_action (bi_intervention (br_bound br)) = int_action i"
    using load_bound_intervention_Inr [OF loaded(1)] assms(2,3) by (auto simp: shows_action_def)
  have "dict_get (act_payload (int_action i)) ''request_id'' = PStr q"
    using loaded(2) by (simp add: check_ruling_action_def recorded action)
  then have "request_text k i = q"
    using q(2) by (simp add: request_text_def str_or_empty_def strip_fixed)
  moreover have "ses_id s = rs_session_id x" "rs_request_id x = Some q"
    using load_bound_intervention_Inr [OF loaded(1)] session recorded by (simp_all add: x dispatching_def)
  ultimately show ?thesis by simp
qed

lemma deliver_permission_calls:
  assumes "deliver_permission rv s request ruling = (calls, d)"
  shows "calls \<in> {[], [Probe_Call], [Probe_Call, Respond_Call (ses_id s) request ruling]}"
  using assms
  by (auto simp: deliver_permission_def Let_def split: option.splits probe_outcome.splits reply_outcome.splits if_splits)

text \<open>The external calls of a run, all under one grant of its own.\<close>

definition backed ::
  "resolver \<Rightarrow> store \<Rightarrow> ruling_table \<Rightarrow> string \<times> string option \<Rightarrow> external_call list \<Rightarrow> 'a run \<Rightarrow> bool" where
  "backed rv db table key expected m =
     (case m of (db', calls, r) \<Rightarrow>
        calls = expected \<and>
        (\<exists>es x es'. runs (ruling_step (rv_codec rv)) db (es @ Grant table x # es') db' \<and> ruling_key table x = key))"

lemma backed_before:
  assumes "reaches (rv_codec rv) db mid" "backed rv mid table key expected m"
  shows "backed rv db table key expected m"
proof -
  obtain db' calls r where m: "m = (db', calls, r)" by (cases m) auto
  obtain es0 where "runs (ruling_step (rv_codec rv)) db es0 mid" using assms(1) by (auto simp: reaches_def)
  moreover obtain es x es' where "runs (ruling_step (rv_codec rv)) mid (es @ Grant table x # es') db'"
    "ruling_key table x = key"
    using assms(2) by (auto simp: backed_def m)
  ultimately have "runs (ruling_step (rv_codec rv)) db ((es0 @ es) @ Grant table x # es') db'"
    "ruling_key table x = key" by (simp_all add: runs_append)
  then have "\<exists>es x es'. runs (ruling_step (rv_codec rv)) db (es @ Grant table x # es') db' \<and> ruling_key table x = key"
    by blast
  with assms(2) show ?thesis unfolding backed_def m by simp
qed

lemma backed_grant:
  assumes "reaches (rv_codec rv) db seen" "ruling_step (rv_codec rv) seen (Grant table x) mid"
    "reaches (rv_codec rv) mid db'" "ruling_key table x = key"
  shows "backed rv db table key calls (db', calls, r)"
proof -
  from assms(1,3) obtain es es' where "runs (ruling_step (rv_codec rv)) db es seen"
    "runs (ruling_step (rv_codec rv)) mid es' db'" by (auto simp: reaches_def)
  with assms(2) have "runs (ruling_step (rv_codec rv)) db (es @ Grant table x # es') db'"
    by (blast intro: runs_append runs_Cons)
  with assms(4) show ?thesis unfolding backed_def by auto
qed

lemma dispatch_permission_parts:
  assumes "fair_world rv" "dispatch_permission rv db i s request ruling = (db', calls, r)" "calls \<noteq> []"
  obtains x s' v mid d where
    "start_permission (rv_codec rv) (rv_boot rv) (rv_gap rv 6 db) (int_id i) (rv_start_at rv) =
      Inr (Dispatch_Granted x s' v, mid)"
    "deliver_permission rv s' request ruling = (calls, d)" "reaches (rv_codec rv) mid db'"
proof -
  from assms(2,3) obtain x s' v mid first d rest where
    start: "start_permission (rv_codec rv) (rv_boot rv) (rv_gap rv 6 db) (int_id i) (rv_start_at rv) =
      Inr (Dispatch_Granted x s' v, mid)"
    and deliver: "deliver_permission rv s' request ruling = (first, d)"
    and finish: "finish_permission rv mid v x request ruling d = (db', rest, r)" and calls: "calls = first @ rest"
    unfolding dispatch_permission_def write_run_def Let_def
    by (auto simp: local_run_result call_run_def split: sum.splits start_result.splits prod.splits
        elim!: bind_run_cases)
  have "rest = []" "reaches (rv_codec rv) mid db'"
    using quiet_finish_permission [OF assms(1), of mid v x request ruling d] by (simp_all add: quiet_def finish)
  with that start deliver calls show thesis by simp
qed

lemma dispatch_permission_backed:
  assumes "fair_world rv" "shows_action db i" "sound_rulings db" "request = request_text (rv_codec rv) i"
    and run: "dispatch_permission rv db i s request ruling = (db', calls, r)" and call: "c \<in> set calls"
  shows "c = Probe_Call \<or> (\<exists>ses q. c = Respond_Call ses q ruling \<and>
    backed rv db Permission_Table (ses, Some q) [Probe_Call, Respond_Call ses q ruling] (db', calls, r))"
proof -
  from call have "calls \<noteq> []" by auto
  with assms(1) run obtain x s' v mid d where
    start: "start_permission (rv_codec rv) (rv_boot rv) (rv_gap rv 6 db) (int_id i) (rv_start_at rv) =
      Inr (Dispatch_Granted x s' v, mid)"
    and deliver: "deliver_permission rv s' request ruling = (calls, d)" and reach: "reaches (rv_codec rv) mid db'"
    by (rule dispatch_permission_parts)
  have seen: "moves (rv_codec rv) db (rv_gap rv 6 db)" using fair_gap [OF assms(1)] .
  have "sound_rulings (rv_gap rv 6 db)" using reaches_sound seen assms(3) unfolding moves_def by blast
  then have "ses_id s' = rs_session_id x \<and> rs_request_id x = Some request"
    using start_permission_request [OF start shows_action_moves [OF assms(2) seen] refl] assms(4)
    unfolding sound_rulings_def by blast
  then have key: "ruling_key Permission_Table x = (ses_id s', Some request)" by (simp add: ruling_key_def)
  have "backed rv db Permission_Table (ses_id s', Some request) calls (db', calls, r)"
    using seen reach key unfolding moves_def by (blast intro: backed_grant grant_permission_step [OF start])
  with deliver_permission_calls [OF deliver] call show ?thesis by (cases c) auto
qed

lemma quiet_calls: "quiet rel db m \<Longrightarrow> m = (mid, calls, r) \<Longrightarrow> rel db mid \<and> calls = []"
  by (simp add: quiet_def)

lemma check_request_Inr: "check_request rv i s resuming = Inr request \<Longrightarrow> request = request_text (rv_codec rv) i"
  by (auto simp: check_request_def bind_resolved_Inr_iff Let_def)

lemma reserve_keeps_interventions:
  "reserve_permission k db i s r d now = Inr (y, db') \<Longrightarrow> find_intervention_row db' = find_intervention_row db"
  "reserve_lifecycle k db i s d now = Inr (y, db') \<Longrightarrow> find_intervention_row db' = find_intervention_row db"
  by (auto simp: reserve_permission_def reserve_lifecycle_def bind_stored_Inr_iff Let_def find_intervention_row_def
      fun_eq_iff split: list.splits option.splits)

lemma moves_reserve:
  "reserve_permission k db i s r d now = Inr (y, db') \<Longrightarrow> moves k db db'"
  "reserve_lifecycle k db i s d now = Inr (y, db') \<Longrightarrow> moves k db db'"
  using reserve_keeps_interventions [of k db]
  by (cases y; auto simp: moves_def keeps_actions_def intro!: reaches_step intro: ruling_step.intros)+

lemma bind_quiet:
  assumes "bind_run m f = (db', calls, r)" "calls \<noteq> []" "quiet (moves k) db m"
  obtains mid x where "m = (mid, [], Inr x)" "moves k db mid" "f mid x = (db', calls, r)"
  using assms(1)
proof (cases rule: bind_run_cases)
  case (stop e)
  with assms(2,3) show thesis by (simp add: quiet_def)
next
  case (go mid first x rest)
  with assms(2,3) that show thesis by (simp add: quiet_def)
qed

lemma quiet_local_move: "quiet (moves k) db (local_run db r)"
  by simp

text \<open>
  What an external effect rests on: the table and the key of its grant, and all the calls of the run that has it.
\<close>

fun backing :: "external_call \<Rightarrow> (ruling_table \<times> (string \<times> string option) \<times> external_call list) option" where
  "backing Probe_Call = None"
| "backing (Respond_Call ses q ans) = Some (Permission_Table, (ses, Some q), [Probe_Call, Respond_Call ses q ans])"
| "backing (Execute_Call i a) = Some (Lifecycle_Table, (i, None), [Execute_Call i a])"

fun permitted_call :: "string \<Rightarrow> external_call \<Rightarrow> bool" where
  "permitted_call ruling Probe_Call = True"
| "permitted_call ruling (Respond_Call ses q ans) = (ans = ruling)"
| "permitted_call ruling (Execute_Call i a) = False"

fun execution_of :: "string \<Rightarrow> external_call \<Rightarrow> bool" where
  "execution_of identifier (Execute_Call i a) = (i = identifier)"
| "execution_of identifier c = False"

definition effects_backed :: "resolver \<Rightarrow> store \<Rightarrow> (external_call \<Rightarrow> bool) \<Rightarrow> 'a run \<Rightarrow> bool" where
  "effects_backed rv db good m =
     (\<forall>c \<in> set (fst (snd m)). good c \<and>
        (case backing c of None \<Rightarrow> True | Some (table, key, expected) \<Rightarrow> backed rv db table key expected m))"

lemma effects_quiet: "fst (snd m) = [] \<Longrightarrow> effects_backed rv db good m"
  by (simp add: effects_backed_def)

lemma effects_bind:
  assumes "quiet (moves (rv_codec rv)) db m"
    and "\<And>mid x. m = (mid, [], Inr x) \<Longrightarrow> moves (rv_codec rv) db mid \<Longrightarrow> effects_backed rv mid good (f mid x)"
  shows "effects_backed rv db good (bind_run m f)"
proof (cases "fst (snd (bind_run m f)) = []")
  case False
  obtain db' calls r where b: "bind_run m f = (db', calls, r)" by (cases "bind_run m f") auto
  with False have "calls \<noteq> []" by simp
  from bind_quiet [OF b this assms(1)] obtain mid x where
    m: "m = (mid, [], Inr x)" "moves (rv_codec rv) db mid" "f mid x = (db', calls, r)" .
  with assms(2) have "effects_backed rv mid good (bind_run m f)" using b by metis
  moreover have "reaches (rv_codec rv) db mid" using m(2) by (simp add: moves_def)
  ultimately show ?thesis
    unfolding effects_backed_def by (auto split: option.splits intro: backed_before)
qed (rule effects_quiet)

lemma dispatch_permission_answers:
  assumes "fair_world rv" "shows_action db i" "sound_rulings db" "request = request_text (rv_codec rv) i"
  shows "effects_backed rv db (permitted_call ruling) (dispatch_permission rv db i s request ruling)"
proof -
  obtain db' calls r where run: "dispatch_permission rv db i s request ruling = (db', calls, r)"
    by (cases "dispatch_permission rv db i s request ruling") auto
  have "permitted_call ruling c \<and> (case backing c of None \<Rightarrow> True | Some (table, key, expected) \<Rightarrow>
      backed rv db table key expected (db', calls, r))" if "c \<in> set calls" for c
    using dispatch_permission_backed [OF assms run that] by auto
  then show ?thesis unfolding effects_backed_def run by simp
qed

lemma moves_sound: "moves k db db' \<Longrightarrow> sound_rulings db \<Longrightarrow> sound_rulings db'"
  unfolding moves_def using reaches_sound by blast

lemma local_run_calls [simp]: "fst (snd (local_run db r)) = []"
  by (simp add: local_run_def)

lemma claim_permission_answers:
  assumes "fair_world rv" "shows_action db i" "sound_rulings db"
  shows "effects_backed rv db (permitted_call ruling) (claim_permission rv db i s ruling)"
  unfolding claim_permission_def
proof (rule effects_bind [OF quiet_local_move], rule effects_bind [OF quiet_write [OF assms(1) moves_reserve(1)]], assumption)
  fix mid1 mid2 request and y :: "bool \<times> resolution"
  assume "local_run db (check_request rv i s False) = (mid1, [], Inr request)" "moves (rv_codec rv) db mid1"
    "moves (rv_codec rv) mid1 mid2"
  moreover from this have "request = request_text (rv_codec rv) i" by (auto dest: check_request_Inr)
  ultimately show "effects_backed rv mid2 (permitted_call ruling) (case y of (reserved, x) \<Rightarrow>
      if \<not> reserved \<and> rs_status x \<noteq> ''reserved'' then local_run mid2 (existing_permission_result i s x ruling)
      else dispatch_permission rv mid2 i s request ruling)"
    using assms dispatch_permission_answers [OF assms(1), of mid2 i request]
    by (auto simp: effects_quiet [of "local_run _ _"] split: prod.splits intro: shows_action_moves moves_sound)
qed

lemma settle_permission_answers:
  assumes "fair_world rv" "shows_action db i" "sound_rulings db"
  shows "effects_backed rv db (permitted_call ruling) (settle_permission rv db i s ruling existing)"
proof (cases existing)
  case None
  with claim_permission_answers [OF assms] show ?thesis by (simp add: settle_permission_def)
next
  case (Some x)
  have "effects_backed rv db (permitted_call ruling) (bind_run (local_run db (check_request rv i s True)) (\<lambda>db request.
      dispatch_permission rv db i s request ruling))"
    using assms check_request_Inr
    by (intro effects_bind quiet_local_move dispatch_permission_answers) auto
  with Some show ?thesis by (simp add: settle_permission_def effects_quiet local_run_def)
qed

lemma resolve_permission_answers:
  assumes "fair_world rv" "sound_rulings db"
  shows "effects_backed rv db (permitted_call ruling) (resolve_permission rv db identifier ruling)"
  unfolding resolve_permission_def
proof (rule effects_bind [OF quiet_check_permission [OF assms(1)]])
  fix mid :: store and x :: "intervention \<times> harness_session"
  assume x: "check_permission rv db identifier ruling = (mid, [], Inr x)" "moves (rv_codec rv) db mid"
  obtain i s where y: "x = (i, s)" by (cases x)
  have "shows_action mid i" "sound_rulings mid"
    using check_permission_shows [OF assms(1) x(1) [unfolded y]] moves_sound [OF x(2) assms(2)] by auto
  then show "effects_backed rv mid (permitted_call ruling) (case x of (i, s) \<Rightarrow>
      bind_run (read_run rv 4 mid (\<lambda>db. Inr (stored_ruling Permission_Table db (int_id i)))) (\<lambda>db existing.
      settle_permission rv db i s ruling existing))"
    unfolding y prod.case
    by (intro effects_bind quiet_read assms settle_permission_answers) (auto intro: shows_action_moves moves_sound)
qed

section \<open>What is executed\<close>

lemma start_lifecycle_action:
  assumes "start_lifecycle k boot db identifier now = Inr (Dispatch_Granted x s v, db')"
  shows "int_id v = identifier \<and> ruling_key Lifecycle_Table x = (identifier, None)"
proof -
  from assms obtain br0 where br0: "load_bound_resolution k db Lifecycle_Table identifier False False = Inr br0"
    and reload: "bind_stored (reload_authority k db Lifecycle_Table identifier br0
        (act_type (int_action (bi_intervention (br_bound br0))) = IT_STOP_AGENT))
      (\<lambda>(now_br, key). grant_dispatch db Lifecycle_Table identifier boot now now_br key) =
      Inr (Dispatch_Granted x s v, db')"
    by (auto simp: start_lifecycle_def Let_def bind_stored_Inr_iff split: if_splits)
  from reload obtain br key live snapshot where
    br: "load_bound_resolution k db Lifecycle_Table identifier live snapshot = Inr br"
    and g: "grant_dispatch db Lifecycle_Table identifier boot now br key = Inr (Dispatch_Granted x s v, db')"
    using br0 reload_authority_Inr
    by (auto simp: bind_stored_Inr_iff) metis
  have "load_bound_intervention k db identifier live = Inr (br_bound br)"
    using load_bound_resolution_Inr [OF br] by blast
  then have "int_id (bi_intervention (br_bound br)) = identifier" using load_bound_intervention_Inr by blast
  moreover have "v = bi_intervention (br_bound br)" using grant_dispatch_Inr [OF g] by auto
  moreover have "rs_intervention_id x = identifier"
    using start_lifecycle_granted [OF assms] unfolding granted_from_def by blast
  ultimately show ?thesis by (simp add: ruling_key_def)
qed

lemma apply_lifecycle_parts:
  assumes "fair_world rv" "apply_lifecycle rv db i s x ruling = (db', calls, r)" "calls \<noteq> []"
  obtains y s' v mid where
    "start_lifecycle (rv_codec rv) (rv_boot rv) (rv_gap rv 6 db) (int_id i) (rv_start_at rv) =
      Inr (Dispatch_Granted y s' v, mid)"
    "calls = [Execute_Call (int_id v) (int_action v)]" "reaches (rv_codec rv) mid db'"
proof -
  have "ruling \<noteq> ''deny''"
    using assms quiet_finish_lifecycle [OF assms(1), of db i s x ruling denied_end]
    by (auto simp: apply_lifecycle_def quiet_def)
  with assms(2,3) obtain y s' v mid ran e rest where
    start: "start_lifecycle (rv_codec rv) (rv_boot rv) (rv_gap rv 6 db) (int_id i) (rv_start_at rv) =
      Inr (Dispatch_Granted y s' v, mid)"
    and execute: "rv_execute rv mid (int_action v) (int_id v) = (ran, e)"
    and finish: "finish_lifecycle rv ran v s' y ruling (executed_end (act_type (int_action v)) e) = (db', rest, r)"
    and calls: "calls = Execute_Call (int_id v) (int_action v) # rest"
    unfolding apply_lifecycle_def write_run_def execute_run_def Let_def
    by (auto simp: local_run_result split: sum.splits start_result.splits prod.splits elim!: bind_run_cases) blast+
  have "rest = []" "reaches (rv_codec rv) ran db'"
    using quiet_finish_lifecycle [OF assms(1), of ran v s' y ruling "executed_end (act_type (int_action v)) e"]
    by (simp_all add: quiet_def finish)
  moreover have "reaches (rv_codec rv) mid (fst (rv_execute rv mid (int_action v) (int_id v)))"
    using assms(1) unfolding fair_world_def by blast
  ultimately show thesis using that [OF start] calls execute by (auto intro: reaches_trans)
qed

lemma apply_lifecycle_effects:
  assumes "fair_world rv"
  shows "effects_backed rv db (execution_of (int_id i)) (apply_lifecycle rv db i s x ruling)"
proof -
  obtain db' calls r where run: "apply_lifecycle rv db i s x ruling = (db', calls, r)"
    by (cases "apply_lifecycle rv db i s x ruling") auto
  show ?thesis
  proof (cases "calls = []")
    case False
    from assms run False obtain y s' v mid where
      start: "start_lifecycle (rv_codec rv) (rv_boot rv) (rv_gap rv 6 db) (int_id i) (rv_start_at rv) =
        Inr (Dispatch_Granted y s' v, mid)"
      and calls: "calls = [Execute_Call (int_id v) (int_action v)]" and reach: "reaches (rv_codec rv) mid db'"
      by (rule apply_lifecycle_parts)
    have key: "int_id v = int_id i" "ruling_key Lifecycle_Table y = (int_id i, None)"
      using start_lifecycle_action [OF start] by auto
    have "backed rv db Lifecycle_Table (int_id i, None) calls (db', calls, r)"
      using fair_gap [OF assms, of db 6] reach key(2) unfolding moves_def
      by (blast intro: backed_grant grant_lifecycle_step [OF start])
    with calls key(1) show ?thesis by (simp add: effects_backed_def run)
  qed (simp add: effects_quiet run)
qed

lemma settle_lifecycle_effects:
  assumes "fair_world rv"
  shows "effects_backed rv db (execution_of (int_id i)) (settle_lifecycle rv db i s ruling existing)"
proof (cases existing)
  case None
  have "effects_backed rv db (execution_of (int_id i)) (claim_lifecycle rv db i s ruling)"
    unfolding claim_lifecycle_def
    by (intro effects_bind quiet_local_move quiet_write assms)
      (auto simp: effects_quiet apply_lifecycle_effects assms split: prod.splits dest: moves_reserve(2))
  with None show ?thesis by (simp add: settle_lifecycle_def)
next
  case (Some x)
  have "effects_backed rv db (execution_of (int_id i))
      (bind_run (local_run db (check_pending_lifecycle i s True)) (\<lambda>db _. apply_lifecycle rv db i s x ruling))"
    by (intro effects_bind quiet_local_move apply_lifecycle_effects assms)
  with Some show ?thesis by (simp add: settle_lifecycle_def effects_quiet)
qed

lemma check_lifecycle_target:
  assumes "check_lifecycle rv db identifier ruling = (db', calls, Inr (i, s))"
  shows "int_id i = identifier"
  using assms
  by (auto simp: check_lifecycle_def read_run_result local_run_result intervention_for_classification_def
      intervention_for_authority_def elim!: bind_run_Inr dest!: load_intervention_shows split: if_splits)

lemma resolve_lifecycle_effects:
  assumes "fair_world rv"
  shows "effects_backed rv db (execution_of identifier) (resolve_lifecycle rv db identifier ruling)"
  unfolding resolve_lifecycle_def
proof (rule effects_bind [OF quiet_check_lifecycle [OF assms]])
  fix mid :: store and x :: "intervention \<times> harness_session"
  assume x: "check_lifecycle rv db identifier ruling = (mid, [], Inr x)"
  obtain i s where y: "x = (i, s)" by (cases x)
  have "int_id i = identifier" using check_lifecycle_target [OF x [unfolded y]] .
  then show "effects_backed rv mid (execution_of identifier) (case x of (i, s) \<Rightarrow>
      bind_run (read_run rv 4 mid (\<lambda>db. Inr (stored_ruling Lifecycle_Table db (int_id i)))) (\<lambda>db existing.
      settle_lifecycle rv db i s ruling existing))"
    unfolding y prod.case using settle_lifecycle_effects [OF assms]
    by (intro effects_bind quiet_read assms) auto
qed

text \<open>A grant behind an effect is the only one for its key in the whole history of the store.\<close>

lemma backed_is_alone:
  assumes "backed rv db table key expected (db', calls, r)" "sound_rulings db"
  shows "calls = expected \<and> \<not> ruling_open table db' key \<and>
    (\<exists>es x es'. runs (ruling_step (rv_codec rv)) db (es @ Grant table x # es') db' \<and> ruling_key table x = key \<and>
       (\<forall>e \<in> set (es @ es'). \<not> grants_ruling table e key))"
proof -
  from assms(1) obtain es x es' where calls: "calls = expected"
    and r: "runs (ruling_step (rv_codec rv)) db (es @ Grant table x # es') db'" "ruling_key table x = key"
    unfolding backed_def by auto
  have "unique_rulings db" "grants_ruling table (Grant table x) key"
    using assms(2) r(2) by (simp_all add: sound_rulings_def grants_ruling_def)
  from ruling.grant_is_alone [OF r(1) this] calls r show ?thesis by blast
qed

end
