(* ===== verification/Resolution_Safety.thy ===== *)
theory Resolution_Safety
  imports Resolution_Effects
begin

text \<open>
  The properties of the resolvers of \<open>decisions.py\<close>, shown to apply on a run in which another process denies the
  same request between this call's look for a ruling and its reservation. The run ends with the other process's
  denial on record and an allow sent to the harness: \<open>resolve_permission_decision\<close> dispatches a reservation that is
  not its own without comparing the two rulings.
\<close>

section \<open>A raced request\<close>

definition racing_capabilities :: adapter_capabilities where
  "racing_capabilities =
     \<lparr>granted = [''approve'', ''deny''], response_mode = PRM_ASYNC, config_scope = [], granularity = CG_SESSION,
      trust_level = 1, support_label = ASL_DEEP, cap_notes = []\<rparr>"

definition racing_adapter :: permission_adapter where
  "racing_adapter =
     \<lparr>pa_name = ''codex'', pa_probe = Probed racing_capabilities, pa_respond = (\<lambda>_ _ _. Replied True)\<rparr>"

text \<open>Before the fifth transaction, the reservation, another call reserves the denial.\<close>

definition racing_gap :: "nat \<Rightarrow> store \<Rightarrow> store" where
  "racing_gap n db =
     (if n = 5
      then (case reserve_permission example_codec db ''i1'' ''s1'' ''r1'' ''deny'' (Aware 1 0) of
              Inl _ \<Rightarrow> db | Inr (_, db') \<Rightarrow> db')
      else db)"

definition racing_resolver :: resolver where
  "racing_resolver =
     \<lparr>rv_codec = example_codec, rv_boot = ''boot'', rv_gap = racing_gap, rv_reserve_at = Aware 1 0,
      rv_start_at = Aware 2 0, rv_finish_at = Aware 3 0, rv_adapter = (\<lambda>_. Some racing_adapter),
      rv_execute = (\<lambda>db a i. (db, Executed ''agent_stopped'')), rv_ruling_json = (\<lambda>_. []),
      rv_capabilities_json = (\<lambda>_. [])\<rparr>"

definition denied_ruling :: resolution where
  "denied_ruling =
     new_ruling example_codec Permission_Table (example_bound ''r1'') (containment_snapshot (\<lambda>_. example_sha) ''/work'')
       (Some ''r1'') ''deny'' (Aware 1 0) True"

lemma racing_fair: "fair_world racing_resolver"
proof -
  have "moves example_codec db (racing_gap n db)" for n db
    by (auto simp: racing_gap_def split: sum.splits dest: moves_reserve(1))
  then show ?thesis by (simp add: fair_world_def racing_resolver_def moves_def)
qed

lemma example_sound: "sound_rulings (example_store request [])"
proof -
  have "ruling_rows t (example_store request []) = []" for t by (cases t) (simp_all add: example_store_def)
  then show ?thesis by (simp add: sound_rulings_def unique_rulings_def clean_requests_def)
qed

lemma example_bound_fields:
  "bi_intervention (example_bound request) = example_ask request" "bi_session (example_bound request) = example_session"
  "bi_goal (example_bound request) = example_goal" "bi_binding (example_bound request) = example_binding"
  by (simp_all add: example_bound_def)

lemma example_ask_fields:
  "int_id (example_ask request) = ''i1''" "int_session_id (example_ask request) = ''s1''"
  "int_goal_id (example_ask request) = Some ''g1''" "act_type (int_action (example_ask request)) = IT_RESPOND_PERMISSION"
  "dict_get (act_payload (int_action (example_ask request))) ''request_id'' = PStr request"
  "act_session_id (int_action (example_ask request)) = ''s1''" "act_goal_id (int_action (example_ask request)) = Some ''g1''"
  "is_pending_permission (example_ask request)" "int_metadata (example_ask request) = []"
  by (simp_all add: example_ask_def is_pending_permission_def)

lemma denied_fields:
  "rs_intervention_id denied_ruling = ''i1''" "rs_session_id denied_ruling = ''s1''" "rs_goal_id denied_ruling = ''g1''"
  "rs_dispatch_binding denied_ruling = containment_snapshot (\<lambda>_. example_sha) ''/work''"
  "rs_request_id denied_ruling = Some ''r1''" "rs_decision denied_ruling = ''deny''"
  "rs_status denied_ruling = ''reserved''" "rs_authority_reducing denied_ruling = True"
  "rs_intervention_binding denied_ruling = decision_intervention_binding (example_ask ''r1'')"
  "rs_session_binding denied_ruling = decision_session_binding example_session"
  "rs_goal_binding denied_ruling = (''g1'', ''/work'')"
  "rs_columns denied_ruling = \<lparr>bc_project = Some ''/work'', bc_binding = Some example_key, bc_vendor = Some ''v1'',
     bc_harness = Some ''codex'', bc_hash = Some example_sha, bc_version = 0\<rparr>"
  by (simp_all add: denied_ruling_def new_ruling_def Let_def example_bound_fields example_ask_fields example_session_fields
      example_goal_fields example_binding_def intervention_action_hash_def example_codec_def)

abbreviation raced_store :: store where
  "raced_store \<equiv> example_store ''r1'' [ruling_row denied_ruling]"

lemma r1_strip: "strip ''r1'' = ''r1''"
  by code_simp

lemma example_target: "permission_target example_codec (example_ask ''r1'') ''s1'' ''r1''"
  by (simp add: permission_target_def Let_def example_ask_def request_text_def str_or_empty_def r1_strip)

lemma denial_reserved:
  "reserve_permission example_codec (example_store ''r1'' []) ''i1'' ''s1'' ''r1'' ''deny'' (Aware 1 0) =
    Inr ((True, denied_ruling), raced_store)"
proof -
  have rows: "permission_rows (example_store ''r1'' []) = []" by (simp add: example_store_def)
  have insert: "(example_store ''r1'' [])\<lparr>permission_rows := rs\<rparr> = example_store ''r1'' rs" for rs
    by (simp add: example_store_def)
  show ?thesis
    using example_target
    by (simp add: reserve_permission_def bad_id_def by_id_def rows example_bound_intervention closed_status_def
        observed_only_def example_session_fields example_bound_fields insert Let_def authorize_ruling_def example_project
        denied_ruling_def) (simp add: example_codec_def)
qed

lemma raced_row: "find_ruling Permission_Table raced_store ''i1'' = Some (ruling_row denied_ruling)"
  by (simp add: find_ruling_def example_store_def ruling_row_def denied_fields)

lemma raced_load:
  "load_bound_resolution example_codec raced_store Permission_Table ''i1'' live snapshot =
     Inr \<lparr>br_record = denied_ruling, br_row = ruling_row denied_ruling, br_bound = example_bound ''r1''\<rparr>"
  by (simp add: load_bound_resolution_def raced_row) (simp add: ruling_row_def denied_fields stored_binding_def
      corrupt_ruling_def Let_def example_bound_intervention example_bound_fields example_ask_fields
      example_session_fields example_goal_fields intervention_action_hash_def check_ruling_action_def
      example_binding_def, simp add: example_codec_def)

lemma allow_finds_denial:
  "reserve_permission example_codec raced_store ''i1'' ''s1'' ''r1'' ''allow'' (Aware 1 0) =
    Inr ((False, denied_ruling), raced_store)"
proof -
  have rows: "permission_rows (example_store request rs) = rs" for request rs by (simp add: example_store_def)
  have id: "rr_intervention_id (ruling_row denied_ruling) = ''i1''" by (simp add: ruling_row_def denied_fields)
  show ?thesis
    by (simp add: reserve_permission_def bad_id_def by_id_def rows same_request_def id raced_load)
qed

lemma denial_granted:
  "\<exists>db'. start_permission example_codec ''boot'' raced_store ''i1'' (Aware 2 0) =
     Inr (Dispatch_Granted (dispatching 0 ''boot'' (Aware 2 0) denied_ruling) example_session (example_ask ''r1''), db')"
proof -
  have rows: "permission_rows (example_store request rs) = rs" for request rs by (simp add: example_store_def)
  have "\<exists>db'. swap_ruling Permission_Table ''i1'' ''reserved'' 0 y ''permission dispatch CAS was lost'' raced_store = Inr db'" for y
    by (simp add: swap_ruling_def rows ruling_row_def denied_fields)
  then obtain db' where swap: "swap_ruling Permission_Table ''i1'' ''reserved'' 0
      (dispatching 0 ''boot'' (Aware 2 0) denied_ruling) ''permission dispatch CAS was lost'' raced_store = Inr db'" by blast
  have version: "bc_version (rr_columns (ruling_row denied_ruling)) = 0" by (simp add: ruling_row_def denied_fields)
  have id: "validate_store_id ''i1'' ''permission intervention id'' = Inr ()" by code_simp
  have codec: "sha_text example_codec = (\<lambda>_. example_sha)" by (simp add: example_codec_def)
  show ?thesis
    by (simp add: start_permission_def id raced_load Let_def denied_fields example_bound_fields closed_status_def
        example_session_fields reload_authority_def example_project codec grant_dispatch_def version swap)
qed

lemma example_validated: "validate_store_id ''i1'' ''intervention id'' = Inr ()" "validate_store_id ''s1'' ''session id'' = Inr ()"
  by code_simp+

lemma example_loaded: "load_intervention example_codec (example_store request rows) ''i1'' live changed = Inr (example_ask request)"
  by (simp add: load_intervention_def example_validated example_bound_intervention example_bound_fields)

lemma example_session_loaded:
  "session_for_authority example_codec (example_store request rows) (example_ask request) code_name detail = Inr example_session"
  by (simp add: session_for_authority_def example_ask_fields example_validated example_bound_session)

lemma example_request: "check_request racing_resolver (example_ask ''r1'') example_session False = Inr ''r1''"
  by (simp add: check_request_def example_ask_fields validate_binding_def example_session_fields reject_if_def
      request_text_def str_or_empty_def r1_strip strip_fixed Let_def)

lemma racing_fields:
  "rv_codec racing_resolver = example_codec" "rv_boot racing_resolver = ''boot''" "rv_gap racing_resolver = racing_gap"
  "rv_reserve_at racing_resolver = Aware 1 0" "rv_start_at racing_resolver = Aware 2 0"
  "rv_adapter racing_resolver = (\<lambda>_. Some racing_adapter)"
  by (simp_all add: racing_resolver_def)

lemma racing_gaps: "n \<noteq> 5 \<Longrightarrow> racing_gap n db = db" "racing_gap 5 (example_store ''r1'' []) = raced_store"
  by (simp_all add: racing_gap_def denial_reserved)

lemma racing_delivery: "\<exists>d. deliver_permission racing_resolver example_session ''r1'' ''allow'' =
    ([Probe_Call, Respond_Call ''s1'' ''r1'' ''allow''], d)"
  by (simp add: deliver_permission_def racing_fields racing_adapter_def asynchronous_def racing_capabilities_def
      supports_def boolean_capabilities_def example_session_fields Let_def)

lemma raced_run:
  "\<exists>db' calls r. resolve_permission racing_resolver (example_store ''r1'' []) ''i1'' ''allow'' = (db', calls, r) \<and>
     Respond_Call ''s1'' ''r1'' ''allow'' \<in> set calls"
proof -
  let ?db = "example_store ''r1'' []"
  have check: "check_permission racing_resolver ?db ''i1'' ''allow'' = (?db, [], Inr (example_ask ''r1'', example_session))"
    by (simp add: check_permission_def read_run_def local_run_def racing_fields racing_gaps reject_if_def Let_def
        intervention_for_classification_def intervention_for_authority_def example_loaded example_session_loaded)
  have existing: "stored_ruling Permission_Table ?db ''i1'' = None"
    by (simp add: stored_ruling_def find_ruling_def example_store_def)
  obtain mid where start: "start_permission example_codec ''boot'' raced_store ''i1'' (Aware 2 0) =
     Inr (Dispatch_Granted (dispatching 0 ''boot'' (Aware 2 0) denied_ruling) example_session (example_ask ''r1''), mid)"
    using denial_granted by blast
  obtain d where deliver: "deliver_permission racing_resolver example_session ''r1'' ''allow'' =
      ([Probe_Call, Respond_Call ''s1'' ''r1'' ''allow''], d)" using racing_delivery by blast
  obtain db' rest r where finish: "finish_permission racing_resolver mid (example_ask ''r1'')
      (dispatching 0 ''boot'' (Aware 2 0) denied_ruling) ''r1'' ''allow'' d = (db', rest, r)"
    by (metis prod_cases3)
  have "dispatch_permission racing_resolver raced_store (example_ask ''r1'') example_session ''r1'' ''allow'' =
      (db', [Probe_Call, Respond_Call ''s1'' ''r1'' ''allow''] @ rest, r)"
    by (simp add: dispatch_permission_def write_run_def racing_fields racing_gaps example_ask_fields start Let_def
        call_run_def deliver bind_run_def finish)
  moreover have "claim_permission racing_resolver ?db (example_ask ''r1'') example_session ''allow'' =
      dispatch_permission racing_resolver raced_store (example_ask ''r1'') example_session ''r1'' ''allow''"
    by (simp add: claim_permission_def local_run_def example_request write_run_def racing_fields racing_gaps Let_def
        example_ask_fields example_session_fields allow_finds_denial denied_fields)
  moreover have "resolve_permission racing_resolver ?db ''i1'' ''allow'' =
      claim_permission racing_resolver ?db (example_ask ''r1'') example_session ''allow''"
    by (simp add: resolve_permission_def check read_run_def racing_fields racing_gaps Let_def example_ask_fields existing
        settle_permission_def)
  ultimately show ?thesis by auto
qed

section \<open>Properties\<close>



text \<open>
  The race: the only reservation is another call's denial, this call answers the harness with an allow. A lifecycle
  decision is not open to it, because \<open>start_lifecycle_resolution_dispatch\<close> refuses a ruling that is not an allow.
\<close>

lemma raced_denial_delivers_allow:
  "reserve_permission example_codec (example_store ''r1'' []) ''i1'' ''s1'' ''r1'' ''deny'' (Aware 1 0) =
     Inr ((True, denied_ruling), rv_gap racing_resolver 5 (example_store ''r1'' [])) \<and>
   rs_decision denied_ruling = ''deny'' \<and>
   (\<exists>db' calls r. resolve_permission racing_resolver (example_store ''r1'' []) ''i1'' ''allow'' = (db', calls, r) \<and>
     Respond_Call ''s1'' ''r1'' ''allow'' \<in> set calls)"
  using denial_reserved raced_run by (simp add: racing_fields racing_gaps denied_fields)

text \<open>
  If resolving a lifecycle decision executes an action, then it executes one action, of the
  intervention that was ruled on, under the only dispatch grant that intervention ever gets.
\<close>

theorem execution_is_exclusive:
  assumes "fair_world rv" and "sound_rulings db"
    and "resolve_lifecycle rv db identifier ruling = (db', calls, r)" and "calls \<noteq> []"
  shows "(\<exists>a. calls = [Execute_Call identifier a]) \<and> \<not> ruling_open Lifecycle_Table db' (identifier, None) \<and>
    (\<exists>es x es'. runs (ruling_step (rv_codec rv)) db (es @ Grant Lifecycle_Table x # es') db' \<and>
       rs_intervention_id x = identifier \<and>
       (\<forall>e \<in> set (es @ es'). \<not> grants_ruling Lifecycle_Table e (identifier, None)))"
proof -
  have all: "effects_backed rv db (execution_of identifier) (db', calls, r)"
    using resolve_lifecycle_effects [OF assms(1)] assms(3) by metis
  obtain c where c: "c \<in> set calls" using assms(4) by (cases calls) auto
  with all have "execution_of identifier c" by (simp add: effects_backed_def)
  then obtain a where "c = Execute_Call identifier a" by (cases c) auto
  with all c have "backed rv db Lifecycle_Table (identifier, None) [Execute_Call identifier a] (db', calls, r)"
    by (auto simp: effects_backed_def)
  from backed_is_alone [OF this assms(2)] show ?thesis by (auto simp: ruling_key_def)
qed

end
