(* ===== verification/Action_Executor.thy ===== *)
theory Action_Executor
  imports Resolution_Safety Mcp_Requests Adapter_Contract
begin

text \<open>
  \<open>services/bridge/src/pex_bridge/executor.py\<close>: \<open>ActionExecutor.execute\<close>, the one place where a proposed action and
  the verdict on it become calls of an adapter. A run leaves a store, the adapter calls it made in order and either
  an ending or a value to go on with. Outside are the vendor adapters and what they answer, the workspace witnesses
  on disk, the JSON codecs, what other tasks write before the n-th access to the store, and the parts of the
  executor that are separate machines of their own (session upserts, overlays, cleanup, Codex corrections), which
  are arbitrary here.
\<close>

section \<open>The world of the executor\<close>

datatype 'a answer = Answered 'a | Failed | Aborted | Refused

datatype workspace_check = Workspace_Current | Workspace_Changed | Workspace_Unanswered

datatype adapter_call =
    Probed_Adapter string
  | Responded string string string
  | Sent string string
  | Injected string context_bundle
  | Resumed string "string option"
  | Focused string
  | Started string string string
  | Stopped string
  | Forked string context_bundle
  | Delegated string

datatype execution_result =
    Outcome (outcome_of: string)
  | Receipts (outcome_of: string) (worker_receipt: "receipt option") (hook_receipt: "receipt option")

datatype ending = Ended execution_result proposed_action | Aborted_Task | Crashed

record live_adapter =
  la_probe :: "adapter_capabilities answer"
  la_respond :: "harness_session \<Rightarrow> string \<Rightarrow> string \<Rightarrow> bool answer"
  la_send :: "harness_session \<Rightarrow> string \<Rightarrow> adapter_result answer"
  la_inject :: "harness_session \<Rightarrow> context_bundle \<Rightarrow> adapter_result answer"
  la_resume :: "harness_session \<Rightarrow> string option \<Rightarrow> adapter_result answer"
  la_focus :: "harness_session \<Rightarrow> bool answer"
  la_start :: "string \<Rightarrow> string \<Rightarrow> (string \<times> pyval) list option \<Rightarrow> harness_session option answer"
  la_stop :: "harness_session \<Rightarrow> bool answer"
  la_fork :: "harness_session \<Rightarrow> context_bundle \<Rightarrow> harness_session option answer"

text \<open>
  \<open>ew_parts\<close> runs a part that is a machine of its own: its name, the session it works on and the action.
  \<open>ew_upsert\<close> is \<open>Store.upsert_session\<close>, \<open>None\<close> when it raises; \<open>ew_bundle\<close> is
  \<open>ContextBundle.model_validate\<close>.
\<close>

record executor_world =
  ew_codec :: codec
  ew_boot :: string
  ew_now :: datetime
  ew_gap :: "nat \<Rightarrow> store \<Rightarrow> store"
  ew_upsert :: "harness_session \<Rightarrow> store \<Rightarrow> store option"
  ew_workspace :: "nat \<Rightarrow> store \<Rightarrow> harness_session list \<Rightarrow> workspace_check"
  ew_adapter :: "string \<Rightarrow> live_adapter option"
  ew_bundle :: "pyval \<Rightarrow> context_bundle option"
  ew_bundle_bytes :: "context_bundle \<Rightarrow> int"
  ew_json_bytes :: "(string \<times> pyval) list \<Rightarrow> int"
  ew_capabilities_json :: "adapter_capabilities \<Rightarrow> (string \<times> pyval) list"
  ew_pair :: string
  ew_overlay_session :: "pyval \<Rightarrow> string option"
  ew_parts :: "string \<Rightarrow> harness_session option \<Rightarrow> proposed_action \<Rightarrow> store \<Rightarrow> store \<times> ending"
  ew_channels :: "(string \<Rightarrow> string) option"

type_synonym 'a act = "store \<times> adapter_call list \<times> (ending + 'a)"

definition and_then :: "'a act \<Rightarrow> (store \<Rightarrow> 'a \<Rightarrow> 'b act) \<Rightarrow> 'b act" where
  "and_then m f =
     (case m of (db, calls, r) \<Rightarrow>
        (case r of Inl e \<Rightarrow> (db, calls, Inl e)
         | Inr x \<Rightarrow> (case f db x of (db', more_calls, r') \<Rightarrow> (db', calls @ more_calls, r'))))"

definition go_on :: "store \<Rightarrow> 'a \<Rightarrow> 'a act" where
  "go_on db x = (db, [], Inr x)"

definition stop_with :: "store \<Rightarrow> proposed_action \<Rightarrow> string \<Rightarrow> 'a act" where
  "stop_with db a tag = (db, [], Inl (Ended (Outcome tag) a))"

definition stop_if :: "store \<Rightarrow> proposed_action \<Rightarrow> bool \<Rightarrow> string \<Rightarrow> unit act" where
  "stop_if db a bad tag = (if bad then stop_with db a tag else go_on db ())"

definition read_session :: "executor_world \<Rightarrow> nat \<Rightarrow> store \<Rightarrow> string \<Rightarrow> harness_session option act" where
  "read_session ew n db identifier =
     (let seen = ew_gap ew n db in go_on seen (map_option sr_session (find_session_row seen identifier)))"

text \<open>An upsert whose exception nobody catches, and one whose exception becomes an outcome.\<close>

definition upsert :: "executor_world \<Rightarrow> nat \<Rightarrow> store \<Rightarrow> harness_session \<Rightarrow> unit act" where
  "upsert ew n db s =
     (let seen = ew_gap ew n db
      in case ew_upsert ew s seen of None \<Rightarrow> (seen, [], Inl Crashed) | Some db' \<Rightarrow> go_on db' ())"

definition upsert_or :: "executor_world \<Rightarrow> nat \<Rightarrow> store \<Rightarrow> proposed_action \<Rightarrow> harness_session \<Rightarrow> string \<Rightarrow> unit act" where
  "upsert_or ew n db a s tag =
     (let seen = ew_gap ew n db
      in case ew_upsert ew s seen of None \<Rightarrow> stop_with seen a tag | Some db' \<Rightarrow> go_on db' ())"

text \<open>
  \<open>_workspace_dispatch\<close>: the workspace of every session involved is witnessed again immediately before the
  operation is entered; a witness that does not answer in time fails the whole call without entering it.
\<close>

definition workspace_dispatch ::
  "executor_world \<Rightarrow> nat \<Rightarrow> store \<Rightarrow> harness_session list \<Rightarrow> adapter_call \<Rightarrow> 'a answer \<Rightarrow> 'a answer act" where
  "workspace_dispatch ew n db sessions call reply =
     (let seen = ew_gap ew n db
      in case ew_workspace ew n seen sessions of
           Workspace_Current \<Rightarrow> (seen, [call], Inr reply)
         | Workspace_Changed \<Rightarrow> go_on seen Refused
         | Workspace_Unanswered \<Rightarrow> go_on seen Failed)"

definition workspace_is_current :: "executor_world \<Rightarrow> nat \<Rightarrow> store \<Rightarrow> harness_session \<Rightarrow> bool act" where
  "workspace_is_current ew n db s =
     (let seen = ew_gap ew n db in go_on seen (ew_workspace ew n seen [s] = Workspace_Current))"

text \<open>What every dispatch does with the answer: a cancellation goes on, a refusal and a failure are outcomes.\<close>

definition on_answer ::
  "store \<Rightarrow> proposed_action \<Rightarrow> string \<Rightarrow> 'a answer \<Rightarrow> ('a \<Rightarrow> 'b act) \<Rightarrow> 'b act" where
  "on_answer db a uncertain reply f =
     (case reply of
        Refused \<Rightarrow> stop_with db a ''workspace_authority_changed''
      | Failed \<Rightarrow> stop_with db a uncertain
      | Aborted \<Rightarrow> (db, [], Inl Aborted_Task)
      | Answered x \<Rightarrow> f x)"

section \<open>Messages\<close>

definition max_action_text_chars :: nat where
  "max_action_text_chars = 65536"

definition max_context_bundle_bytes :: int where
  "max_context_bundle_bytes = 262144"

definition max_lifecycle_config_bytes :: int where
  "max_lifecycle_config_bytes = 65536"

fun uncertain_outcome :: "string \<Rightarrow> string option" where
  "uncertain_outcome accepted =
     (if accepted = ''sent'' then Some ''send_delivery_uncertain''
      else if accepted = ''continued'' then Some ''continue_delivery_uncertain''
      else if accepted = ''verification_requested'' then Some ''verification_delivery_uncertain''
      else if accepted = ''handoff_injected'' then Some ''handoff_delivery_uncertain''
      else None)"

definition message_execution_result :: "adapter_result \<Rightarrow> harness_session \<Rightarrow> string \<Rightarrow> string \<Rightarrow> execution_result option" where
  "message_execution_result result s accepted rejected =
     (case resolve_adapter_message_result result s of
        Rejected \<Rightarrow> Some (Outcome rejected)
      | Delivery_Uncertain \<Rightarrow> map_option Outcome (uncertain_outcome accepted)
      | Hook_Prepared r \<Rightarrow> Some (Receipts ''hook_followup_prepared_delivery_uncertain'' None (Some r))
      | Delivered r \<Rightarrow> Some (Receipts accepted (Some r) None))"

definition message_ending ::
  "store \<Rightarrow> proposed_action \<Rightarrow> harness_session \<Rightarrow> string \<Rightarrow> string \<Rightarrow> adapter_result \<Rightarrow> 'a act" where
  "message_ending db a s accepted rejected result =
     (case message_execution_result result s accepted rejected of
        None \<Rightarrow> (db, [], Inl Crashed)
      | Some r \<Rightarrow> (db, [], Inl (Ended r a)))"

text \<open>\<open>codex_correction.requires_correction\<close>.\<close>

definition text_actions :: "intervention_type list" where
  "text_actions = [IT_SEND_NUDGE, IT_INJECT_CONTEXT, IT_REQUEST_VERIFICATION, IT_CONTINUE_SESSION]"

definition requires_correction :: "harness_session \<Rightarrow> proposed_action \<Rightarrow> bool" where
  "requires_correction s a =
     (ses_harness s = HT_CODEX \<and> dict_get (ses_metadata s) ''connection_kind'' = PStr ''codex_shared'' \<and>
      act_type a \<in> set text_actions)"

section \<open>Permissions\<close>

definition response_mode_of :: "harness_session \<Rightarrow> permission_response_mode" where
  "response_mode_of s =
     (case dict_get (ses_capabilities s) ''permission_response_mode'' of
        PStr t \<Rightarrow> (case parse_enum permission_response_mode_value all_permission_response_mode t of
                   Inl _ \<Rightarrow> PRM_NONE | Inr m \<Rightarrow> m)
      | _ \<Rightarrow> PRM_NONE)"

definition permission_answer :: "executor_world \<Rightarrow> proposed_action \<Rightarrow> policy_verdict \<Rightarrow> string option" where
  "permission_answer ew a verdict =
     (let requested = ascii_lower (strip (str_or_empty (repr_text (ew_codec ew)) (dict_get (act_payload a) ''decision'')))
      in if requested = [] \<and> verdict = PV_ALLOW \<and> dict_get (act_payload a) ''decision_source'' = PStr ''local_policy''
         then Some ''allow''
         else if requested \<in> {''allow'', ''deny''} then Some requested
         else None)"

definition execute_permission ::
  "executor_world \<Rightarrow> store \<Rightarrow> proposed_action \<Rightarrow> policy_verdict \<Rightarrow> unit act" where
  "execute_permission ew db a verdict =
     and_then (stop_if db a (verdict = PV_DENY) ''denied_by_policy'') (\<lambda>db _.
     and_then (read_session ew 0 db (act_session_id a)) (\<lambda>db found.
     case (found, ew_adapter ew (act_session_id a)) of
       (Some s, Some adapter) \<Rightarrow>
         and_then (workspace_is_current ew 1 db s) (\<lambda>db current.
         and_then (stop_if db a (\<not> current) ''workspace_authority_changed'') (\<lambda>db _.
         let mode = response_mode_of s; inline = (mode \<in> {PRM_INLINE, PRM_BOTH})
         in if verdict = PV_ASK_HUMAN
            then if inline then stop_with db a ''permission_delegated_to_harness''
                 else and_then (upsert ew 2 db (s\<lparr>ses_status := SS_NEEDS_DECISION\<rparr>)) (\<lambda>db _.
                      stop_with db a ''permission_awaiting_human'')
            else case permission_answer ew a verdict of
              None \<Rightarrow> stop_with db a ''permission_invalid_decision''
            | Some ruling \<Rightarrow>
                let request = str_or_empty (repr_text (ew_codec ew)) (dict_get (act_payload a) ''request_id'')
                in and_then (stop_if db a (request = [] \<or> 512 < length request) ''permission_invalid_request'') (\<lambda>db _.
                   and_then (stop_if db a (act_goal_id a \<noteq> ses_goal_id s) ''action_goal_mismatch'') (\<lambda>db _.
                   and_then (stop_if db a inline (''permission_'' @ ruling @ ''_inline'')) (\<lambda>db _.
                   and_then (stop_if db a (mode = PRM_NONE) ''permission_delivery_unsupported'') (\<lambda>db _.
                   and_then
                     (workspace_dispatch ew 3 db [s] (Responded (ses_id s) request ruling)
                       (la_respond adapter s request ruling)) (\<lambda>db reply.
                   on_answer db a (''permission_'' @ ruling @ ''_delivery_uncertain'') reply (\<lambda>ok.
                   stop_with db a
                     (if ok then ''permission_'' @ ruling else ''permission_'' @ ruling @ ''_failed'')))))))))
     | _ \<Rightarrow> stop_with db a ''permission_missing_session_or_adapter''))"

section \<open>Lifecycle\<close>

text \<open>\<open>_validated_lifecycle_dispatch_session\<close>: the grant of \<open>Human_Rulings\<close> read again, and compared field by field.\<close>

definition granted_session_of ::
  "executor_world \<Rightarrow> store \<Rightarrow> proposed_action \<Rightarrow> string \<Rightarrow> harness_session option" where
  "granted_session_of ew db a identifier =
     (case validate_lifecycle_grant (ew_codec ew) (ew_boot ew) db identifier a of
        Inr (Grant_Stands x s i) \<Rightarrow>
          if rs_intervention_id x \<noteq> identifier \<or> int_id i \<noteq> identifier \<or> int_action i \<noteq> a \<or>
             int_session_id i \<noteq> ses_id s \<or> int_goal_id i \<noteq> ses_goal_id s \<or>
             act_session_id a \<noteq> ses_id s \<or> act_goal_id a \<noteq> ses_goal_id s
          then None else Some s
      | _ \<Rightarrow> None)"

text \<open>\<open>_refresh_lifecycle_capability\<close>: the session with the probed capabilities, and whether it has the one asked for.\<close>

definition refresh_capability ::
  "executor_world \<Rightarrow> nat \<Rightarrow> store \<Rightarrow> proposed_action \<Rightarrow> harness_session \<Rightarrow> live_adapter \<Rightarrow> string \<Rightarrow> bool \<Rightarrow>
   (harness_session \<times> bool) act" where
  "refresh_capability ew n db a s adapter capability persist =
     and_then (workspace_dispatch ew n db [s] (Probed_Adapter (ses_id s)) (la_probe adapter)) (\<lambda>db reply.
     case reply of
       Refused \<Rightarrow> stop_with db a ''workspace_authority_changed''
     | Failed \<Rightarrow> go_on db (s, False)
     | Aborted \<Rightarrow> (db, [], Inl Aborted_Task)
     | Answered c \<Rightarrow>
         and_then (workspace_is_current ew (n + 1) db s) (\<lambda>db current.
         and_then (stop_if db a (\<not> current) ''workspace_authority_changed'') (\<lambda>db _.
         let probed = s\<lparr>ses_capabilities := ew_capabilities_json ew c\<rparr>
         in and_then (if persist then upsert ew (n + 2) db probed else go_on db ()) (\<lambda>db _.
            go_on db (probed, supports c capability)))))"

definition expected_goal :: "proposed_action \<Rightarrow> harness_session \<Rightarrow> string option" where
  "expected_goal a s = (if given (act_goal_id a) then act_goal_id a else ses_goal_id s)"

definition lifecycle_entries :: "harness_session \<Rightarrow> intervention_type \<Rightarrow> (string \<times> pyval) list \<Rightarrow> (string \<times> pyval) list" where
  "lifecycle_entries parent kind d =
     put_entry ''lifecycle_action'' (PStr (intervention_type_value kind))
       (put_entry ''lifecycle_parent_session_id'' (PStr (ses_id parent)) d)"

definition payload_text :: "executor_world \<Rightarrow> proposed_action \<Rightarrow> string \<Rightarrow> string" where
  "payload_text ew a key = strip (str_or_empty (repr_text (ew_codec ew)) (dict_get (act_payload a) key))"

definition different_project :: "string option \<Rightarrow> string \<Rightarrow> bool" where
  "different_project p project =
     (case p of None \<Rightarrow> False | Some q \<Rightarrow> project_binding_key q \<noteq> project_binding_key project)"

definition bad_start :: "executor_world \<Rightarrow> string \<Rightarrow> string \<Rightarrow> pyval \<Rightarrow> bool" where
  "bad_start ew project prompt config =
     (project = [] \<or> 4096 < length project \<or> prompt = [] \<or> max_action_text_chars < length prompt \<or>
      (case config of
         PNone \<Rightarrow> max_lifecycle_config_bytes < ew_json_bytes ew []
       | PDict d \<Rightarrow> max_lifecycle_config_bytes < ew_json_bytes ew d
       | _ \<Rightarrow> True))"

text \<open>The child session is persisted as a child of the source, with the project and the goal of the request.\<close>

definition adopt_started :: "proposed_action \<Rightarrow> harness_session \<Rightarrow> string \<Rightarrow> harness_session \<Rightarrow> harness_session" where
  "adopt_started a source project created =
     created\<lparr>ses_goal_id := expected_goal a source, ses_project_id := Some project,
       ses_metadata := lifecycle_entries source IT_START_AGENT (ses_metadata created),
       ses_capabilities := (if ses_capabilities created = [] then ses_capabilities source else ses_capabilities created)\<rparr>"

definition start_agent ::
  "executor_world \<Rightarrow> store \<Rightarrow> proposed_action \<Rightarrow> harness_session \<Rightarrow> live_adapter \<Rightarrow> unit act" where
  "start_agent ew db a source adapter =
     (let project = payload_text ew a ''project''; prompt = payload_text ew a ''prompt'';
          config = dict_get (act_payload a) ''config'';
          goal = expected_goal a source;
          requested = (case config of PDict d \<Rightarrow> strip (str_or_empty (repr_text (ew_codec ew)) (dict_get d ''goal_id'')) | _ \<Rightarrow> []);
          settings = (case config of PDict d \<Rightarrow> Some d | _ \<Rightarrow> None)
      in and_then (stop_if db a (bad_start ew project prompt config) ''agent_start_invalid'') (\<lambda>db _.
         and_then (stop_if db a (given (ses_project_id source) \<and> different_project (ses_project_id source) project)
           ''agent_start_project_mismatch'') (\<lambda>db _.
         and_then (stop_if db a (requested \<noteq> [] \<and> Some requested \<noteq> goal) ''agent_start_goal_mismatch'') (\<lambda>db _.
         and_then (refresh_capability ew 10 db a source adapter ''start'' True) (\<lambda>db (source, able).
         and_then (stop_if db a (\<not> able) ''agent_start_unsupported'') (\<lambda>db _.
         and_then (workspace_dispatch ew 13 db [source] (Started (ses_id source) project prompt)
           (la_start adapter project prompt settings)) (\<lambda>db reply.
         on_answer db a ''agent_start_delivery_uncertain'' reply (\<lambda>started.
         case started of
           None \<Rightarrow> stop_with db a ''agent_start_failed''
         | Some created \<Rightarrow>
             and_then (stop_if db a
               (ses_id created = ses_id source \<or> ses_harness created \<noteq> ses_harness source \<or>
                different_project (ses_project_id created) project) ''agent_start_identity_invalid'') (\<lambda>db _.
             and_then (read_session ew 14 db (ses_id created)) (\<lambda>db known.
             and_then (stop_if db a (known \<noteq> None) ''agent_start_persist_conflict'') (\<lambda>db _.
             and_then (stop_if db a
               (ses_goal_id created \<noteq> None \<and> given goal \<and> ses_goal_id created \<noteq> goal)
               ''agent_start_identity_invalid'') (\<lambda>db _.
             and_then (upsert_or ew 15 db a (adopt_started a source project created) ''agent_start_persist_failed'') (\<lambda>db _.
             stop_with db a (''agent_started:'' @ ses_id created))))))))))))))"

definition stop_agent ::
  "executor_world \<Rightarrow> store \<Rightarrow> proposed_action \<Rightarrow> harness_session \<Rightarrow> live_adapter \<Rightarrow> bool \<Rightarrow> unit act" where
  "stop_agent ew db a s adapter deferred =
     and_then (refresh_capability ew 20 db a s adapter ''stop'' (\<not> deferred)) (\<lambda>db (s, able).
     and_then (stop_if db a (\<not> able) ''agent_stop_unsupported'') (\<lambda>db _.
     and_then (workspace_dispatch ew 23 db [s] (Stopped (ses_id s)) (la_stop adapter s)) (\<lambda>db reply.
     on_answer db a ''agent_stop_delivery_uncertain'' reply (\<lambda>ok.
     and_then (stop_if db a (\<not> ok) ''agent_stop_failed'') (\<lambda>db _.
     and_then
       (if deferred then go_on db ()
        else upsert_or ew 24 db a (s\<lparr>ses_status := SS_STOPPED, ses_last_activity := Some (ew_now ew)\<rparr>)
               ''agent_stopped_persist_failed'') (\<lambda>db _.
     stop_with db a ''agent_stopped''))))))"

text \<open>\<open>_fork_probe\<close>: first the checks that need no adapter.\<close>

definition bad_fork :: "executor_world \<Rightarrow> proposed_action \<Rightarrow> harness_session \<Rightarrow> context_bundle \<Rightarrow> bool" where
  "bad_fork ew a s b =
     (let goal = expected_goal a s
      in given goal \<and> Some (bu_goal_id b) \<noteq> goal \<or> bu_target_session_id b \<noteq> ses_id s \<or>
         ses_id s \<notin> set (bu_source_session_ids b))"

definition adopt_forked :: "proposed_action \<Rightarrow> harness_session \<Rightarrow> harness_session \<Rightarrow> harness_session" where
  "adopt_forked a s child =
     child\<lparr>ses_goal_id := expected_goal a s, ses_project_id := ses_project_id s,
       ses_metadata := put_entry ''probe'' (PBool True) (lifecycle_entries s IT_FORK_PROBE (ses_metadata child)),
       ses_capabilities := (if ses_capabilities child = [] then ses_capabilities s else ses_capabilities child)\<rparr>"

definition speculative_entry :: "executor_world \<Rightarrow> string \<Rightarrow> string \<Rightarrow> string \<Rightarrow> pyval" where
  "speculative_entry ew role approach sibling =
     PDict [(''pair_id'', PStr (ew_pair ew)), (''role'', PStr role), (''approach'', PStr approach),
            (''sibling_session_id'', PStr sibling)]"

definition cleaned_approaches :: "executor_world \<Rightarrow> proposed_action \<Rightarrow> string list" where
  "cleaned_approaches ew a =
     (case dict_get (act_payload a) ''approaches'' of
        PList vs \<Rightarrow> filter (\<lambda>t. t \<noteq> []) (map (\<lambda>v. strip (str_of (repr_text (ew_codec ew)) v)) (take 2 vs))
      | _ \<Rightarrow> [])"

text \<open>After the child is stored: the pair is written on both sessions and the parent is resumed, best effort.\<close>

definition pair_probe ::
  "executor_world \<Rightarrow> store \<Rightarrow> proposed_action \<Rightarrow> harness_session \<Rightarrow> live_adapter \<Rightarrow> context_bundle \<Rightarrow> harness_session \<Rightarrow>
   unit act" where
  "pair_probe ew db a s adapter b child =
     (let cleaned = cleaned_approaches ew a; objective = payload_text ew a ''parent_objective'';
          approach_a = (case cleaned of [] \<Rightarrow> objective | x # _ \<Rightarrow> x);
          approach_b = (if 1 < length cleaned then cleaned ! 1 else bu_next_objective b)
      in and_then (read_session ew 36 db (ses_id s)) (\<lambda>db found.
         let parent = (case found of None \<Rightarrow> s | Some p \<Rightarrow> p);
             marked = parent\<lparr>ses_metadata :=
               put_entry ''speculative'' (speculative_entry ew ''a'' approach_a (ses_id child)) (ses_metadata parent)\<rparr>;
             twin = child\<lparr>ses_metadata :=
               put_entry ''speculative'' (speculative_entry ew ''b'' approach_b (ses_id parent)) (ses_metadata child)\<rparr>
         in and_then (upsert_or ew 37 db a marked ''probe_fork_persist_failed'') (\<lambda>db _.
            and_then (upsert_or ew 38 db a twin ''probe_fork_persist_failed'') (\<lambda>db _.
            if objective = [] then stop_with db a (''probe_forked:'' @ ses_id child)
            else
              and_then (workspace_dispatch ew 39 db [marked] (Resumed (ses_id marked) (Some objective))
                (la_resume adapter marked (Some objective))) (\<lambda>db reply.
              case reply of
                Aborted \<Rightarrow> (db, [], Inl Aborted_Task)
              | _ \<Rightarrow> stop_with db a (''probe_forked:'' @ ses_id child))))))"

definition fork_probe ::
  "executor_world \<Rightarrow> store \<Rightarrow> proposed_action \<Rightarrow> harness_session \<Rightarrow> live_adapter \<Rightarrow> unit act" where
  "fork_probe ew db a s adapter =
     (case dict_get (act_payload a) ''bundle'' of
        PDict raw \<Rightarrow>
          (case ew_bundle ew (PDict raw) of
             None \<Rightarrow> stop_with db a ''probe_fork_invalid''
           | Some b \<Rightarrow>
               let goal = expected_goal a s
               in and_then (stop_if db a (max_context_bundle_bytes < ew_bundle_bytes ew b) ''probe_fork_invalid'') (\<lambda>db _.
                  and_then (stop_if db a (bad_fork ew a s b) ''probe_fork_context_mismatch'') (\<lambda>db _.
                  and_then (refresh_capability ew 30 db a s adapter ''fork'' True) (\<lambda>db (s, able).
                  and_then (stop_if db a (\<not> able) ''probe_fork_unsupported'') (\<lambda>db _.
                  and_then (workspace_dispatch ew 33 db [s] (Forked (ses_id s) b) (la_fork adapter s b)) (\<lambda>db reply.
                  on_answer db a ''probe_fork_delivery_uncertain'' reply (\<lambda>forked.
                  case forked of
                    None \<Rightarrow> stop_with db a ''probe_fork_failed''
                  | Some child \<Rightarrow>
                      and_then (stop_if db a
                        (ses_id child = ses_id s \<or> ses_harness child \<noteq> ses_harness s \<or>
                         (case ses_project_id s of None \<Rightarrow> False | Some p \<Rightarrow> different_project (ses_project_id child) p))
                        ''probe_fork_identity_invalid'') (\<lambda>db _.
                      and_then (read_session ew 34 db (ses_id child)) (\<lambda>db known.
                      and_then (stop_if db a (known \<noteq> None) ''probe_fork_persist_conflict'') (\<lambda>db _.
                      and_then (stop_if db a
                        (ses_goal_id child \<noteq> None \<and> given goal \<and> ses_goal_id child \<noteq> goal)
                        ''probe_fork_identity_invalid'') (\<lambda>db _.
                      let adopted = adopt_forked a s child
                      in and_then (upsert_or ew 35 db a adopted ''probe_fork_persist_failed'') (\<lambda>db _.
                         pair_probe ew db a s adapter b adopted))))))))))))
      | _ \<Rightarrow> stop_with db a ''probe_fork_invalid'')"

section \<open>Handoffs\<close>

definition bad_handoff :: "proposed_action \<Rightarrow> harness_session \<Rightarrow> context_bundle \<Rightarrow> bool" where
  "bad_handoff a s b =
     (let goal = expected_goal a s; sources = bu_source_session_ids b
      in bu_target_session_id b \<noteq> ses_id s \<or> (goal \<noteq> None \<and> Some (bu_goal_id b) \<noteq> goal) \<or>
         sources = [] \<or> 64 < length sources \<or> \<not> distinct sources \<or> ses_id s \<in> set sources \<or>
         (\<exists>t \<in> set sources. 512 < length t) \<or>
         (\<exists>item \<in> set (bu_items b).
            \<not> given (ses_project_id s) \<or> different_project (ses_project_id s) (cx_project_id item) \<or>
            (cx_goal_id item \<noteq> None \<and> cx_goal_id item \<noteq> Some (bu_goal_id b))))"

definition bad_source :: "harness_session \<Rightarrow> context_bundle \<Rightarrow> harness_session option \<Rightarrow> bool" where
  "bad_source s b source =
     (case source of
        None \<Rightarrow> True
      | Some t \<Rightarrow>
          ses_goal_id t \<noteq> Some (bu_goal_id b) \<or> \<not> given (ses_project_id t) \<or> \<not> given (ses_project_id s) \<or>
          different_project (ses_project_id t) (text_or_empty (ses_project_id s)))"

fun read_sources :: "executor_world \<Rightarrow> store \<Rightarrow> string list \<Rightarrow> harness_session option list act" where
  "read_sources ew db [] = go_on db []"
| "read_sources ew db (t # others) =
     and_then (read_session ew 40 db t) (\<lambda>db found.
     and_then (read_sources ew db others) (\<lambda>db rest. go_on db (found # rest)))"

definition fresh_handoff ::
  "executor_world \<Rightarrow> store \<Rightarrow> proposed_action \<Rightarrow> harness_session \<Rightarrow> live_adapter \<Rightarrow> string \<Rightarrow> unit act" where
  "fresh_handoff ew db a s adapter body =
     (case dict_get (act_payload a) ''bundle'' of
        PDict raw \<Rightarrow>
          (case ew_bundle ew (PDict raw) of
             None \<Rightarrow> stop_with db a ''handoff_failed''
           | Some b \<Rightarrow>
               and_then (stop_if db a (max_context_bundle_bytes < ew_bundle_bytes ew b) ''handoff_context_too_large'') (\<lambda>db _.
               and_then (stop_if db a (bad_handoff a s b) ''handoff_context_mismatch'') (\<lambda>db _.
               and_then (read_sources ew db (bu_source_session_ids b)) (\<lambda>db sources.
               and_then (stop_if db a (\<exists>t \<in> set sources. bad_source s b t) ''handoff_context_mismatch'') (\<lambda>db _.
               and_then (workspace_dispatch ew 41 db (s # map the sources) (Injected (ses_id s) b)
                 (la_inject adapter s b)) (\<lambda>db reply.
               on_answer db a ''handoff_delivery_uncertain'' reply (\<lambda>result.
               message_ending db a s ''handoff_injected'' ''handoff_failed'' result)))))))
      | _ \<Rightarrow>
          and_then (stop_if db a (strip body = []) ''handoff_skipped_no_specific_context'') (\<lambda>db _.
          and_then (workspace_dispatch ew 42 db [s] (Sent (ses_id s) body) (la_send adapter s body)) (\<lambda>db reply.
          on_answer db a ''handoff_delivery_uncertain'' reply (\<lambda>result.
          message_ending db a s ''handoff_injected'' ''handoff_failed'' result))))"

section \<open>Executing an action\<close>

definition send_text ::
  "executor_world \<Rightarrow> store \<Rightarrow> proposed_action \<Rightarrow> harness_session \<Rightarrow> live_adapter \<Rightarrow> string \<Rightarrow> string \<Rightarrow> string \<Rightarrow> string \<Rightarrow>
   unit act" where
  "send_text ew db a s adapter body accepted uncertain rejected =
     and_then (workspace_dispatch ew 43 db [s] (Sent (ses_id s) body) (la_send adapter s body)) (\<lambda>db reply.
     on_answer db a uncertain reply (message_ending db a s accepted rejected))"

definition perform ::
  "executor_world \<Rightarrow> store \<Rightarrow> proposed_action \<Rightarrow> harness_session \<Rightarrow> live_adapter \<Rightarrow> string \<Rightarrow> bool \<Rightarrow> unit act" where
  "perform ew db a s adapter body resolving =
     (case act_type a of
        IT_START_AGENT \<Rightarrow> start_agent ew db a s adapter
      | IT_STOP_AGENT \<Rightarrow> stop_agent ew db a s adapter resolving
      | IT_FORK_PROBE \<Rightarrow> fork_probe ew db a s adapter
      | IT_SEND_NUDGE \<Rightarrow> send_text ew db a s adapter body ''sent'' ''send_delivery_uncertain'' ''send_failed''
      | IT_INJECT_CONTEXT \<Rightarrow> send_text ew db a s adapter body ''sent'' ''send_delivery_uncertain'' ''send_failed''
      | IT_REQUEST_VERIFICATION \<Rightarrow>
          send_text ew db a s adapter body ''verification_requested'' ''verification_delivery_uncertain'' ''verification_failed''
      | IT_FRESH_HANDOFF \<Rightarrow> fresh_handoff ew db a s adapter body
      | IT_CONTINUE_SESSION \<Rightarrow>
          let prompt = (if body = [] then None else Some body)
          in and_then (workspace_dispatch ew 44 db [s] (Resumed (ses_id s) prompt) (la_resume adapter s prompt))
               (\<lambda>db reply. on_answer db a ''continue_delivery_uncertain'' reply
                 (message_ending db a s ''continued'' ''continue_failed''))
      | IT_FOCUS_UI \<Rightarrow>
          and_then (workspace_dispatch ew 45 db [s] (Focused (ses_id s)) (la_focus adapter s)) (\<lambda>db reply.
          on_answer db a ''focus_delivery_uncertain'' reply (\<lambda>ok.
          stop_with db a (if ok then ''focused'' else ''focus_failed'')))
      | IT_ASK_HUMAN \<Rightarrow>
          and_then (upsert ew 46 db (s\<lparr>ses_status := SS_NEEDS_DECISION\<rparr>)) (\<lambda>db _. stop_with db a ''escalated'')
      | IT_ANNOTATE \<Rightarrow> stop_with db a ''annotated''
      | IT_NOTIFY \<Rightarrow>
          let notice = payload_text ew a ''text''
          in stop_with db a
               (if notice = [] then ''notify_skipped_empty''
                else case ew_channels ew of None \<Rightarrow> ''notification_not_configured'' | Some deliver \<Rightarrow> deliver notice)
      | _ \<Rightarrow> stop_with db a (''unhandled_'' @ intervention_type_value (act_type a)))"

text \<open>The text of a worker action: absent is empty, a value that is no text is refused for the four text actions.\<close>

definition check_action_text :: "store \<Rightarrow> proposed_action \<Rightarrow> string act" where
  "check_action_text db a =
     (let raw = dict_get (act_payload a) ''text''; body = (case raw of PStr t \<Rightarrow> t | _ \<Rightarrow> [])
      in and_then (stop_if db a (act_type a \<in> set text_actions \<and> raw \<noteq> PNone \<and> (\<forall>t. raw \<noteq> PStr t))
           ''worker_action_text_invalid'') (\<lambda>db _.
         and_then (stop_if db a (max_action_text_chars < length body) ''action_text_too_large'') (\<lambda>db _.
         if strip body = []
         then and_then (stop_if db a (act_type a \<in> {IT_SEND_NUDGE, IT_INJECT_CONTEXT}) ''send_skipped_empty'') (\<lambda>db _.
              and_then (stop_if db a (act_type a = IT_REQUEST_VERIFICATION) ''verification_skipped_no_specific_probe'') (\<lambda>db _.
              and_then (stop_if db a (act_type a = IT_CONTINUE_SESSION) ''continue_skipped_empty'') (\<lambda>db _.
              go_on db body)))
         else go_on db body)))"

definition delegate ::
  "executor_world \<Rightarrow> store \<Rightarrow> proposed_action \<Rightarrow> harness_session option \<Rightarrow> string \<Rightarrow> unit act" where
  "delegate ew db a s part = (case ew_parts ew part s a db of (db', e) \<Rightarrow> (db', [Delegated part], Inl e))"

text \<open>\<open>ASK_HUMAN\<close>: the action waits, the session shows it unless it is stopped, and the payload keeps its status.\<close>

definition await_human :: "executor_world \<Rightarrow> store \<Rightarrow> proposed_action \<Rightarrow> unit act" where
  "await_human ew db a =
     and_then (read_session ew 0 db (act_session_id a)) (\<lambda>db found.
     case found of
       None \<Rightarrow> stop_with db a ''awaiting_human''
     | Some s \<Rightarrow>
         and_then (stop_if db a (act_goal_id a \<noteq> ses_goal_id s) ''action_goal_mismatch'') (\<lambda>db _.
         and_then (workspace_is_current ew 1 db s) (\<lambda>db current.
         and_then (stop_if db a (\<not> current) ''workspace_authority_changed'') (\<lambda>db _.
         let noted = a\<lparr>act_payload :=
               put_entry ''previous_session_status'' (PStr (session_status_value (ses_status s))) (act_payload a)\<rparr>
         in if ses_status s = SS_STOPPED then stop_with db noted ''awaiting_human''
            else and_then (upsert ew 2 db (s\<lparr>ses_status := SS_NEEDS_DECISION\<rparr>)) (\<lambda>db _.
                 stop_with db noted ''awaiting_human'')))))"

definition overlay_adapter_name :: "string \<Rightarrow> string option" where
  "overlay_adapter_name session =
     (let prefix = takeWhile (\<lambda>c. c \<noteq> CHR '':'') session
      in if prefix \<in> {''opencode'', ''synthetic''} then Some prefix else None)"

definition execute_overlay :: "executor_world \<Rightarrow> store \<Rightarrow> proposed_action \<Rightarrow> unit act" where
  "execute_overlay ew db a =
     (case dict_get (act_payload a) ''overlay'' of
        PDict raw \<Rightarrow>
          (case ew_overlay_session ew (PDict raw) of
             None \<Rightarrow> stop_with db a ''overlay_invalid''
           | Some session \<Rightarrow>
               and_then (stop_if db a (session \<noteq> act_session_id a) ''overlay_session_mismatch'') (\<lambda>db _.
               and_then (stop_if db a (overlay_adapter_name session = None) ''overlay_unproven_or_authority_expanding'')
                 (\<lambda>db _. delegate ew db a None ''apply_overlay'')))
      | _ \<Rightarrow> stop_with db a ''overlay_invalid'')"

text \<open>An allowed action that is no overlay: the session, its goal, the lifecycle grant, the workspace, the adapter.\<close>

definition lifecycle_authority ::
  "executor_world \<Rightarrow> store \<Rightarrow> proposed_action \<Rightarrow> harness_session \<Rightarrow> bool \<Rightarrow> string option \<Rightarrow> harness_session act" where
  "lifecycle_authority ew db a s human resolution_id =
     (if act_type a \<notin> set lifecycle_types then go_on db s
      else if \<not> human \<or> \<not> given resolution_id then stop_with db a ''lifecycle_human_authorization_required''
      else let seen = ew_gap ew 4 db
           in case granted_session_of ew seen a (text_or_empty resolution_id) of
                None \<Rightarrow> stop_with seen a ''lifecycle_dispatch_grant_invalid''
              | Some granted_s \<Rightarrow> go_on seen granted_s)"

definition carry_out ::
  "executor_world \<Rightarrow> store \<Rightarrow> proposed_action \<Rightarrow> harness_session \<Rightarrow> string option \<Rightarrow> unit act" where
  "carry_out ew db a s resolution_id =
     (if act_type a = IT_CLEANUP then delegate ew db a (Some s) ''cleanup''
      else
        and_then (workspace_is_current ew 5 db s) (\<lambda>db current.
        and_then (stop_if db a (\<not> current) ''workspace_authority_changed'') (\<lambda>db _.
        case ew_adapter ew (act_session_id a) of
          None \<Rightarrow> stop_with db a ''missing_session_or_adapter''
        | Some adapter \<Rightarrow>
            and_then (check_action_text db a) (\<lambda>db body.
            if requires_correction s a then delegate ew db a (Some s) ''codex_correction''
            else perform ew db a s adapter body (resolution_id \<noteq> None)))))"

definition execute_allowed ::
  "executor_world \<Rightarrow> store \<Rightarrow> proposed_action \<Rightarrow> bool \<Rightarrow> string option \<Rightarrow> unit act" where
  "execute_allowed ew db a human resolution_id =
     and_then (read_session ew 3 db (act_session_id a)) (\<lambda>db found.
     case found of
       None \<Rightarrow> stop_with db a ''missing_session_or_adapter''
     | Some s \<Rightarrow>
         and_then (stop_if db a (act_goal_id a \<noteq> ses_goal_id s) ''action_goal_mismatch'') (\<lambda>db _.
         and_then (lifecycle_authority ew db a s human resolution_id) (\<lambda>db s.
         carry_out ew db a s resolution_id)))"

definition execute_action ::
  "executor_world \<Rightarrow> store \<Rightarrow> proposed_action \<Rightarrow> policy_verdict \<Rightarrow> bool \<Rightarrow> string option \<Rightarrow> unit act" where
  "execute_action ew db a verdict human resolution_id =
     (if act_type a = IT_NOOP then stop_with db a ''noop''
      else if act_type a = IT_RESPOND_PERMISSION then execute_permission ew db a verdict
      else if verdict = PV_DENY then stop_with db a ''denied_by_policy''
      else if verdict = PV_ASK_HUMAN then await_human ew db a
      else if act_type a = IT_APPLY_OVERLAY then execute_overlay ew db a
      else if act_type a = IT_REVERT_OVERLAY
        then and_then (stop_if db a (str_or_empty (repr_text (ew_codec ew)) (dict_get (act_payload a) ''overlay_id'') = [])
               ''overlay_revert_invalid'') (\<lambda>db _. delegate ew db a None ''revert_overlay'')
      else execute_allowed ew db a human resolution_id)"

end
