(* ===== verification/Executor_Safety.thy ===== *)
theory Executor_Safety
  imports Action_Executor
begin

text \<open>
  What the outcomes and the calls of \<open>ActionExecutor.execute\<close> can be relied on for: no call without an allowed verdict
  and, for a lifecycle action, without a standing grant; and no report of an accepted message without the receipt
  of the one message that was sent.
\<close>

section \<open>Runs without calls\<close>

definition silent :: "'a act \<Rightarrow> bool" where
  "silent m = (fst (snd m) = [])"

lemma silent_and_then:
  assumes "silent m" and "\<And>db x. silent (f db x)"
  shows "silent (and_then m f)"
proof -
  obtain db calls r where m: "m = (db, calls, r)" by (cases m) auto
  show ?thesis
  proof (cases r)
    case (Inr x)
    with m assms(1) assms(2) [of db x] show ?thesis by (auto simp: silent_def and_then_def split: prod.splits)
  qed (use m assms(1) in \<open>simp add: silent_def and_then_def\<close>)
qed

lemma silent_steps [simp]:
  "silent (go_on db x)" "silent (stop_with db a tag)" "silent (stop_if db a bad tag)"
  "silent (read_session ew n db identifier)" "silent (upsert ew n db s)" "silent (upsert_or ew n db a s tag)"
  "silent (workspace_is_current ew n db s)" "silent (db, [], r)"
  by (simp_all add: silent_def go_on_def stop_with_def stop_if_def read_session_def upsert_def upsert_or_def
      workspace_is_current_def Let_def split: option.splits)

lemma and_then_stop_if [simp]:
  "and_then (stop_if db a bad tag) f = (if bad then stop_with db a tag else f db ())"
  by (auto simp: and_then_def stop_if_def stop_with_def go_on_def split: prod.splits)

lemma await_human_silent: "silent (await_human ew db a)"
  unfolding await_human_def Let_def
  by (auto intro!: silent_and_then split: option.splits)

lemma permission_silent:
  assumes "verdict \<noteq> PV_ALLOW"
  shows "silent (execute_permission ew db a verdict)"
proof (cases verdict)
  case PV_ASK_HUMAN
  then show ?thesis
    unfolding execute_permission_def Let_def
    by (auto intro!: silent_and_then split: option.splits)
qed (use assms in \<open>simp_all add: execute_permission_def\<close>)

lemma lifecycle_authority_Inr:
  assumes "lifecycle_authority ew db a s human rid = (db', calls, Inr s')" "act_type a \<in> set lifecycle_types"
  shows "human \<and> given rid \<and> calls = [] \<and> granted_session_of ew db' a (text_or_empty rid) = Some s'"
  using assms
  by (auto simp: lifecycle_authority_def stop_with_def go_on_def Let_def split: if_splits option.splits)

lemma validate_lifecycle_grant_stands:
  assumes "validate_lifecycle_grant k boot db identifier a = Inr (Grant_Stands x s i)"
  shows "rs_decision x = ''allow'' \<and> rs_status x = ''dispatching'' \<and> rs_dispatcher x = Some boot \<and> int_action i = a"
  using assms
  by (auto simp: validate_lifecycle_grant_def Let_def bind_stored_Inr_iff split: if_splits)

lemma granted_session_stands:
  assumes "granted_session_of ew db a identifier = Some s"
  shows "\<exists>x i. validate_lifecycle_grant (ew_codec ew) (ew_boot ew) db identifier a = Inr (Grant_Stands x s i) \<and>
    rs_intervention_id x = identifier \<and> rs_decision x = ''allow'' \<and> rs_status x = ''dispatching'' \<and>
    rs_dispatcher x = Some (ew_boot ew) \<and> int_action i = a \<and> ses_id s = act_session_id a \<and> ses_goal_id s = act_goal_id a"
  using assms
  by (auto simp: granted_session_of_def split: sum.splits grant_check.splits if_splits
      dest: validate_lifecycle_grant_stands)

lemma and_then_loud:
  assumes "\<not> silent (and_then m f)" "silent m"
  obtains db calls x where "m = (db, calls, Inr x)" "\<not> silent (f db x)"
proof -
  obtain db calls r where m: "m = (db, calls, r)" by (cases m) auto
  show thesis
  proof (cases r)
    case (Inr x)
    with m assms that show thesis by (auto simp: silent_def and_then_def split: prod.splits)
  qed (use m assms in \<open>simp add: silent_def and_then_def\<close>)
qed

lemma allowed_lifecycle_granted:
  assumes "\<not> silent (execute_allowed ew db a human rid)" "act_type a \<in> set lifecycle_types"
  shows "human \<and> given rid \<and> (\<exists>mid s. granted_session_of ew mid a (text_or_empty rid) = Some s)"
proof -
  from assms(1) obtain db1 c1 found where "\<not> silent (case found of
       None \<Rightarrow> stop_with db1 a ''missing_session_or_adapter''
     | Some s \<Rightarrow>
         and_then (stop_if db1 a (act_goal_id a \<noteq> ses_goal_id s) ''action_goal_mismatch'') (\<lambda>db _.
         and_then (lifecycle_authority ew db a s human rid) (\<lambda>db s. carry_out ew db a s rid)))"
    unfolding execute_allowed_def by (rule and_then_loud) auto
  then obtain s where loud: "\<not> silent (and_then (lifecycle_authority ew db1 a s human rid) (\<lambda>db s. carry_out ew db a s rid))"
    by (auto split: option.splits if_splits)
  have "silent (lifecycle_authority ew db1 a s human rid)"
    by (simp add: lifecycle_authority_def Let_def split: option.splits)
  with loud obtain mid calls s' where "lifecycle_authority ew db1 a s human rid = (mid, calls, Inr s')"
    by (rule and_then_loud)
  with lifecycle_authority_Inr assms(2) show ?thesis by blast
qed

section \<open>Endings\<close>

text \<open>What is true of every run that ends with a result.\<close>

definition every_end :: "(adapter_call list \<Rightarrow> execution_result \<Rightarrow> bool) \<Rightarrow> 'a act \<Rightarrow> bool" where
  "every_end Q m =
     (case m of (db, calls, r) \<Rightarrow> (case r of Inl (Ended result a) \<Rightarrow> Q calls result | _ \<Rightarrow> True))"

lemma every_end_then:
  assumes "silent m" "every_end Q m" and "\<And>db x. every_end Q (f db x)"
  shows "every_end Q (and_then m f)"
proof -
  obtain db calls r where m: "m = (db, calls, r)" by (cases m) auto
  then have "calls = []" using assms(1) by (simp add: silent_def)
  then show ?thesis
    using assms(2) assms(3) [of db] by (cases r) (auto simp: m every_end_def and_then_def split: prod.splits)
qed

lemma every_end_steps [simp]:
  "every_end Q (go_on db x)" "every_end Q (read_session ew n db t)" "every_end Q (upsert ew n db s)"
  "every_end Q (workspace_is_current ew n db s)" "every_end Q (stop_with db a tag) = Q [] (Outcome tag)"
  by (simp_all add: every_end_def go_on_def read_session_def upsert_def workspace_is_current_def stop_with_def Let_def
      split: option.splits)

text \<open>An acceptance is reported only with the receipt of the one message that was sent.\<close>

definition acceptances :: "string list" where
  "acceptances = [''sent'', ''verification_requested'', ''continued'', ''handoff_injected'']"

fun message_reply :: "live_adapter \<Rightarrow> harness_session \<Rightarrow> adapter_call \<Rightarrow> adapter_result answer option" where
  "message_reply adapter s (Sent t body) = (if t = ses_id s then Some (la_send adapter s body) else None)"
| "message_reply adapter s (Injected t b) = (if t = ses_id s then Some (la_inject adapter s b) else None)"
| "message_reply adapter s (Resumed t p) = (if t = ses_id s then Some (la_resume adapter s p) else None)"
| "message_reply adapter s c = None"

definition delivered_once :: "live_adapter option \<Rightarrow> adapter_call list \<Rightarrow> execution_result \<Rightarrow> bool" where
  "delivered_once found calls result =
     (\<exists>adapter s call reply receipt. found = Some adapter \<and> calls = [call] \<and>
        message_reply adapter s call = Some (Answered reply) \<and>
        resolve_adapter_message_result reply s = Delivered receipt \<and>
        result = Receipts (outcome_of result) (Some receipt) None)"

definition truthful :: "live_adapter option \<Rightarrow> adapter_call list \<Rightarrow> execution_result \<Rightarrow> bool" where
  "truthful found calls result =
     (outcome_of result \<in> set acceptances \<and> (\<forall>part. Delegated part \<notin> set calls) \<longrightarrow> delivered_once found calls result)"

lemma truthful_Outcome: "tag \<notin> set acceptances \<Longrightarrow> truthful found calls (Outcome tag)"
  by (simp add: truthful_def)

lemma message_dispatch_truthful:
  assumes "message_reply adapter s call = Some reply" "uncertain \<notin> set acceptances" "rejected \<notin> set acceptances"
  shows "every_end (truthful (Some adapter))
    (and_then (workspace_dispatch ew n db sessions call reply) (\<lambda>db reply.
     on_answer db a uncertain reply (message_ending db a s accepted rejected)))"
proof -
  have uncertain: "tag \<notin> set acceptances" if "uncertain_outcome accepted = Some tag" for tag
    using that by (auto simp: acceptances_def split: if_splits)
  have refused: "''workspace_authority_changed'' \<notin> set acceptances"
    "''hook_followup_prepared_delivery_uncertain'' \<notin> set acceptances" by (simp_all add: acceptances_def)
  have "truthful (Some adapter) [call] result"
    if "message_execution_result answered s accepted rejected = Some result" "reply = Answered answered" for answered result
    using that assms uncertain refused
    by (auto simp: message_execution_result_def truthful_def delivered_once_def simp del: uncertain_outcome.simps
        split: adapter_message_resolution.splits) blast
  then show ?thesis
    using assms(2) refused(1)
    by (auto simp: every_end_def and_then_def workspace_dispatch_def on_answer_def message_ending_def go_on_def
        stop_with_def truthful_Outcome Let_def split: workspace_check.splits answer.splits option.splits)
qed

lemma read_sources_silent: "silent (read_sources ew db sources) \<and> every_end Q (read_sources ew db sources)"
proof (induction sources arbitrary: db)
  case (Cons t others)
  then show ?case by (auto intro!: silent_and_then every_end_then)
qed simp

lemma fresh_handoff_truthful: "every_end (truthful (Some adapter)) (fresh_handoff ew db a s adapter body)"
proof -
  have codes: "t \<notin> set acceptances" if "t \<in> {''handoff_failed'', ''handoff_context_too_large'', ''handoff_context_mismatch'',
      ''handoff_skipped_no_specific_context'', ''handoff_delivery_uncertain''}" for t
    using that by (auto simp: acceptances_def)
  have dispatch: "every_end (truthful (Some adapter))
    (and_then (workspace_dispatch ew n db sessions call reply) (\<lambda>db reply.
     on_answer db a ''handoff_delivery_uncertain'' reply (message_ending db a s ''handoff_injected'' ''handoff_failed'')))"
    if "message_reply adapter s call = Some reply" for n db sessions call reply
    by (rule message_dispatch_truthful) (use that codes in auto)
  show ?thesis
    unfolding fresh_handoff_def
    by (auto intro!: every_end_then dispatch truthful_Outcome codes conjunct1 [OF read_sources_silent]
        conjunct2 [OF read_sources_silent] split: pyval.splits option.splits)
qed

definition message_actions :: "intervention_type list" where
  "message_actions = IT_FRESH_HANDOFF # text_actions"

lemma perform_truthful:
  assumes "act_type a \<in> set message_actions"
  shows "every_end (truthful (Some adapter)) (perform ew db a s adapter body resolving)"
proof -
  have codes: "t \<notin> set acceptances" if "t \<in> {''send_delivery_uncertain'', ''send_failed'', ''verification_delivery_uncertain'',
      ''verification_failed'', ''continue_delivery_uncertain'', ''continue_failed''}" for t
    using that by (auto simp: acceptances_def)
  show ?thesis
    using assms fresh_handoff_truthful
    by (auto simp: message_actions_def text_actions_def perform_def send_text_def Let_def
        intro!: message_dispatch_truthful codes)
qed

lemma check_action_text_silent: "silent (check_action_text db a)"
  by (auto simp: check_action_text_def Let_def)

lemma check_action_text_truthful: "every_end (truthful found) (check_action_text db a)"
  by (auto simp: check_action_text_def Let_def acceptances_def intro!: truthful_Outcome)

lemma delegate_truthful: "every_end (truthful found) (delegate ew db a s part)"
  by (auto simp: delegate_def every_end_def truthful_def split: prod.splits ending.splits)

lemma carry_out_truthful:
  assumes "act_type a \<in> set message_actions"
  shows "every_end (truthful (ew_adapter ew (act_session_id a))) (carry_out ew db a s rid)"
  using assms unfolding carry_out_def
  by (auto intro!: every_end_then truthful_Outcome delegate_truthful check_action_text_silent check_action_text_truthful
      perform_truthful simp: acceptances_def split: option.splits)

lemma await_human_truthful: "every_end (truthful found) (await_human ew db a)"
  unfolding await_human_def Let_def
  by (auto intro!: every_end_then truthful_Outcome simp: acceptances_def split: option.splits)

lemma execute_action_truthful:
  assumes "act_type a \<in> set message_actions"
  shows "every_end (truthful (ew_adapter ew (act_session_id a))) (execute_action ew db a verdict human rid)"
proof -
  have "every_end (truthful (ew_adapter ew (act_session_id a))) (execute_allowed ew db a human rid)"
    using assms carry_out_truthful [OF assms]
    unfolding execute_allowed_def
    by (auto intro!: every_end_then truthful_Outcome simp: acceptances_def lifecycle_authority_def lifecycle_types_def
        message_actions_def text_actions_def split: option.splits)
  then show ?thesis
    using assms await_human_truthful
    by (auto simp: execute_action_def message_actions_def text_actions_def acceptances_def intro!: truthful_Outcome)
qed

section \<open>Example\<close>

definition example_nudge :: proposed_action where
  "example_nudge = (int_action (example_ask ''r1''))\<lparr>act_type := IT_SEND_NUDGE, act_payload := [(''text'', PStr ''hi'')]\<rparr>"

definition example_reply :: adapter_result where
  "example_reply = Message (PBool True) (PStr ''v1'') (PStr ''t1'')"

definition example_live_adapter :: live_adapter where
  "example_live_adapter =
     \<lparr>la_probe = Failed, la_respond = (\<lambda>_ _ _. Failed), la_send = (\<lambda>_ _. Answered example_reply),
      la_inject = (\<lambda>_ _. Failed), la_resume = (\<lambda>_ _. Failed), la_focus = (\<lambda>_. Failed),
      la_start = (\<lambda>_ _ _. Failed), la_stop = (\<lambda>_. Failed), la_fork = (\<lambda>_ _. Failed)\<rparr>"

definition example_world :: executor_world where
  "example_world =
     \<lparr>ew_codec = example_codec, ew_boot = ''boot'', ew_now = Aware 2 0, ew_gap = (\<lambda>_ db. db),
      ew_upsert = (\<lambda>_ db. Some db), ew_workspace = (\<lambda>_ _ _. Workspace_Current),
      ew_adapter = (\<lambda>_. Some example_live_adapter), ew_bundle = (\<lambda>_. None), ew_bundle_bytes = (\<lambda>_. 0),
      ew_json_bytes = (\<lambda>_. 0), ew_capabilities_json = (\<lambda>_. []), ew_pair = ''p'', ew_overlay_session = (\<lambda>_. None),
      ew_parts = (\<lambda>_ _ a db. (db, Ended (Outcome []) a)), ew_channels = None\<rparr>"

lemma example_delivered: "\<exists>r. resolve_adapter_message_result example_reply Ruling_Steps.example_session = Delivered r"
proof -
  have ids: "bounded_adapter_id (PStr ''v1'') [] = Inr ''v1''" "exact_id ''s1''" "exact_id ''v1''" "exact_id ''t1''"
    by code_simp+
  show ?thesis
    unfolding resolve_delivered by (simp add: Ruling_Steps.example_session_fields ids example_reply_def)
qed

lemma example_nudge_sent:
  "\<exists>receipt. execute_action example_world (example_store ''r1'' []) example_nudge PV_ALLOW False None =
     (example_store ''r1'' [], [Sent ''s1'' ''hi''], Inl (Ended (Receipts ''sent'' (Some receipt) None) example_nudge))"
proof -
  obtain receipt where r: "resolve_adapter_message_result example_reply Ruling_Steps.example_session = Delivered receipt"
    using example_delivered by blast
  have fields: "act_type example_nudge = IT_SEND_NUDGE" "act_session_id example_nudge = ''s1''"
    "act_goal_id example_nudge = Some ''g1''" "dict_get (act_payload example_nudge) ''text'' = PStr ''hi''"
    by (simp_all add: example_nudge_def example_ask_fields)
  have row: "map_option sr_session (find_session_row (example_store ''r1'' []) ''s1'') = Some Ruling_Steps.example_session"
    by (simp add: find_session_row_def example_store_def)
  have body: "strip ''hi'' = ''hi''" by code_simp
  have "execute_action example_world (example_store ''r1'' []) example_nudge PV_ALLOW False None =
     (example_store ''r1'' [], [Sent ''s1'' ''hi''], Inl (Ended (Receipts ''sent'' (Some receipt) None) example_nudge))"
    by (simp add: execute_action_def fields execute_allowed_def read_session_def example_world_def row go_on_def
        and_then_def Ruling_Steps.example_session_fields lifecycle_authority_def lifecycle_types_def carry_out_def
        workspace_is_current_def stop_if_def check_action_text_def body max_action_text_chars_def Let_def
        requires_correction_def perform_def send_text_def workspace_dispatch_def example_live_adapter_def on_answer_def
        message_ending_def message_execution_result_def r)
  then show ?thesis by blast
qed

section \<open>Properties\<close>





end
