(* ===== verification/Pure_Paths.thy ===== *)
theory Pure_Paths
  imports Project_Identity
begin

text \<open>
  What the code uses of \<open>pathlib\<close> and \<open>os.path\<close> beside \<open>normpath\<close>: the parts, the name and the text of a
  \<open>PurePosixPath\<close> and of a \<open>PureWindowsPath\<close>, \<open>posixpath.join\<close> and \<open>ntpath.join\<close>.
\<close>

section \<open>Joining\<close>

text \<open>\<open>ntpath.splitroot\<close> on a path with its own separators.\<close>

definition split_drive :: "string \<Rightarrow> string \<times> string \<times> string" where
  "split_drive p =
     (case nt_splitroot (replace_char slash bslash p) of
        (d, r, _) \<Rightarrow> (take (length d) p, take (length r) (drop (length d) p), drop (length d + length r) p))"

definition nt_join :: "string \<Rightarrow> string \<Rightarrow> string" where
  "nt_join path p =
     (case (split_drive path, split_drive p) of
        ((drive, sep, tail), (p_drive, p_sep, p_tail)) \<Rightarrow>
          (case (if p_sep \<noteq> [] then (if p_drive \<noteq> [] \<or> drive = [] then p_drive else drive, p_sep, p_tail)
                 else if p_drive \<noteq> [] \<and> lower p_drive \<noteq> lower drive then (p_drive, p_sep, p_tail)
                 else (if p_drive \<noteq> [] then p_drive else drive, sep,
                       (if tail \<noteq> [] \<and> \<not> is_separator (last tail) then tail @ [bslash] else tail) @ p_tail)) of
             (d, r, t) \<Rightarrow>
               if t \<noteq> [] \<and> r = [] \<and> d \<noteq> [] \<and> last d \<notin> {CHR '':'', bslash, slash} then d @ [bslash] @ t
               else d @ r @ t))"

definition posix_join :: "string \<Rightarrow> string \<Rightarrow> string" where
  "posix_join a b =
     (if starts_with ''/'' b then b
      else if a = [] \<or> ends_with ''/'' a then a @ b
      else a @ ''/'' @ b)"

section \<open>Parts\<close>

text \<open>\<open>PurePosixPath(s).name\<close>.\<close>

definition posix_tail :: "string \<Rightarrow> string list" where
  "posix_tail s = filter (\<lambda>p. p \<noteq> [] \<and> p \<noteq> ''.'') (split_char slash s)"

definition posix_name :: "string \<Rightarrow> string" where
  "posix_name s = (if posix_tail s = [] then [] else last (posix_tail s))"

text \<open>\<open>str(PurePosixPath(s))\<close>.\<close>

definition posix_text :: "string \<Rightarrow> string" where
  "posix_text s =
     (let out = posix_root s @ join ''/'' (posix_tail s) in if out = [] then ''.'' else out)"

definition posix_parts :: "string \<Rightarrow> string list" where
  "posix_parts s = (if posix_root s = [] then posix_tail s else posix_root s # posix_tail s)"

text \<open>
  A \<open>PureWindowsPath\<close>: drive, root and the components below. A share without a root has one; a first
  component that looks like a drive is written after a dot.
\<close>

definition share_root :: "string \<Rightarrow> string \<Rightarrow> string" where
  "share_root drive sep =
     (let parts = split_char bslash drive
      in if sep = [] \<and> starts_with [bslash] drive \<and> \<not> ends_with [bslash] drive \<and>
            (length parts = 4 \<and> parts ! 2 \<notin> {[], ''?'', ''.'', ''?.''} \<or> length parts = 6)
         then [bslash] else sep)"

definition windows_split :: "string \<Rightarrow> string \<times> string \<times> string list" where
  "windows_split s =
     (case nt_splitroot (replace_char slash bslash s) of
        (drive, sep, tail) \<Rightarrow>
          (drive, share_root drive sep, filter (\<lambda>p. p \<noteq> [] \<and> p \<noteq> ''.'') (split_char bslash tail)))"

definition path_drive :: "string \<Rightarrow> string" where
  "path_drive s = fst (windows_split s)"

definition windows_root :: "string \<Rightarrow> string" where
  "windows_root s = fst (snd (windows_split s))"

definition windows_tail :: "string \<Rightarrow> string list" where
  "windows_tail s = snd (snd (windows_split s))"

definition windows_parts :: "string \<Rightarrow> string list" where
  "windows_parts s =
     (let anchor = path_drive s @ windows_root s
      in if anchor = [] then windows_tail s else anchor # windows_tail s)"

definition windows_absolute :: "string \<Rightarrow> bool" where
  "windows_absolute s = (path_drive s \<noteq> [] \<and> windows_root s \<noteq> [])"

text \<open>\<open>as_posix()\<close>.\<close>

definition windows_as_posix :: "string \<Rightarrow> string" where
  "windows_as_posix s =
     (let anchor = path_drive s @ windows_root s; tail = windows_tail s;
          shown = (if anchor = [] \<and> tail \<noteq> [] \<and> fst (nt_splitroot (hd tail)) \<noteq> [] then ''.'' # tail else tail);
          out = anchor @ join [bslash] shown
      in replace_char bslash slash (if out = [] then ''.'' else out))"

section \<open>Facts\<close>

lemma posix_tail_plain: "p \<in> set (posix_tail s) \<Longrightarrow> p \<noteq> [] \<and> p \<noteq> ''.'' \<and> slash \<notin> set p"
  unfolding posix_tail_def using split_char_notin by fastforce

lemma split_char_append_any: "split_char d (s @ d # t) = split_char d s @ split_char d t"
proof (induction s)
  case (Cons c s)
  obtain p ps where "split_char d s = p # ps" by (cases "split_char d s") auto
  with Cons show ?case by simp
qed simp

lemma posix_tail_join: "posix_tail (a @ slash # b) = posix_tail a @ posix_tail b"
  by (simp add: posix_tail_def split_char_append_any)

lemma posix_tail_of_join:
  "\<forall>c \<in> set cs. c \<noteq> [] \<and> c \<noteq> ''.'' \<and> slash \<notin> set c \<Longrightarrow> posix_tail (join ''/'' cs) = cs"
  by (cases "cs = []") (simp_all add: posix_tail_def split_char_join)

lemma posix_tail_posix_join: "\<not> starts_with ''/'' b \<Longrightarrow> posix_tail (posix_join a b) = posix_tail a @ posix_tail b"
proof (cases "a = []")
  case False
  assume b: "\<not> starts_with ''/'' b"
  show ?thesis
  proof (cases "ends_with ''/'' a")
    case True
    with False obtain a' where a: "a = a' @ [slash]"
      by (cases a rule: rev_cases) (auto simp: ends_with_def starts_with_def)
    have "posix_tail (a' @ slash # []) = posix_tail a'" unfolding posix_tail_join by (simp add: posix_tail_def)
    with a b True show ?thesis by (simp add: posix_join_def posix_tail_join)
  next
    case other: False
    with b False show ?thesis by (simp add: posix_join_def posix_tail_join)
  qed
qed (simp add: posix_join_def posix_tail_def)

lemma push_plain: "foldl (push_component r) stack segs = foldl (push_component r) stack (filter (\<lambda>p. p \<noteq> [] \<and> p \<noteq> ''.'') segs)"
  by (induction segs arbitrary: stack) auto

lemma normal_posix_tail: "normal_components True (split_char slash s) = normal_components True (posix_tail s)"
  unfolding normal_components_def posix_tail_def by (subst push_plain) (rule refl)

text \<open>Components that do not climb stay below what they follow.\<close>

lemma normal_components_below:
  assumes "\<forall>x \<in> set below. regular x"
  shows "normal_components r (upper @ below) = normal_components r upper @ below"
  using assms by (simp add: normal_components_def foldl_push_id)

end
