(* ===== verification/Goal_Files.thy ===== *)
theory Goal_Files
  imports Background_Jobs Pure_Paths
begin

text \<open>
  The part of \<open>services/supervisor/src/pex_supervisor/verify.py\<close> that reads files out of the words of a goal,
  with the names \<open>workspace.py\<close> hides, and \<open>drift.py\<close>: work that serves no file of the goal, and work
  that overlaps with a sibling session.
\<close>

section \<open>Visible paths\<close>

definition hidden_file_names :: "string list" where
  "hidden_file_names = [''evaluator.py'', ''metadata.yaml'', ''stressor.yaml'', ''expected_artifacts.yaml'']"

definition hidden_dir_names :: "string list" where
  "hidden_dir_names = [''hidden_evaluator'', ''invalid_leaked_runs_do_not_use'']"

definition path_parts :: "string \<Rightarrow> string list" where
  "path_parts path = split_char slash (casefold (replace_char bslash slash path))"

definition lower_drive :: "string \<Rightarrow> bool" where
  "lower_drive s = (case s of c # k # _ \<Rightarrow> is_lower_ascii c \<and> k = CHR '':'' | _ \<Rightarrow> False)"

definition visible_goal_path :: "string \<Rightarrow> bool" where
  "visible_goal_path path =
     (let normalized = casefold (replace_char bslash slash path); parts = split_char slash normalized
      in if normalized = [] \<or> starts_with ''/'' normalized \<or> lower_drive normalized \<or>
            (\<exists>part \<in> set parts. part \<in> {[], ''.'', ''..''}) then False
         else if length parts = 1 \<and> last parts \<in> set hidden_file_names then False
         else \<not> (\<exists>part \<in> set parts. part \<in> set hidden_dir_names))"

section \<open>Patterns\<close>

definition alnum_char :: rx where
  "alnum_char = RChr is_alnum_ascii"

definition file_char :: rx where
  "file_char = RChr (\<lambda>c. is_alnum_ascii c \<or> c \<in> set ''._/-'')"

definition relative_start :: "rx list" where
  "relative_start = [RNot (rseq [RChr is_alpha_ascii, rchar (CHR '':'')]), RNot (rchar slash)]"

definition no_dot_dot :: rx where
  "no_dot_dot =
     RNot (rseq [RStar rdot, ralt [RBol, rchar slash], rlit ''..'', ralt [rchar slash, REol]])"

definition long_stem :: rx where
  "long_stem = rseq [rtimes 1 file_char, rupto 239 file_char]"

definition short_suffix :: rx where
  "short_suffix = rseq [rtimes 1 alnum_char, rupto 11 alnum_char]"

definition file_token :: rx where
  "file_token =
     rseq ([RBol] @ relative_start @ [no_dot_dot, long_stem, rchar (CHR ''.''), short_suffix, REol])"

definition named_file :: rx where
  "named_file = RGroup ''path'' (rseq (relative_start @ [long_stem, rchar (CHR ''.''), short_suffix]))"

definition file_contains :: rx where
  "file_contains =
     rseq [named_file, rplus rspace,
       ralt [rseq [rlit_ci ''contain'', ropt (rchar_ci (CHR ''s''))], rlit_ci ''containing''], rplus rspace,
       RGroup ''expected'' (rseq [rdot, RLazy rdot]), ralt [rset ''.;'', REol]]"

definition quoted_by :: "char \<Rightarrow> rx" where
  "quoted_by q = rseq [rchar q, RStar (rnotset [q, CHR 0x0D, CHR 0x0A]), rchar q]"

definition newline_words :: rx where
  "newline_words =
     rseq [rplus rspace, rlit_ci ''followed'', rplus rspace, rlit_ci ''by'', rplus rspace,
       ralt [rlit_ci ''one'', rlit_ci ''a single'', rchar_ci (CHR ''a''), rchar (CHR ''1'')], rplus rspace,
       ralt [rlit_ci ''newline'',
         rseq [rlit_ci ''LF'', rplus rspace, rlit_ci ''newline'',
           ropt (rseq [rplus rspace, rlit_ci ''(U+000A)'']),
           ropt (rseq [rchar (CHR '',''), rplus rspace, rlit_ci ''no'', rplus rspace, rlit_ci ''CR''])]]]"

definition file_exact_content :: rx where
  "file_exact_content =
     rseq [named_file, rplus rspace,
       ralt [rseq [rlit_ci ''contain'', ropt (rchar_ci (CHR ''s''))], rlit_ci ''containing''], rplus rspace,
       rlit_ci ''exactly'', rplus rspace,
       ropt (rseq [rlit_ci ''the'', rplus rspace, rlit_ci ''word'', rplus rspace]),
       RGroup ''literal''
         (ralt [quoted_by (CHR 0x60), quoted_by (CHR 0x22), quoted_by (CHR 0x27),
            rplus (RChr (\<lambda>c. is_alnum_ascii c \<or> c \<in> set ''_/-''))]),
       ropt (RGroup ''newline'' newline_words), ropt (rset ''.;'')]"

definition file_rows :: rx where
  "file_rows =
     rseq [RGroup ''path''
         (rseq (relative_start @
           [no_dot_dot, long_stem, rchar (CHR ''.''),
            ralt [rseq [rlit_ci ''json'', ropt (rchar_ci (CHR ''l''))], rlit_ci ''csv'']])),
       rplus rspace, ralt [rlit_ci ''has'', rseq [rlit_ci ''contain'', ropt (rchar_ci (CHR ''s''))]],
       rplus rspace, RGroup ''count'' (rplus rdigit), rplus rspace, rlit_ci ''rows'', RWordB]"

definition file_exists :: rx where
  "file_exists =
     rseq [RGroup ''path'' (rseq (relative_start @ [no_dot_dot, long_stem, rchar (CHR ''.''), short_suffix])),
       rplus rspace,
       ralt [rlit_ci ''exists'', rlit_ci ''is present'', rlit_ci ''is required'', rlit_ci ''must exist''], RWordB]"

definition quoted_path :: rx where
  "quoted_path =
     rseq [RBol, rchar (CHR 0x60), RGroup ''path'' (rplus (rnotset [CHR 0x60, CHR 0x0D, CHR 0x0A])),
       rchar (CHR 0x60), RNot (RNot rspace)]"

definition exactly_words :: rx where
  "exactly_words = rseq [RBol, rlit_ci ''exactly'', rplus rspace]"

definition the_word :: rx where
  "the_word = rseq [RBol, rlit_ci ''the'', rplus rspace, rlit_ci ''word'', rplus rspace]"

section \<open>Criteria about files\<close>

definition named_group :: "rstate \<Rightarrow> string \<Rightarrow> string" where
  "named_group st n = text_or_empty (group_of st n)"

definition max_expected_rows :: int where
  "max_expected_rows = 1000000000"

text \<open>The argument is a run of digits.\<close>

definition parse_expected_rows :: "string \<Rightarrow> int option" where
  "parse_expected_rows v =
     (if 10 < length v then None
      else let n = int (read_decimal v) in if 0 \<le> n \<and> n \<le> max_expected_rows then Some n else None)"

definition expected_file_rows :: "string \<Rightarrow> (string \<times> int) option" where
  "expected_file_rows raw =
     (case rx_search file_rows (strip raw) of
        None \<Rightarrow> None
      | Some (_, _, st) \<Rightarrow>
          (let path = replace_char bslash slash (named_group st ''path'')
           in case parse_expected_rows (named_group st ''count'') of
                None \<Rightarrow> None
              | Some n \<Rightarrow> if visible_goal_path path then Some (path, n) else None))"

definition quote_marks :: "char \<Rightarrow> bool" where
  "quote_marks c = (c \<in> {CHR 0x60, CHR 0x22, CHR 0x27})"

text \<open>A code span around the leading path is formatting; \<open>None\<close> when it holds no plain visible path.\<close>

definition unquoted_criterion :: "string \<Rightarrow> string option" where
  "unquoted_criterion raw =
     (case rx_match quoted_path raw of
        None \<Rightarrow> Some raw
      | Some st \<Rightarrow>
          (let path = named_group st ''path''
           in if \<not> rx_fullmatches file_token path \<or> \<not> visible_goal_path path then None
              else Some (path @ rest st)))"

definition exact_literal :: "rstate \<Rightarrow> string" where
  "exact_literal st =
     (let literal = named_group st ''literal'';
          inner = (case literal of [] \<Rightarrow> [] | c # s \<Rightarrow> if quote_marks c then butlast s else literal)
      in if named_group st ''newline'' \<noteq> [] then inner @ [CHR 0x0A] else inner)"

definition contained_text :: "string \<Rightarrow> string option" where
  "contained_text found =
     (let expected = strip_where quote_marks (strip found)
      in if rx_matches exactly_words expected then None
         else let content = strip_where quote_marks (strip (rx_sub the_word [] expected))
              in if content = [] then None else Some content)"

definition expected_content :: "string \<Rightarrow> (string \<times> string \<times> bool) option" where
  "expected_content raw =
     (case unquoted_criterion (strip raw) of
        None \<Rightarrow> None
      | Some t \<Rightarrow>
          (case rx_fullmatch file_exact_content (strip t) of
             Some st \<Rightarrow>
               (let path = named_group st ''path''
                in if visible_goal_path path then Some (path, exact_literal st, True) else None)
           | None \<Rightarrow>
               (case rx_search file_contains (strip t) of
                  None \<Rightarrow> None
                | Some (_, _, st) \<Rightarrow>
                    (case contained_text (named_group st ''expected'') of
                       None \<Rightarrow> None
                     | Some content \<Rightarrow>
                         (let path = replace_char bslash slash (named_group st ''path'')
                          in if visible_goal_path path then Some (path, content, False) else None)))))"

definition expected_exists :: "string \<Rightarrow> string option" where
  "expected_exists raw =
     (case rx_search file_exists (strip raw) of
        None \<Rightarrow> None
      | Some (_, _, st) \<Rightarrow>
          (let path = replace_char bslash slash (named_group st ''path'')
           in if visible_goal_path path then Some path else None))"

definition required_file :: "string \<Rightarrow> string option" where
  "required_file raw =
     (let name = strip raw
      in if rx_fullmatches file_token name \<and> visible_goal_path name then Some (replace_char bslash slash name)
         else case expected_file_rows name of
           Some (path, _) \<Rightarrow> Some path
         | None \<Rightarrow>
             (case expected_content name of
                Some (path, _, _) \<Rightarrow> Some path
              | None \<Rightarrow> expected_exists name))"

text \<open>\<open>list(dict.fromkeys(xs))\<close>: the first occurrence of each.\<close>

fun first_occurrences :: "'a list \<Rightarrow> 'a list" where
  "first_occurrences [] = []"
| "first_occurrences (x # xs) = x # filter (\<lambda>y. y \<noteq> x) (first_occurrences xs)"

definition required_files :: "goal \<Rightarrow> string list" where
  "required_files g =
     first_occurrences (concat (map (\<lambda>raw. case required_file raw of None \<Rightarrow> [] | Some n \<Rightarrow> [n])
       (evidence_requirements g @ acceptance_criteria g)))"

section \<open>Work outside the goal\<close>

definition refactor_words :: rx where
  "refactor_words =
     rseq [RWordB,
       ralt [rseq [rlit_ci ''refactor'', ropt (rlit_ci ''ing'')], rlit_ci ''restructure'',
         rseq [rlit_ci ''rename'', rplus rspace, rlit_ci ''all''],
         rseq [rlit_ci ''cleanup'', rplus rspace, rlit_ci ''all''],
         rseq [rlit_ci ''reformat'', rplus rspace, rlit_ci ''all'']],
       RWordB]"

definition path_word :: rx where
  "path_word =
     rseq [rplus (RChr (\<lambda>c. is_alnum_ascii c \<or> c \<in> set ''._-'')), rchar (CHR ''.''), short_suffix]"

definition goal_path_names :: "goal \<Rightarrow> string list" where
  "goal_path_names g =
     filter (\<lambda>n. n \<noteq> [])
       (map (\<lambda>n. casefold (posix_name (replace_char bslash slash n))) (required_files g) @
        map casefold (rx_findall path_word
          (join '' '' (objective g # acceptance_criteria g @ evidence_requirements g))))"

definition unrelated_refactor :: "harness_event \<Rightarrow> goal option \<Rightarrow> string option" where
  "unrelated_refactor e g =
     (case g of
        None \<Rightarrow> None
      | Some x \<Rightarrow>
          if event_type e \<notin> {ET_FILE_EDIT, ET_SHELL, ET_TOOL_CALL, ET_AGENT_RESPONSE} then None
          else
            (let relevant = goal_path_names x;
                 paths = map (replace_char bslash slash) (filter (\<lambda>p. strip p \<noteq> []) (file_paths e));
                 unrelated = filter (\<lambda>p. casefold (posix_name p) \<notin> set relevant) paths;
                 cmd = strip (if given (command e) then text_or_empty (command e) else text_or_empty (message_delta e));
                 named = (\<exists>n \<in> set relevant. contains n (replace_char bslash slash (casefold cmd)))
             in if named \<or> (paths \<noteq> [] \<and> length unrelated < length paths) then None
                else if 4 \<le> length unrelated then Some (join '', '' (map posix_name (take 4 unrelated)))
                else if rx_found refactor_words cmd then Some (take 200 cmd)
                else None))"

section \<open>Overlap with siblings\<close>

definition observed_paths :: "harness_event \<Rightarrow> string list" where
  "observed_paths e =
     map (\<lambda>p. posix_text (replace_char bslash slash p)) (filter (\<lambda>p. strip p \<noteq> []) (file_paths e))"

text \<open>A prior event of a sibling, at or before the current one, that can be compared with it.\<close>

definition comparable :: "harness_event \<Rightarrow> string \<Rightarrow> harness_event \<Rightarrow> bool" where
  "comparable e sibling prior =
     (ev_session_id prior = sibling \<and> event_type prior \<in> {ET_FILE_EDIT, ET_SHELL, ET_TOOL_CALL} \<and>
      is_aware (ts prior) \<and> is_aware (ts e) \<and> as_utc (ts prior) \<le> as_utc (ts e))"

definition untested_command :: "harness_event \<Rightarrow> string" where
  "untested_command e = (let cmd = strip (text_or_empty (command e)) in if rx_found routine_test cmd then [] else cmd)"

definition overlap_with ::
  "harness_event \<Rightarrow> string \<Rightarrow> string \<Rightarrow> harness_event \<Rightarrow> (string \<times> string) list option" where
  "overlap_with e sibling harness prior =
     (let provenance =
            [(''sibling_session_id'', sibling), (''harness'', harness), (''source_event_id'', event_id prior),
             (''current_event_id'', event_id e), (''basis'', ''observed_overlap_candidate'')];
          overlap = sort (filter (\<lambda>p. p \<in> set (observed_paths prior)) (remdups (observed_paths e)))
      in if \<not> comparable e sibling prior then None
         else case overlap of
           p # _ \<Rightarrow> Some (provenance @ [(''path'', p)])
         | [] \<Rightarrow>
             (let prior_cmd = strip (text_or_empty (command prior)); cmd = untested_command e
              in if cmd \<noteq> [] \<and> prior_cmd \<noteq> [] \<and> cmd = prior_cmd \<and> \<not> rx_found routine_test prior_cmd
                 then Some (provenance @ [(''command'', take 200 cmd)]) else None))"

fun first_some :: "('a \<Rightarrow> 'b option) \<Rightarrow> 'a list \<Rightarrow> 'b option" where
  "first_some f [] = None"
| "first_some f (x # xs) = (case f x of Some y \<Rightarrow> Some y | None \<Rightarrow> first_some f xs)"

definition duplicate_sibling_work ::
  "harness_event \<Rightarrow> (string \<times> string \<times> harness_event list) list \<Rightarrow> (string \<times> string) list option" where
  "duplicate_sibling_work e siblings =
     (if event_type e \<notin> {ET_FILE_EDIT, ET_SHELL, ET_TOOL_CALL} then None
      else if observed_paths e = [] \<and> untested_command e = [] then None
      else first_some (\<lambda>(sibling, harness, events).
             if sibling = ev_session_id e then None else first_some (overlap_with e sibling harness) events) siblings)"

section \<open>Facts\<close>

lemma first_occurrences_set [simp]: "set (first_occurrences xs) = set xs"
  by (induction xs) auto

lemma first_occurrences_distinct [simp]: "distinct (first_occurrences xs)"
  by (induction xs) auto

lemma replace_char_again [simp]: "a \<noteq> b \<Longrightarrow> replace_char a b (replace_char a b s) = replace_char a b s"
  by (simp add: replace_char_def)

lemma visible_replaced [simp]: "visible_goal_path (replace_char bslash slash path) = visible_goal_path path"
  by (simp add: visible_goal_path_def)

lemma expected_file_rows_visible: "expected_file_rows raw = Some (path, n) \<Longrightarrow> visible_goal_path path"
  by (auto simp: expected_file_rows_def Let_def split: option.splits if_splits)

lemma expected_content_visible: "expected_content raw = Some (path, c, exact) \<Longrightarrow> visible_goal_path path"
  by (auto simp: expected_content_def Let_def split: option.splits if_splits)

lemma expected_exists_visible: "expected_exists raw = Some path \<Longrightarrow> visible_goal_path path"
  by (auto simp: expected_exists_def Let_def split: option.splits if_splits)

lemma required_file_visible: "required_file raw = Some path \<Longrightarrow> visible_goal_path path"
  by (auto simp: required_file_def Let_def expected_file_rows_visible expected_content_visible
      expected_exists_visible split: option.splits if_splits)

lemma slash_casefold: "casefold_char slash = [slash]"
  by code_simp

lemma visible_parts:
  assumes "visible_goal_path path"
  shows "\<forall>part \<in> set (path_parts path). part \<notin> {[], ''.'', ''..''} \<and> part \<notin> set hidden_dir_names"
    and "\<not> starts_with ''/'' path \<and> path_parts path \<notin> (\<lambda>n. [n]) ` set hidden_file_names"
proof -
  show "\<forall>part \<in> set (path_parts path). part \<notin> {[], ''.'', ''..''} \<and> part \<notin> set hidden_dir_names"
    using assms by (auto simp: visible_goal_path_def path_parts_def Let_def split: if_splits)
  have "path_parts path \<noteq> [n]" if "n \<in> set hidden_file_names" for n
    using assms that by (auto simp: visible_goal_path_def path_parts_def Let_def split: if_splits)
  moreover have "\<not> starts_with ''/'' path"
  proof
    assume "starts_with ''/'' path"
    then obtain s where "path = slash # s" by (cases path) (auto simp: starts_with_def)
    moreover have "casefold (slash # s) = slash # casefold s" for s
      using slash_casefold by (simp add: casefold_def)
    ultimately show False using assms by (auto simp: visible_goal_path_def starts_with_def replace_char_def Let_def)
  qed
  ultimately show "\<not> starts_with ''/'' path \<and> path_parts path \<notin> (\<lambda>n. [n]) ` set hidden_file_names" by auto
qed

section \<open>Property\<close>

text \<open>
  Property C30. Whatever the words of a goal say, the files it requires are relative, stay inside the
  workspace, never name an oracle file at the root nor anything below an oracle directory, and each is
  listed once.
\<close>

theorem required_files_stay_visible:
  "distinct (required_files g) \<and>
   (\<forall>path \<in> set (required_files g).
      \<not> starts_with ''/'' path \<and>
      (\<forall>part \<in> set (path_parts path). part \<notin> {[], ''.'', ''..''} \<and> part \<notin> set hidden_dir_names) \<and>
      path_parts path \<notin> (\<lambda>n. [n]) ` set hidden_file_names)"
proof (intro conjI ballI)
  fix path assume "path \<in> set (required_files g)"
  then obtain raw where "required_file raw = Some path"
    by (auto simp: required_files_def split: option.splits)
  then have "visible_goal_path path" by (rule required_file_visible)
  note parts = visible_parts [OF this]
  from parts show "\<not> starts_with ''/'' path" "path_parts path \<notin> (\<lambda>n. [n]) ` set hidden_file_names" by auto
  from parts show "part \<notin> {[], ''.'', ''..''}" "part \<notin> set hidden_dir_names"
    if "part \<in> set (path_parts path)" for part using that by auto
qed (simp add: required_files_def)

definition example_file_goal :: goal where
  "example_file_goal = (new_goal ''g'' ''p'' ''t'' ''o'' (Aware 0 0))\<lparr>acceptance_criteria := [''a.py'']\<rparr>"

lemma example_required: "required_files example_file_goal = [''a.py'']"
  by code_simp

theorem required_files_stay_visible_witness:
  "required_files example_file_goal = [''a.py''] \<and> set (path_parts ''a.py'') \<inter> {[], ''.'', ''..''} = {}"
  using required_files_stay_visible [of example_file_goal] by (auto simp: example_required)

end
