(* ===== verification/Planned_Actions.thy ===== *)
theory Planned_Actions
  imports Supervisor_Context Goal_Files Action_Model Overlay_Model Redaction
begin

text \<open>
  \<open>services/supervisor/src/pex_supervisor/planner.py\<close>, first part: how loosely typed features are read, the
  actions the deterministic planner builds from them, and the tests its rules ask. A value of the wrong
  shape raises, as an \<open>Inl\<close>; a built action is validated. The parameters are one record: \<open>repr\<close> of a value
  that is not a string, \<open>float\<close> of a text, the hexadecimal digits of a fresh identifier, \<open>isoformat\<close>, the
  JSON image of an overlay, and SHA-256.
\<close>

record planner_world =
  pw_show :: "pyval \<Rightarrow> string"
  pw_float :: "string \<Rightarrow> rat option"
  pw_fresh :: string
  pw_iso :: "datetime \<Rightarrow> string"
  pw_dump :: "overlay \<Rightarrow> pyval"
  pw_sha :: "string \<Rightarrow> string"

section \<open>Loosely typed values\<close>

text \<open>\<open>(v or {}).get\<close>, iteration over \<open>v or []\<close>, and \<open>v in {"a", ...}\<close>, which hashes \<open>v\<close>.\<close>

definition mapping_of :: "pyval \<Rightarrow> (string \<times> pyval) list result" where
  "mapping_of v =
     (if \<not> truthy v then Inr []
      else case v of PDict d \<Rightarrow> Inr d | _ \<Rightarrow> Inl ''AttributeError'')"

definition items_of :: "pyval \<Rightarrow> pyval list result" where
  "items_of v =
     (if \<not> truthy v then Inr []
      else case v of
        PList vs \<Rightarrow> Inr vs
      | PStr s \<Rightarrow> Inr (map (\<lambda>c. PStr [c]) s)
      | PDict d \<Rightarrow> Inr (map PStr (dict_keys d))
      | _ \<Rightarrow> Inl ''TypeError'')"

definition one_of_texts :: "pyval \<Rightarrow> string list \<Rightarrow> bool result" where
  "one_of_texts v options =
     (case v of
        PList _ \<Rightarrow> Inl ''TypeError''
      | PDict _ \<Rightarrow> Inl ''TypeError''
      | _ \<Rightarrow> Inr (v \<in> set (map PStr options)))"

text \<open>\<open>int(s)\<close>: surrounding white space, a sign, digits that single underscores may group.\<close>

definition int_of_text :: "string \<Rightarrow> int option" where
  "int_of_text s =
     (let t = strip s; negative = starts_with ''-'' t;
          body = (if negative \<or> starts_with ''+'' t then drop 1 t else t);
          groups = split_char (CHR 0x5F) body; digits = concat groups
      in if (\<forall>g \<in> set groups. g \<noteq> [] \<and> (\<forall>c \<in> set g. is_digit_ascii c)) \<and> length digits \<le> 4300
         then Some (if negative then - int (read_decimal digits) else int (read_decimal digits)) else None)"

text \<open>\<open>int(v or 0)\<close>.\<close>

definition int_or_zero :: "pyval \<Rightarrow> int result" where
  "int_or_zero v =
     (if \<not> truthy v then Inr 0
      else case v of
        PInt i \<Rightarrow> Inr i
      | PBool b \<Rightarrow> Inr (if b then 1 else 0)
      | PFloat q \<Rightarrow> Inr (if q < 0 then - floor (- q) else floor q)
      | PStr s \<Rightarrow> (case int_of_text s of None \<Rightarrow> Inl ''ValueError'' | Some i \<Rightarrow> Inr i)
      | _ \<Rightarrow> Inl ''TypeError'')"

definition is_true :: "pyval \<Rightarrow> bool" where
  "is_true v = (v = PBool True)"

text \<open>\<open>v or w\<close>, \<open>str(v)\<close> of the non-blank items, and the text or \<open>None\<close> as a value.\<close>

definition value_or :: "pyval \<Rightarrow> pyval \<Rightarrow> pyval" where
  "value_or v w = (if truthy v then v else w)"

definition texts_of :: "planner_world \<Rightarrow> pyval list \<Rightarrow> string list" where
  "texts_of w vs = map (str_of (pw_show w)) vs"

definition nonblank_texts :: "planner_world \<Rightarrow> pyval list \<Rightarrow> string list" where
  "nonblank_texts w vs = filter (\<lambda>t. strip t \<noteq> []) (texts_of w vs)"

definition truthy_texts :: "planner_world \<Rightarrow> pyval list \<Rightarrow> string list" where
  "truthy_texts w vs = texts_of w (filter truthy vs)"

definition text_value :: "string option \<Rightarrow> pyval" where
  "text_value s = (case s of None \<Rightarrow> PNone | Some t \<Rightarrow> PStr t)"

text \<open>\<open>s.split(sep, 1)\<close> for a separator that occurs: what stands before and after its first occurrence.\<close>

fun split_once :: "string \<Rightarrow> string \<Rightarrow> (string \<times> string) option" where
  "split_once sep [] = None"
| "split_once sep (c # s) =
     (if starts_with sep (c # s) then Some ([], drop (length sep) (c # s))
      else map_option (\<lambda>(a, b). (c # a, b)) (split_once sep s))"

definition first_paragraph :: "string \<Rightarrow> string" where
  "first_paragraph s = (case split_once [CHR 0x0A, CHR 0x0A] s of None \<Rightarrow> s | Some (a, _) \<Rightarrow> a)"

section \<open>Reading the request\<close>

definition score_features_of :: "supervisor_request \<Rightarrow> (string \<times> pyval) list" where
  "score_features_of r = score_features (rq_scores r)"

definition feature :: "supervisor_request \<Rightarrow> string \<Rightarrow> pyval" where
  "feature r key = dict_get (score_features_of r) key"

definition rq_goal_id :: "supervisor_request \<Rightarrow> string option" where
  "rq_goal_id r = map_option goal_id (rq_goal r)"

definition capable :: "supervisor_request \<Rightarrow> string \<Rightarrow> bool" where
  "capable r capability = is_true (dict_get (ses_capabilities (rq_session r)) capability)"

definition can_overlay :: "supervisor_request \<Rightarrow> bool" where
  "can_overlay r = (capable r ''modify_config'' \<or> ses_harness (rq_session r) = HT_SYNTHETIC)"

definition observation_only_goal :: "supervisor_request \<Rightarrow> bool" where
  "observation_only_goal r = (case rq_goal r of None \<Rightarrow> False | Some g \<Rightarrow> observation_only g)"

text \<open>\<open>event.command or (event.tool_input or {}).get("command")\<close>.\<close>

definition event_command :: "harness_event \<Rightarrow> pyval" where
  "event_command e =
     (if given (command e) then PStr (text_or_empty (command e))
      else case tool_input e of None \<Rightarrow> PNone | Some d \<Rightarrow> dict_get d ''command'')"

definition approval_of :: "harness_event \<Rightarrow> string \<Rightarrow> pyval" where
  "approval_of e key = (case approval_request e of None \<Rightarrow> PNone | Some d \<Rightarrow> dict_get d key)"

section \<open>Building actions\<close>

text \<open>The constructor of \<open>ProposedAction\<close> with its defaults, and its validation.\<close>

definition new_action ::
  "supervisor_request \<Rightarrow> intervention_type \<Rightarrow> string \<Rightarrow> string list \<Rightarrow> rat \<Rightarrow> risk_level \<Rightarrow> proposed_action" where
  "new_action r kind rationale evidence confidence risk =
     \<lparr>act_type = kind, act_session_id = ses_id (rq_session r), act_goal_id = rq_goal_id r, act_payload = [],
      act_rationale = rationale, act_evidence = evidence, act_confidence = confidence, act_risk = risk,
      act_reversible = False, act_expected_benefit = [], act_cooldown_seconds = 30,
      act_authority = AUTH_LOCAL_POLICY, act_requires_capability = None\<rparr>"

definition propose :: "proposed_action \<Rightarrow> proposed_action result" where
  "propose a = bind_result (validate_action a) (\<lambda>_. Inr a)"

definition noop :: "supervisor_request \<Rightarrow> string \<Rightarrow> string list \<Rightarrow> proposed_action result" where
  "noop r rationale evidence =
     propose ((new_action r IT_NOOP rationale evidence (7 / 10) RL_NONE)\<lparr>act_cooldown_seconds := 5\<rparr>)"

definition nudge ::
  "supervisor_request \<Rightarrow> string \<Rightarrow> string list \<Rightarrow> string \<Rightarrow> string option \<Rightarrow> proposed_action result" where
  "nudge r rationale evidence message status =
     propose
       ((new_action r IT_SEND_NUDGE rationale evidence (86 / 100) RL_LOW)
          \<lparr>act_payload := (''text'', PStr message) #
             (if given status then [(''session_status'', text_value status)] else []),
           act_expected_benefit :=
             ''Redirect the worker toward evidenced progress without interrupting the human.'',
           act_cooldown_seconds := 45, act_requires_capability := Some ''send_message''\<rparr>)"

definition ask_human ::
  "supervisor_request \<Rightarrow> (string \<times> pyval) list \<Rightarrow> string \<Rightarrow> string list \<Rightarrow> rat \<Rightarrow> risk_level \<Rightarrow>
   proposed_action result" where
  "ask_human r payload rationale evidence confidence risk =
     propose
       ((new_action r IT_ASK_HUMAN rationale evidence confidence risk)
          \<lparr>act_payload := payload, act_authority := AUTH_HUMAN\<rparr>)"

definition typed_verification_kinds :: "string list" where
  "typed_verification_kinds =
     [''pytest'', ''python_unittest'', ''file_count'', ''artifact_tail'', ''command_exit'', ''service_health'']"

text \<open>The edit the evidence names last.\<close>

definition later_edit :: "string list \<Rightarrow> string option" where
  "later_edit evidence =
     (case filter (starts_with ''later_edit:'') (rev evidence) of
        [] \<Rightarrow> None
      | item # _ \<Rightarrow> Some (remove_prefix ''later_edit:'' item))"

definition test_request :: "string \<Rightarrow> string \<Rightarrow> string \<Rightarrow> string \<Rightarrow> string" where
  "test_request scope after_edit standalone failing =
     ''The test-backed completion criterion is unresolved: No attributable terminal result for '' @ scope @
     '' is visible'' @ after_edit @ ''. Run '' @ scope @ '' from the current project root now.'' @ standalone @
     '' Return the exact command, terminal exit code, and first failing '' @ failing @
     '' if it fails. Do not claim completion until that result is visible.''"

definition verification_request_copy :: "string \<Rightarrow> string list \<Rightarrow> string list \<Rightarrow> string" where
  "verification_request_copy kind targets evidence =
     (let named = join '', '' targets;
          after_edit = (case later_edit evidence of
                          None \<Rightarrow> []
                        | Some e \<Rightarrow> if e = [] then [] else '' after edit event '' @ e)
      in if kind = ''pytest'' then
           test_request
             (if targets \<noteq> [] then ''the requested pytest targets ('' @ named @ '')'' else ''the full pytest suite'')
             after_edit
             (if targets = [] then
                '' Use one standalone `python -m pytest -q` command; do not pipe it, chain another command, or append an exit-code echo.''
              else '' Run pytest as one standalone command; do not pipe or chain it.'')
             ''test node''
         else if kind = ''python_unittest'' then
           test_request
             (if targets \<noteq> [] then ''python -m unittest for the requested targets ('' @ named @ '')''
              else ''the full python -m unittest suite'')
             after_edit [] ''test''
         else if kind = ''file_count'' then
           ''The file-count completion criterion is unresolved'' @ after_edit @
           ''. From the current project root, count '' @ (if named = [] then ''the required goal files'' else named) @
           ''. Return the exact command, terminal exit code, and observed count. Do not claim completion until that result is visible.''
         else if kind = ''artifact_tail'' then
           ''The artifact-tail completion criterion is unresolved'' @ after_edit @
           ''. From the current project root, show a bounded tail of '' @
           (if named = [] then ''the required artifact'' else named) @
           ''. Return the exact command, terminal exit code, and observed tail. Do not claim completion until that result is visible.''
         else if kind = ''command_exit'' then
           ''The command-exit completion criterion is unresolved'' @ after_edit @
           ''. From the current project root, run '' @
           (if named = [] then ''the required project-relative check'' else named) @
           ''. Return the exact command and terminal exit code. Do not claim completion until that result is visible.''
         else
           ''The service-health completion criterion is unresolved'' @ after_edit @
           ''. From this project, check the local health endpoint. Return the exact command, terminal exit code, and whether it responded healthy. Do not claim completion until that result is visible.'')"

definition request_verification ::
  "planner_world \<Rightarrow> supervisor_request \<Rightarrow> (string \<times> pyval) list \<Rightarrow> string list \<Rightarrow> proposed_action result" where
  "request_verification w r probe evidence =
     (let kind = str_or_empty (pw_show w) (dict_get probe ''kind'')
      in if kind \<notin> set typed_verification_kinds then
           noop r ''No safe typed verification backend is available for this uncertainty.''
             (evidence @ [''unsupported_probe:'' @ (if kind = [] then ''unknown'' else kind)])
         else
           bind_result (items_of (dict_get probe ''relative_targets'')) (\<lambda>targets.
             propose
               ((new_action r IT_REQUEST_VERIFICATION
                   ''The completion state depends on typed evidence, but no current matching terminal result is observable. Request evidence before judging the claim.''
                   evidence (9 / 10) RL_LOW)
                  \<lparr>act_payload :=
                     [(''probe'', PDict probe),
                      (''text'', PStr (verification_request_copy kind (map strip (nonblank_texts w targets)) evidence))],
                   act_expected_benefit := ''Replace uncertainty with an attributable pass or exact failure.'',
                   act_cooldown_seconds := 120, act_requires_capability := Some ''send_message''\<rparr>)))"

section \<open>Overlays\<close>

definition no_diff :: overlay_diff where
  "no_diff =
     \<lparr>system_instructions = None, tools_enabled = None, tools_disabled = None, mcp_servers = None,
      diff_model = None, reasoning_effort = None, permission_policy = None, extra = []\<rparr>"

definition planned_overlay ::
  "planner_world \<Rightarrow> supervisor_request \<Rightarrow> string \<Rightarrow> (string \<times> pyval) list \<Rightarrow> string \<Rightarrow> overlay" where
  "planned_overlay w r reason more_fields instructions =
     \<lparr>overlay_id = ''ovl_'' @ pw_fresh w, overlay_session_id = ses_id (rq_session r), overlay_reason = reason,
      diff = no_diff\<lparr>extra := more_fields, system_instructions := Some instructions\<rparr>, ttl_seconds = 1800,
      applied_at = None, expires_at = None, reverted_at = None, revert_reason = None, rollback = [],
      promoted = False\<rparr>"

definition apply_overlay ::
  "planner_world \<Rightarrow> supervisor_request \<Rightarrow> overlay \<Rightarrow> (string \<times> pyval) list \<Rightarrow> string \<Rightarrow> string list \<Rightarrow> rat \<Rightarrow> string \<Rightarrow>
   proposed_action result" where
  "apply_overlay w r v status rationale evidence confidence benefit =
     bind_result (validate_overlay v) (\<lambda>checked.
       propose
         ((new_action r IT_APPLY_OVERLAY rationale evidence confidence RL_LOW)
            \<lparr>act_payload := (''overlay'', pw_dump w checked) # status, act_reversible := True,
             act_expected_benefit := benefit, act_cooldown_seconds := 120,
             act_requires_capability := Some ''modify_config''\<rparr>))"

definition recommended_overlays :: "planner_world \<Rightarrow> supervisor_request \<Rightarrow> string list" where
  "recommended_overlays w r =
     (case feature r ''recommended_overlays'' of PList vs \<Rightarrow> nonblank_texts w vs | _ \<Rightarrow> [])"

definition debug_overlay ::
  "planner_world \<Rightarrow> supervisor_request \<Rightarrow> string list \<Rightarrow> proposed_action result" where
  "debug_overlay w r evidence =
     (let recommended = (''evidence-before-done'' \<in> set (recommended_overlays w r));
          instructions =
            ''Stay on the failing reproduction. Do not start unrelated research. '' @
            ''Preserve the failing state until the attached acceptance criteria move.'' @
            (if recommended then '' Do not treat a stop as done without the attached acceptance evidence.'' else []);
          more_fields =
            [(''phase'', PStr ''debug''), (''pin'', PStr (case evidence of [] \<Rightarrow> [] | e # _ \<Rightarrow> e))] @
            (if recommended then [(''fingerprint_overlay'', PStr ''evidence-before-done'')] else [])
      in apply_overlay w r
           (planned_overlay w r ''Repeated identical failures; switch to a debug-phase overlay.'' more_fields instructions)
           [(''session_status'', PStr ''drifting'')]
           ''Current harness shape is wasting work on repeated identical failures.'' evidence (8 / 10)
           ''Focus diagnosis on the failing reproduction while preserving task tools.'')"

definition evidence_overlay ::
  "planner_world \<Rightarrow> supervisor_request \<Rightarrow> string list \<Rightarrow> string \<Rightarrow> proposed_action result" where
  "evidence_overlay w r evidence correction =
     apply_overlay w r
       (planned_overlay w r ''Harness fingerprint shows repeated premature STOPs; pin evidence-before-done.''
          [(''phase'', PStr ''evidence-before-done'')] correction)
       []
       ''This harness has repeated premature STOPs; apply a reversible evidence-before-done overlay with the specific missing evidence.''
       (evidence @ [''fingerprint:evidence-before-done'']) (82 / 100)
       ''Keep the worker on the attached acceptance evidence before stopping.''"

section \<open>Tests on features\<close>

text \<open>At most six distinct facts; the test for a repetition precedes the cut to 400 characters.\<close>

fun collect_facts :: "planner_world \<Rightarrow> string list \<Rightarrow> pyval list \<Rightarrow> string list" where
  "collect_facts w facts [] = facts"
| "collect_facts w facts (v # vs) =
     (let t = strip (str_or_empty (pw_show w) v);
          more_facts = (if t \<noteq> [] \<and> t \<notin> set facts then facts @ [take 400 t] else facts)
      in if 6 \<le> length more_facts then more_facts else collect_facts w more_facts vs)"

definition planner_forgotten_facts :: "planner_world \<Rightarrow> supervisor_request \<Rightarrow> string list" where
  "planner_forgotten_facts w r = (case feature r ''forgotten_facts'' of PList vs \<Rightarrow> collect_facts w [] vs | _ \<Rightarrow> [])"

definition health_number :: "planner_world \<Rightarrow> pyval \<Rightarrow> rat" where
  "health_number w v =
     (case v of
        PInt i \<Rightarrow> of_int i
      | PBool b \<Rightarrow> if b then 1 else 0
      | PFloat q \<Rightarrow> q
      | PStr s \<Rightarrow> (case pw_float w s of None \<Rightarrow> 1 | Some q \<Rightarrow> q)
      | _ \<Rightarrow> 1)"

definition context_health_overlay_ready :: "planner_world \<Rightarrow> supervisor_request \<Rightarrow> bool result" where
  "context_health_overlay_ready w r =
     bind_result (int_or_zero (feature r ''compaction_count'')) (\<lambda>n. Inr
       (2 \<le> n \<and> planner_forgotten_facts w r \<noteq> [] \<and> health_number w (feature r ''context_health'') < 6 / 10 \<and>
        can_overlay r))"

definition fingerprint_overlay_ready :: "planner_world \<Rightarrow> supervisor_request \<Rightarrow> bool result" where
  "fingerprint_overlay_ready w r =
     bind_result (int_or_zero (feature r ''gap_stop_sessions'')) (\<lambda>n. Inr
       (2 \<le> n \<and> ''evidence-before-done'' \<in> set (recommended_overlays w r) \<and> can_overlay r))"

definition drift_redirect_threshold :: "supervisor_request \<Rightarrow> rat result" where
  "drift_redirect_threshold r =
     bind_result (int_or_zero (feature r ''gap_stop_sessions'')) (\<lambda>n. Inr (if 2 \<le> n then 6 / 10 else 75 / 100))"

section \<open>Commands\<close>

definition delete_command :: rx where
  "delete_command =
     rseq [RWordB,
       ralt [rlit_ci ''rm'', rlit_ci ''del'', rlit_ci ''erase'', rlit_ci ''rmdir'', rlit_ci ''rd'',
         rlit_ci ''remove-item'', rlit_ci ''unlink'', rlit_ci ''shutil.rmtree'', rlit_ci ''os.remove''],
       RWordB]"

definition name_char :: "char \<Rightarrow> bool" where
  "name_char c = (is_lower_ascii c \<or> is_digit_ascii c \<or> c \<in> set ''._-'')"

definition whole_name :: "string \<Rightarrow> rx" where
  "whole_name needle = rseq [RNot (RBehind name_char), rlit needle, RNot (RChr name_char)]"

definition bare_name :: "string \<Rightarrow> string" where
  "bare_name path = casefold (posix_name (replace_char bslash slash path))"

definition deletes_required_artifact :: "string \<Rightarrow> goal option \<Rightarrow> string option" where
  "deletes_required_artifact cmd g =
     (case g of
        None \<Rightarrow> None
      | Some x \<Rightarrow>
          if cmd = [] \<or> \<not> rx_found delete_command cmd then None
          else find (\<lambda>name. bare_name name \<noteq> [] \<and>
                  rx_found (whole_name (bare_name name)) (casefold (replace_char bslash slash cmd))) (required_files x))"

definition consumer_command :: rx where
  "consumer_command =
     rseq [RWordB,
       ralt [rlit_ci ''eval_runner'', rseq [rlit_ci ''eval'', ropt (rlit_ci ''uate'')],
         rseq [rlit_ci ''train'', ropt (rlit_ci ''ing'')], rlit_ci ''deploy'',
         rseq [rlit_ci ''bench'', ropt (rlit_ci ''mark'')],
         rseq [rlit_ci ''inferenc'', ralt [rchar_ci (CHR ''e''), rlit_ci ''ing'']]],
       RWordB]"

definition producer_command :: rx where
  "producer_command =
     rseq [RWordB,
       ralt [rlit_ci ''generat'', rlit_ci ''prepar'', rlit_ci ''creat'', rlit_ci ''write'', rlit_ci ''dump'',
         rlit_ci ''export'', rlit_ci ''download'', rlit_ci ''ingest'', rlit_ci ''fetch''],
       RWordB]"

definition is_downstream_consumer :: "string \<Rightarrow> string list \<Rightarrow> bool" where
  "is_downstream_consumer cmd missing =
     (let t = strip cmd; lowered = casefold (replace_char bslash slash t)
      in if t = [] \<or> missing = [] then False
         else if rx_found producer_command t then False
         else if \<exists>name \<in> set missing. contains (bare_name name) lowered then False
         else rx_found consumer_command t)"

end
