(* ===== verification/Read_Permission.thy ===== *)
theory Read_Permission
  imports Supervisor_Context Pure_Paths Py_Regex
begin

text \<open>
  The test of \<open>planner.py\<close> that recognises a plain read inside the workspace of the session, and what it
  guarantees: every path it accepts lies below the workspace directory and none is a credential file.
\<close>

section \<open>The test\<close>

definition sensitive_names :: rx where
  "sensitive_names =
     ralt
       [RSeq (rlit_ci ''.env'') (RAlt (rchar (CHR ''.'')) REol),
        RSeq (rlit_ci ''id_rsa'') (RAlt (rchar (CHR ''.'')) REol),
        RSeq (rlit_ci ''credentials'') (RAlt (rchar (CHR ''.'')) (RAlt (rchar slash) REol)),
        RSeq (rlit_ci ''auth.json'') REol,
        RSeq (rlit_ci ''.aws'') (RAlt (rchar slash) REol),
        RSeq (rlit_ci ''.ssh'') (RAlt (rchar slash) REol)]"

definition sensitive_read_path :: rx where
  "sensitive_read_path = RSeq (RAlt RBol (rchar slash)) sensitive_names"

definition letter_drive :: "string \<Rightarrow> bool" where
  "letter_drive s = (case s of c # k # _ \<Rightarrow> is_alpha_ascii c \<and> k = CHR '':'' | _ \<Rightarrow> False)"

definition below_key :: "string \<Rightarrow> string \<Rightarrow> bool" where
  "below_key root_key key = (key = root_key \<or> starts_with (rstrip_where (\<lambda>c. c = slash) root_key @ ''/'') key)"

definition plain_text :: "string \<Rightarrow> bool" where
  "plain_text t = (t \<noteq> [] \<and> t = strip t \<and> \<not> (\<exists>c \<in> set t. code c < 32))"

definition safe_windows_path :: "string \<Rightarrow> string \<Rightarrow> bool" where
  "safe_windows_path root_key t =
     (if ''..'' \<in> set (windows_parts t) \<or> rx_found sensitive_read_path (windows_as_posix t) then False
      else if (path_drive t \<noteq> [] \<or> windows_root t \<noteq> []) \<and> \<not> drive_absolute t then False
      else if \<exists>part \<in> set (if windows_absolute t then tl (windows_parts t) else windows_parts t).
                CHR '':'' \<in> set part then False
      else if windows_absolute t then below_key root_key (project_binding_key (windows_as_posix t))
      else True)"

definition safe_posix_path :: "string \<Rightarrow> string \<Rightarrow> bool" where
  "safe_posix_path root_key t =
     (if ''..'' \<in> set (posix_parts t) \<or> rx_found sensitive_read_path (posix_text t) then False
      else if bslash \<in> set t \<or> letter_drive t \<or> starts_with ''//'' t then False
      else if starts_with ''/'' t then below_key root_key (posix_text t)
      else True)"

definition safe_workspace_read :: "supervisor_request \<Rightarrow> bool" where
  "safe_workspace_read r =
     (let e = rq_event r; workspace = text_or_empty (ses_cwd (rq_session r)); windows = drive_absolute workspace
      in if casefold (strip (text_or_empty (tool_name e))) \<noteq> ''read'' \<or> file_paths e = [] then False
         else if \<not> windows \<and> (\<not> starts_with ''/'' workspace \<or> starts_with ''//'' workspace) then False
         else
           (let root_key = (if windows then project_binding_key (windows_as_posix workspace) else posix_text workspace)
            in \<forall>t \<in> set (file_paths e).
                 plain_text t \<and> (if windows then safe_windows_path root_key t else safe_posix_path root_key t)))"

section \<open>Below the workspace\<close>

lemma posix_text_root: "starts_with ''/'' s \<Longrightarrow> \<not> starts_with ''//'' s \<Longrightarrow> posix_text s = ''/'' @ join ''/'' (posix_tail s)"
  by (simp add: posix_text_def posix_root_def Let_def)

lemma join_append: "xs \<noteq> [] \<Longrightarrow> ys \<noteq> [] \<Longrightarrow> join sep (xs @ ys) = join sep xs @ sep @ join sep ys"
  by (induction xs rule: induct_list012) (cases ys; auto)+

lemma rstrip_root:
  assumes "\<forall>c \<in> set cs. c \<noteq> [] \<and> slash \<notin> set c"
  shows "rstrip_where (\<lambda>c. c = slash) (''/'' @ join ''/'' cs) = (if cs = [] then [] else ''/'' @ join ''/'' cs)"
proof (cases cs rule: rev_cases)
  case (snoc ds d)
  with assms have d: "d \<noteq> []" "slash \<notin> set d" by auto
  then have "last d \<noteq> slash" using last_in_set by metis
  moreover have "\<exists>pre. ''/'' @ join ''/'' cs = pre @ d"
  proof (cases "ds = []")
    case False
    then have "''/'' @ join ''/'' cs = (''/'' @ join ''/'' ds @ ''/'') @ d" using snoc by (simp add: join_append)
    then show ?thesis by blast
  qed (use snoc in auto)
  then obtain pre where "''/'' @ join ''/'' cs = pre @ d" by blast
  ultimately show ?thesis using d(1) snoc
    by (cases d rule: rev_cases) (auto simp: rstrip_where_def)
qed (simp add: rstrip_where_def)

lemma split_slash_join:
  assumes "\<forall>c \<in> set cs. c \<noteq> [] \<and> slash \<notin> set c"
  shows "split_char slash (''/'' @ join ''/'' cs) = (if cs = [] then [[], []] else [] # cs)"
  using assms by (cases "cs = []") (auto simp: split_char_join)

lemma below_posix_key:
  assumes "below_key (''/'' @ join ''/'' xs) (''/'' @ join ''/'' ys)"
    and "\<forall>c \<in> set xs. c \<noteq> [] \<and> slash \<notin> set c" and "\<forall>c \<in> set ys. c \<noteq> [] \<and> slash \<notin> set c"
  shows "\<exists>zs. ys = xs @ zs"
proof (cases "xs = []")
  case False
  note xs = split_slash_join [OF assms(2)]
  note ys = split_slash_join [OF assms(3)]
  from assms(1) consider "''/'' @ join ''/'' ys = ''/'' @ join ''/'' xs"
    | "starts_with ((''/'' @ join ''/'' xs) @ ''/'') (''/'' @ join ''/'' ys)"
    unfolding below_key_def rstrip_root [OF assms(2)] using False by auto
  then show ?thesis
  proof cases
    case 1
    then have "(if ys = [] then [[], []] else [] # ys) = [] # xs" using xs ys False by metis
    with assms(2) show ?thesis by (auto split: if_splits)
  next
    case 2
    then obtain t where "''/'' @ join ''/'' ys = (''/'' @ join ''/'' xs) @ slash # t"
      unfolding starts_with_iff by auto
    then have "split_char slash (''/'' @ join ''/'' ys) = ([] # xs) @ split_char slash t"
      using xs False by (simp only: split_char_append_any) simp
    with ys False have "ys = xs @ split_char slash t" using assms(2) by (cases xs) (auto split: if_splits)
    then show ?thesis by blast
  qed
qed simp

section \<open>Credential files\<close>

lemma matches_rlit_ci:
  "lower p = lower (take (length p) (rest st)) \<Longrightarrow>
   \<exists>st'. matches (rlit_ci p) st = [st'] \<and> rest st' = drop (length p) (rest st)"
proof (induction p arbitrary: st)
  case (Cons c p)
  then obtain d t where t: "rest st = d # t" by (cases "rest st") (auto simp: lower_def)
  with Cons.prems have "lower_char c = lower_char d" "lower p = lower (take (length p) t)"
    by (auto simp: lower_def)
  with t Cons.IH [of "st\<lparr>consumed := d # consumed st, rest := t\<rparr>"] show ?case
    by (simp add: rlit_ci_def rchar_ci_def)
qed (simp add: rlit_ci_def)

text \<open>A pattern behind the start of the text or a slash is found where a component begins.\<close>

lemma found_at_component:
  assumes "pre = [] \<or> last pre = slash" and "\<And>st. rest st = s \<Longrightarrow> matches r st \<noteq> []"
  shows "rx_found (RSeq (RAlt RBol (rchar slash)) r) (pre @ s)"
proof (cases pre rule: rev_cases)
  case Nil
  then show ?thesis unfolding rx_found_iff
    using assms(2) [of "start_state [] s"]
    by (intro exI [of _ "[]"] exI [of _ s]) (simp add: start_state_def)
next
  case (snoc a c)
  then have "pre @ s = a @ slash # s" using assms(1) by simp
  then show ?thesis unfolding rx_found_iff
    using assms(2)
    by (intro exI [of _ a] exI [of _ "slash # s"]) (auto simp: start_state_def rchar_def)
qed

definition credential_files :: "string list" where
  "credential_files = [''.env'', ''id_rsa'', ''credentials'', ''auth.json'']"

definition credential_dirs :: "string list" where
  "credential_dirs = [''.aws'', ''.ssh'', ''credentials'']"

lemma literal_end:
  assumes "lower p = p" and "lower c = p" and "rest st = c"
  shows "\<exists>st'. matches (rlit_ci p) st = [st'] \<and> rest st' = []"
proof -
  have "length c = length p" using assms(2) by (auto simp: lower_def)
  then show ?thesis using matches_rlit_ci [of p st] assms by simp
qed

lemma literal_before:
  assumes "lower p = p" and "lower c = p" and "rest st = c @ s"
  shows "\<exists>st'. matches (rlit_ci p) st = [st'] \<and> rest st' = s"
proof -
  have "length c = length p" using assms(2) by (auto simp: lower_def)
  then show ?thesis using matches_rlit_ci [of p st] assms by simp
qed

lemma credential_lower:
  "lower ''.env'' = ''.env''" "lower ''id_rsa'' = ''id_rsa''" "lower ''credentials'' = ''credentials''"
  "lower ''auth.json'' = ''auth.json''" "lower ''.aws'' = ''.aws''" "lower ''.ssh'' = ''.ssh''"
  by code_simp+

lemma alternative_matches:
  "r \<in> set rs \<Longrightarrow> matches r st \<noteq> [] \<Longrightarrow> matches (ralt rs) st \<noteq> []"
  by (induction rs rule: ralt.induct) auto

lemma named_alternative:
  assumes "RSeq (rlit_ci p) r \<in> set rs" and "\<exists>st'. matches (rlit_ci p) st = [st'] \<and> rest st' = s"
    and "\<And>st'. rest st' = s \<Longrightarrow> matches r st' \<noteq> []"
  shows "matches (ralt rs) st \<noteq> []"
  using assms(2,3) by (intro alternative_matches [OF assms(1)]) auto

lemma credential_file_found:
  assumes "pre = [] \<or> last pre = slash" and "lower c \<in> set credential_files"
  shows "rx_found sensitive_read_path (pre @ c)"
  unfolding sensitive_read_path_def
proof (rule found_at_component [OF assms(1)])
  fix st :: rstate assume st: "rest st = c"
  note ending = literal_end [OF _ _ st]
  from assms(2) consider "lower c = ''.env''" | "lower c = ''id_rsa''" | "lower c = ''credentials''" | "lower c = ''auth.json''"
    unfolding credential_files_def by auto
  then show "matches sensitive_names st \<noteq> []"
  proof cases
    case 1
    show ?thesis unfolding sensitive_names_def
      by (rule named_alternative
          [where r = "RAlt (rchar (CHR ''.'')) REol", OF _ ending [OF credential_lower(1) 1]]) (simp_all add: at_end_def)
  next
    case 2
    show ?thesis unfolding sensitive_names_def
      by (rule named_alternative
          [where r = "RAlt (rchar (CHR ''.'')) REol", OF _ ending [OF credential_lower(2) 2]]) (simp_all add: at_end_def)
  next
    case 3
    show ?thesis unfolding sensitive_names_def
      by (rule named_alternative
          [where r = "RAlt (rchar (CHR ''.'')) (RAlt (rchar slash) REol)", OF _ ending [OF credential_lower(3) 3]]) (simp_all add: at_end_def)
  next
    case 4
    show ?thesis unfolding sensitive_names_def
      by (rule named_alternative
          [where r = "REol", OF _ ending [OF credential_lower(4) 4]]) (simp_all add: at_end_def)
  qed
qed

lemma credential_dir_found:
  assumes "pre = [] \<or> last pre = slash" and "lower c \<in> set credential_dirs" and "s = [] \<or> hd s = slash"
  shows "rx_found sensitive_read_path (pre @ c @ s)"
  unfolding sensitive_read_path_def
proof (rule found_at_component [OF assms(1)])
  fix st :: rstate assume st: "rest st = c @ s"
  note before_rest = literal_before [OF _ _ st]
  have s: "s = [] \<or> (\<exists>t. s = slash # t)" using assms(3) by (cases s) auto
  have ending: "matches (RAlt (rchar slash) REol) st' \<noteq> []" if "rest st' = s" for st' :: rstate
    using s that by (auto simp: at_end_def rchar_def)
  from assms(2) consider "lower c = ''.aws''" | "lower c = ''.ssh''" | "lower c = ''credentials''"
    unfolding credential_dirs_def by auto
  then show "matches sensitive_names st \<noteq> []"
  proof cases
    case 1
    show ?thesis unfolding sensitive_names_def
      by (rule named_alternative
          [where r = "RAlt (rchar slash) REol", OF _ before_rest [OF credential_lower(5) 1] ending]) simp
  next
    case 2
    show ?thesis unfolding sensitive_names_def
      by (rule named_alternative
          [where r = "RAlt (rchar slash) REol", OF _ before_rest [OF credential_lower(6) 2] ending]) simp
  next
    case 3
    have "matches (RAlt (rchar (CHR ''.'')) (RAlt (rchar slash) REol)) st' \<noteq> []" if "rest st' = s" for st' :: rstate
      using ending [OF that] by simp
    with 3 show ?thesis unfolding sensitive_names_def
      by (intro named_alternative
          [where r = "RAlt (rchar (CHR ''.'')) (RAlt (rchar slash) REol)", OF _ before_rest [OF credential_lower(3) 3]]) simp_all
  qed
qed

lemma join_component:
  assumes "c \<in> set cs"
  shows "\<exists>pre s. join ''/'' cs = pre @ c @ s \<and> (pre = [] \<or> last pre = slash) \<and> (s = [] \<or> hd s = slash)"
proof -
  obtain xs ys where cs: "cs = xs @ c # ys" using assms by (meson split_list)
  let ?s = "if ys = [] then [] else ''/'' @ join ''/'' ys"
  let ?pre = "if xs = [] then [] else join ''/'' xs @ ''/''"
  have "join ''/'' (c # ys) = c @ ?s" by (cases ys) auto
  with cs have "join ''/'' cs = ?pre @ c @ ?s" by (cases "xs = []") (simp_all add: join_append)
  moreover have "?pre = [] \<or> last ?pre = slash" "?s = [] \<or> hd ?s = slash" by auto
  ultimately show ?thesis by blast
qed

definition names_no_credential :: "string list \<Rightarrow> bool" where
  "names_no_credential comps =
     ((\<forall>c \<in> set comps. lower c \<notin> set credential_dirs) \<and>
      (comps = [] \<or> lower (last comps) \<notin> set credential_files))"

lemma insensitive_components:
  assumes "\<not> rx_found sensitive_read_path (top_sep @ join ''/'' cs)" and "top_sep \<in> {[], ''/''}"
  shows "names_no_credential cs"
  unfolding names_no_credential_def
proof (intro conjI ballI)
  fix c assume "c \<in> set cs"
  then obtain pre s where split: "join ''/'' cs = pre @ c @ s" "pre = [] \<or> last pre = slash" "s = [] \<or> hd s = slash"
    using join_component by blast
  then have "top_sep @ pre = [] \<or> last (top_sep @ pre) = slash" using assms(2) by (auto split: if_splits)
  from credential_dir_found [OF this _ split(3)] assms(1) split(1) show "lower c \<notin> set credential_dirs" by auto
next
  show "cs = [] \<or> lower (last cs) \<notin> set credential_files"
  proof (cases cs rule: rev_cases)
    case (snoc ds d)
    let ?pre = "top_sep @ (if ds = [] then [] else join ''/'' ds @ ''/'')"
    have "top_sep @ join ''/'' cs = ?pre @ d" using snoc by (simp add: join_append)
    moreover have "?pre = [] \<or> last ?pre = slash" using assms(2) by auto
    ultimately show ?thesis using credential_file_found [of ?pre d] assms(1) snoc by auto
  qed simp
qed

section \<open>Property\<close>

definition workspace_of :: "supervisor_request \<Rightarrow> string" where
  "workspace_of r = text_or_empty (ses_cwd (rq_session r))"

definition directory_of :: "string \<Rightarrow> string list" where
  "directory_of path = normal_components True (split_char slash path)"

lemma regular_tail: "''..'' \<notin> set (posix_tail t) \<Longrightarrow> \<forall>c \<in> set (posix_tail t). regular c"
  using posix_tail_plain by (fastforce simp: regular_def dot_segment_def)

lemma safe_posix_path_below:
  assumes "starts_with ''/'' workspace" "\<not> starts_with ''//'' workspace"
    and "safe_posix_path (posix_text workspace) t"
  shows "\<exists>below. directory_of (posix_join workspace t) = directory_of workspace @ below \<and>
    names_no_credential (posix_tail t)"
proof -
  let ?ws = "posix_tail workspace" and ?t = "posix_tail t"
  have "''..'' \<notin> set (posix_parts t)" and calm: "\<not> rx_found sensitive_read_path (posix_text t)"
    and single: "\<not> starts_with ''//'' t"
    and key: "starts_with ''/'' t \<Longrightarrow> below_key (posix_text workspace) (posix_text t)"
    using assms(3) by (simp_all add: safe_posix_path_def split: if_splits)
  then have down: "\<forall>c \<in> set ?t. regular c" by (intro regular_tail) (auto simp: posix_parts_def split: if_splits)
  have plain: "\<forall>c \<in> set (posix_tail p). c \<noteq> [] \<and> slash \<notin> set c" for p using posix_tail_plain by blast
  have "\<exists>below. posix_tail (posix_join workspace t) = ?ws @ below \<and> (\<forall>c \<in> set below. regular c)"
  proof (cases "starts_with ''/'' t")
    case True
    note roots = posix_text_root [OF assms(1,2)] posix_text_root [OF True single]
    from key [OF True] obtain zs where "?t = ?ws @ zs"
      unfolding roots using below_posix_key plain by blast
    with True down show ?thesis by (auto simp: posix_join_def)
  next
    case False
    with down show ?thesis by (simp add: posix_tail_posix_join)
  qed
  then obtain below where below: "posix_tail (posix_join workspace t) = ?ws @ below" "\<forall>c \<in> set below. regular c"
    by blast
  have "directory_of (posix_join workspace t) = directory_of workspace @ below"
    unfolding directory_of_def normal_posix_tail below(1) by (rule normal_components_below [OF below(2)])
  moreover have "names_no_credential ?t"
  proof (cases "?t = []")
    case False
    then obtain c cs where t: "?t = c # cs" by (cases ?t) auto
    then have "join ''/'' ?t \<noteq> []" using plain [of t] by (cases cs) auto
    then have "posix_text t = posix_root t @ join ''/'' ?t" by (simp add: posix_text_def Let_def)
    moreover have "posix_root t \<in> {[], ''/''}" using single by (simp add: posix_root_def)
    ultimately show ?thesis using calm insensitive_components [of "posix_root t" ?t] by auto
  qed (simp add: names_no_credential_def)
  ultimately show ?thesis by blast
qed

text \<open>
  Property C8. When a request counts as a plain read of the workspace and the workspace is a POSIX directory,
  every path it names, resolved against that directory, lies at or below it: no \<open>..\<close>, absolute path or
  trailing name leads out. And none names a credential file, nor anything inside a credential directory.
\<close>

theorem safe_read_stays_in_workspace:
  assumes "safe_workspace_read r" and "\<not> drive_absolute (workspace_of r)" and "t \<in> set (file_paths (rq_event r))"
  shows "\<exists>below. directory_of (posix_join (workspace_of r) t) = directory_of (workspace_of r) @ below \<and>
    names_no_credential (posix_tail t)"
proof (rule safe_posix_path_below)
  show "starts_with ''/'' (workspace_of r)" "\<not> starts_with ''//'' (workspace_of r)"
    "safe_posix_path (posix_text (workspace_of r)) t"
    using assms by (auto simp: safe_workspace_read_def workspace_of_def Let_def split: if_splits)
qed

definition example_read_request :: supervisor_request where
  "example_read_request =
     \<lparr>rq_session = (new_session ''s'' HT_OPENCODE ''v'')\<lparr>ses_cwd := Some ''/w''\<rparr>, rq_goal = None,
      rq_event =
        (new_event ''e'' (Aware 0 0) HT_OPENCODE ''s'' ET_PERMISSION_REQUEST)
          \<lparr>phase := EP_BEFORE, tool_name := Some ''read'', file_paths := [''src/a.py'', ''/w/b.py'']\<rparr>,
      rq_recent_events = [],
      rq_scores =
        \<lparr>drift = 0, stagnation = 0, premature_completion = 0, claim_contradiction = 0, score_features = []\<rparr>,
      rq_context = None, rq_autonomy = AL_MANAGE, rq_trajectory_review_enabled = False, rq_notes = []\<rparr>"

lemma example_read_safe: "safe_workspace_read example_read_request"
  by code_simp

lemma example_read_workspace:
  "workspace_of example_read_request = ''/w''" "\<not> drive_absolute ''/w''"
  "file_paths (rq_event example_read_request) = [''src/a.py'', ''/w/b.py'']"
  by code_simp+

theorem safe_read_stays_in_workspace_witness:
  "\<exists>below. directory_of (posix_join ''/w'' ''src/a.py'') = directory_of ''/w'' @ below"
  using safe_read_stays_in_workspace [OF example_read_safe, of "''src/a.py''"]
  unfolding example_read_workspace by (auto simp: example_read_workspace)

end
