(* ===== verification/Deterministic_Planner.thy ===== *)
theory Deterministic_Planner
  imports Planned_Actions Read_Permission Background_Jobs
begin

text \<open>
  \<open>plan_deterministic\<close> and \<open>_speculative_action\<close> of \<open>planner.py\<close>. The rules stand in the order of the code,
  each answering \<open>None\<close> where the code falls through to the next; the first that answers decides.
\<close>

type_synonym rule_result = "proposed_action option result"

definition pass :: rule_result where
  "pass = Inr None"

definition decided :: "proposed_action result \<Rightarrow> rule_result" where
  "decided a = bind_result a (\<lambda>x. Inr (Some x))"

section \<open>What a person said\<close>

definition verification_of :: "supervisor_request \<Rightarrow> (string \<times> pyval) list result" where
  "verification_of r = mapping_of (feature r ''verification'')"

definition plan_paused :: "supervisor_request \<Rightarrow> rule_result" where
  "plan_paused r =
     (if supervision_paused (rq_session r) \<or> (case rq_goal r of None \<Rightarrow> False | Some g \<Rightarrow> goal_paused g)
      then decided (noop r ''Supervision is paused for this session or goal.'' [''supervision_paused''])
      else pass)"

definition plan_observation_only :: "planner_world \<Rightarrow> supervisor_request \<Rightarrow> rule_result" where
  "plan_observation_only w r =
     (if event_type (rq_event r) \<noteq> ET_STOP \<or> \<not> observation_only_goal r then pass
      else
        bind_result (verification_of r) (\<lambda>verification.
        bind_result (items_of (dict_get verification ''evidence'')) (\<lambda>found.
          decided (noop r ''Read-only goal: report the observed outcome without starting another worker turn.''
            ([''observation_only_goal'',
              ''verification:'' @
                str_of (pw_show w) (value_or (dict_get verification ''status'') (PStr ''unknown''))]
             @ take 16 (truthy_texts w found))))))"

text \<open>The rule of the ledger that the notes quote behind their first colon.\<close>

definition quoted_rule :: "string \<Rightarrow> string result" where
  "quoted_rule s =
     (case split_once '':'' s of None \<Rightarrow> Inl ''IndexError'' | Some (_, rule) \<Rightarrow> Inr (take 200 (strip rule)))"

definition contradicted_constraint :: "string \<Rightarrow> string result" where
  "contradicted_constraint notes =
     (if CHR '':'' \<in> set notes then quoted_rule (first_paragraph notes) else Inr [])"

definition plan_contradicted_prompt :: "supervisor_request \<Rightarrow> rule_result" where
  "plan_contradicted_prompt r =
     (let e = rq_event r
      in if event_type e \<noteq> ET_USER_PROMPT \<or> \<not> starts_with ''possible_contradiction'' (rq_notes r) then pass
         else
           bind_result (contradicted_constraint (rq_notes r)) (\<lambda>rule.
             decided (ask_human r
               [(''prompt'', text_value (message_delta e)),
                (''question'', PStr
                   (if rule \<noteq> [] then
                      ''This conflicts with the active constraint '' @ [CHR 0x27] @ rule @ [CHR 0x27] @
                      ''. Did you mean to keep that ledger rule, or is this an explicit override?''
                    else
                      ''This prompt conflicts with a persistent constraint. Confirm override or keep the ledger.''))]
               ''Human prompt appears to contradict the persistent intent ledger.''
               [rq_notes r, text_or_empty (message_delta e)] (8 / 10) RL_MEDIUM)))"

definition plan_ambiguous_prompt :: "supervisor_request \<Rightarrow> rule_result" where
  "plan_ambiguous_prompt r =
     (let e = rq_event r;
          named = (case rq_goal r of None \<Rightarrow> [] | Some g \<Rightarrow> title g);
          name = strip (if named = [] then ''the attached goal'' else named)
      in if event_type e \<noteq> ET_USER_PROMPT \<or> \<not> starts_with ''dangerous_ambiguity'' (rq_notes r) then pass
         else
           decided (propose
             ((new_action r IT_ANNOTATE ''User prompt is accidentally ambiguous relative to the attached ledger.''
                 [rq_notes r, text_or_empty (message_delta e)] (78 / 100) RL_LOW)
                \<lparr>act_payload :=
                   [(''prompt'', text_value (message_delta e)),
                    (''text'', PStr
                       (''Interpret this request as work on '' @ [CHR 0x27] @ name @ [CHR 0x27] @
                        ''. The prompt is ambiguous; keep the attached acceptance criteria and constraints. Do not treat speed or vagueness as permission to skip required evidence.''))]\<rparr>)))"

section \<open>What the worker is about to do\<close>

definition command_words :: "planner_world \<Rightarrow> supervisor_request \<Rightarrow> string" where
  "command_words w r = str_or_empty (pw_show w) (event_command (rq_event r))"

definition plan_required_deletion :: "planner_world \<Rightarrow> supervisor_request \<Rightarrow> rule_result" where
  "plan_required_deletion w r =
     (let e = rq_event r; cmd = event_command e
      in case deletes_required_artifact (command_words w r) (rq_goal r) of
           None \<Rightarrow> pass
         | Some doomed \<Rightarrow>
             if doomed = [] \<or> event_type e \<notin> {ET_PERMISSION_REQUEST, ET_SHELL, ET_TOOL_CALL, ET_FILE_EDIT} then pass
             else
               (let evidence = [''required:'' @ doomed, take 200 (command_words w r)]
                in if phase e = EP_BEFORE then
                     decided (ask_human r
                       [(''command'', cmd),
                        (''question'', PStr
                           (doomed @ '' is still required by the attached ledger. Keep that artifact, or confirm this is an explicit cleanup override.''))]
                       ''Worker is about to delete an artifact still required by the attached goal.''
                       evidence (86 / 100) RL_HIGH)
                   else
                     decided (nudge r
                       ''Worker deleted or is deleting an artifact still required by the attached goal.'' evidence
                       (doomed @ '' is still required by the attached ledger. Restore that artifact before continuing.'')
                       None)))"

definition plan_contradicting_worker :: "planner_world \<Rightarrow> supervisor_request \<Rightarrow> rule_result" where
  "plan_contradicting_worker w r =
     (let e = rq_event r
      in if \<not> starts_with ''agent_contradiction'' (rq_notes r) then pass
         else
           bind_result (if CHR '':'' \<in> set (rq_notes r) then quoted_rule (rq_notes r) else Inr []) (\<lambda>rule.
             let named = (if rule \<noteq> [] then '' '' @ [CHR 0x27] @ rule @ [CHR 0x27] else []);
                 spoken = (if given (command e) then text_or_empty (command e) else text_or_empty (message_delta e));
                 evidence = [rq_notes r, take 200 spoken]
             in if phase e = EP_BEFORE then
                  decided (ask_human r
                    [(''command'', event_command e),
                     (''question'', PStr
                        (''This action conflicts with the active constraint'' @ named @
                         ''. Keep that ledger rule, or confirm an explicit override.''))]
                    ''Observed worker action conflicts with the persistent intent ledger.'' evidence (82 / 100) RL_MEDIUM)
                else
                  decided (nudge r ''Observed worker action conflicts with the persistent intent ledger.'' evidence
                    (''That action conflicts with the active constraint'' @ named @ ''. Stay on the attached ledger.'')
                    None)))"

definition plan_permission :: "planner_world \<Rightarrow> supervisor_request \<Rightarrow> rule_result" where
  "plan_permission w r =
     (let e = rq_event r; cmd = event_command e
      in if event_type e \<notin> {ET_PERMISSION_REQUEST, ET_SHELL, ET_TOOL_CALL, ET_FILE_READ} \<or> phase e \<noteq> EP_BEFORE
         then pass
         else
           decided (propose
             ((new_action r IT_RESPOND_PERMISSION ''Routine permission brokered by local policy.''
                 (str_of (pw_show w)
                    (value_or (value_or cmd (text_value (tool_name e))) (PStr ''permission request''))
                  # map (\<lambda>p. ''path:'' @ p) (file_paths e))
                 (7 / 10) (if safe_workspace_read r then RL_LOW else RL_MEDIUM))
                \<lparr>act_payload :=
                   [(''request_id'', value_or (approval_of e ''request_id'') (PStr (event_id e))),
                    (''command'', cmd), (''decision_source'', PStr ''local_policy''),
                    (''approval_method'', value_or (approval_of e ''method'') (approval_of e ''hook'')),
                    (''file_paths'', PList (map PStr (file_paths e))), (''tool_name'', text_value (tool_name e))]\<rparr>)))"

section \<open>What the trajectory shows\<close>

definition plan_missing_prerequisite :: "planner_world \<Rightarrow> supervisor_request \<Rightarrow> rule_result" where
  "plan_missing_prerequisite w r =
     (let e = rq_event r
      in bind_result (items_of (feature r ''missing_prerequisites'')) (\<lambda>found.
           let missing = nonblank_texts w found
           in if event_type e \<in> {ET_SHELL, ET_TOOL_CALL} \<and> phase e = EP_DURING \<and> missing \<noteq> [] \<and>
                 is_downstream_consumer (command_words w r) missing
              then decided (nudge r ''Downstream command started before a required artifact exists.''
                     (map (\<lambda>m. ''missing:'' @ m) (take 8 missing) @ [take 200 (command_words w r)])
                     (hd missing @ '' is missing from the workspace. Produce that artifact before continuing this command.'')
                     None)
              else pass))"

definition plan_duplicate_work :: "planner_world \<Rightarrow> supervisor_request \<Rightarrow> rule_result" where
  "plan_duplicate_work w r =
     (case feature r ''duplicate_work'' of
        PDict d \<Rightarrow>
          if \<not> truthy (dict_get d ''harness'') then pass
          else
            (let target = str_of (pw_show w)
                   (value_or (value_or (dict_get d ''path'') (dict_get d ''command'')) (PStr ''that work''));
                 sibling = str_of (pw_show w) (value_or (dict_get d ''sibling_session_id'') (PStr ''unknown''))
             in decided (noop r
                  ''Sibling overlap needs semantic review; shared paths or commands do not prove duplicate work.''
                  [''sibling:'' @ sibling, ''overlap:'' @ take 200 target]))
      | _ \<Rightarrow> pass)"

definition plan_broad_work :: "supervisor_request \<Rightarrow> rule_result" where
  "plan_broad_work r =
     (case unrelated_refactor (rq_event r) (rq_goal r) of
        None \<Rightarrow> pass
      | Some drifted \<Rightarrow>
          if drifted = [] \<or> event_type (rq_event r) \<in> {ET_STOP, ET_USER_PROMPT} then pass
          else decided (noop r
                 ''Broad-work signal needs semantic review; filenames and narration alone do not establish that the work is unrelated to the goal.''
                 [''broad_work_candidate:'' @ drifted]))"

definition plan_drifting :: "planner_world \<Rightarrow> supervisor_request \<Rightarrow> rule_result" where
  "plan_drifting w r =
     (if event_type (rq_event r) \<in> {ET_STOP, ET_USER_PROMPT} then pass
      else
        bind_result (drift_redirect_threshold r) (\<lambda>threshold.
          if drift (rq_scores r) < threshold then pass
          else
            bind_result (int_or_zero (feature r ''repeated_command_count'')) (\<lambda>repeated.
              if repeated < 3 then pass
              else
                (let evidence =
                       [''drift='' @ str_of (pw_show w) (PFloat (drift (rq_scores r))),
                        ''repeated_command_count='' @ str_of (pw_show w) (feature r ''repeated_command_count''),
                        ''identical_error_count='' @
                          str_of (pw_show w) (value_or (feature r ''identical_error_count'') (PInt 0))]
                 in bind_result (int_or_zero (feature r ''identical_error_count'')) (\<lambda>errors.
                      if 1 \<le> errors \<and> can_overlay r then decided (debug_overlay w r evidence)
                      else decided (nudge r
                             ''Trajectory is repeating low-information work instead of attached acceptance criteria.''
                             evidence
                             ''Recent actions repeated without moving the attached acceptance criteria. Return to the remaining criterion and produce the required evidence.''
                             (Some ''drifting'')))))))"

section \<open>Speculative probes\<close>

definition reasons_or :: "string list \<Rightarrow> string \<Rightarrow> string list" where
  "reasons_or reasons fallback = (if reasons = [] then [fallback] else reasons)"

definition text_or_words :: "planner_world \<Rightarrow> pyval \<Rightarrow> string \<Rightarrow> string" where
  "text_or_words w v fallback = str_of (pw_show w) (value_or v (PStr fallback))"

definition stop_loser :: "supervisor_request \<Rightarrow> string list \<Rightarrow> proposed_action result" where
  "stop_loser r reasons =
     (if capable r ''stop'' then
        propose
          ((new_action r IT_STOP_AGENT
              ''This isolated probe underperformed the sibling approach; dispose it and keep the winner.''
              (reasons_or reasons ''speculative:loser'') (78 / 100) RL_MEDIUM)
             \<lparr>act_authority := AUTH_HUMAN, act_requires_capability := Some ''stop'',
              act_expected_benefit := ''Stop the losing probe without leaving a duplicate worker.'',
              act_cooldown_seconds := 60\<rparr>)
      else
        ask_human r
          [(''question'', PStr ''This probe lost to the sibling approach. Stop this worker and keep the winner?'')]
          ''The losing probe should be disposed by a human because stop is unavailable.''
          (reasons_or reasons ''speculative:loser'') (76 / 100) RL_MEDIUM)"

definition settle_comparison ::
  "planner_world \<Rightarrow> supervisor_request \<Rightarrow> (string \<times> pyval) list \<Rightarrow> rule_result" where
  "settle_comparison w r d =
     bind_result (items_of (dict_get d ''reasons'')) (\<lambda>found.
       let reasons = truthy_texts w found;
           winner = str_or_empty (pw_show w) (dict_get d ''winner_session_id'');
           loser = str_or_empty (pw_show w) (dict_get d ''loser_session_id'')
       in if dict_get d ''winner'' = PStr ''tie'' then
            decided (ask_human r
              [(''question'', PStr
                  (''Both isolated probes finished similarly. A: '' @
                   text_or_words w (dict_get d ''winner_approach'') ''first approach'' @ ''. B: '' @
                   text_or_words w (dict_get d ''loser_approach'') ''second approach'' @ ''. Which should continue?''))]
              ''Two cheap probes returned comparable evidence; a human should pick.''
              (reasons_or reasons ''speculative:tie'') (7 / 10) RL_LOW)
          else if loser = ses_id (rq_session r) then decided (stop_loser r reasons)
          else if winner = ses_id (rq_session r) then
            decided (nudge r ''Isolated probe of this approach outperformed the sibling.''
              (reasons_or reasons ''speculative:winner'')
              (''The bounded probe selected '' @ text_or_words w (dict_get d ''winner_approach'') ''this approach'' @
               ''; continue that approach. '' @ text_or_words w (dict_get d ''loser_approach'') ''the sibling approach'' @
               '' did worse on the bounded probe. Keep those findings and do not restart the losing worker.'')
              None)
          else pass)"

definition plan_fork_probe :: "planner_world \<Rightarrow> supervisor_request \<Rightarrow> rule_result" where
  "plan_fork_probe w r =
     (let objective_text = strip (str_or_empty (pw_show w) (feature r ''parent_objective''))
      in if truthy (feature r ''in_speculative_pair'') \<or> truthy (feature r ''probe_already_running'') then pass
         else if \<not> capable r ''fork'' \<or> rq_goal r = None then pass
         else case (feature r ''competing_approaches'', feature r ''probe_bundle'') of
           (PList approaches, PDict bundle) \<Rightarrow>
             (let cleaned = map strip (nonblank_texts w (take 2 approaches))
              in if length approaches < 2 \<or> objective_text = [] \<or> length cleaned < 2 then pass
                 else
                   decided (propose
                     ((new_action r IT_FORK_PROBE
                         ''Two cheap approaches are plausible; probe them in isolation instead of guessing on one worker.''
                         (map (\<lambda>a. ''approach:'' @ take 200 a) cleaned) (74 / 100) RL_MEDIUM)
                        \<lparr>act_payload :=
                           [(''bundle'', PDict bundle), (''parent_objective'', PStr objective_text),
                            (''approaches'', PList (map PStr cleaned)), (''probe_budget_tool_calls'', PInt 8)],
                         act_authority := AUTH_HUMAN, act_requires_capability := Some ''fork'',
                         act_expected_benefit := ''Compare two bounded probes and keep only the winner.'',
                         act_cooldown_seconds := 180\<rparr>)))
         | _ \<Rightarrow> pass)"

definition or_else :: "rule_result \<Rightarrow> rule_result \<Rightarrow> rule_result" where
  "or_else first_rule next_rule =
     bind_result first_rule (\<lambda>a. case a of Some x \<Rightarrow> Inr (Some x) | None \<Rightarrow> next_rule)"

definition speculative_action :: "planner_world \<Rightarrow> supervisor_request \<Rightarrow> rule_result" where
  "speculative_action w r =
     or_else (case feature r ''speculative_compare'' of PDict d \<Rightarrow> settle_comparison w r d | _ \<Rightarrow> pass)
       (plan_fork_probe w r)"

section \<open>What a stop leaves open\<close>

definition plan_waiting_probe :: "planner_world \<Rightarrow> supervisor_request \<Rightarrow> rule_result" where
  "plan_waiting_probe w r =
     (if truthy (feature r ''speculative_compare'') \<or> truthy (feature r ''in_speculative_pair'') then
        or_else (speculative_action w r)
          (decided (noop r ''Waiting for the sibling speculative probe to finish.'' [''speculative:waiting'']))
      else pass)"

definition plan_dispute :: "planner_world \<Rightarrow> supervisor_request \<Rightarrow> rule_result" where
  "plan_dispute w r =
     (case feature r ''nudge_dispute'' of
        PDict d \<Rightarrow>
          if \<not> truthy (dict_get d ''intervention_id'') then pass
          else
            (let worker_words = strip (str_or_empty (pw_show w) (dict_get d ''worker_response''))
             in bind_result (items_of (dict_get d ''evidence'')) (\<lambda>found.
                  decided (ask_human r
                    [(''question'', PStr
                        (''The worker answered PEX'' @ [CHR 0x27] @ ''s corrective nudge but did not resolve the flagged condition, then stopped. Keep the flagged requirement and direct the worker, or amend the goal to accept the worker'' @ [CHR 0x27] @ ''s position?'')),
                     (''worker_response'', PStr (take 1000 worker_words))]
                    (''A delivered corrective nudge remains unresolved after the worker'' @ [CHR 0x27] @
                     ''s reply and stop; this dispute is a human decision, not another nudge.'')
                    (take 128
                      ([''nudge_dispute:'' @ str_of (pw_show w) (dict_get d ''intervention_id''),
                        ''outcome:'' @ text_or_words w (dict_get d ''outcome'') ''unknown'']
                       @ take 8 (nonblank_texts w found)
                       @ (if worker_words \<noteq> [] then [''worker_response:'' @ take 300 worker_words] else [])))
                    (8 / 10) RL_MEDIUM)))
      | _ \<Rightarrow> pass)"

definition verification_evidence :: "planner_world \<Rightarrow> (string \<times> pyval) list \<Rightarrow> string list result" where
  "verification_evidence w verification =
     bind_result (items_of (dict_get verification ''evidence'')) (\<lambda>found. Inr (truthy_texts w found))"

definition plan_failed_claim ::
  "planner_world \<Rightarrow> supervisor_request \<Rightarrow> (string \<times> pyval) list \<Rightarrow> string list \<Rightarrow> rule_result" where
  "plan_failed_claim w r verification evidence =
     (let correction = strip (str_or_empty (pw_show w) (dict_get verification ''correction''));
          status = dict_get verification ''status''
      in bind_result (one_of_texts status [''contradicted'', ''acceptance_gap'']) (\<lambda>failed.
           if \<not> failed \<or> correction = [] \<or> evidence = [] then pass
           else
             bind_result (fingerprint_overlay_ready w r) (\<lambda>ready.
               if ready then decided (evidence_overlay w r evidence correction)
               else decided (nudge r
                      (if status = PStr ''acceptance_gap'' then
                         ''Observed workspace state does not satisfy an explicit acceptance criterion.''
                       else ''Worker completion claim is contradicted by observed state.'')
                      evidence correction None))))"

definition surface_lines :: "planner_world \<Rightarrow> string \<Rightarrow> pyval list \<Rightarrow> string list" where
  "surface_lines w label paths = map (\<lambda>p. ''acceptance_surface_'' @ label @ '':'' @ p) (texts_of w paths)"

definition plan_changed_surface ::
  "planner_world \<Rightarrow> supervisor_request \<Rightarrow> (string \<times> pyval) list \<Rightarrow> string list \<Rightarrow> rule_result" where
  "plan_changed_surface w r verification evidence =
     bind_result (mapping_of (dict_get verification ''acceptance_surface'')) (\<lambda>surface.
     bind_result (items_of (dict_get surface ''modified'')) (\<lambda>modified.
     bind_result (items_of (dict_get surface ''deleted'')) (\<lambda>deleted.
     bind_result (items_of (dict_get surface ''added_config'')) (\<lambda>added.
     bind_result (items_of (dict_get surface ''unhashed'')) (\<lambda>unhashed.
       let issues = texts_of w (modified @ deleted @ added @ unhashed);
           listing = join '', '' (take 8 issues) @
             (if length issues \<le> 8 then [] else '' (+'' @ decimal (length issues - 8) @ '' more)'')
       in if issues = [] \<or> dict_get verification ''status'' \<noteq> PStr ''uncertain'' then pass
          else
            decided (nudge r
              ''Completion evidence rests on acceptance files that changed after the sealed baseline.''
              (take 128 (first_occurrences
                (evidence @ surface_lines w ''modified'' modified @ surface_lines w ''deleted'' deleted @
                 surface_lines w ''config_added'' added @ surface_lines w ''unhashed'' unhashed)))
              (''PEX cannot verify this claim as complete: acceptance files changed after the goal baseline was recorded ('' @
               listing @
               ''). Restore the baseline contents or justify the change, then re-run the suite so a green result is attributable to unmodified acceptance inputs.'')
              None))))))"

definition verdict_evidence :: "planner_world \<Rightarrow> pyval list \<Rightarrow> string list result" where
  "verdict_evidence w verdicts =
     bind_result
       (map_result (\<lambda>v. case v of PDict d \<Rightarrow> items_of (dict_get d ''evidence'') | _ \<Rightarrow> Inr []) verdicts)
       (\<lambda>found. Inr (texts_of w (concat found)))"

definition plan_uncertain_claim ::
  "planner_world \<Rightarrow> supervisor_request \<Rightarrow> (string \<times> pyval) list \<Rightarrow> rule_result" where
  "plan_uncertain_claim w r verification =
     bind_result (mapping_of (dict_get verification ''evidence_gathering'')) (\<lambda>gathering.
     bind_result (one_of_texts (dict_get verification ''status'') [''uncertain'', ''no_claims'']) (\<lambda>unsettled.
       case dict_get gathering ''probe'' of
         PDict probe \<Rightarrow>
           if \<not> unsettled \<or> dict_get gathering ''state'' \<noteq> PStr ''inspected'' then pass
           else
             bind_result (items_of (dict_get verification ''verdicts'')) (\<lambda>verdicts.
             bind_result (verdict_evidence w verdicts) (\<lambda>found.
               decided (request_verification w r probe
                 (take 128 (first_occurrences
                   ([''verification:'' @ str_of (pw_show w) (dict_get verification ''status''),
                     ''probe:'' @ text_or_words w (dict_get probe ''id'') ''unknown''] @ found))))))
       | _ \<Rightarrow> pass))"

text \<open>The launch as the dictionary the code makes of it.\<close>

definition launch_value :: "launch \<Rightarrow> pyval" where
  "launch_value l =
     PDict [(''command'', PStr (la_command l)), (''command_identity'', PStr (la_identity l)),
       (''pid'', case la_pid l of None \<Rightarrow> PNone | Some i \<Rightarrow> PInt i), (''session_id'', PStr (la_session_id l)),
       (''event_id'', PStr (la_event_id l))]"

definition abandoned_job :: "planner_world \<Rightarrow> supervisor_request \<Rightarrow> pyval" where
  "abandoned_job w r =
     (if ''abandoned_background'' \<in> set (dict_keys (score_features_of r)) then feature r ''abandoned_background''
      else case find_abandoned_background (pw_sha w) (rq_recent_events r) of
             None \<Rightarrow> PNone
           | Some l \<Rightarrow> launch_value l)"

fun is_int :: "pyval \<Rightarrow> bool" where
  "is_int (PInt i) = True"
| "is_int (PBool b) = True"
| "is_int _ = False"

definition plan_abandoned_job :: "planner_world \<Rightarrow> supervisor_request \<Rightarrow> rule_result" where
  "plan_abandoned_job w r =
     (case abandoned_job w r of
        PDict job \<Rightarrow>
          (let cmd = strip (str_or_empty (pw_show w) (dict_get job ''command''));
               pid = dict_get job ''pid''; table = dict_get job ''process_table'';
               pid_text = str_of (pw_show w) pid
           in if cmd = [] then pass
              else
                decided (nudge r ''Worker launched a background job and then stopped monitoring it.''
                  ([''command:'' @ take 200 cmd] @ (if is_int pid then [''pid:'' @ pid_text] else []) @
                   (if truthy table then [''process_table:'' @ str_of (pw_show w) table] else []))
                  (cmd @ (if is_int pid then '' (pid '' @ pid_text @ '')'' else []) @ '' is still running '' @
                   (if table = PStr ''running'' then ''in the process table'' else ''in the background'') @
                   ''. Check that job and wait for it, or collect its output, before stopping.'')
                  None))
      | _ \<Rightarrow> pass)"

definition plan_stop :: "planner_world \<Rightarrow> supervisor_request \<Rightarrow> rule_result" where
  "plan_stop w r =
     (if event_type (rq_event r) \<noteq> ET_STOP then pass
      else
        or_else (plan_waiting_probe w r)
        (or_else (plan_dispute w r)
        (bind_result (verification_of r) (\<lambda>verification.
         bind_result (verification_evidence w verification) (\<lambda>evidence.
           or_else (plan_failed_claim w r verification evidence)
           (or_else (plan_changed_surface w r verification evidence)
           (or_else (plan_uncertain_claim w r verification)
           (or_else (plan_abandoned_job w r)
             (speculative_action w r)))))))))"

section \<open>What a compaction may lose\<close>

definition nonempty_join :: "string list \<Rightarrow> string" where
  "nonempty_join items = join ''; '' (filter (\<lambda>i. i \<noteq> []) items)"

definition labelled :: "string \<Rightarrow> string \<Rightarrow> string list" where
  "labelled label t = (if t = [] then [] else [label @ '': '' @ t])"

definition partial_note :: string where
  "partial_note = '' [partial; retrieve the full record before acting]''"

definition decision_lines :: "decision_item \<Rightarrow> string list" where
  "decision_lines d =
     (let label =
            (if di_kind d = ''rejected_approach'' then ''Rejected approach''
             else if di_kind d = ''unresolved_question'' then ''Unresolved question''
             else if di_status d = DST_UNCERTAIN then ''Uncertain decision'' else ''Current decision'');
          scope = (if di_scope d = [] then [] else '' (scope: '' @ di_scope d @ '')'');
          partial = (if di_statement_truncated d \<or> di_scope_truncated d then partial_note else [])
      in (label @ scope @ partial @ '': '' @ di_statement d) #
         (if di_alternatives_rejected d = [] then []
          else [''Rejected alternatives'' @ (if di_alternatives_rejected_truncated d then partial_note else []) @
                '': '' @ join ''; '' (di_alternatives_rejected d)]))"

definition offered_decisions :: "supervisor_request \<Rightarrow> decision_item list" where
  "offered_decisions r = (case rq_context r of None \<Rightarrow> [] | Some env \<Rightarrow> env_decisions env)"

definition ledger_lines :: "planner_world \<Rightarrow> supervisor_request \<Rightarrow> goal \<Rightarrow> string list \<Rightarrow> string list" where
  "ledger_lines w r g forgotten =
     (let named = strip (title g); acceptance = nonempty_join (acceptance_criteria g)
      in [''Persistent ledger '' @ [CHR 0x27] @ (if named = [] then ''attached goal'' else named) @ [CHR 0x27] @
          '' still applies after compaction.'']
         @ labelled ''Objective'' (objective g)
         @ labelled ''Acceptance'' (if acceptance = [] then objective g else acceptance)
         @ labelled ''Constraints'' (nonempty_join (constraints g))
         @ labelled ''Preferences'' (nonempty_join (preferences g))
         @ (case deadline g of None \<Rightarrow> [] | Some t \<Rightarrow> [''Deadline: '' @ pw_iso w t])
         @ labelled ''Forbidden outcomes'' (nonempty_join (forbidden_outcomes g))
         @ labelled ''Non-goals'' (nonempty_join (non_goals g))
         @ labelled ''Required evidence'' (nonempty_join (evidence_requirements g))
         @ labelled ''Required files'' (join '', '' (required_files g))
         @ concat (map decision_lines (offered_decisions r))
         @ (if forgotten = [] then [] else [''Do not forget: '' @ join ''; '' (take 4 forgotten)])
         @ [''Keep these facts in working context.''])"

definition plan_compaction :: "planner_world \<Rightarrow> supervisor_request \<Rightarrow> rule_result" where
  "plan_compaction w r =
     (case rq_goal r of
        None \<Rightarrow> pass
      | Some g \<Rightarrow>
          if event_type (rq_event r) \<noteq> ET_COMPACTION then pass
          else
            (let forgotten = planner_forgotten_facts w r;
                 correction = fst (redact_text (join '' '' (ledger_lines w r g forgotten)));
                 evidence =
                   [''goal:'' @ goal_id g, ''event:compaction''] @
                   map (\<lambda>d. ''decision:'' @ di_id d) (offered_decisions r) @ take 4 forgotten
             in bind_result (context_health_overlay_ready w r) (\<lambda>ready.
                  if ready then
                    decided (apply_overlay w r
                      (planned_overlay w r
                         ''Context health degraded after repeated forgotten facts; checkpoint durable context while preserving task tools.''
                         [(''phase'', PStr ''context-health''), (''pin'', PStr ''durable-facts'')] correction)
                      []
                      ''Worker context compacted twice and re-acquired durable facts; pin those facts without removing tools the task may require.''
                      evidence (8 / 10)
                      ''Keep forgotten facts loaded without asking the human to babysit context.'')
                  else if phase (rq_event r) = EP_BEFORE then
                    decided (propose
                      ((new_action r IT_ANNOTATE
                          ''Worker context is about to compact; checkpoint the attached ledger.'' evidence (86 / 100) RL_LOW)
                         \<lparr>act_payload := [(''text'', PStr correction)],
                          act_expected_benefit := ''Keep durable ledger facts in the compacted working context.'',
                          act_cooldown_seconds := 45\<rparr>))
                  else
                    decided (nudge r ''Worker context compacted; restore the attached ledger.'' evidence correction None))))"

section \<open>The plan\<close>

definition plan_rules :: "planner_world \<Rightarrow> supervisor_request \<Rightarrow> rule_result" where
  "plan_rules w r =
     or_else (plan_paused r)
     (or_else (plan_observation_only w r)
     (or_else (plan_contradicted_prompt r)
     (or_else (plan_ambiguous_prompt r)
     (or_else (plan_required_deletion w r)
     (or_else (plan_contradicting_worker w r)
     (or_else (plan_permission w r)
     (or_else (plan_missing_prerequisite w r)
     (or_else (plan_duplicate_work w r)
     (or_else (plan_broad_work r)
     (or_else (plan_drifting w r)
     (or_else (plan_stop w r)
       (plan_compaction w r))))))))))))"

definition plan_deterministic :: "planner_world \<Rightarrow> supervisor_request \<Rightarrow> proposed_action result" where
  "plan_deterministic w r =
     bind_result (plan_rules w r) (\<lambda>found.
       case found of
         Some a \<Rightarrow> Inr a
       | None \<Rightarrow>
           noop r
             ''No deterministic fact requires interruption. Stop/completion needs supervisor inference or silence.''
             [event_type_value (event_type (rq_event r))])"

end
