(* ===== verification/Planner_Safety.thy ===== *)
theory Planner_Safety
  imports Deterministic_Planner Policy_Engine
begin

text \<open>
  What the deterministic planner can propose, and what the policy engine makes of it: every planned action is
  bound to the session and goal of the request; nothing is started, stopped or forked without a human; the
  permissions the local policy grants by itself are exactly the harmless ones.
\<close>

section \<open>Actions the rules build\<close>

definition made :: "(proposed_action \<Rightarrow> bool) \<Rightarrow> proposed_action result \<Rightarrow> bool" where
  "made p x = (\<forall>a. x = Inr a \<longrightarrow> p a)"

definition planned :: "(proposed_action \<Rightarrow> bool) \<Rightarrow> rule_result \<Rightarrow> bool" where
  "planned p x = (\<forall>a. x = Inr (Some a) \<longrightarrow> p a)"

named_theorems plan_intro

lemma made_bind [plan_intro]: "(\<And>x. y = Inr x \<Longrightarrow> made p (f x)) \<Longrightarrow> made p (bind_result y f)"
  by (auto simp: made_def bind_result_Inr_iff)

lemma planned_pass [plan_intro]: "planned p pass"
  by (simp add: planned_def pass_def)

lemma planned_decided [plan_intro]: "made p x \<Longrightarrow> planned p (decided x)"
  by (auto simp: planned_def made_def decided_def bind_result_Inr_iff)

lemma planned_bind [plan_intro]: "(\<And>x. y = Inr x \<Longrightarrow> planned p (f x)) \<Longrightarrow> planned p (bind_result y f)"
  by (auto simp: planned_def bind_result_Inr_iff)

lemma planned_or_else [plan_intro]: "planned p x \<Longrightarrow> planned p y \<Longrightarrow> planned p (or_else x y)"
  by (auto simp: planned_def or_else_def bind_result_Inr_iff split: option.splits)

lemma planned_if [plan_intro]: "(c \<Longrightarrow> planned p x) \<Longrightarrow> (\<not> c \<Longrightarrow> planned p y) \<Longrightarrow> planned p (if c then x else y)"
  by simp

lemma made_if [plan_intro]: "(c \<Longrightarrow> made p x) \<Longrightarrow> (\<not> c \<Longrightarrow> made p y) \<Longrightarrow> made p (if c then x else y)"
  by simp

text \<open>The overlay of a planned action: session scoped, and it changes instructions and labels only.\<close>

definition narrow_overlay :: "supervisor_request \<Rightarrow> overlay \<Rightarrow> bool" where
  "narrow_overlay r v =
     (overlay_session_id v = ses_id (rq_session r) \<and> ttl_seconds v = 1800 \<and> \<not> promoted v \<and>
      diff v = no_diff\<lparr>extra := extra (diff v), system_instructions := system_instructions (diff v)\<rparr>)"

definition answers_permission :: "supervisor_request \<Rightarrow> proposed_action \<Rightarrow> bool" where
  "answers_permission r a =
     (dict_get (act_payload a) ''command'' = event_command (rq_event r) \<and>
      dict_get (act_payload a) ''decision_source'' = PStr ''local_policy'' \<and>
      act_risk a = (if safe_workspace_read r then RL_LOW else RL_MEDIUM) \<and> phase (rq_event r) = EP_BEFORE)"

definition plan_shape :: "planner_world \<Rightarrow> supervisor_request \<Rightarrow> proposed_action \<Rightarrow> bool" where
  "plan_shape w r a =
     (act_session_id a = ses_id (rq_session r) \<and> act_goal_id a = rq_goal_id r \<and>
      act_type a \<in> {IT_NOOP, IT_ANNOTATE, IT_SEND_NUDGE, IT_REQUEST_VERIFICATION, IT_RESPOND_PERMISSION,
        IT_APPLY_OVERLAY, IT_ASK_HUMAN, IT_STOP_AGENT, IT_FORK_PROBE} \<and>
      (act_type a \<in> {IT_ASK_HUMAN, IT_STOP_AGENT, IT_FORK_PROBE} \<longrightarrow> act_authority a = AUTH_HUMAN) \<and>
      (act_type a = IT_RESPOND_PERMISSION \<longrightarrow> answers_permission r a) \<and>
      (act_type a = IT_APPLY_OVERLAY \<longrightarrow>
         act_reversible a \<and> act_requires_capability a = Some ''modify_config'' \<and>
         (\<exists>v. dict_get (act_payload a) ''overlay'' = pw_dump w v \<and> validate_overlay v = Inr v \<and> narrow_overlay r v)))"

definition sound_plan :: "planner_world \<Rightarrow> supervisor_request \<Rightarrow> proposed_action \<Rightarrow> bool" where
  "sound_plan w r a = (plan_shape w r a \<and> validate_action a = Inr ())"

lemma sound_propose: "plan_shape w r a \<Longrightarrow> made (sound_plan w r) (propose a)"
  by (auto simp: made_def sound_plan_def propose_def bind_result_Inr_iff)

lemma sound_noop [plan_intro]: "made (sound_plan w r) (noop r rationale evidence)"
  unfolding noop_def by (rule sound_propose) (simp add: plan_shape_def new_action_def)

lemma sound_nudge [plan_intro]: "made (sound_plan w r) (nudge r rationale evidence message status)"
  unfolding nudge_def by (rule sound_propose) (simp add: plan_shape_def new_action_def)

lemma sound_ask [plan_intro]: "made (sound_plan w r) (ask_human r payload rationale evidence confidence risk)"
  unfolding ask_human_def by (rule sound_propose) (simp add: plan_shape_def new_action_def)

lemma planned_overlay_checked:
  assumes "validate_overlay (planned_overlay w r reason more_fields instructions) = Inr v"
  shows "v = planned_overlay w r reason more_fields instructions"
  using assms by (simp add: validate_overlay_Inr planned_overlay_def derived_expiry_def)

lemma sound_overlay [plan_intro]:
  "made (sound_plan w r)
     (apply_overlay w r (planned_overlay w r reason more_fields instructions) status rationale evidence confidence benefit)"
  unfolding apply_overlay_def
proof (rule made_bind, rule sound_propose)
  fix v assume v: "validate_overlay (planned_overlay w r reason more_fields instructions) = Inr v"
  note same = planned_overlay_checked [OF v]
  have "narrow_overlay r v" unfolding same by (simp add: narrow_overlay_def planned_overlay_def)
  moreover have "validate_overlay v = Inr v" using v same by simp
  ultimately show "plan_shape w r ((new_action r IT_APPLY_OVERLAY rationale evidence confidence RL_LOW)
        \<lparr>act_payload := (''overlay'', pw_dump w v) # status, act_reversible := True,
         act_expected_benefit := benefit, act_cooldown_seconds := 120,
         act_requires_capability := Some ''modify_config''\<rparr>)"
    unfolding plan_shape_def by (auto simp: new_action_def dict_get_def)
qed

lemma sound_verification [plan_intro]: "made (sound_plan w r) (request_verification w r probe evidence)"
  unfolding request_verification_def Let_def
  by (intro plan_intro sound_propose) (simp add: plan_shape_def new_action_def)

lemma sound_debug [plan_intro]: "made (sound_plan w r) (debug_overlay w r evidence)"
  unfolding debug_overlay_def Let_def by (rule sound_overlay)

lemma sound_evidence [plan_intro]: "made (sound_plan w r) (evidence_overlay w r evidence correction)"
  unfolding evidence_overlay_def by (rule sound_overlay)

lemma sound_stop_loser [plan_intro]: "made (sound_plan w r) (stop_loser r reasons)"
  unfolding stop_loser_def by (intro plan_intro sound_propose) (simp add: plan_shape_def new_action_def)

section \<open>The rules\<close>

lemma sound_ambiguous: "planned (sound_plan w r) (plan_ambiguous_prompt r)"
  unfolding plan_ambiguous_prompt_def Let_def
  by (intro plan_intro sound_propose) (simp add: plan_shape_def new_action_def)

lemma sound_permission: "planned (sound_plan w r) (plan_permission w r)"
  unfolding plan_permission_def Let_def
  by (intro plan_intro sound_propose) (simp_all add: plan_shape_def new_action_def answers_permission_def dict_get_def)

lemma sound_early_rules:
  "planned (sound_plan w r) (plan_paused r)" "planned (sound_plan w r) (plan_observation_only w r)"
  "planned (sound_plan w r) (plan_contradicted_prompt r)" "planned (sound_plan w r) (plan_contradicting_worker w r)"
  "planned (sound_plan w r) (plan_missing_prerequisite w r)" "planned (sound_plan w r) (plan_drifting w r)"
  unfolding plan_paused_def plan_observation_only_def plan_contradicted_prompt_def plan_contradicting_worker_def
    plan_missing_prerequisite_def plan_drifting_def Let_def
  by (intro plan_intro)+

lemma sound_casewise:
  "planned (sound_plan w r) (plan_required_deletion w r)" "planned (sound_plan w r) (plan_duplicate_work w r)"
  "planned (sound_plan w r) (plan_broad_work r)" "planned (sound_plan w r) (plan_dispute w r)"
  "planned (sound_plan w r) (plan_abandoned_job w r)"
  unfolding plan_required_deletion_def plan_duplicate_work_def plan_broad_work_def plan_dispute_def
    plan_abandoned_job_def Let_def
  by (auto split: option.split pyval.split intro!: plan_intro)

lemma sound_fork: "planned (sound_plan w r) (plan_fork_probe w r)"
  unfolding plan_fork_probe_def Let_def
  by (auto split: pyval.split intro!: plan_intro sound_propose simp: plan_shape_def new_action_def)

lemma sound_comparison: "planned (sound_plan w r) (settle_comparison w r d)"
  unfolding settle_comparison_def Let_def by (intro plan_intro)

lemma sound_speculative [plan_intro]: "planned (sound_plan w r) (speculative_action w r)"
  unfolding speculative_action_def
  by (auto split: pyval.split intro!: planned_or_else sound_fork sound_comparison planned_pass)

lemma sound_uncertain: "planned (sound_plan w r) (plan_uncertain_claim w r verification)"
  unfolding plan_uncertain_claim_def by (auto split: pyval.split intro!: plan_intro)

lemma sound_stop: "planned (sound_plan w r) (plan_stop w r)"
  unfolding plan_stop_def plan_waiting_probe_def plan_failed_claim_def plan_changed_surface_def Let_def
  by (intro plan_intro sound_casewise sound_uncertain)

lemma sound_compaction: "planned (sound_plan w r) (plan_compaction w r)"
proof (cases "rq_goal r")
  case None
  then show ?thesis by (simp add: plan_compaction_def planned_pass)
next
  case (Some g)
  show ?thesis unfolding plan_compaction_def Some option.case Let_def
    by (intro plan_intro sound_propose) (simp add: plan_shape_def new_action_def)
qed

lemma sound_rules: "planned (sound_plan w r) (plan_rules w r)"
  unfolding plan_rules_def
  by (intro planned_or_else sound_early_rules sound_ambiguous sound_casewise sound_permission sound_stop sound_compaction)

lemma noop_type: "noop r rationale evidence = Inr a \<Longrightarrow> act_type a = IT_NOOP"
  by (auto simp: noop_def propose_def new_action_def bind_result_Inr_iff)

lemma plan_cases:
  assumes "plan_deterministic w r = Inr a"
  shows "plan_rules w r = Inr (Some a) \<or> act_type a = IT_NOOP"
proof -
  obtain found where "plan_rules w r = Inr found"
    using assms by (auto simp: plan_deterministic_def bind_result_Inr_iff)
  with assms show ?thesis
    by (cases found) (simp_all add: plan_deterministic_def noop_type)
qed

lemma plan_sound:
  assumes "plan_deterministic w r = Inr a"
  shows "plan_shape w r a" and "validate_action a = Inr ()"
proof -
  have "made (sound_plan w r) (plan_deterministic w r)"
    unfolding plan_deterministic_def
  proof (rule made_bind)
    fix found assume found: "plan_rules w r = Inr found"
    show "made (sound_plan w r) (case found of Some a \<Rightarrow> Inr a
        | None \<Rightarrow> noop r ''No deterministic fact requires interruption. Stop/completion needs supervisor inference or silence.''
            [event_type_value (event_type (rq_event r))])"
      using sound_rules [of w r] found
      by (cases found) (auto simp: planned_def made_def intro: sound_noop [unfolded made_def, rule_format])
  qed
  with assms show "plan_shape w r a" "validate_action a = Inr ()" by (simp_all add: made_def sound_plan_def)
qed

section \<open>Properties\<close>

text \<open>
  Property C7. Whatever the features, the notes and the event say, a planned action is valid, is bound to the
  session and the goal of its request, and is of one of nine kinds; one that asks, stops or forks carries the
  authority of a human, so that the policy never lets it pass by itself; and an overlay it proposes is
  temporary, belongs to the session and changes nothing but instructions and labels: no tool, server, model or
  permission.
\<close>

theorem planned_actions_are_bounded:
  assumes "plan_deterministic w r = Inr a"
  shows "validate_action a = Inr () \<and> act_session_id a = ses_id (rq_session r) \<and>
    act_goal_id a = map_option goal_id (rq_goal r) \<and>
    act_type a \<in> {IT_NOOP, IT_ANNOTATE, IT_SEND_NUDGE, IT_REQUEST_VERIFICATION, IT_RESPOND_PERMISSION,
      IT_APPLY_OVERLAY, IT_ASK_HUMAN, IT_STOP_AGENT, IT_FORK_PROBE} \<and>
    (decide show coerce autonomy a cmd = PV_ALLOW \<longrightarrow> act_type a \<notin> {IT_ASK_HUMAN, IT_STOP_AGENT, IT_FORK_PROBE}) \<and>
    (act_type a = IT_APPLY_OVERLAY \<longrightarrow>
       (\<exists>v. dict_get (act_payload a) ''overlay'' = pw_dump w v \<and> validate_overlay v = Inr v \<and>
          overlay_session_id v = ses_id (rq_session r) \<and> ttl_seconds v = 1800 \<and> \<not> promoted v \<and>
          tools_enabled (diff v) = None \<and> tools_disabled (diff v) = None \<and> mcp_servers (diff v) = None \<and>
          diff_model (diff v) = None \<and> permission_policy (diff v) = None))"
proof (intro conjI impI)
  have shape: "plan_shape w r a" by (rule plan_sound [OF assms])
  then show "act_session_id a = ses_id (rq_session r)" "act_goal_id a = map_option goal_id (rq_goal r)"
    "act_type a \<in> {IT_NOOP, IT_ANNOTATE, IT_SEND_NUDGE, IT_REQUEST_VERIFICATION, IT_RESPOND_PERMISSION,
      IT_APPLY_OVERLAY, IT_ASK_HUMAN, IT_STOP_AGENT, IT_FORK_PROBE}"
    unfolding plan_shape_def rq_goal_id_def by blast+
  show "validate_action a = Inr ()" by (rule plan_sound [OF assms])
  show "act_type a \<notin> {IT_ASK_HUMAN, IT_STOP_AGENT, IT_FORK_PROBE}" if "decide show coerce autonomy a cmd = PV_ALLOW"
    using decide_allow(3) [OF that] shape unfolding plan_shape_def by blast
  assume "act_type a = IT_APPLY_OVERLAY"
  with shape obtain v where v: "dict_get (act_payload a) ''overlay'' = pw_dump w v" "validate_overlay v = Inr v"
    "narrow_overlay r v" unfolding plan_shape_def by blast
  from v(3) have keep: "diff v = no_diff\<lparr>extra := extra (diff v), system_instructions := system_instructions (diff v)\<rparr>"
    and here: "overlay_session_id v = ses_id (rq_session r)" "ttl_seconds v = 1800" "\<not> promoted v"
    by (simp_all add: narrow_overlay_def)
  have "tools_enabled (diff v) = None" "tools_disabled (diff v) = None" "mcp_servers (diff v) = None"
    "diff_model (diff v) = None" "permission_policy (diff v) = None"
    by (subst keep, simp add: no_diff_def)+
  with v here show "\<exists>v. dict_get (act_payload a) ''overlay'' = pw_dump w v \<and> validate_overlay v = Inr v \<and>
          overlay_session_id v = ses_id (rq_session r) \<and> ttl_seconds v = 1800 \<and> \<not> promoted v \<and>
          tools_enabled (diff v) = None \<and> tools_disabled (diff v) = None \<and> mcp_servers (diff v) = None \<and>
          diff_model (diff v) = None \<and> permission_policy (diff v) = None" by blast
qed

definition example_planner :: planner_world where
  "example_planner =
     \<lparr>pw_show = \<lambda>_. ''0.9'', pw_float = \<lambda>_. None, pw_fresh = ''0123456789ab'', pw_iso = \<lambda>_. [], pw_dump = \<lambda>_. PNone,
      pw_sha = \<lambda>s. s\<rparr>"

lemma example_plan:
  "case plan_deterministic example_planner example_read_request of
     Inl _ \<Rightarrow> False
   | Inr a \<Rightarrow> act_type a = IT_RESPOND_PERMISSION \<and> command_words example_planner example_read_request = [] \<and>
       decide (pw_show example_planner) (\<lambda>_. None) AL_MANAGE a (Some []) = PV_ALLOW"
  by code_simp

lemma example_read_allowed:
  "\<exists>a. plan_deterministic example_planner example_read_request = Inr a \<and> act_type a = IT_RESPOND_PERMISSION \<and>
     command_words example_planner example_read_request = [] \<and>
     decide (pw_show example_planner) (\<lambda>_. None) AL_MANAGE a (Some []) = PV_ALLOW"
  using example_plan by (cases "plan_deterministic example_planner example_read_request") auto

theorem planned_actions_are_bounded_witness:
  "\<exists>a. plan_deterministic example_planner example_read_request = Inr a \<and> act_session_id a = ''s''"
proof -
  obtain a where a: "plan_deterministic example_planner example_read_request = Inr a" using example_read_allowed by blast
  have "ses_id (rq_session example_read_request) = ''s''" by code_simp
  with planned_actions_are_bounded [OF a] a show ?thesis by auto
qed

text \<open>
  Property C6. The policy gives a planned permission answer by itself only in the modes manage and autopilot,
  before the action runs, and in one of two cases: the event names a command, and that command is a single
  allowlisted one that matches none of the patterns that always ask; or it names none, and it is a plain read
  of the workspace. The command is the one the pipeline passes to the policy.
\<close>

theorem local_permissions_are_harmless:
  assumes "plan_deterministic w r = Inr a" and "act_type a = IT_RESPOND_PERMISSION"
    and "decide (pw_show w) coerce autonomy a (Some (command_words w r)) = PV_ALLOW"
  shows "autonomy \<in> {AL_MANAGE, AL_AUTOPILOT} \<and> phase (rq_event r) = EP_BEFORE \<and>
    (if command_words w r = [] then safe_workspace_read r
     else single_command (command_words w r) \<and> (\<exists>p \<in> set auto_allow. rx_found p (command_words w r)) \<and>
       (\<forall>p \<in> set always_ask. \<not> rx_found p (command_words w r)))"
proof -
  have answers: "answers_permission r a" using plan_sound(1) [OF assms(1)] assms(2) by (simp add: plan_shape_def)
  then have cmd: "effective_command (pw_show w) a (Some (command_words w r)) = command_words w r"
    by (simp add: effective_command_def answers_permission_def command_words_def)
  note bounds = permission_allow_bounds [OF assms(3,2), unfolded cmd]
  show ?thesis
  proof (cases "command_words w r = []")
    case True
    with bounds have "act_risk a \<in> {RL_NONE, RL_LOW}" by (simp add: effective_risk_def)
    with True bounds answers show ?thesis by (simp add: answers_permission_def split: if_splits)
  next
    case False
    then have "command_risk (Some (command_words w r)) = RL_NONE"
      using effective_risk_local bounds assms(2) by blast
    with False bounds answers show ?thesis
      using command_risk_none_iff [of "command_words w r"] shell_control_iff [of "command_words w r"]
      by (simp add: answers_permission_def)
  qed
qed

theorem local_permissions_are_harmless_witness:
  "phase (rq_event example_read_request) = EP_BEFORE \<and> safe_workspace_read example_read_request"
proof -
  obtain a where a: "plan_deterministic example_planner example_read_request = Inr a" "act_type a = IT_RESPOND_PERMISSION"
    and cmd: "command_words example_planner example_read_request = []"
    and allowed: "decide (pw_show example_planner) (\<lambda>_. None) AL_MANAGE a (Some []) = PV_ALLOW"
    using example_read_allowed by blast
  show ?thesis using local_permissions_are_harmless [OF a allowed [folded cmd]] cmd by simp
qed

section \<open>Silence\<close>

lemma or_else_Some [simp]: "or_else (Inr (Some a)) y = Inr (Some a)"
  by (simp add: or_else_def)

lemma or_else_pass [simp]: "or_else pass y = y"
  by (simp add: or_else_def pass_def)

lemma or_else_Inr: "or_else x y = Inr (Some a) \<Longrightarrow> x = Inr (Some a) \<or> x = Inr None \<and> y = Inr (Some a)"
  by (cases x) (auto simp: or_else_def split: option.splits)

lemma decided_noop:
  "decided (noop r rationale evidence) = Inr x \<Longrightarrow> \<exists>a. x = Some a \<and> act_type a = IT_NOOP"
  by (auto simp: decided_def bind_result_Inr_iff noop_type)

lemma paused_noop:
  assumes "plan_paused r = Inr x" and "supervision_paused (rq_session r) \<or> (\<exists>g. rq_goal r = Some g \<and> goal_paused g)"
  shows "\<exists>a. x = Some a \<and> act_type a = IT_NOOP"
  using assms decided_noop by (auto simp: plan_paused_def)

lemma paused_only_noop: "plan_paused r = Inr (Some a) \<Longrightarrow> act_type a = IT_NOOP"
  using decided_noop by (fastforce simp: plan_paused_def pass_def split: if_splits)

lemma observation_noop:
  assumes "plan_observation_only w r = Inr x" and "event_type (rq_event r) = ET_STOP" and "observation_only_goal r"
  shows "\<exists>a. x = Some a \<and> act_type a = IT_NOOP"
proof -
  from assms obtain rationale evidence where "decided (noop r rationale evidence) = Inr x"
    unfolding plan_observation_only_def by (auto simp: bind_result_Inr_iff)
  then show ?thesis by (rule decided_noop)
qed

text \<open>
  Property C29. A paused session or goal, and the stop of a goal that only observes, get no action: whatever
  else the request says, the planner proposes nothing.
\<close>

theorem paused_supervision_is_silent:
  assumes "plan_deterministic w r = Inr a"
    and "supervision_paused (rq_session r) \<or> (\<exists>g. rq_goal r = Some g \<and> goal_paused g) \<or>
      (event_type (rq_event r) = ET_STOP \<and> observation_only_goal r)"
  shows "act_type a = IT_NOOP"
proof (cases "plan_rules w r = Inr (Some a)")
  case True
  then consider "plan_paused r = Inr (Some a)"
    | "plan_paused r = Inr None" "plan_observation_only w r = Inr (Some a)"
    | "plan_paused r = Inr None" "plan_observation_only w r = Inr None"
    unfolding plan_rules_def using or_else_Inr by metis
  then show ?thesis
  proof cases
    case 1
    then show ?thesis by (rule paused_only_noop)
  next
    case 2
    with assms(2) paused_noop [OF 2(1)] observation_noop [OF 2(2)] show ?thesis by blast
  next
    case 3
    with assms(2) paused_noop [OF 3(1)] observation_noop [OF 3(2)] show ?thesis by blast
  qed
qed (use plan_cases [OF assms(1)] in blast)

definition example_paused_request :: supervisor_request where
  "example_paused_request =
     example_read_request\<lparr>rq_session := (rq_session example_read_request)\<lparr>supervision_paused := True\<rparr>\<rparr>"

lemma example_paused_planned: "succeeds (plan_deterministic example_planner example_paused_request)"
  by code_simp

lemma example_paused_plan: "\<exists>a. plan_deterministic example_planner example_paused_request = Inr a"
  using example_paused_planned by (auto simp: succeeds_def split: sum.splits)

theorem paused_supervision_is_silent_witness:
  "\<exists>a. plan_deterministic example_planner example_paused_request = Inr a \<and> act_type a = IT_NOOP"
proof -
  obtain a where a: "plan_deterministic example_planner example_paused_request = Inr a" using example_paused_plan by blast
  have "supervision_paused (rq_session example_paused_request)" by (simp add: example_paused_request_def)
  with paused_supervision_is_silent [OF a] a show ?thesis by blast
qed

section \<open>The debug overlay is one the policy knows\<close>

lemma debug_instructions_plain:
  "strip (''Stay on the failing reproduction. Do not start unrelated research. '' @
     ''Preserve the failing state until the attached acceptance criteria move.'') \<in> set debug_instructions"
  "strip (''Stay on the failing reproduction. Do not start unrelated research. '' @
     ''Preserve the failing state until the attached acceptance criteria move.'' @
     '' Do not treat a stop as done without the attached acceptance evidence.'') \<in> set debug_instructions"
  by code_simp+

lemma debug_instructions_short:
  "t \<in> set debug_instructions \<Longrightarrow> t \<noteq> [] \<and> CHR 0x00 \<notin> set t \<and> length t \<le> 8192"
  unfolding debug_instructions_def by auto

lemma debug_overlay_proven:
  assumes "debug_overlay w r (e # evidence) = Inr a" and "length e \<le> 512" and "control_free e"
    and "\<And>v. coerce (pw_dump w v) = Some v"
  shows "overlay_allowed coerce a" and "act_type a = IT_APPLY_OVERLAY" and "act_risk a = RL_LOW"
    and "act_authority a = AUTH_LOCAL_POLICY" and "act_reversible a"
    and "act_requires_capability a = Some ''modify_config''" and "act_evidence a = e # evidence"
proof -
  let ?recommended = "''evidence-before-done'' \<in> set (recommended_overlays w r)"
  let ?instructions = "''Stay on the failing reproduction. Do not start unrelated research. '' @
    ''Preserve the failing state until the attached acceptance criteria move.'' @
    (if ?recommended then '' Do not treat a stop as done without the attached acceptance evidence.'' else [])"
  let ?fields = "[(''phase'', PStr ''debug''), (''pin'', PStr e)] @
    (if ?recommended then [(''fingerprint_overlay'', PStr ''evidence-before-done'')] else [])"
  let ?v = "planned_overlay w r ''Repeated identical failures; switch to a debug-phase overlay.'' ?fields ?instructions"
  from assms(1) obtain v where v: "validate_overlay ?v = Inr v"
    and a: "a = (new_action r IT_APPLY_OVERLAY
          ''Current harness shape is wasting work on repeated identical failures.'' (e # evidence) (8 / 10) RL_LOW)
        \<lparr>act_payload := [(''overlay'', pw_dump w v), (''session_status'', PStr ''drifting'')], act_reversible := True,
         act_expected_benefit := ''Focus diagnosis on the failing reproduction while preserving task tools.'',
         act_cooldown_seconds := 120, act_requires_capability := Some ''modify_config''\<rparr>"
    unfolding debug_overlay_def apply_overlay_def propose_def Let_def list.case bind_result_Inr_iff by auto
  from planned_overlay_checked [OF v] have same: "v = ?v" .
  have told: "strip ?instructions \<in> set debug_instructions"
    using debug_instructions_plain by (cases ?recommended) (simp_all only: if_True if_False append_Nil2)
  note plain = debug_instructions_short [OF told]
  have texts: "extra_text ?fields ''phase'' = ''debug''"
    "extra_text ?fields ''fingerprint_overlay'' \<in> {[], ''evidence-before-done''}"
    "set (dict_keys ?fields) \<subseteq> {''phase'', ''pin'', ''fingerprint_overlay''}"
    "\<forall>kv \<in> set ?fields. bounded_text (snd kv)"
    using assms(2,3) by (auto simp: extra_text_def dict_get_def dict_keys_def bounded_text_def control_free_def is_control_def)
  have parts: "diff ?v = no_diff\<lparr>extra := ?fields, system_instructions := Some ?instructions\<rparr>"
    by (simp add: planned_overlay_def)
  have "locally_proven_session_overlay ?v"
    unfolding locally_proven_session_overlay_def parts Let_def
    using told plain texts by (simp add: no_diff_def del: append_assoc append.simps split del: if_split)
  with v same assms(4) show "overlay_allowed coerce a"
    unfolding overlay_allowed_def by (simp add: a dict_get_def)
  show "act_type a = IT_APPLY_OVERLAY" "act_risk a = RL_LOW" "act_authority a = AUTH_LOCAL_POLICY" "act_reversible a"
    "act_requires_capability a = Some ''modify_config''" "act_evidence a = e # evidence"
    by (simp_all add: a new_action_def)
qed

lemma nudge_type: "nudge r rationale evidence message status = Inr a \<Longrightarrow> act_type a = IT_SEND_NUDGE"
  by (auto simp: nudge_def propose_def new_action_def bind_result_Inr_iff)

text \<open>The only overlay of this rule is the debug overlay, and its first evidence is the drift score.\<close>

definition debug_after_drift :: "planner_world \<Rightarrow> supervisor_request \<Rightarrow> proposed_action \<Rightarrow> bool" where
  "debug_after_drift w r a =
     (act_type a = IT_APPLY_OVERLAY \<longrightarrow>
        (\<exists>evidence. debug_overlay w r ((''drift='' @ str_of (pw_show w) (PFloat (drift (rq_scores r)))) # evidence) = Inr a))"

lemma drifting_overlay: "planned (debug_after_drift w r) (plan_drifting w r)"
proof -
  have debug: "made (debug_after_drift w r)
      (debug_overlay w r ((''drift='' @ str_of (pw_show w) (PFloat (drift (rq_scores r)))) # evidence))" for evidence
    unfolding made_def debug_after_drift_def by blast
  have nudged: "made (debug_after_drift w r) (nudge r rationale evidence message status)"
    for rationale evidence message status
    unfolding made_def debug_after_drift_def using nudge_type by fastforce
  show ?thesis
    unfolding plan_drifting_def Let_def
    by (intro planned_if planned_pass planned_bind planned_decided debug nudged)
qed

lemma drift_label: "strip (''drift='' @ t) \<noteq> []"
proof -
  have d: "\<not> is_space (CHR ''d'')" by code_simp
  then have "dropWhile is_space (''drift='' @ t) = ''drift='' @ t" by simp
  moreover have "dropWhile is_space (rev (''drift='' @ t)) \<noteq> []"
    unfolding dropWhile_eq_Nil_conv using d by auto
  ultimately show ?thesis unfolding strip_def strip_where_def rstrip_where_def by simp
qed

text \<open>
  Property C28. The two halves agree on the debug overlay: where the planner answers a drifting worker with an
  overlay, the policy recognises that overlay as one of its own session profiles and applies it without asking,
  in the modes manage and autopilot. Assumed: reading the payload back gives the overlay that was written, and
  the text of a float is short and free of control characters.
\<close>

theorem planned_debug_overlay_is_applied:
  assumes "plan_drifting w r = Inr (Some a)" and "act_type a = IT_APPLY_OVERLAY"
    and "\<And>v. coerce (pw_dump w v) = Some v"
    and "\<And>q. length (pw_show w (PFloat q)) \<le> 64 \<and> control_free (pw_show w (PFloat q))"
    and "autonomy \<in> {AL_MANAGE, AL_AUTOPILOT}"
  shows "decide show coerce autonomy a cmd = PV_ALLOW"
proof -
  let ?e = "''drift='' @ str_of (pw_show w) (PFloat (drift (rq_scores r)))"
  have "debug_after_drift w r a" using drifting_overlay [of w r] assms(1) by (simp add: planned_def)
  then obtain evidence where debug: "debug_overlay w r (?e # evidence) = Inr a"
    using assms(2) unfolding debug_after_drift_def by blast
  have "length ?e \<le> 512" "control_free ?e"
    using assms(4) [of "drift (rq_scores r)"] by (simp_all add: control_free_def is_control_def)
  note proven = debug_overlay_proven [where coerce = coerce, OF debug this assms(3)]
  have "effective_risk a (effective_command show a cmd) = RL_LOW" using proven by (simp add: effective_risk_def)
  moreover have "overlay_gate coerce a" using proven drift_label by (auto simp: overlay_gate_def)
  ultimately show ?thesis using assms(5) proven by (auto simp: decide_allow_iff Let_def)
qed

text \<open>One way to write an overlay as a JSON value and to read it back.\<close>

definition optional_value :: "('a \<Rightarrow> pyval) \<Rightarrow> 'a option \<Rightarrow> pyval" where
  "optional_value f x = (case x of None \<Rightarrow> PNone | Some y \<Rightarrow> f y)"

fun time_value :: "datetime \<Rightarrow> pyval" where
  "time_value (Naive t) = PList [PInt t]"
| "time_value (Aware t offset) = PList [PInt t, PInt offset]"

fun dict_read :: "pyval \<Rightarrow> (string \<times> pyval) list option" where
  "dict_read (PDict d) = Some d"
| "dict_read v = None"

fun names_read :: "pyval \<Rightarrow> string list option" where
  "names_read (PList vs) = Some (map (\<lambda>v. text_or_empty (as_string v)) vs)"
| "names_read v = None"

fun time_read :: "pyval \<Rightarrow> datetime option" where
  "time_read (PList vs) =
     Some (if length vs = 1 then Naive (the (as_int (vs ! 0))) else Aware (the (as_int (vs ! 0))) (the (as_int (vs ! 1))))"
| "time_read v = None"

definition example_dump :: "overlay \<Rightarrow> pyval" where
  "example_dump v =
     PList
       [PStr (overlay_id v), PStr (overlay_session_id v), PStr (overlay_reason v), PInt (ttl_seconds v),
        optional_value PStr (system_instructions (diff v)),
        optional_value (\<lambda>ns. PList (map PStr ns)) (tools_enabled (diff v)),
        optional_value (\<lambda>ns. PList (map PStr ns)) (tools_disabled (diff v)),
        optional_value PDict (mcp_servers (diff v)), optional_value PStr (diff_model (diff v)),
        optional_value PStr (Overlay_Model.reasoning_effort (diff v)), optional_value PDict (permission_policy (diff v)),
        PDict (extra (diff v)), optional_value time_value (applied_at v), optional_value time_value (expires_at v),
        optional_value time_value (reverted_at v), optional_value PStr (revert_reason v), PDict (rollback v),
        PBool (promoted v)]"

definition example_load :: "pyval \<Rightarrow> overlay option" where
  "example_load p =
     (case p of
        PList vs \<Rightarrow>
          Some
            \<lparr>overlay_id = text_or_empty (as_string (vs ! 0)), overlay_session_id = text_or_empty (as_string (vs ! 1)),
             overlay_reason = text_or_empty (as_string (vs ! 2)),
             diff =
               \<lparr>system_instructions = as_string (vs ! 4), tools_enabled = names_read (vs ! 5),
                tools_disabled = names_read (vs ! 6), mcp_servers = dict_read (vs ! 7), diff_model = as_string (vs ! 8),
                reasoning_effort = as_string (vs ! 9), permission_policy = dict_read (vs ! 10),
                extra = dict_or_empty (vs ! 11)\<rparr>,
             ttl_seconds = the (as_int (vs ! 3)), applied_at = time_read (vs ! 12), expires_at = time_read (vs ! 13),
             reverted_at = time_read (vs ! 14), revert_reason = as_string (vs ! 15), rollback = dict_or_empty (vs ! 16),
             promoted = (vs ! 17 = PBool True)\<rparr>
      | _ \<Rightarrow> None)"

lemma optional_read:
  "as_string (optional_value PStr s) = s" "dict_read (optional_value PDict d) = d"
  "names_read (optional_value (\<lambda>ns. PList (map PStr ns)) ns) = ns" "time_read (optional_value time_value t) = t"
proof -
  have "map (\<lambda>v. text_or_empty (as_string v)) (map PStr xs) = xs" for xs
    by (induction xs) (simp_all add: text_or_empty_def)
  then show "names_read (optional_value (\<lambda>ns. PList (map PStr ns)) ns) = ns"
    by (cases ns) (simp_all add: optional_value_def del: map_map)
  show "time_read (optional_value time_value t) = t"
  proof (cases t)
    case (Some x)
    then show ?thesis by (cases x) (simp_all add: optional_value_def)
  qed (simp add: optional_value_def)
qed (simp_all add: optional_value_def split: option.split)

lemma example_load_dump: "example_load (example_dump v) = Some v"
proof -
  have "text_or_empty (Some s) = s" for s by (simp add: text_or_empty_def)
  then show ?thesis by (simp add: example_load_def example_dump_def optional_read numeral_nat)
qed

definition example_drifting_request :: supervisor_request where
  "example_drifting_request =
     example_read_request
       \<lparr>rq_session := (new_session ''s'' HT_SYNTHETIC ''v''),
        rq_event := (new_event ''e'' (Aware 0 0) HT_SYNTHETIC ''s'' ET_TOOL_RESULT),
        rq_scores :=
          \<lparr>drift = 9 / 10, stagnation = 0, premature_completion = 0, claim_contradiction = 0,
           score_features = [(''repeated_command_count'', PInt 3), (''identical_error_count'', PInt 2)]\<rparr>\<rparr>"

lemma example_drifting_planned:
  "case plan_drifting (example_planner\<lparr>pw_dump := example_dump\<rparr>) example_drifting_request of
     Inr (Some a) \<Rightarrow> act_type a = IT_APPLY_OVERLAY
   | _ \<Rightarrow> False"
  by code_simp

theorem planned_debug_overlay_is_applied_witness:
  "\<exists>a. act_type a = IT_APPLY_OVERLAY \<and> decide (\<lambda>_. []) example_load AL_MANAGE a None = PV_ALLOW"
proof -
  obtain a where a: "plan_drifting (example_planner\<lparr>pw_dump := example_dump\<rparr>) example_drifting_request = Inr (Some a)"
    "act_type a = IT_APPLY_OVERLAY"
    using example_drifting_planned by (auto split: sum.splits option.splits)
  have "decide (\<lambda>_. []) example_load AL_MANAGE a None = PV_ALLOW"
    by (rule planned_debug_overlay_is_applied [OF a])
      (simp_all add: example_load_dump example_planner_def control_free_def is_control_def)
  with a show ?thesis by blast
qed

section \<open>Findings\<close>

text \<open>
  Finding. The producer test ends its stems with a word boundary, so a stem alone matches and none of the words
  built on it does: a command that generates the missing artifact under a different name, and names a consumer
  word, is told that it started too early.
\<close>

lemma producer_stems_never_match:
  "\<not> rx_found producer_command ''python generate_data.py'' \<and> \<not> rx_found producer_command ''python prepare.py'' \<and>
   \<not> rx_found producer_command ''make create'' \<and> is_downstream_consumer ''python prepare.py --eval'' [''data.csv'']"
  by code_simp

text \<open>
  Finding. The bridge may append its transport policy to the notes as a paragraph of its own. The rule for
  prompts leaves it out of the quoted constraint; the rule for worker actions quotes it as part of it.
\<close>

definition appended_notes :: "string \<Rightarrow> string" where
  "appended_notes rule =
     rule @ [CHR 0x0A, CHR 0x0A] @ ''Autonomous correction permission is disabled.''"

lemma transport_policy_quoted_as_rule:
  "contradicted_constraint (appended_notes ''possible_contradiction:keep main'') = Inr ''keep main'' \<and>
   (case plan_contradicting_worker example_planner
           (example_drifting_request\<lparr>rq_notes := appended_notes ''agent_contradiction:keep main''\<rparr>) of
      Inr (Some a) \<Rightarrow>
        dict_get (act_payload a) ''text'' =
          PStr (''That action conflicts with the active constraint '' @ [CHR 0x27] @ appended_notes ''keep main'' @
                [CHR 0x27] @ ''. Stay on the attached ledger.'')
    | _ \<Rightarrow> False)"
  by code_simp

end
