(* ===== verification/Context_Health.thy ===== *)
theory Context_Health
  imports Pure_Paths Mcp_Requests Trajectory_Features Action_Model "HOL-Library.AList"
begin

text \<open>
  \<open>services/bridge/src/pex_bridge/context/health.py\<close>: how healthy the context of a session is, judged from
  its observed events and the durable items of its project, and which durable facts the worker had to read
  again after its context was compacted. Scores are rationals. Parameters: \<open>show\<close> is \<open>repr\<close> of a value
  that is not a string, \<open>order\<close> the order in which a set is walked.
\<close>

section \<open>File names\<close>

definition file_name :: "string option \<Rightarrow> string \<Rightarrow> string" where
  "file_name project raw =
     (let base = text_or_empty project
      in if drive_absolute raw then project_binding_key raw
         else if drive_absolute base then project_binding_key (nt_join base raw)
         else posix_normpath (if starts_with ''/'' base then posix_join base raw else raw))"

definition file_names :: "string option \<Rightarrow> string list \<Rightarrow> string list" where
  "file_names project paths =
     remdups (filter (\<lambda>n. n \<noteq> []) (map (file_name project) (filter (\<lambda>p. strip p \<noteq> []) paths)))"

definition event_files :: "harness_event \<Rightarrow> string list" where
  "event_files e = file_names (ev_project_id e) (file_paths e)"

definition item_files :: "(pyval \<Rightarrow> string) \<Rightarrow> durable_item \<Rightarrow> string list" where
  "item_files show x =
     (case dict_get (cx_metadata x) ''files'' of
        PList vs \<Rightarrow> file_names (Some (cx_project_id x)) (map (str_of show) vs)
      | _ \<Rightarrow> [])"

section \<open>Counts\<close>

definition is_secret :: "durable_item \<Rightarrow> bool" where
  "is_secret x = (cx_sensitivity x \<in> {SEN_SECRET, SEN_LOCAL_ONLY})"

definition safe_content :: "durable_item \<Rightarrow> string" where
  "safe_content x = (if is_secret x then [] else take 400 (strip (cx_content x)))"

fun token_number :: "pyval \<Rightarrow> rat option" where
  "token_number (PInt i) = (if i \<le> 0 then None else Some (of_int i))"
| "token_number (PFloat q) = (if q \<le> 0 then None else Some q)"
| "token_number _ = None"

definition first_number :: "(string \<times> pyval) list \<Rightarrow> string list \<Rightarrow> rat option" where
  "first_number usage keys =
     (case filter (\<lambda>v. v \<noteq> None) (map (\<lambda>k. token_number (dict_get usage k)) keys) of [] \<Rightarrow> None | v # _ \<Rightarrow> v)"

definition event_utilization :: "harness_event \<Rightarrow> rat option" where
  "event_utilization e =
     (case token_usage e of
        None \<Rightarrow> None
      | Some usage \<Rightarrow>
          (case (first_number usage [''total_tokens'', ''prompt_tokens'', ''input_tokens''],
                 first_number usage [''context_window'', ''max_context_tokens'', ''context_limit'']) of
             (Some used, Some window) \<Rightarrow> Some (round4 (min 1 (used / window)))
           | _ \<Rightarrow> None))"

fun token_utilization :: "harness_event list \<Rightarrow> rat option" where
  "token_utilization [] = None"
| "token_utilization (e # es) =
     (case token_utilization es of Some q \<Rightarrow> Some q | None \<Rightarrow> event_utilization e)"

definition repeated_reads :: "harness_event list \<Rightarrow> nat" where
  "repeated_reads events =
     (let names = concat (map event_files (filter (\<lambda>e. event_type e = ET_FILE_READ) events))
      in length names - length (remdups names))"

definition contradicts :: "(pyval \<Rightarrow> string) \<Rightarrow> durable_item \<Rightarrow> bool" where
  "contradicts show x =
     (let status = casefold (str_or_empty show (dict_get (cx_metadata x) ''status''))
      in status \<in> {''contradicted'', ''conflict'', ''conflicting'', ''acceptance_gap''} \<or>
         (cx_kind x = CK_CLAIM \<and> status \<in> {''false'', ''rejected''}))"

definition contradiction_count :: "(pyval \<Rightarrow> string) \<Rightarrow> durable_item list \<Rightarrow> nat" where
  "contradiction_count show items = length (filter (contradicts show) items)"

text \<open>The instant is compared as the caller gave it: a naive one is refused at the first dated decision.\<close>

definition dated_decisions :: "durable_item list \<Rightarrow> durable_item list" where
  "dated_decisions items = filter (\<lambda>x. cx_kind x = CK_DECISION \<and> cx_stale_after x \<noteq> None) items"

definition stale_decision_count :: "durable_item list \<Rightarrow> datetime \<Rightarrow> nat result" where
  "stale_decision_count items now =
     (if dated_decisions items \<noteq> [] \<and> \<not> is_aware now then Inl ''TypeError''
      else Inr (length (filter (\<lambda>x. as_utc (the (cx_stale_after x)) \<le> as_utc now) (dated_decisions items))))"

section \<open>Forgotten facts\<close>

definition edit_content :: "harness_event \<Rightarrow> string" where
  "edit_content e =
     take 400 (strip (if given (message_delta e) then text_or_empty (message_delta e) else text_or_empty (command e)))"

definition record_edit ::
  "(string \<times> int \<times> string) list \<Rightarrow> harness_event \<Rightarrow> (string \<times> int \<times> string) list" where
  "record_edit noted e =
     (if event_type e \<noteq> ET_FILE_EDIT then noted
      else foldl (\<lambda>m n. AList.update n (instant e, edit_content e) m) noted (event_files e))"

definition prior_edits :: "harness_event list \<Rightarrow> (string \<times> int \<times> string) list" where
  "prior_edits events = foldl record_edit [] events"

definition set_default :: "(string \<times> string) list \<Rightarrow> string \<Rightarrow> string \<Rightarrow> (string \<times> string) list" where
  "set_default m n v = (if map_of m n = None then m @ [(n, v)] else m)"

text \<open>A file-state record older than an observed edit of its file no longer says what the file holds.\<close>

definition outdated :: "(string \<times> int \<times> string) list \<Rightarrow> durable_item \<Rightarrow> string \<Rightarrow> bool" where
  "outdated noted x n =
     (cx_kind x \<in> {CK_ARTIFACT, CK_RESULT, CK_FACT} \<and>
      (case map_of noted n of None \<Rightarrow> False | Some (time, _) \<Rightarrow> as_utc (cx_valid_from x) < time))"

definition know_item ::
  "(pyval \<Rightarrow> string) \<Rightarrow> (string \<times> int \<times> string) list \<Rightarrow> int \<Rightarrow> (string \<times> string) list \<Rightarrow> durable_item \<Rightarrow>
   (string \<times> string) list" where
  "know_item show noted moment known x =
     (if moment < as_utc (cx_valid_from x) then known
      else foldl (\<lambda>m n. if outdated noted x n \<or> safe_content x = [] then m else set_default m n (safe_content x))
             known (item_files show x))"

definition know_edit :: "(string \<times> string) list \<Rightarrow> string \<times> int \<times> string \<Rightarrow> (string \<times> string) list" where
  "know_edit known entry = (case entry of (n, _, c) \<Rightarrow> if c = [] then known else set_default known n c)"

definition known_files ::
  "(pyval \<Rightarrow> string) \<Rightarrow> durable_item list \<Rightarrow> harness_event list \<Rightarrow> harness_event \<Rightarrow> (string \<times> string) list" where
  "known_files show durable earlier shrink =
     (let noted = prior_edits earlier
      in foldl know_edit (foldl (know_item show noted (instant shrink)) [] durable) noted)"

definition bump :: "(string \<times> nat) list \<Rightarrow> string \<Rightarrow> (string \<times> nat) list" where
  "bump reads n = AList.update n (Suc (case map_of reads n of None \<Rightarrow> 0 | Some k \<Rightarrow> k)) reads"

definition watch ::
  "(string list \<Rightarrow> string list) \<Rightarrow> (string \<times> string) list \<Rightarrow> (string \<times> nat) list \<times> string list \<Rightarrow>
   harness_event \<Rightarrow> (string \<times> nat) list \<times> string list" where
  "watch order known state e =
     (case state of (reads, edited) \<Rightarrow>
        let names = event_files e
        in if event_type e = ET_FILE_EDIT then (foldl (\<lambda>r n. AList.delete n r) reads names, edited @ names)
           else if event_type e \<noteq> ET_FILE_READ then (reads, edited)
           else (foldl (\<lambda>r n. if map_of known n \<noteq> None \<and> n \<notin> set edited then bump r n else r) reads (order names),
                 edited))"

definition remember :: "(string \<times> string) list \<Rightarrow> string list \<Rightarrow> string \<times> nat \<Rightarrow> string list" where
  "remember known seen entry =
     (case entry of (n, k) \<Rightarrow>
        if k < 2 then seen
        else case map_of known n of
               None \<Rightarrow> seen
             | Some c \<Rightarrow> if c \<noteq> [] \<and> c \<notin> set seen then seen @ [c] else seen)"

definition lost_facts ::
  "(pyval \<Rightarrow> string) \<Rightarrow> (string list \<Rightarrow> string list) \<Rightarrow> durable_item list \<Rightarrow> harness_event list \<Rightarrow>
   harness_event \<Rightarrow> harness_event list \<Rightarrow> string list \<Rightarrow> string list" where
  "lost_facts show order durable earlier shrink later seen =
     (let known = known_files show durable earlier shrink
      in if known = [] then seen
         else foldl (remember known) seen (fst (foldl (watch order known) ([], []) later)))"

fun scan_compactions ::
  "(pyval \<Rightarrow> string) \<Rightarrow> (string list \<Rightarrow> string list) \<Rightarrow> durable_item list \<Rightarrow> harness_event list \<Rightarrow>
   string list \<Rightarrow> harness_event list \<Rightarrow> string list" where
  "scan_compactions show order durable earlier seen [] = seen"
| "scan_compactions show order durable earlier seen (e # later) =
     scan_compactions show order durable (earlier @ [e])
       (if event_type e = ET_COMPACTION then lost_facts show order durable earlier e later seen else seen) later"

definition still_durable :: "int \<Rightarrow> durable_item \<Rightarrow> bool" where
  "still_durable now x =
     (cx_kind x \<in> {CK_ARTIFACT, CK_RESULT, CK_FACT, CK_DECISION, CK_CONSTRAINT} \<and> \<not> is_secret x \<and>
      (case cx_stale_after x of None \<Rightarrow> True | Some t \<Rightarrow> now < as_utc t))"

definition observed_until :: "int \<Rightarrow> harness_event list \<Rightarrow> harness_event list" where
  "observed_until now events = by_time (filter (\<lambda>e. instant e \<le> now) events)"

definition forgotten_facts ::
  "(pyval \<Rightarrow> string) \<Rightarrow> (string list \<Rightarrow> string list) \<Rightarrow> harness_event list \<Rightarrow> durable_item list \<Rightarrow> int \<Rightarrow>
   string list" where
  "forgotten_facts show order events items now =
     take 8 (scan_compactions show order (filter (still_durable now) items) [] [] (observed_until now events))"

section \<open>The report\<close>

record health_signals =
  sg_token_utilization :: "rat option"
  sg_compactions :: nat
  sg_forgotten :: nat
  sg_contradictions :: nat
  sg_repeated_reads :: nat
  sg_stale_decisions :: nat
  sg_context_to_progress :: "rat option"

record health_report =
  hr_score :: rat
  hr_signals :: health_signals
  hr_forgotten :: "string list"
  hr_degraded :: bool

definition progress_ratio :: "harness_event list \<Rightarrow> durable_item list \<Rightarrow> rat option" where
  "progress_ratio events items =
     (if items = [] then None
      else Some (round4 (of_nat (length (filter (\<lambda>e. event_type e \<in> {ET_FILE_EDIT, ET_TOOL_RESULT, ET_STOP}) events))
                         / of_nat (length items))))"

definition health_score :: "health_signals \<Rightarrow> nat \<Rightarrow> rat" where
  "health_score s context_n =
     round4 (max 0 (min 1
       (1 - min (36 / 100) (12 / 100 * of_nat (sg_compactions s))
          - min (24 / 100) (12 / 100 * of_nat (sg_forgotten s))
          - min (20 / 100) (10 / 100 * of_nat (sg_contradictions s))
          - min (15 / 100) (5 / 100 * of_nat (sg_repeated_reads s))
          - min (16 / 100) (8 / 100 * of_nat (sg_stale_decisions s))
          - (case sg_token_utilization s of
               None \<Rightarrow> 0
             | Some u \<Rightarrow> if 85 / 100 \<le> u then 15 / 100 else if 70 / 100 \<le> u then 8 / 100 else 0)
          - (case sg_context_to_progress s of
               None \<Rightarrow> 0
             | Some p \<Rightarrow> if 8 \<le> context_n \<and> p < 25 / 100 then 10 / 100 else 0))))"

definition assess_context_health ::
  "(pyval \<Rightarrow> string) \<Rightarrow> (string list \<Rightarrow> string list) \<Rightarrow> harness_event list \<Rightarrow> durable_item list \<Rightarrow> datetime \<Rightarrow>
   health_report result" where
  "assess_context_health show order events items now =
     (let ordered = by_time events; forgotten = forgotten_facts show order ordered items (as_utc now)
      in bind_result (stale_decision_count items now) (\<lambda>stale.
           let s = \<lparr>sg_token_utilization = token_utilization ordered,
                    sg_compactions = length (filter (\<lambda>e. event_type e = ET_COMPACTION) ordered),
                    sg_forgotten = length forgotten, sg_contradictions = contradiction_count show items,
                    sg_repeated_reads = repeated_reads ordered, sg_stale_decisions = stale,
                    sg_context_to_progress = progress_ratio ordered items\<rparr>;
               score = health_score s (length items)
           in Inr \<lparr>hr_score = score, hr_signals = s, hr_forgotten = forgotten,
                   hr_degraded = (score < 6 / 10 \<or> forgotten \<noteq> [])\<rparr>))"

text \<open>What the planner is told.\<close>

definition planner_features :: "health_report \<Rightarrow> (string \<times> pyval) list" where
  "planner_features r =
     [(''context_health'', PFloat (hr_score r)), (''compaction_count'', PInt (int (sg_compactions (hr_signals r)))),
      (''forgotten_facts'', PList (map PStr (hr_forgotten r))),
      (''forgotten_fact_count'', PInt (int (sg_forgotten (hr_signals r))))]"

section \<open>Where a forgotten fact comes from\<close>

definition edits_file :: "string \<Rightarrow> harness_event \<Rightarrow> bool" where
  "edits_file n e = (event_type e = ET_FILE_EDIT \<and> n \<in> set (event_files e))"

definition reads_file :: "string \<Rightarrow> harness_event \<Rightarrow> bool" where
  "reads_file n e = (event_type e = ET_FILE_READ \<and> n \<in> set (event_files e))"

definition read_count :: "string \<Rightarrow> harness_event list \<Rightarrow> nat" where
  "read_count n events = length (filter (reads_file n) events)"

text \<open>What was known of the file \<open>n\<close> when the context was compacted.\<close>

definition known_source ::
  "(pyval \<Rightarrow> string) \<Rightarrow> durable_item list \<Rightarrow> harness_event list \<Rightarrow> harness_event \<Rightarrow> string \<Rightarrow> string \<Rightarrow> bool" where
  "known_source show durable earlier shrink n c =
     ((\<exists>x \<in> set durable. as_utc (cx_valid_from x) \<le> instant shrink \<and> n \<in> set (item_files show x) \<and>
         c = safe_content x) \<or>
      (\<exists>e \<in> set earlier. edits_file n e \<and> c = edit_content e))"

definition walks_sets :: "(string list \<Rightarrow> string list) \<Rightarrow> bool" where
  "walks_sets order = (\<forall>names. mset (order names) = mset names)"

lemma foldl_keeps:
  assumes "P a" and "\<And>b x. x \<in> set xs \<Longrightarrow> P b \<Longrightarrow> P (f b x)"
  shows "P (foldl f a xs)"
  using assms by (induction xs arbitrary: a) auto

lemma set_update_subset: "set (AList.update k v al) \<subseteq> insert (k, v) (set al)"
  by (induction al) auto

lemma set_default_subset: "set (set_default m n v) \<subseteq> insert (n, v) (set m)"
  by (auto simp: set_default_def)

lemma prior_edits_from:
  "(n, t, c) \<in> set (prior_edits events) \<Longrightarrow> \<exists>e \<in> set events. edits_file n e \<and> c = edit_content e"
proof -
  let ?from = "\<lambda>m :: (string \<times> int \<times> string) list. \<forall>(n, t, c) \<in> set m. \<exists>e \<in> set events. edits_file n e \<and> c = edit_content e"
  have "?from (record_edit m e)" if m: "?from m" and e: "e \<in> set events" for m e
  proof (cases "event_type e = ET_FILE_EDIT")
    case True
    have "?from (foldl (\<lambda>m n. AList.update n (instant e, edit_content e) m) m (event_files e))"
    proof (rule foldl_keeps [where P = ?from])
      fix b x assume "x \<in> set (event_files e)" "?from b"
      with True e show "?from (AList.update x (instant e, edit_content e) b)"
        using set_update_subset [of x "(instant e, edit_content e)" b] by (fastforce simp: edits_file_def)
    qed (rule m)
    with True show ?thesis by (simp add: record_edit_def)
  qed (use m in \<open>simp add: record_edit_def\<close>)
  then have "?from (prior_edits events)"
    unfolding prior_edits_def by (intro foldl_keeps [where P = ?from]) auto
  then show "(n, t, c) \<in> set (prior_edits events) \<Longrightarrow> ?thesis" by fastforce
qed

lemma all_entries_insert:
  "\<forall>(n, c) \<in> set m. p n c \<Longrightarrow> set m' \<subseteq> insert (n, c) (set m) \<Longrightarrow> p n c \<Longrightarrow> \<forall>(n, c) \<in> set m'. p n c"
  by fast

lemma know_item_from:
  assumes "\<forall>(n, c) \<in> set known. known_source show durable earlier shrink n c" and "x \<in> set durable"
  shows "\<forall>(n, c) \<in> set (know_item show noted (instant shrink) known x). known_source show durable earlier shrink n c"
proof (cases "instant shrink < as_utc (cx_valid_from x)")
  case False
  let ?ok = "\<lambda>m. \<forall>(n, c) \<in> set m. known_source show durable earlier shrink n c"
  have "?ok (foldl (\<lambda>m n. if outdated noted x n \<or> safe_content x = [] then m else set_default m n (safe_content x))
             known (item_files show x))"
  proof (rule foldl_keeps [where P = ?ok])
    fix b n assume n: "n \<in> set (item_files show x)" and b: "?ok b"
    have "known_source show durable earlier shrink n (safe_content x)"
      using n assms(2) False by (auto simp: known_source_def not_less)
    with b show "?ok (if outdated noted x n \<or> safe_content x = [] then b else set_default b n (safe_content x))"
      using all_entries_insert [OF b set_default_subset] b by simp
  qed (rule assms(1))
  with False show ?thesis by (simp add: know_item_def)
qed (use assms in \<open>simp add: know_item_def\<close>)

lemma known_files_from:
  assumes "map_of (known_files show durable earlier shrink) n = Some c"
  shows "known_source show durable earlier shrink n c"
proof -
  let ?ok = "\<lambda>m. \<forall>(n, c) \<in> set m. known_source show durable earlier shrink n c"
  let ?noted = "prior_edits earlier"
  have items: "?ok (foldl (know_item show ?noted (instant shrink)) [] durable)"
  proof (rule foldl_keeps [where P = ?ok])
    fix b x assume "x \<in> set durable" "?ok b"
    then show "?ok (know_item show ?noted (instant shrink) b x)" using know_item_from by blast
  qed simp
  have "?ok (foldl know_edit (foldl (know_item show ?noted (instant shrink)) [] durable) ?noted)"
  proof (rule foldl_keeps [where P = ?ok])
    fix b x assume x: "x \<in> set ?noted" and b: "?ok b"
    obtain n t c where ntc: "x = (n, t, c)" by (cases x)
    have "known_source show durable earlier shrink n c"
      using prior_edits_from x ntc by (auto simp: known_source_def)
    with b ntc show "?ok (know_edit b x)"
      using all_entries_insert [OF b set_default_subset] b by (simp add: know_edit_def)
  qed (rule items)
  moreover have "(n, c) \<in> set (known_files show durable earlier shrink)" using assms by (rule map_of_SomeD)
  ultimately show ?thesis by (auto simp: known_files_def Let_def)
qed

section \<open>Counting reads after a compaction\<close>

lemma map_of_deletes:
  "map_of (foldl (\<lambda>r n. AList.delete n r) reads names) n = (if n \<in> set names then None else map_of reads n)"
  by (induction names arbitrary: reads) (auto simp: AList.delete_conv')

lemma distinct_deletes:
  "distinct (map fst reads) \<Longrightarrow> distinct (map fst (foldl (\<lambda>r n. AList.delete n r) reads names))"
  by (induction names arbitrary: reads) (auto simp: AList.distinct_delete)

lemma map_of_bumps:
  "distinct names \<Longrightarrow>
   map_of (foldl (\<lambda>r n. if p n then bump r n else r) reads names) n =
     (if n \<in> set names \<and> p n then Some (Suc (case map_of reads n of None \<Rightarrow> 0 | Some k \<Rightarrow> k)) else map_of reads n)"
  by (induction names arbitrary: reads) (auto simp: bump_def AList.update_conv')

lemma distinct_bumps:
  "distinct (map fst reads) \<Longrightarrow> distinct (map fst (foldl (\<lambda>r n. if p n then bump r n else r) reads names))"
  by (induction names arbitrary: reads) (auto simp: bump_def AList.distinct_update)

lemma event_files_distinct: "distinct (event_files e)"
  by (simp add: event_files_def file_names_def)

lemma walks_sets_names:
  "walks_sets order \<Longrightarrow> distinct (order (event_files e)) \<and> set (order (event_files e)) = set (event_files e)"
  unfolding walks_sets_def using event_files_distinct by (metis mset_eq_setD mset_eq_imp_distinct_iff)

definition final_count :: "(string \<times> string) list \<Rightarrow> harness_event list \<Rightarrow> string \<Rightarrow> nat option" where
  "final_count known events n =
     (if (\<exists>e \<in> set events. edits_file n e) \<or> map_of known n = None \<or> read_count n events = 0 then None
      else Some (read_count n events))"

definition counted :: "(string \<times> string) list \<Rightarrow> harness_event list \<Rightarrow> (string \<times> nat) list \<times> string list \<Rightarrow> bool" where
  "counted known events state =
     (distinct (map fst (fst state)) \<and> set (snd state) = {n. \<exists>e \<in> set events. edits_file n e} \<and>
      map_of (fst state) = final_count known events)"

lemma final_count_snoc:
  "final_count known (events @ [e]) n =
     (if edits_file n e then None
      else if reads_file n e \<and> map_of known n \<noteq> None \<and> (\<forall>e \<in> set events. \<not> edits_file n e)
      then Some (Suc (case final_count known events n of None \<Rightarrow> 0 | Some k \<Rightarrow> k))
      else final_count known events n)"
  by (auto simp: final_count_def read_count_def)

lemma watch_counted:
  assumes "walks_sets order" and "counted known events (reads, edited)"
  shows "counted known (events @ [e]) (watch order known (reads, edited) e)"
proof -
  note names = walks_sets_names [OF assms(1), of e]
  have known: "distinct (map fst reads)" "set edited = {n. \<exists>e \<in> set events. edits_file n e}"
    "map_of reads = final_count known events"
    using assms(2) by (simp_all add: counted_def)
  consider (edit) "event_type e = ET_FILE_EDIT" | (file_read) "event_type e = ET_FILE_READ"
    | (other) "event_type e \<noteq> ET_FILE_EDIT" "event_type e \<noteq> ET_FILE_READ" by blast
  then show ?thesis
  proof cases
    case edit
    then have kind: "edits_file n e = (n \<in> set (event_files e))" "\<not> reads_file n e" for n
      by (simp_all add: edits_file_def reads_file_def)
    have "map_of (foldl (\<lambda>r n. AList.delete n r) reads (event_files e)) = final_count known (events @ [e])"
      by (rule ext) (simp add: map_of_deletes known(3) final_count_snoc kind)
    with edit known show ?thesis
      by (auto simp: watch_def counted_def distinct_deletes kind Let_def)
  next
    case file_read
    then have kind: "\<not> edits_file n e" "reads_file n e = (n \<in> set (event_files e))" for n
      by (simp_all add: edits_file_def reads_file_def)
    have "map_of (foldl (\<lambda>r n. if map_of known n \<noteq> None \<and> n \<notin> set edited then bump r n else r) reads
            (order (event_files e))) = final_count known (events @ [e])"
      by (rule ext) (auto simp: map_of_bumps names known(2,3) final_count_snoc kind)
    with file_read known show ?thesis
      by (simp add: watch_def counted_def distinct_bumps kind Let_def)
  next
    case other
    then have kind: "\<not> edits_file n e" "\<not> reads_file n e" for n by (simp_all add: edits_file_def reads_file_def)
    have "final_count known (events @ [e]) = final_count known events"
      by (rule ext) (simp add: final_count_snoc kind)
    with other known show ?thesis by (simp add: watch_def counted_def kind Let_def)
  qed
qed

lemma watch_all_counted:
  assumes "walks_sets order"
  shows "counted known events (foldl (watch order known) ([], []) events)"
proof (induction events rule: rev_induct)
  case (snoc e events)
  obtain reads edited where "foldl (watch order known) ([], []) events = (reads, edited)" by fastforce
  with snoc watch_counted [OF assms, of known events reads edited e] show ?case by simp
qed (simp add: counted_def final_count_def read_count_def fun_eq_iff)

lemma remember_from:
  "c \<in> set (foldl (remember known) seen entries) \<Longrightarrow>
   c \<in> set seen \<or> (\<exists>(n, k) \<in> set entries. 2 \<le> k \<and> map_of known n = Some c)"
proof (induction entries arbitrary: seen)
  case (Cons x entries)
  obtain n k where x: "x = (n, k)" by (cases x)
  from Cons.IH [of "remember known seen x"] Cons.prems x show ?case
    by (auto simp: remember_def split: if_splits option.splits)
qed simp

lemma remember_distinct: "distinct seen \<Longrightarrow> distinct (foldl (remember known) seen entries)"
proof (rule foldl_keeps [where P = distinct])
  show "distinct (remember known seen x)" if "distinct seen" for seen x
    using that by (auto simp: remember_def split: prod.splits option.splits)
qed

section \<open>Forgotten facts were re-read\<close>

text \<open>
  The fact \<open>c\<close> about the file \<open>n\<close> was known at the compaction \<open>shrink\<close>, and afterwards the file was
  read at least twice and never edited.
\<close>

definition re_read ::
  "(pyval \<Rightarrow> string) \<Rightarrow> durable_item list \<Rightarrow> harness_event list \<Rightarrow> string \<Rightarrow> bool" where
  "re_read show durable events c =
     (\<exists>earlier shrink later n.
        events = earlier @ shrink # later \<and> event_type shrink = ET_COMPACTION \<and>
        known_source show durable earlier shrink n c \<and> 2 \<le> read_count n later \<and>
        (\<forall>e \<in> set later. \<not> edits_file n e))"

lemma lost_facts_re_read:
  assumes "walks_sets order" and "event_type shrink = ET_COMPACTION"
    and "c \<in> set (lost_facts show order durable earlier shrink later seen)"
  shows "c \<in> set seen \<or> re_read show durable (earlier @ shrink # later) c"
proof (cases "known_files show durable earlier shrink = []")
  case False
  let ?known = "known_files show durable earlier shrink"
  let ?state = "foldl (watch order ?known) ([], []) later"
  have "c \<in> set seen \<or> (\<exists>(n, k) \<in> set (fst ?state). 2 \<le> k \<and> map_of ?known n = Some c)"
    using assms(3) False by (intro remember_from) (simp add: lost_facts_def Let_def)
  then show ?thesis
  proof
    assume "\<exists>(n, k) \<in> set (fst ?state). 2 \<le> k \<and> map_of ?known n = Some c"
    then obtain n k where nk: "(n, k) \<in> set (fst ?state)" "2 \<le> k" "map_of ?known n = Some c" by auto
    have state: "counted ?known later ?state" by (rule watch_all_counted [OF assms(1)])
    then have "map_of (fst ?state) n = Some k" using nk(1) by (intro map_of_is_SomeI) (simp_all add: counted_def)
    with state have "final_count ?known later n = Some k" by (simp add: counted_def)
    then have "\<forall>e \<in> set later. \<not> edits_file n e" "k = read_count n later"
      by (auto simp: final_count_def split: if_splits)
    with nk known_files_from [OF nk(3)] assms(2) show ?thesis unfolding re_read_def by blast
  qed simp
qed (use assms in \<open>simp add: lost_facts_def\<close>)

lemma scan_compactions_re_read:
  assumes "walks_sets order" and "\<forall>c \<in> set seen. re_read show durable (earlier @ later) c"
  shows "\<forall>c \<in> set (scan_compactions show order durable earlier seen later). re_read show durable (earlier @ later) c"
  using assms(2)
proof (induction later arbitrary: earlier seen)
  case (Cons e later)
  let ?seen = "if event_type e = ET_COMPACTION then lost_facts show order durable earlier e later seen else seen"
  have "\<forall>c \<in> set ?seen. re_read show durable ((earlier @ [e]) @ later) c"
    using Cons.prems lost_facts_re_read [OF assms(1), of e _ "show" durable earlier later seen] by auto
  from Cons.IH [OF this] show ?case by simp
qed simp

lemma scan_compactions_distinct:
  "distinct seen \<Longrightarrow> distinct (scan_compactions show order durable earlier seen later)"
  by (induction later arbitrary: earlier seen) (auto simp: lost_facts_def Let_def remember_distinct)
section \<open>Properties\<close>

text \<open>
  Property C27. A fact reported as forgotten was known when the context was compacted, and its file was
  read at least twice after the compaction and never edited after it. It is the text of a durable item of
  public or internal sensitivity that had not gone stale, or of an edit the worker made itself: nothing
  secret or local is ever given back. At most eight facts are reported, each once.
\<close>

theorem forgotten_facts_were_re_read:
  assumes "walks_sets order"
  shows "distinct (forgotten_facts show order events items now) \<and>
    length (forgotten_facts show order events items now) \<le> 8 \<and>
    (\<forall>c \<in> set (forgotten_facts show order events items now).
       \<exists>earlier shrink later n.
         observed_until now events = earlier @ shrink # later \<and> event_type shrink = ET_COMPACTION \<and>
         2 \<le> read_count n later \<and> (\<forall>e \<in> set later. \<not> edits_file n e) \<and>
         ((\<exists>x \<in> set items. still_durable now x \<and> cx_sensitivity x \<in> {SEN_PUBLIC, SEN_INTERNAL} \<and>
             as_utc (cx_valid_from x) \<le> instant shrink \<and> n \<in> set (item_files show x) \<and>
             c = take 400 (strip (cx_content x))) \<or>
          (\<exists>e \<in> set earlier. edits_file n e \<and> c = edit_content e)))"
proof (intro conjI ballI)
  let ?durable = "filter (still_durable now) items"
  let ?seen = "scan_compactions show order ?durable [] [] (observed_until now events)"
  show "distinct (forgotten_facts show order events items now)"
    by (simp add: forgotten_facts_def scan_compactions_distinct)
  show "length (forgotten_facts show order events items now) \<le> 8" by (simp add: forgotten_facts_def)
  fix c assume "c \<in> set (forgotten_facts show order events items now)"
  then have "c \<in> set ?seen" unfolding forgotten_facts_def by (rule in_set_takeD)
  with scan_compactions_re_read [OF assms, of "[]" "show" ?durable "[]" "observed_until now events"]
  have "re_read show ?durable (observed_until now events) c" by simp
  then obtain earlier shrink later n where split: "observed_until now events = earlier @ shrink # later"
    "event_type shrink = ET_COMPACTION" "2 \<le> read_count n later" "\<forall>e \<in> set later. \<not> edits_file n e"
    and source: "known_source show ?durable earlier shrink n c"
    unfolding re_read_def by blast
  have "safe_content x = take 400 (strip (cx_content x)) \<and> cx_sensitivity x \<in> {SEN_PUBLIC, SEN_INTERNAL}"
    if "still_durable now x" for x
    using that by (cases "cx_sensitivity x") (simp_all add: still_durable_def safe_content_def is_secret_def)
  with source have "(\<exists>x \<in> set items. still_durable now x \<and> cx_sensitivity x \<in> {SEN_PUBLIC, SEN_INTERNAL} \<and>
      as_utc (cx_valid_from x) \<le> instant shrink \<and> n \<in> set (item_files show x) \<and>
      c = take 400 (strip (cx_content x))) \<or>
    (\<exists>e \<in> set earlier. edits_file n e \<and> c = edit_content e)"
    unfolding known_source_def by auto
  with split show "\<exists>earlier shrink later n.
         observed_until now events = earlier @ shrink # later \<and> event_type shrink = ET_COMPACTION \<and>
         2 \<le> read_count n later \<and> (\<forall>e \<in> set later. \<not> edits_file n e) \<and>
         ((\<exists>x \<in> set items. still_durable now x \<and> cx_sensitivity x \<in> {SEN_PUBLIC, SEN_INTERNAL} \<and>
             as_utc (cx_valid_from x) \<le> instant shrink \<and> n \<in> set (item_files show x) \<and>
             c = take 400 (strip (cx_content x))) \<or>
          (\<exists>e \<in> set earlier. edits_file n e \<and> c = edit_content e))" by blast
qed

definition example_health_event :: "string \<Rightarrow> int \<Rightarrow> event_type \<Rightarrow> harness_event" where
  "example_health_event identifier time kind =
     (new_event identifier (Aware time 0) HT_CURSOR ''s'' kind)\<lparr>file_paths := [''a.py'']\<rparr>"

definition example_health_history :: "harness_event list" where
  "example_health_history =
     [example_health_event ''e1'' 1 ET_FILE_READ, example_health_event ''e2'' 2 ET_COMPACTION,
      example_health_event ''e3'' 3 ET_FILE_READ, example_health_event ''e4'' 4 ET_FILE_READ]"

definition example_health_item :: durable_item where
  "example_health_item =
     (new_durable_item ''i'' ''p'' CK_FACT ''port 80'' (Aware 0 0))
       \<lparr>cx_metadata := [(''files'', PList [PStr ''a.py''])]\<rparr>"

lemma example_forgotten:
  "forgotten_facts (\<lambda>_. []) id example_health_history [example_health_item] 9 = [''port 80'']"
  by code_simp

theorem forgotten_facts_were_re_read_witness:
  "\<exists>earlier shrink later. observed_until 9 example_health_history = earlier @ shrink # later \<and>
     event_type shrink = ET_COMPACTION"
  using forgotten_facts_were_re_read
    [of id "\<lambda>_. []" example_health_history "[example_health_item]" 9]
  unfolding example_forgotten walks_sets_def by auto

text \<open>
  The score is in the unit interval whatever was counted, a report that names a forgotten fact is degraded
  whatever its score, and the only error is a naive instant compared with a dated decision.
\<close>

lemma health_score_unit: "0 \<le> health_score s n \<and> health_score s n \<le> 1"
  unfolding health_score_def by (rule round4_mono_bounds) (rule max.cobounded1, simp only: max.bounded_iff, simp)

lemma health_report_bounds:
  assumes "assess_context_health show order events items now = Inr r"
  shows "0 \<le> hr_score r \<and> hr_score r \<le> 1 \<and> (hr_forgotten r \<noteq> [] \<longrightarrow> hr_degraded r) \<and>
    sg_forgotten (hr_signals r) = length (hr_forgotten r) \<and> sg_forgotten (hr_signals r) \<le> 8"
proof -
  have "length (forgotten_facts show order (by_time events) items (as_utc now)) \<le> 8"
    by (simp add: forgotten_facts_def)
  with assms show ?thesis
    unfolding assess_context_health_def Let_def bind_result_Inr_iff using health_score_unit by fastforce
qed

lemma assessment_error_iff:
  "assess_context_health show order events items now = Inl e \<longleftrightarrow>
     e = ''TypeError'' \<and> \<not> is_aware now \<and> dated_decisions items \<noteq> []"
  by (auto simp: assess_context_health_def stale_decision_count_def bind_result_def Let_def)

end
