(* ===== verification/Spec2Isabelle.thy ===== *)
theory Spec2Isabelle
  imports Verification_Receipts Project_Locator Policy_Engine Trajectory_Features Decision_Delivery Hook_Access
    Overlay_Runtime Review_Authority Supervisor_Evidence Trajectory_Review Background_Jobs Speculative_Probes
    Observed_Values Agent_Fingerprints Executor_Safety Planner_Safety Context_Health
begin

text \<open>
  PEX is a local bridge between a person and coding agents. Harness adapters report what an agent does as
  events; a supervisor reviews the trajectory and proposes interventions; a deterministic policy decides
  which of them may be carried out without asking; adapters, an MCP server and hook scripts carry them out
  and report back with receipts. This development models the deterministic core of that loop: the protocol
  types with their validators, the decisions, the boundaries and the credentials.

  \<^bold>\<open>How the code is read.\<close>
  A Python \<open>str\<close> is a \<^typ>\<open>string\<close> (code points below 256; the code tests membership in ASCII
  sets nearly everywhere, and \<open>casefold\<close>, \<open>isspace\<close> and the control characters are written out for
  that range). An \<open>int\<close> is an \<open>int\<close>, a \<open>float\<close> that the code compares or scales is rational, a
  \<open>datetime\<close> is its number of microseconds with its offset. A value whose type the code tests at run
  time is a \<open>pyval\<close>. Every raise is an \<open>Inl\<close>, every early return a branch; a pydantic model is a
  record with a validator that returns the normalised record or the error. What the code imports is a
  parameter of the definitions that use it: SHA-256, \<open>urlsplit\<close>, \<open>repr\<close>, ISO parsing, pydantic's
  coercion of loose values, the queries of the store, the clock, the iteration order of a set.

  \<^bold>\<open>Foundations.\<close>
  \<^item> \<open>Pex_Prelude\<close>: strings, values, results, timestamps and the fact collections; \<open>Char_Evaluation\<close>:
    evaluation rules for the character classes; \<open>Py_Regex\<close>: the fragment of \<open>re\<close> the code uses as a
    total backtracking matcher (it terminates because a repetition only goes on after progress);
    \<open>Canonical_Json\<close>: \<open>json.dumps\<close> with sorted keys, and that it is injective.

  \<^bold>\<open>Protocol package\<close> (\<open>packages/protocol/src/pex_protocol\<close>).
  \<^item> \<open>Pex_Enums\<close>: \<open>enums.py\<close> and the enumerations of \<open>actions.py\<close>, \<open>capabilities.py\<close>. The locale
    \<open>str_enum\<close> is the contract of a \<open>StrEnum\<close> (values are distinct, the listing is complete, lookup by
    value inverts \<open>.value\<close>); each enumeration interprets it.
  \<^item> \<open>Test_Invocation\<close>, \<open>Verification_Receipts\<close>: \<open>verification.py\<close>. Which shell commands count as one
    plain pytest or unittest run, and which receipt is evidence of which run. The locale \<open>test_runner\<close> is
    shared by the two classifiers.
  \<^item> \<open>Project_Identity\<close>, \<open>Project_Locator\<close>: \<open>project_identity.py\<close> and \<open>project_binding.py\<close>. Lexical
    paths and their comparison (locale \<open>keyed_comparison\<close>), locators, fingerprints, identities.
  \<^item> \<open>Overlay_Model\<close>, \<open>Action_Model\<close>, \<open>Harness_Events\<close>: \<open>overlay.py\<close>, \<open>actions.py\<close>,
    \<open>intervention.py\<close>, \<open>capabilities.py\<close>, \<open>session.py\<close>, \<open>goal.py\<close>.
  \<^item> \<open>Supervisor_Context\<close>, \<open>Supervisor_Evidence\<close>: \<open>supervisor.py\<close>. The request a supervisor receives,
    bound to one session, its evidence and verifier receipts, and the validator of its result.
  \<^item> \<open>Redaction\<close>: \<open>redaction.py\<close>. \<open>Mcp_Requests\<close>: \<open>context.py\<close>, the typed requests of the MCP server
    and the handoff packets.

  \<^bold>\<open>Bridge\<close> (\<open>services/bridge/src/pex_bridge\<close>).
  \<^item> \<open>Policy_Engine\<close>: \<open>policy/engine.py\<close>; what is allowed without a person, asked or denied.
  \<^item> \<open>Trajectory_Features\<close>: \<open>scoring.py\<close>; the features of a trajectory and its four scores.
  \<^item> \<open>Overlay_Runtime\<close>: \<open>overlay_runtime.py\<close>; from the durable overlays to what a plugin runs under.
  \<^item> \<open>Credentials\<close>: \<open>mcp_auth.py\<close>, \<open>hook_auth.py\<close>, the binding check of \<open>store.py\<close>. The locale
    \<open>expiring_credential\<close> states that acceptance is a matter of lifetime alone; both record kinds
    interpret it.
  \<^item> \<open>Adapter_Contract\<close>: \<open>adapters/base.py\<close>; when an adapter answer is a delivery.
  \<^item> \<open>Decision_Delivery\<close>: \<open>bus.py\<close>, \<open>decision_delivery.py\<close>, \<open>cursor_delivery.py\<close>.
  \<^item> \<open>Request_Guards\<close>: \<open>origin_guard.py\<close>, \<open>request_limits.py\<close> and their nesting in \<open>app.py\<close>. The
    receive loop over the client's messages is a recursion over the messages received; it is related to
    the specification that sees the whole body, and its waiting is characterised exactly.
  \<^item> \<open>Mcp_Gate\<close>, \<open>Hook_Access\<close>: the MCP middleware, the operator and hook bearers of \<open>app.py\<close>.
  \<^item> \<open>Observed_Values\<close>: the size bounds \<open>adapters/base.py\<close> puts on what an adapter saw; \<open>Goal_Ledger\<close>:
    \<open>ledger.py\<close>, the decisions and artifacts of a goal projected from its events;
    \<open>Agent_Fingerprints\<close>: \<open>fingerprints.py\<close>, when two runs may be compared; \<open>Speculative_Probes\<close>:
    \<open>speculative.py\<close>, when a probe of one workspace state may be used for another.

  \<^bold>\<open>Supervisor\<close> (\<open>services/supervisor/src/pex_supervisor\<close>).
  \<^item> \<open>Review_Authority\<close>: \<open>review_authority.py\<close> as an inductive step relation over interleaved execution
    contexts.
  \<^item> \<open>Trajectory_Review\<close>: \<open>trajectory.py\<close>, which commands and tool results call for a review;
    \<open>Background_Jobs\<close>: \<open>background.py\<close>, jobs left running at a stop; \<open>Public_Task\<close>: \<open>public_task.py\<close>,
    the sections of a task text outside fenced blocks.

  \<^bold>\<open>Bounds.\<close> No definition takes fuel. The loops of the code that are not structural (the regex matcher,
  the path normaliser, the scanners of shell text and of task text) are functions with a measure; the
  receive loop of the request limit is a recursion over the messages the client sends, so that waiting for
  ever is a value of its own.
\<close>

end
